(* ===== verification/Prelude.thy ===== *)
theory Prelude
  imports Main "HOL-Library.Word" "HOL-Library.AList" "HOL-Library.Sublist"
begin

text \<open>
  Shared vocabulary of the development: Python's exceptions as values, the state and
  exception monad in which every stateful operation is written, dictionaries, and the
  string operations of the Python standard library that the sources use.

  Strings are lists of characters, one character per code point below 256; bytes are
  8-bit words. A dictionary keeps its insertion order, as Python's does: it is an
  association list changed with \<open>AList.update\<close>, which overwrites in place and appends
  a new key at the end.
\<close>

named_theorems act_simps
named_theorems triple_rules
named_theorems keeps_rules
named_theorems never_rules

section \<open>Bytes, dictionaries and exceptions\<close>

type_synonym byte = "8 word"
type_synonym bytes = "byte list"
type_synonym ('k, 'v) dict = "('k \<times> 'v) list"

text \<open>
  The exceptions the sources raise, catch or let pass. \<open>RecursionError\<close> is what Python
  raises when the call depth runs out; a recursive operation of the model takes the
  remaining depth as an argument and raises it at depth 0.
\<close>

datatype exc =
    CannotDecode | UnexpectedProblemDecoding
  | ValueError | JSONDecodeError | DecodingError | ArithmeticError
  | KeyError | IndexError | TypeError | AttributeError
  | TimeoutError | OSError | EtherscanRateLimitError
  | EtherscanClientConfigurationProblem | SourcifyClientConfigurationProblem
  | BlockScoutConfigurationProblem
  | IntegrityError | RecursionError
  | AMQPConnectionError | QueueProviderUnableToConnect | QueueProviderNotConnected
  | HTTPException nat
  | OtherError

type_synonym 'a res = "exc + 'a"

definition data_decoder_exception :: "exc \<Rightarrow> bool" where
  "data_decoder_exception e \<longleftrightarrow> e = CannotDecode \<or> e = UnexpectedProblemDecoding"

definition is_value_error :: "exc \<Rightarrow> bool" where
  "is_value_error e \<longleftrightarrow> e = ValueError \<or> e = JSONDecodeError"

section \<open>Pure computations that may raise\<close>

definition res_bind :: "'a res \<Rightarrow> ('a \<Rightarrow> 'b res) \<Rightarrow> 'b res" where
  "res_bind r f = (case r of Inl e \<Rightarrow> Inl e | Inr a \<Rightarrow> f a)"

lemma res_bind_simps [simp]:
  "res_bind (Inl e) f = Inl e"
  "res_bind (Inr a) f = f a"
  by (simp_all add: res_bind_def)

lemma res_bind_Inr_iff: "res_bind r f = Inr b \<longleftrightarrow> (\<exists>a. r = Inr a \<and> f a = Inr b)"
  by (cases r) simp_all

lemma res_bind_Inl_iff:
  "res_bind r f = Inl e \<longleftrightarrow> r = Inl e \<or> (\<exists>a. r = Inr a \<and> f a = Inl e)"
  by (cases r) auto

fun res_map :: "('a \<Rightarrow> 'b res) \<Rightarrow> 'a list \<Rightarrow> 'b list res" where
  "res_map f [] = Inr []"
| "res_map f (x # xs) =
     res_bind (f x) (\<lambda>y. res_bind (res_map f xs) (\<lambda>ys. Inr (y # ys)))"

lemma res_map_Inr_iff:
  "res_map f xs = Inr ys \<longleftrightarrow> list_all2 (\<lambda>x y. f x = Inr y) xs ys"
proof (induction xs arbitrary: ys)
  case Nil
  then show ?case by auto
next
  case (Cons x xs)
  then show ?case by (cases ys) (auto simp: res_bind_Inr_iff list_all2_Cons1)
qed

lemma list_all2_left: "list_all2 P xs ys \<Longrightarrow> y \<in> set ys \<Longrightarrow> \<exists>x\<in>set xs. P x y"
  by (induction rule: list_all2_induct) auto

lemma subset_eq_iff_all: "X \<subseteq> A \<Longrightarrow> (\<And>a. a \<in> A \<Longrightarrow> a \<in> X \<longleftrightarrow> P a) \<Longrightarrow> X = A \<longleftrightarrow> (\<forall>a\<in>A. P a)"
  by auto

lemma list_all_update: "list_all P xs \<Longrightarrow> P y \<Longrightarrow> list_all P (xs[i := y])"
  by (induction xs arbitrary: i) (auto split: nat.splits)

lemma res_map_cong [fundef_cong]:
  "xs = ys \<Longrightarrow> (\<And>x. x \<in> set ys \<Longrightarrow> f x = g x) \<Longrightarrow> res_map f xs = res_map g ys"
proof (induction ys arbitrary: xs)
  case (Cons y ys)
  then have "f y = g y" "res_map f ys = res_map g ys" by auto
  with Cons.prems(1) show ?case by simp
qed simp

lemma res_map_total: "(\<And>x. x \<in> set xs \<Longrightarrow> f x = Inr (g x)) \<Longrightarrow> res_map f xs = Inr (map g xs)"
  by (induction xs) auto

text \<open>Keep the elements on which a test that may raise says yes: \<open>[x for x in xs if p(x)]\<close>.\<close>

fun res_filter :: "('a \<Rightarrow> bool res) \<Rightarrow> 'a list \<Rightarrow> 'a list res" where
  "res_filter p [] = Inr []"
| "res_filter p (x # xs) =
     res_bind (p x) (\<lambda>b. res_bind (res_filter p xs) (\<lambda>ys. Inr (if b then x # ys else ys)))"

lemma res_filter_total:
  "(\<And>x. x \<in> set xs \<Longrightarrow> p x = Inr (q x)) \<Longrightarrow> res_filter p xs = Inr (filter q xs)"
  by (induction xs) auto

lemma res_filter_Inr:
  "res_filter p xs = Inr ys \<Longrightarrow>
   ys = filter (\<lambda>x. p x = Inr True) xs \<and> (\<forall>x\<in>set xs. \<exists>b. p x = Inr b)"
proof (induction xs arbitrary: ys)
  case Nil
  then show ?case by simp
next
  case (Cons x xs)
  then obtain b zs where b: "p x = Inr b" and zs: "res_filter p xs = Inr zs"
    and ys: "ys = (if b then x # zs else zs)"
    by (auto simp: res_bind_Inr_iff)
  from Cons.IH [OF zs] b ys show ?case by (cases b) auto
qed

section \<open>Stateful computations: the \<open>act\<close> monad\<close>

text \<open>
  An operation reads a state, returns a value or raises, and leaves a new state behind.
  The state survives an exception, as an object's attributes do.
\<close>

type_synonym ('s, 'a) act = "'s \<Rightarrow> 'a res \<times> 's"

definition act_return :: "'a \<Rightarrow> ('s, 'a) act" where
  "act_return a s = (Inr a, s)"

definition act_raise :: "exc \<Rightarrow> ('s, 'a) act" where
  "act_raise e s = (Inl e, s)"

definition act_lift :: "'a res \<Rightarrow> ('s, 'a) act" where
  "act_lift r s = (r, s)"

definition act_bind :: "('s, 'a) act \<Rightarrow> ('a \<Rightarrow> ('s, 'b) act) \<Rightarrow> ('s, 'b) act" where
  "act_bind m f s = (case m s of (Inl e, s') \<Rightarrow> (Inl e, s') | (Inr a, s') \<Rightarrow> f a s')"

definition act_get :: "('s, 's) act" where
  "act_get s = (Inr s, s)"

definition act_modify :: "('s \<Rightarrow> 's) \<Rightarrow> ('s, unit) act" where
  "act_modify f s = (Inr (), f s)"

text \<open>\<open>try: m  except <classes in c>: h\<close>\<close>

definition act_catch :: "('s, 'a) act \<Rightarrow> (exc \<Rightarrow> bool) \<Rightarrow> (exc \<Rightarrow> ('s, 'a) act) \<Rightarrow> ('s, 'a) act" where
  "act_catch m c h s =
     (case m s of (Inl e, s') \<Rightarrow> if c e then h e s' else (Inl e, s') | (Inr a, s') \<Rightarrow> (Inr a, s'))"

text \<open>\<open>try: m  finally: f\<close>: \<open>f\<close> runs on both ways out; its own exception wins.\<close>

definition act_finally :: "('s, 'a) act \<Rightarrow> ('s, unit) act \<Rightarrow> ('s, 'a) act" where
  "act_finally m f s =
     (case m s of (r, s') \<Rightarrow> (case f s' of (Inl e, s'') \<Rightarrow> (Inl e, s'') | (Inr _, s'') \<Rightarrow> (r, s'')))"

fun act_map :: "('a \<Rightarrow> ('s, 'b) act) \<Rightarrow> 'a list \<Rightarrow> ('s, 'b list) act" where
  "act_map f [] = act_return []"
| "act_map f (x # xs) =
     act_bind (f x) (\<lambda>y. act_bind (act_map f xs) (\<lambda>ys. act_return (y # ys)))"

lemmas [act_simps] = act_return_def act_raise_def act_lift_def act_get_def act_modify_def

lemma act_bind_simp [act_simps]:
  "act_bind m f s = (case m s of (Inl e, s') \<Rightarrow> (Inl e, s') | (Inr a, s') \<Rightarrow> f a s')"
  by (rule act_bind_def)

lemma act_return_apply [simp]: "act_return a s = (Inr a, s)"
  by (simp add: act_return_def)

lemma act_raise_apply [simp]: "act_raise e s = (Inl e, s)"
  by (simp add: act_raise_def)

lemma act_lift_apply [simp]: "act_lift r s = (r, s)"
  by (simp add: act_lift_def)

lemma act_get_apply [simp]: "act_get s = (Inr s, s)"
  by (simp add: act_get_def)

lemma act_modify_apply [simp]: "act_modify f s = (Inr (), f s)"
  by (simp add: act_modify_def)

lemma act_bind_Inr: "m s = (Inr a, s') \<Longrightarrow> act_bind m f s = f a s'"
  by (simp add: act_bind_def)

lemma act_bind_Inl: "m s = (Inl e, s') \<Longrightarrow> act_bind m f s = (Inl e, s')"
  by (simp add: act_bind_def)

lemma act_bind_Inr_iff:
  "act_bind m f s = (Inr b, s') \<longleftrightarrow> (\<exists>a s1. m s = (Inr a, s1) \<and> f a s1 = (Inr b, s'))"
  by (auto simp: act_bind_def split: prod.splits sum.splits)

lemma act_bind_Inl_iff:
  "act_bind m f s = (Inl e, s') \<longleftrightarrow> m s = (Inl e, s') \<or> (\<exists>a s1. m s = (Inr a, s1) \<and> f a s1 = (Inl e, s'))"
  by (auto simp: act_bind_def split: prod.splits sum.splits)

lemma act_bind_simps [simp]:
  "act_bind (act_return a) f s = f a s"
  "act_bind (act_raise e) g s = (Inl e, s)"
  "act_bind act_get h s = h s s"
  "act_bind (act_modify u) k s = k () (u s)"
  by (simp_all add: act_bind_def)

lemma act_bind_lift: "act_bind (act_lift r) f s = (case r of Inl e \<Rightarrow> (Inl e, s) | Inr a \<Rightarrow> f a s)"
  by (simp add: act_bind_def split: sum.splits)

lemma act_bind_lift_Inr [simp]: "act_bind (act_lift (Inr a)) f s = f a s"
  by (simp add: act_bind_lift)

lemma act_bind_lift_fun: "act_bind (act_lift (Inr a)) f = f a"
  by (simp add: fun_eq_iff)

lemma act_bind_lift_Inl [simp]: "act_bind (act_lift (Inl e)) f s = (Inl e, s)"
  by (simp add: act_bind_lift)

lemma act_finally_state: "snd (act_finally m f s) = snd (f (snd (m s)))"
  by (simp add: act_finally_def split: prod.splits sum.splits)

text \<open>An operation on a part of the state, run on the whole.\<close>

definition act_zoom :: "('s \<Rightarrow> 'x) \<Rightarrow> ('x \<Rightarrow> 's \<Rightarrow> 's) \<Rightarrow> ('x, 'a) act \<Rightarrow> ('s, 'a) act" where
  "act_zoom part put m s = (case m (part s) of (r, x) \<Rightarrow> (r, put x s))"

lemma act_zoom_run: "m (part s) = (r, x) \<Longrightarrow> act_zoom part put m s = (r, put x s)"
  by (simp add: act_zoom_def)

subsection \<open>Hoare triples for the monad\<close>

text \<open>
  \<open>triple P m Q E\<close>: from a state in \<open>P\<close>, \<open>m\<close> either returns a value and a state in \<open>Q\<close>,
  or raises with an exception and a state in \<open>E\<close>. Both ways out are specified, so a
  triple is never satisfied by failing.
\<close>

definition triple ::
    "('s \<Rightarrow> bool) \<Rightarrow> ('s, 'a) act \<Rightarrow> ('a \<Rightarrow> 's \<Rightarrow> bool) \<Rightarrow> (exc \<Rightarrow> 's \<Rightarrow> bool) \<Rightarrow> bool" where
  "triple P m Q E \<longleftrightarrow>
     (\<forall>s. P s \<longrightarrow> (case m s of (Inl e, s') \<Rightarrow> E e s' | (Inr a, s') \<Rightarrow> Q a s'))"

lemma tripleI:
  "(\<And>s e s'. P s \<Longrightarrow> m s = (Inl e, s') \<Longrightarrow> E e s') \<Longrightarrow>
   (\<And>s a s'. P s \<Longrightarrow> m s = (Inr a, s') \<Longrightarrow> Q a s') \<Longrightarrow> triple P m Q E"
  by (auto simp: triple_def split: prod.splits sum.splits)

lemma tripleD_Inr: "triple P m Q E \<Longrightarrow> P s \<Longrightarrow> m s = (Inr a, s') \<Longrightarrow> Q a s'"
  by (auto simp: triple_def split: prod.splits sum.splits)

lemma tripleD_Inl: "triple P m Q E \<Longrightarrow> P s \<Longrightarrow> m s = (Inl e, s') \<Longrightarrow> E e s'"
  by (auto simp: triple_def split: prod.splits sum.splits)

lemma triple_return [triple_rules]: "(\<And>s. P s \<Longrightarrow> Q a s) \<Longrightarrow> triple P (act_return a) Q E"
  by (simp add: triple_def)

lemma triple_raise [triple_rules]: "(\<And>s. P s \<Longrightarrow> E e s) \<Longrightarrow> triple P (act_raise e) Q E"
  by (simp add: triple_def)

lemma triple_lift [triple_rules]:
  "(\<And>s a. P s \<Longrightarrow> r = Inr a \<Longrightarrow> Q a s) \<Longrightarrow> (\<And>s e. P s \<Longrightarrow> r = Inl e \<Longrightarrow> E e s) \<Longrightarrow>
   triple P (act_lift r) Q E"
  by (cases r) (simp_all add: triple_def)

lemma triple_get [triple_rules]: "(\<And>s. P s \<Longrightarrow> Q s s) \<Longrightarrow> triple P act_get Q E"
  by (simp add: triple_def)

lemma triple_modify [triple_rules]: "(\<And>s. P s \<Longrightarrow> Q () (f s)) \<Longrightarrow> triple P (act_modify f) Q E"
  by (simp add: triple_def)

lemma triple_bind [triple_rules]:
  assumes "triple P m R E" and "\<And>a. triple (R a) (f a) Q E"
  shows "triple P (act_bind m f) Q E"
  using assms by (fastforce simp: triple_def act_bind_def split: prod.splits sum.splits)

lemma triple_catch [triple_rules]:
  assumes "triple P m Q R" and "\<And>e. c e \<Longrightarrow> triple (R e) (h e) Q E"
    and "\<And>e s. \<not> c e \<Longrightarrow> R e s \<Longrightarrow> E e s"
  shows "triple P (act_catch m c h) Q E"
  using assms by (fastforce simp: triple_def act_catch_def split: prod.splits sum.splits)

lemma triple_if [triple_rules]:
  "(b \<Longrightarrow> triple P m Q E) \<Longrightarrow> (\<not> b \<Longrightarrow> triple P n Q E) \<Longrightarrow> triple P (if b then m else n) Q E"
  by simp

lemma triple_conseq:
  assumes "triple P m Q E" and "\<And>s. P' s \<Longrightarrow> P s"
    and "\<And>a s. Q a s \<Longrightarrow> Q' a s" and "\<And>e s. E e s \<Longrightarrow> E' e s"
  shows "triple P' m Q' E'"
  using assms by (fastforce simp: triple_def split: prod.splits sum.splits)

lemma triple_map:
  assumes "\<And>x. x \<in> set xs \<Longrightarrow> triple P (f x) (\<lambda>_. P) E"
  shows "triple P (act_map f xs) (\<lambda>_. P) E"
  using assms
proof (induction xs)
  case Nil
  then show ?case by (simp add: triple_def)
next
  case (Cons x xs)
  then have "triple P (f x) (\<lambda>_. P) E" and "triple P (act_map f xs) (\<lambda>_. P) E" by auto
  then show ?case
    by (auto simp: act_map.simps intro!: triple_bind triple_return)
qed

subsection \<open>Frames\<close>

text \<open>\<open>keeps f m\<close>: whatever the outcome, \<open>m\<close> leaves the part \<open>f\<close> of the state unchanged.\<close>

definition keeps :: "('s \<Rightarrow> 'x) \<Rightarrow> ('s, 'a) act \<Rightarrow> bool" where
  "keeps f m \<longleftrightarrow> (\<forall>s. f (snd (m s)) = f s)"

lemma keepsD: "keeps f m \<Longrightarrow> f (snd (m s)) = f s"
  by (simp add: keeps_def)

lemma keepsD': "keeps f m \<Longrightarrow> m s = (r, s') \<Longrightarrow> f s' = f s"
  using keepsD [of f m s] by simp

lemma keeps_basic [keeps_rules]:
  "keeps f (act_return a)" "keeps f (act_raise e)" "keeps f (act_lift r)" "keeps f act_get"
  by (simp_all add: keeps_def)

lemma keeps_modify [keeps_rules]: "(\<And>s. f (u s) = f s) \<Longrightarrow> keeps f (act_modify u)"
  by (simp add: keeps_def)

lemma keeps_bind [keeps_rules]:
  "keeps f m \<Longrightarrow> (\<And>a. keeps f (k a)) \<Longrightarrow> keeps f (act_bind m k)"
proof (unfold keeps_def, intro allI)
  fix s
  assume m: "\<forall>s. f (snd (m s)) = f s" and k: "\<And>a. \<forall>s. f (snd (k a s)) = f s"
  obtain r s1 where r: "m s = (r, s1)" by fastforce
  then have "f s1 = f s" using m [rule_format, of s] by simp
  then show "f (snd (act_bind m k s)) = f s"
    using k by (cases r) (simp_all add: act_bind_def r)
qed

lemma keeps_catch [keeps_rules]:
  "keeps f m \<Longrightarrow> (\<And>e. keeps f (h e)) \<Longrightarrow> keeps f (act_catch m c h)"
proof (unfold keeps_def, intro allI)
  fix s
  assume m: "\<forall>s. f (snd (m s)) = f s" and h: "\<And>e. \<forall>s. f (snd (h e s)) = f s"
  obtain r s1 where r: "m s = (r, s1)" by fastforce
  then have "f s1 = f s" using m [rule_format, of s] by simp
  then show "f (snd (act_catch m c h s)) = f s"
    using h by (cases r) (simp_all add: act_catch_def r)
qed

lemma keeps_if [keeps_rules]: "keeps f m \<Longrightarrow> keeps f n \<Longrightarrow> keeps f (if b then m else n)"
  by simp

lemma keeps_map [keeps_rules]:
  assumes "\<And>x. keeps f (k x)"
  shows "keeps f (act_map k xs)"
proof (induction xs)
  case Nil
  show ?case by (simp add: keeps_def)
next
  case (Cons x xs)
  then show ?case unfolding act_map.simps by (intro keeps_bind assms keeps_basic)
qed

lemma keeps_cases [keeps_rules]:
  "keeps f m \<Longrightarrow> (\<And>a. keeps f (k a)) \<Longrightarrow> keeps f (case x of None \<Rightarrow> m | Some a \<Rightarrow> k a)"
  "(\<And>a b. keeps f (g a b)) \<Longrightarrow> keeps f (case p of (a, b) \<Rightarrow> g a b)"
  by (auto split: option.splits prod.splits)

subsection \<open>Exceptions that cannot be raised\<close>

definition never :: "exc \<Rightarrow> ('s, 'a) act \<Rightarrow> bool" where
  "never e m \<longleftrightarrow> (\<forall>s. fst (m s) \<noteq> Inl e)"

lemma neverD: "never e m \<Longrightarrow> m s \<noteq> (Inl e, s')"
  by (auto simp: never_def) (metis fst_conv)

lemma never_basic [never_rules]:
  "never e (act_return a)" "never e act_get" "never e (act_modify f)"
  by (simp_all add: never_def)

lemma never_raise [never_rules]: "e' \<noteq> e \<Longrightarrow> never e (act_raise e')"
  by (simp add: never_def)

lemma never_lift [never_rules]: "r \<noteq> Inl e \<Longrightarrow> never e (act_lift r)"
  by (simp add: never_def)

lemma never_bind [never_rules]:
  assumes "never e m" and "\<And>a. never e (k a)"
  shows "never e (act_bind m k)"
proof (unfold never_def, intro allI)
  fix s
  obtain r s1 where r: "m s = (r, s1)" by fastforce
  then have "r \<noteq> Inl e" using assms(1) by (auto simp: never_def) (metis fst_conv)
  then show "fst (act_bind m k s) \<noteq> Inl e"
    using assms(2) r by (cases r) (auto simp: act_bind_def never_def)
qed

lemma never_catch [never_rules]:
  assumes "c e \<or> never e m" and "\<And>e'. c e' \<Longrightarrow> never e (h e')"
  shows "never e (act_catch m c h)"
proof (unfold never_def, intro allI)
  fix s
  obtain r s1 where r: "m s = (r, s1)" by fastforce
  then have "c e \<or> r \<noteq> Inl e" using assms(1) by (auto simp: never_def) (metis fst_conv)
  then show "fst (act_catch m c h s) \<noteq> Inl e"
    using assms(2) r by (cases r) (auto simp: act_catch_def never_def)
qed

lemma never_if [never_rules]: "never e m \<Longrightarrow> never e n \<Longrightarrow> never e (if b then m else n)"
  by simp

lemma never_map [never_rules]:
  assumes "\<And>x. never e (k x)"
  shows "never e (act_map k xs)"
proof (induction xs)
  case Nil
  show ?case by (simp add: never_def)
next
  case (Cons x xs)
  then show ?case unfolding act_map.simps by (intro never_bind assms never_basic)
qed

lemma never_cases [never_rules]:
  "never e m \<Longrightarrow> (\<And>a. never e (k a)) \<Longrightarrow> never e (case x of None \<Rightarrow> m | Some a \<Rightarrow> k a)"
  "(\<And>a b. never e (g a b)) \<Longrightarrow> never e (case p of (a, b) \<Rightarrow> g a b)"
  by (auto split: option.splits prod.splits)

lemma act_map_cong: "(\<And>x. x \<in> set xs \<Longrightarrow> f x = g x) \<Longrightarrow> act_map f xs = act_map g xs"
  by (induction xs) simp_all

lemma act_map_Inr:
  "act_map f xs s = (Inr ys, s') \<Longrightarrow> list_all2 (\<lambda>x y. \<exists>s1 s2. f x s1 = (Inr y, s2)) xs ys"
proof (induction xs arbitrary: s ys)
  case Nil
  then show ?case by simp
next
  case (Cons x xs)
  then obtain y s1 zs where "f x s = (Inr y, s1)" "act_map f xs s1 = (Inr zs, s')" "ys = y # zs"
    by (auto simp: act_bind_def split: prod.splits sum.splits)
  with Cons.IH show ?case by (auto intro!: exI)
qed

section \<open>Dictionaries\<close>

lemma map_of_update [simp]: "map_of (AList.update k v d) = (map_of d)(k \<mapsto> v)"
  by (rule update_conv')

definition dict_keys :: "('k, 'v) dict \<Rightarrow> 'k set" where
  "dict_keys d = fst ` set d"

lemma dict_keys_simps [simp]:
  "dict_keys [] = {}"
  "dict_keys (p # d) = insert (fst p) (dict_keys d)"
  by (simp_all add: dict_keys_def)

lemma dict_keys_update [simp]: "dict_keys (AList.update k v d) = insert k (dict_keys d)"
  by (simp add: dict_keys_def dom_map_of_conv_image_fst [symmetric])

lemma dict_keys_iff: "k \<in> dict_keys d \<longleftrightarrow> map_of d k \<noteq> None"
  by (simp add: dict_keys_def map_of_eq_None_iff)

text \<open>\<open>d.update(d2)\<close>: the items of \<open>d2\<close> one after the other.\<close>

definition dict_update :: "('k, 'v) dict \<Rightarrow> ('k, 'v) dict \<Rightarrow> ('k, 'v) dict" where
  "dict_update d d2 = foldl (\<lambda>acc (k, v). AList.update k v acc) d d2"

lemma dict_update_simps [simp]:
  "dict_update d [] = d"
  "dict_update d ((k, v) # d2) = dict_update (AList.update k v d) d2"
  by (simp_all add: dict_update_def)

lemma map_of_dict_update: "map_of (dict_update d d2) k = (map_of d ++ map_of (rev d2)) k"
  by (induction d2 arbitrary: d) (auto simp: map_add_def split: option.splits)

lemma dict_keys_dict_update [simp]: "dict_keys (dict_update d d2) = dict_keys d \<union> dict_keys d2"
  by (induction d2 arbitrary: d) auto

section \<open>Strings\<close>

text \<open>\<open>str(n)\<close> for an integer.\<close>

definition digit_char :: "nat \<Rightarrow> char" where
  "digit_char d = char_of (48 + d)"

fun nat_digits :: "nat \<Rightarrow> string" where
  "nat_digits n = (if n < 10 then [digit_char n] else nat_digits (n div 10) @ [digit_char (n mod 10)])"

declare nat_digits.simps [simp del]

definition str_int :: "int \<Rightarrow> string" where
  "str_int i = (if i < 0 then CHR ''-'' # nat_digits (nat (- i)) else nat_digits (nat i))"

text \<open>\<open>bytes.hex()\<close>.\<close>

definition hex_digit :: "nat \<Rightarrow> char" where
  "hex_digit d = (if d < 10 then char_of (48 + d) else char_of (87 + d))"

definition byte_hex :: "byte \<Rightarrow> string" where
  "byte_hex b = [hex_digit (unat b div 16), hex_digit (unat b mod 16)]"

definition bytes_hex :: "bytes \<Rightarrow> string" where
  "bytes_hex bs = concat (map byte_hex bs)"

text \<open>\<open>str.lower()\<close>, \<open>str.strip()\<close>, \<open>str.rstrip(c)\<close>, \<open>old in s\<close> and \<open>s.replace(old, new)\<close>.\<close>

definition char_lower :: "char \<Rightarrow> char" where
  "char_lower c = (let n = (of_char c :: nat)
     in if (65 \<le> n \<and> n \<le> 90) \<or> (192 \<le> n \<and> n \<le> 222 \<and> n \<noteq> 215) then char_of (n + 32) else c)"

definition str_lower :: "string \<Rightarrow> string" where
  "str_lower = map char_lower"

definition is_space :: "char \<Rightarrow> bool" where
  "is_space c = (let n = (of_char c :: nat)
     in (9 \<le> n \<and> n \<le> 13) \<or> (28 \<le> n \<and> n \<le> 32) \<or> n = 133 \<or> n = 160)"

definition str_strip :: "string \<Rightarrow> string" where
  "str_strip s = rev (dropWhile is_space (rev (dropWhile is_space s)))"

definition str_rstrip :: "char \<Rightarrow> string \<Rightarrow> string" where
  "str_rstrip c s = rev (dropWhile (\<lambda>x. x = c) (rev s))"

fun str_contains :: "string \<Rightarrow> string \<Rightarrow> bool" where
  "str_contains old [] = (old = [])"
| "str_contains old (c # cs) = (prefix old (c # cs) \<or> str_contains old cs)"

text \<open>The pattern \<open>old\<close> is never empty in the sources; an empty one is left alone here.\<close>

function str_replace :: "string \<Rightarrow> string \<Rightarrow> string \<Rightarrow> string" where
  "str_replace old new [] = []"
| "str_replace old new (c # cs) =
     (if old \<noteq> [] \<and> prefix old (c # cs) then new @ str_replace old new (drop (length old - 1) cs)
      else c # str_replace old new cs)"
  by pat_completeness auto
termination
  by (relation "measure (\<lambda>(old, new, s). length s)") auto

text \<open>
  \<open>str.isdigit()\<close>. Beside the decimal digits it accepts characters with a digit value that
  are not decimal, in this range the superscripts one, two and three.
\<close>

definition is_decimal_char :: "char \<Rightarrow> bool" where
  "is_decimal_char c = (let n = (of_char c :: nat) in 48 \<le> n \<and> n \<le> 57)"

definition is_digit_char :: "char \<Rightarrow> bool" where
  "is_digit_char c = (is_decimal_char c \<or> of_char c \<in> {178, 179, 185 :: nat})"

definition str_isdigit :: "string \<Rightarrow> bool" where
  "str_isdigit s = (s \<noteq> [] \<and> list_all is_digit_char s)"

text \<open>\<open>int(s)\<close> on a string that \<open>isdigit\<close> accepts: only decimal digits parse.\<close>

definition digits_value :: "string \<Rightarrow> nat" where
  "digits_value s = foldl (\<lambda>acc c. 10 * acc + (of_char c - 48)) 0 s"

definition int_of_str :: "string \<Rightarrow> int res" where
  "int_of_str s =
     (if s \<noteq> [] \<and> list_all is_decimal_char s then Inr (int (digits_value s)) else Inl ValueError)"

subsection \<open>Decimal numerals read back\<close>

lemma digits_value_snoc: "digits_value (xs @ [c]) = 10 * digits_value xs + (of_char c - 48)"
  by (simp add: digits_value_def)

lemma digit_char_value [simp]: "d < 10 \<Longrightarrow> of_char (digit_char d) = 48 + (d :: nat)"
  by (simp add: digit_char_def)

lemma digit_char_decimal [simp]: "d < 10 \<Longrightarrow> is_decimal_char (digit_char d)"
  by (simp add: is_decimal_char_def)

lemma digits_value_nat_digits: "digits_value (nat_digits n) = n"
proof (induction n rule: nat_digits.induct)
  case (1 n)
  then show ?case
    by (cases "n < 10") (simp_all add: nat_digits.simps [of n] digits_value_snoc, simp add: digits_value_def)
qed

lemma nat_digits_decimal: "nat_digits n \<noteq> [] \<and> list_all is_decimal_char (nat_digits n)"
proof (induction n rule: nat_digits.induct)
  case (1 n)
  then show ?case by (cases "n < 10") (simp_all add: nat_digits.simps [of n])
qed

lemma int_of_str_int: "0 \<le> i \<Longrightarrow> int_of_str (str_int i) = Inr i"
  using nat_digits_decimal [of "nat i"]
  by (simp add: str_int_def int_of_str_def digits_value_nat_digits)

end
