(* ===== verification/Json.thy ===== *)
theory Json
  imports Prelude
begin

text \<open>
  JSON values as Python holds them after \<open>json.loads\<close>, and the Python operations the
  sources apply to them: subscription, \<open>dict.get\<close>, iteration, truth value, type tests.
  ABIs, the rows of the column \<open>abi.abi_json\<close> and the queue's events are such values.
\<close>

datatype json =
    JNull
  | JBool bool
  | JInt int
  | JFloat string
  | JStr string
  | JList "json list"
  | JObj "(string \<times> json) list"

text \<open>The truth value of a JSON value: \<open>if x:\<close>.\<close>

fun json_truthy :: "json \<Rightarrow> bool" where
  "json_truthy JNull = False"
| "json_truthy (JBool b) = b"
| "json_truthy (JInt i) = (i \<noteq> 0)"
| "json_truthy (JFloat s) = (s \<noteq> ''0.0'' \<and> s \<noteq> ''-0.0'')"
| "json_truthy (JStr s) = (s \<noteq> [])"
| "json_truthy (JList xs) = (xs \<noteq> [])"
| "json_truthy (JObj kvs) = (kvs \<noteq> [])"

text \<open>\<open>x[k]\<close> with a string \<open>k\<close>: a dictionary looks up, every other type raises.\<close>

fun json_item :: "json \<Rightarrow> string \<Rightarrow> json res" where
  "json_item (JObj kvs) k = (case map_of kvs k of None \<Rightarrow> Inl KeyError | Some v \<Rightarrow> Inr v)"
| "json_item _ k = Inl TypeError"

text \<open>\<open>x.get(k, d)\<close>; only a dictionary has the method.\<close>

fun json_get :: "json \<Rightarrow> string \<Rightarrow> json \<Rightarrow> json res" where
  "json_get (JObj kvs) k d = Inr (case map_of kvs k of None \<Rightarrow> d | Some v \<Rightarrow> v)"
| "json_get _ k d = Inl AttributeError"

text \<open>\<open>for e in x\<close>: a list gives its elements, a dictionary its keys, a string its characters.\<close>

fun json_iter :: "json \<Rightarrow> json list res" where
  "json_iter (JList xs) = Inr xs"
| "json_iter (JObj kvs) = Inr (map (\<lambda>(k, v). JStr k) kvs)"
| "json_iter (JStr s) = Inr (map (\<lambda>c. JStr [c]) s)"
| "json_iter _ = Inl TypeError"

fun json_is_str :: "json \<Rightarrow> bool" where
  "json_is_str (JStr s) = True"
| "json_is_str _ = False"

fun json_str :: "json \<Rightarrow> string" where
  "json_str (JStr s) = s"
| "json_str _ = []"

lemma json_is_str_iff: "json_is_str j \<longleftrightarrow> (\<exists>s. j = JStr s)"
  by (cases j) simp_all

lemma json_item_Inr:
  "json_item j k = Inr v \<longleftrightarrow> (\<exists>kvs. j = JObj kvs \<and> map_of kvs k = Some v)"
  by (cases j) (auto split: option.splits)

end
