(* ===== verification/Models.thy ===== *)
theory Models
  imports Json "HOL-Library.List_Lexorder" "HOL-Library.Product_Lexorder"
begin

text \<open>
  The database: \<open>app/datasources/db/models.py\<close>. A table is the list of its rows, in the
  physical order in which a query without \<open>ORDER BY\<close> meets them; the theorems hold for
  every such order, since they quantify over all lists. A row is a record of the columns.
  An insertion checks the constraints the model classes declare (NOT NULL, foreign keys,
  the unique index on the generated column \<open>abi_hash\<close>, the unique constraint on address
  and chain) and answers a violation with \<open>IntegrityError\<close>; either way the identity
  sequence has moved on. Commit and rollback happen inside each operation, as in the code.

  The hash that PostgreSQL computes for the column \<open>abi_hash\<close> is an argument \<open>h\<close>.
\<close>

section \<open>Tables\<close>

record abi_source =
  s_id :: int
  s_name :: string
  s_url :: string

record abi_row =
  a_id :: int
  a_relevance :: int
  a_json :: json
  a_source_id :: int
  a_created :: int
  a_modified :: int

record project =
  p_id :: int
  p_description :: string
  p_logo_file :: string

record contract =
  c_id :: int
  c_address :: bytes
  c_name :: "string option"
  c_display_name :: "string option"
  c_description :: "string option"
  c_trusted_for_delegate_call :: bool
  c_implementation :: "bytes option"
  c_fetch_retries :: int
  c_abi_id :: "int option"
  c_project_id :: "int option"
  c_chain_id :: int
  c_created :: int
  c_modified :: int

record db =
  db_sources :: "abi_source list"
  db_abis :: "abi_row list"
  db_projects :: "project list"
  db_contracts :: "contract list"
  db_source_seq :: int
  db_abi_seq :: int
  db_contract_seq :: int
  db_now :: int

definition empty_db :: db where
  "empty_db = \<lparr>db_sources = [], db_abis = [], db_projects = [], db_contracts = [],
     db_source_seq = 1, db_abi_seq = 1, db_contract_seq = 1, db_now = 0\<rparr>"

section \<open>AbiSource\<close>

definition source_create :: "string \<Rightarrow> string \<Rightarrow> (db, abi_source) act" where
  "source_create name url d =
     (let row = \<lparr>s_id = db_source_seq d, s_name = name, s_url = url\<rparr>
      in (Inr row, d\<lparr>db_source_seq := db_source_seq d + 1, db_sources := db_sources d @ [row]\<rparr>))"

definition source_find :: "string \<times> string \<Rightarrow> db \<Rightarrow> abi_source option" where
  "source_find k d = find (\<lambda>r. s_name r = fst k \<and> s_url r = snd k) (db_sources d)"

definition source_get_or_create :: "string \<times> string \<Rightarrow> (db, abi_source \<times> bool) act" where
  "source_get_or_create k d =
     (case source_find k d of
        Some result \<Rightarrow> (Inr (result, False), d)
      | None \<Rightarrow> act_bind (source_create (fst k) (snd k)) (\<lambda>new_item. act_return (new_item, True)) d)"

definition get_abi_source :: "string \<Rightarrow> db \<Rightarrow> abi_source option" where
  "get_abi_source name d = find (\<lambda>r. s_name r = name) (db_sources d)"

section \<open>Abi\<close>

text \<open>The largest id: \<open>ORDER BY id DESC LIMIT 1\<close>.\<close>

definition get_last_inserted_id :: "db \<Rightarrow> int option" where
  "get_last_inserted_id d =
     (case rev (sort_key a_id (db_abis d)) of [] \<Rightarrow> None | r # _ \<Rightarrow> Some (a_id r))"

definition get_abis_sorted_by_relevance :: "db \<Rightarrow> json list" where
  "get_abis_sorted_by_relevance d = map a_json (sort_key a_relevance (db_abis d))"

definition get_abis_with_id_greater_than :: "int \<Rightarrow> db \<Rightarrow> json list" where
  "get_abis_with_id_greater_than last_id d =
     map a_json (sort_key a_id (filter (\<lambda>r. a_id r > last_id) (db_abis d)))"

definition abi_create ::
    "(json \<Rightarrow> bytes) \<Rightarrow> json \<Rightarrow> int option \<Rightarrow> int option \<Rightarrow> (db, abi_row) act" where
  "abi_create h abi_json source_id relevance d =
     (let d' = d\<lparr>db_abi_seq := db_abi_seq d + 1\<rparr>
      in case (source_id, relevance) of
           (Some sid, Some rel) \<Rightarrow>
             if abi_json = JNull \<or> sid \<notin> s_id ` set (db_sources d)
                \<or> h abi_json \<in> (h \<circ> a_json) ` set (db_abis d)
             then (Inl IntegrityError, d')
             else let row = \<lparr>a_id = db_abi_seq d, a_relevance = rel, a_json = abi_json,
                             a_source_id = sid, a_created = db_now d, a_modified = db_now d\<rparr>
                  in (Inr row, d'\<lparr>db_abis := db_abis d @ [row]\<rparr>)
         | _ \<Rightarrow> (Inl IntegrityError, d'))"

definition get_abi_by_hash :: "(json \<Rightarrow> bytes) \<Rightarrow> bytes \<Rightarrow> db \<Rightarrow> abi_row option" where
  "get_abi_by_hash h computed_hash d = find (\<lambda>r. h (a_json r) = computed_hash) (db_abis d)"

definition get_abi :: "(json \<Rightarrow> bytes) \<Rightarrow> json \<Rightarrow> db \<Rightarrow> abi_row option" where
  "get_abi h abi_json d = get_abi_by_hash h (h abi_json) d"

definition get_or_create_abi ::
    "(json \<Rightarrow> bytes) \<Rightarrow> json \<Rightarrow> int option \<Rightarrow> int option \<Rightarrow> (db, abi_row \<times> bool) act" where
  "get_or_create_abi h abi_json source_id relevance =
     act_catch
       (act_bind (abi_create h abi_json source_id relevance) (\<lambda>new_item. act_return (new_item, True)))
       (\<lambda>e. e = IntegrityError)
       (\<lambda>e. act_bind act_get (\<lambda>d.
          case get_abi h abi_json d of
            None \<Rightarrow> act_raise e
          | Some existing \<Rightarrow> act_return (existing, False)))"

section \<open>Contract\<close>

text \<open>The filters and the order of the listing query; a falsy argument does not filter.\<close>

definition get_contracts_query ::
    "bytes option \<Rightarrow> int list option \<Rightarrow> bool option \<Rightarrow> bool \<Rightarrow> db \<Rightarrow> contract list" where
  "get_contracts_query address chain_ids trusted only_with_abi d =
     (let q = db_contracts d;
          q = (case address of Some (b # bs) \<Rightarrow> filter (\<lambda>c. c_address c = b # bs) q | _ \<Rightarrow> q);
          q = (case trusted of Some t \<Rightarrow> filter (\<lambda>c. c_trusted_for_delegate_call c = t) q | None \<Rightarrow> q);
          q = (case chain_ids of Some (i # is) \<Rightarrow> filter (\<lambda>c. c_chain_id c \<in> set (i # is)) q | _ \<Rightarrow> q);
          q = (if only_with_abi then filter (\<lambda>c. c_abi_id c \<noteq> None) q else q)
      in sort_key (\<lambda>c. (c_address c, c_chain_id c)) q)"

definition get_contract :: "bytes \<Rightarrow> int \<Rightarrow> db \<Rightarrow> contract option" where
  "get_contract address chain_id d =
     find (\<lambda>c. c_address c = address \<and> c_chain_id c = chain_id) (db_contracts d)"

definition foreign_keys_ok :: "db \<Rightarrow> contract \<Rightarrow> bool" where
  "foreign_keys_ok d c \<longleftrightarrow>
     (case c_abi_id c of None \<Rightarrow> True | Some i \<Rightarrow> i \<in> a_id ` set (db_abis d)) \<and>
     (case c_project_id c of None \<Rightarrow> True | Some i \<Rightarrow> i \<in> p_id ` set (db_projects d))"

definition contract_create :: "contract \<Rightarrow> (db, contract) act" where
  "contract_create c d =
     (let d' = d\<lparr>db_contract_seq := db_contract_seq d + 1\<rparr>;
          row = c\<lparr>c_id := db_contract_seq d, c_created := db_now d, c_modified := db_now d\<rparr>
      in if \<not> foreign_keys_ok d c
            \<or> (c_address c, c_chain_id c) \<in> (\<lambda>r. (c_address r, c_chain_id r)) ` set (db_contracts d)
         then (Inl IntegrityError, d')
         else (Inr row, d'\<lparr>db_contracts := db_contracts d @ [row]\<rparr>))"

text \<open>
  \<open>update()\<close> on a loaded object: the session emits an UPDATE only for a row that changed,
  and then the column \<open>modified\<close> is refreshed.
\<close>

definition contract_update :: "contract \<Rightarrow> (db, contract) act" where
  "contract_update c d =
     (case find (\<lambda>r. c_id r = c_id c) (db_contracts d) of
        None \<Rightarrow> (Inl OtherError, d)
      | Some old \<Rightarrow>
          if c = old then (Inr c, d)
          else if \<not> foreign_keys_ok d c
            \<or> (\<exists>r\<in>set (db_contracts d). c_id r \<noteq> c_id c
                 \<and> c_address r = c_address c \<and> c_chain_id r = c_chain_id c)
          then (Inl IntegrityError, d)
          else let row = c\<lparr>c_modified := db_now d\<rparr>
               in (Inr row, d\<lparr>db_contracts :=
                     map (\<lambda>r. if c_id r = c_id c then row else r) (db_contracts d)\<rparr>))"

text \<open>The keyword arguments that the callers of \<open>Contract.get_or_create\<close> pass.\<close>

datatype contract_kwarg =
    KwName string
  | KwDisplayName string
  | KwTrusted bool

fun set_kwarg :: "contract_kwarg \<Rightarrow> contract \<Rightarrow> contract" where
  "set_kwarg (KwName v) c = c\<lparr>c_name := Some v\<rparr>"
| "set_kwarg (KwDisplayName v) c = c\<lparr>c_display_name := Some v\<rparr>"
| "set_kwarg (KwTrusted v) c = c\<lparr>c_trusted_for_delegate_call := v\<rparr>"

definition new_contract :: "bytes \<Rightarrow> int \<Rightarrow> contract" where
  "new_contract address chain_id =
     \<lparr>c_id = 0, c_address = address, c_name = None, c_display_name = None,
      c_description = None, c_trusted_for_delegate_call = False, c_implementation = None,
      c_fetch_retries = 0, c_abi_id = None, c_project_id = None, c_chain_id = chain_id,
      c_created = 0, c_modified = 0\<rparr>"

definition contract_get_or_create ::
    "bytes \<Rightarrow> int \<Rightarrow> contract_kwarg list \<Rightarrow> (db, contract \<times> bool) act" where
  "contract_get_or_create address chain_id kwargs =
     (let c = fold set_kwarg kwargs (new_contract address chain_id)
      in act_catch
           (act_bind (contract_create c) (\<lambda>c. act_return (c, True)))
           (\<lambda>e. e = IntegrityError)
           (\<lambda>e. act_bind act_get (\<lambda>d.
              case get_contract address chain_id d of
                None \<Rightarrow> act_raise e
              | Some c \<Rightarrow> act_return (c, False))))"

text \<open>
  The ABI of a contract: the join of the two tables on \<open>abi_id\<close>, filtered by chain, or
  ordered by chain when none is given; an empty ABI is falsy and gives \<open>None\<close>.
\<close>

definition get_abi_by_contract_address :: "bytes \<Rightarrow> int option \<Rightarrow> db \<Rightarrow> json option" where
  "get_abi_by_contract_address address chain_id d =
     (let joined = concat (map (\<lambda>a. map (\<lambda>c. (c, a))
            (filter (\<lambda>c. c_abi_id c = Some (a_id a) \<and> c_address c = address) (db_contracts d)))
            (db_abis d));
          rows = (case chain_id of
                    Some i \<Rightarrow> filter (\<lambda>(c, a). c_chain_id c = i) joined
                  | None \<Rightarrow> sort_key (\<lambda>(c, a). c_chain_id c) joined)
      in case rows of
           [] \<Rightarrow> None
         | (c, a) # _ \<Rightarrow> if json_truthy (a_json a) then Some (a_json a) else None)"

definition get_contracts_without_abi :: "int \<Rightarrow> db \<Rightarrow> contract list" where
  "get_contracts_without_abi max_retries d =
     filter (\<lambda>c. c_abi_id c = None \<and> c_fetch_retries c \<le> max_retries) (db_contracts d)"

definition get_proxy_contracts :: "db \<Rightarrow> contract list" where
  "get_proxy_contracts d = filter (\<lambda>c. c_implementation c \<noteq> None) (db_contracts d)"

definition update_contract_info :: "bytes \<Rightarrow> string \<Rightarrow> string \<Rightarrow> bool \<Rightarrow> (db, nat) act" where
  "update_contract_info address name display_name trusted d =
     (Inr (length (filter (\<lambda>c. c_address c = address) (db_contracts d))),
      d\<lparr>db_contracts := map (\<lambda>c. if c_address c = address
            then c\<lparr>c_name := Some name, c_display_name := Some display_name,
                   c_trusted_for_delegate_call := trusted, c_modified := db_now d\<rparr>
            else c) (db_contracts d)\<rparr>)"

definition exists_safe_contracts :: "int \<Rightarrow> bytes set \<Rightarrow> db \<Rightarrow> bool" where
  "exists_safe_contracts chain_id addresses d =
     (if addresses = {} then False
      else length (filter (\<lambda>c. c_chain_id c = chain_id \<and> c_address c \<in> addresses) (db_contracts d))
           = card addresses)"

end
