(* ===== verification/Decoder.thy ===== *)
theory Decoder
  imports Models
begin

text \<open>
  The decoder: \<open>app/services/data_decoder.py\<close>. The state is the object's attributes and
  the contents of its two result caches. The database is read only here and is an
  argument. What the code calls in third-party packages is the record \<open>lib\<close>, an argument
  of every definition that uses it: \<open>HexBytes\<close>, the 4-byte selector of a function ABI,
  the ABI decoder and its normalizer walk, the checksum of an address, the MultiSend
  parser, the MultiSend ABI, and the bounded result cache \<open>alru_cache\<close> of each of the two
  cached methods (a lookup that may refresh the entry, and a store that may evict).
\<close>

section \<open>Decoded values and results\<close>

text \<open>What the ABI decoder yields, and the arguments \<open>bytes | str\<close> of the methods.\<close>

datatype pyval =
    VInt int
  | VBool bool
  | VBytes bytes
  | VStr string
  | VDecimal string
  | VTuple "pyval list"
  | VList "pyval list"

fun pyval_truthy :: "pyval \<Rightarrow> bool" where
  "pyval_truthy (VInt i) = (i \<noteq> 0)"
| "pyval_truthy (VBool b) = b"
| "pyval_truthy (VBytes b) = (b \<noteq> [])"
| "pyval_truthy (VStr s) = (s \<noteq> [])"
| "pyval_truthy (VDecimal s) = (\<not> list_all (\<lambda>c. c \<in> {CHR ''0'', CHR ''.'', CHR ''-''}) s)"
| "pyval_truthy (VTuple vs) = (vs \<noteq> [])"
| "pyval_truthy (VList vs) = (vs \<noteq> [])"

text \<open>A list is unhashable, and so is a tuple that holds one: it cannot key a cache.\<close>

fun hashable :: "pyval \<Rightarrow> bool" where
  "hashable (VList vs) = False"
| "hashable (VTuple vs) = list_all hashable vs"
| "hashable _ = True"

datatype parameter_decoded =
  ParameterDecoded (pd_name: string) (pd_type: string) (pd_value: pyval)
    (pd_value_decoded: "value_decoded option")
and value_decoded =
    ValueNone
  | ValueMultisend "multisend_decoded list"
  | ValueData data_decoded
and data_decoded =
  DataDecoded (dd_method: json) (dd_parameters: "parameter_decoded list")
and multisend_decoded =
  MultisendDecoded (md_operation: int) (md_to: string) (md_value: string) (md_data: "string option")
    (md_data_decoded: "data_decoded option")

datatype decoding_accuracy = FULL_MATCH | PARTIAL_MATCH | ONLY_FUNCTION_MATCH | NO_MATCH

record multisend_tx =
  tx_operation :: int
  tx_to :: string
  tx_value :: int
  tx_data :: bytes

section \<open>The third-party interface\<close>

type_synonym cache_key = "pyval \<times> int option"
type_synonym selectors = "(bytes, json) dict"

record ('c, 'd) lib =
  HexBytes :: "pyval \<Rightarrow> bytes res"
  to_0x_hex_str :: "bytes \<Rightarrow> string"
  function_abi_to_4byte_selector :: "json \<Rightarrow> bytes res"
  get_abi_input_names :: "json \<Rightarrow> string list res"
  get_abi_input_types :: "json \<Rightarrow> string list res"
  decode_abi :: "string list \<Rightarrow> bytes \<Rightarrow> pyval list res"
  map_abi_data :: "(string \<Rightarrow> pyval \<Rightarrow> (string \<times> pyval) option res) list \<Rightarrow>
                   string list \<Rightarrow> pyval list \<Rightarrow> pyval list res"
  fast_to_checksum_address :: "pyval \<Rightarrow> string res"
  multisend_from_transaction_data :: "pyval \<Rightarrow> multisend_tx list res"
  multi_send_contract_abi :: json
  abi_cache_empty :: 'c
  abi_cache_get :: "'c \<Rightarrow> cache_key \<Rightarrow> json option option \<times> 'c"
  abi_cache_put :: "'c \<Rightarrow> cache_key \<Rightarrow> json option \<Rightarrow> 'c"
  sel_cache_empty :: 'd
  sel_cache_get :: "'d \<Rightarrow> cache_key \<Rightarrow> selectors option option \<times> 'd"
  sel_cache_put :: "'d \<Rightarrow> cache_key \<Rightarrow> selectors option \<Rightarrow> 'd"

section \<open>The service's state\<close>

record ('c, 'd) decoder =
  fn_selectors_with_abis :: selectors
  multisend_abis :: "json list"
  multisend_fn_selectors_with_abis :: selectors
  last_abi_id :: "int option"
  lock_load_new_abis :: bool
  abi_cache :: 'c
  sel_cache :: 'd

definition EXEC_TRANSACTION_SELECTOR :: bytes where
  "EXEC_TRANSACTION_SELECTOR = [0x6a, 0x76, 0x12, 0x02]"

definition new_decoder :: "('c, 'd) lib \<Rightarrow> ('c, 'd) decoder" where
  "new_decoder L = \<lparr>fn_selectors_with_abis = [], multisend_abis = [],
     multisend_fn_selectors_with_abis = [], last_abi_id = None, lock_load_new_abis = False,
     abi_cache = abi_cache_empty L, sel_cache = sel_cache_empty L\<rparr>"

definition addresses_checksummed_normalizer ::
    "('c, 'd) lib \<Rightarrow> string \<Rightarrow> pyval \<Rightarrow> (string \<times> pyval) option res" where
  "addresses_checksummed_normalizer L type_str data =
     (if type_str = ''address''
      then res_bind (fast_to_checksum_address L data) (\<lambda>a. Inr (Some (type_str, VStr a)))
      else Inr None)"

section \<open>Selectors of an ABI\<close>

definition is_function_abi :: "json \<Rightarrow> bool res" where
  "is_function_abi fn_abi = res_bind (json_item fn_abi ''type'') (\<lambda>t. Inr (t = JStr ''function''))"

fun generate_selectors :: "('c, 'd) lib \<Rightarrow> json list \<Rightarrow> selectors \<Rightarrow> selectors res" where
  "generate_selectors L [] acc = Inr acc"
| "generate_selectors L (fn_abi # fn_abis) acc =
     res_bind (function_abi_to_4byte_selector L fn_abi)
       (\<lambda>s. generate_selectors L fn_abis (AList.update s fn_abi acc))"

definition generate_selectors_with_abis_from_abi :: "('c, 'd) lib \<Rightarrow> json \<Rightarrow> selectors res" where
  "generate_selectors_with_abis_from_abi L abi =
     res_bind (json_iter abi) (\<lambda>entries.
     res_bind (res_filter is_function_abi entries) (\<lambda>fn_abis.
       if fn_abis = [] then Inr [] else generate_selectors L fn_abis []))"

fun generate_selectors_with_abis_from_abis ::
    "('c, 'd) lib \<Rightarrow> json list \<Rightarrow> selectors \<Rightarrow> selectors res" where
  "generate_selectors_with_abis_from_abis L [] acc = Inr acc"
| "generate_selectors_with_abis_from_abis L (supported_abi # abis) acc =
     res_bind (generate_selectors_with_abis_from_abi L supported_abi)
       (\<lambda>d. generate_selectors_with_abis_from_abis L abis (dict_update acc d))"

definition get_supported_abis :: "db \<Rightarrow> json list" where
  "get_supported_abis d = get_abis_sorted_by_relevance d"

definition get_multisend_abis :: "('c, 'd) lib \<Rightarrow> json list" where
  "get_multisend_abis L = [multi_send_contract_abi L]"

definition init :: "('c, 'd) lib \<Rightarrow> db \<Rightarrow> (('c, 'd) decoder, unit) act" where
  "init L d =
     act_bind (act_modify (\<lambda>s. s\<lparr>last_abi_id := get_last_inserted_id d\<rparr>)) (\<lambda>_.
     act_bind (act_lift (generate_selectors_with_abis_from_abis L (get_supported_abis d) [])) (\<lambda>fns.
     act_bind (act_modify (\<lambda>s. s\<lparr>fn_selectors_with_abis := fns,
                                 multisend_abis := get_multisend_abis L,
                                 multisend_fn_selectors_with_abis := []\<rparr>)) (\<lambda>_.
     act_bind (act_lift (generate_selectors_with_abis_from_abis L (get_multisend_abis L) [])) (\<lambda>ms.
       act_modify (\<lambda>s. s\<lparr>multisend_fn_selectors_with_abis := ms, lock_load_new_abis := False\<rparr>)))))"

section \<open>The ABI of a contract, with the result caches\<close>

definition get_contract_abi ::
    "('c, 'd) lib \<Rightarrow> db \<Rightarrow> pyval \<Rightarrow> int option \<Rightarrow> (('c, 'd) decoder, json option) act" where
  "get_contract_abi L d address chain_id s =
     (if \<not> hashable address then (Inl TypeError, s)
      else case abi_cache_get L (abi_cache s) (address, chain_id) of
        (Some cached, c) \<Rightarrow> (Inr cached, s\<lparr>abi_cache := c\<rparr>)
      | (None, c) \<Rightarrow>
          (case HexBytes L address of
             Inl e \<Rightarrow> (Inl e, s\<lparr>abi_cache := c\<rparr>)
           | Inr a \<Rightarrow>
               let abi = get_abi_by_contract_address a chain_id d
               in (Inr abi, s\<lparr>abi_cache := abi_cache_put L c (address, chain_id) abi\<rparr>)))"

definition contract_selectors_uncached ::
    "('c, 'd) lib \<Rightarrow> db \<Rightarrow> pyval \<Rightarrow> int option \<Rightarrow> (('c, 'd) decoder, selectors option) act" where
  "contract_selectors_uncached L d address chain_id =
     act_bind (get_contract_abi L d address chain_id) (\<lambda>abi.
     act_bind (if \<not> (case abi of None \<Rightarrow> False | Some j \<Rightarrow> json_truthy j) \<and> chain_id \<noteq> None
               then get_contract_abi L d address None else act_return abi) (\<lambda>abi.
       case abi of
         None \<Rightarrow> act_return None
       | Some j \<Rightarrow>
           if json_truthy j
           then act_bind (act_lift (generate_selectors_with_abis_from_abi L j)) (\<lambda>sel. act_return (Some sel))
           else act_return None))"

definition get_contract_abi_selectors_with_functions ::
    "('c, 'd) lib \<Rightarrow> db \<Rightarrow> pyval \<Rightarrow> int option \<Rightarrow> (('c, 'd) decoder, selectors option) act" where
  "get_contract_abi_selectors_with_functions L d address chain_id s =
     (if \<not> hashable address then (Inl TypeError, s)
      else case sel_cache_get L (sel_cache s) (address, chain_id) of
        (Some cached, c) \<Rightarrow> (Inr cached, s\<lparr>sel_cache := c\<rparr>)
      | (None, c) \<Rightarrow>
          act_bind (contract_selectors_uncached L d address chain_id) (\<lambda>sel s.
            (Inr sel, s\<lparr>sel_cache := sel_cache_put L (sel_cache s) (address, chain_id) sel\<rparr>))
            (s\<lparr>sel_cache := c\<rparr>))"

definition get_abi_function ::
    "('c, 'd) lib \<Rightarrow> db \<Rightarrow> bytes \<Rightarrow> pyval option \<Rightarrow> int option \<Rightarrow> (('c, 'd) decoder, json option) act" where
  "get_abi_function L d data address chain_id =
     (let selector = take 4 data in
      act_bind act_get (\<lambda>s.
        case map_of (fn_selectors_with_abis s) selector of
          None \<Rightarrow> act_return None
        | Some general \<Rightarrow>
            (case address of
               Some a \<Rightarrow>
                 if pyval_truthy a
                 then act_bind (get_contract_abi_selectors_with_functions L d a chain_id) (\<lambda>sel.
                   case sel of
                     None \<Rightarrow> act_return (Some general)
                   | Some own \<Rightarrow>
                       (case map_of own selector of
                          Some fn \<Rightarrow> act_return (Some fn)
                        | None \<Rightarrow> act_return (Some general)))
                 else act_return (Some general)
             | None \<Rightarrow> act_return (Some general))))"

section \<open>Decoding\<close>

fun parse_decoded_arguments :: "('c, 'd) lib \<Rightarrow> pyval \<Rightarrow> pyval" where
  "parse_decoded_arguments L (VTuple vs) = VTuple (map (parse_decoded_arguments L) vs)"
| "parse_decoded_arguments L (VList vs) = VList (map (parse_decoded_arguments L) vs)"
| "parse_decoded_arguments L (VBytes b) = VStr (to_0x_hex_str L b)"
| "parse_decoded_arguments L (VBool b) = VStr (if b then ''True'' else ''False'')"
| "parse_decoded_arguments L (VInt i) = VStr (str_int i)"
| "parse_decoded_arguments L v = v"

definition decoding_problem :: "exc \<Rightarrow> bool" where
  "decoding_problem e \<longleftrightarrow> is_value_error e \<or> e = DecodingError \<or> e = ArithmeticError"

definition decode_arguments ::
    "('c, 'd) lib \<Rightarrow> json \<Rightarrow> bytes \<Rightarrow> (string list \<times> string list \<times> pyval list) res" where
  "decode_arguments L fn_abi params =
     res_bind (get_abi_input_names L fn_abi) (\<lambda>names.
     res_bind (get_abi_input_types L fn_abi) (\<lambda>types.
     res_bind (decode_abi L types params) (\<lambda>decoded.
     res_bind (map_abi_data L [addresses_checksummed_normalizer L] types decoded) (\<lambda>normalized.
       Inr (names, types, map (parse_decoded_arguments L) normalized)))))"

definition decode_data ::
    "('c, 'd) lib \<Rightarrow> db \<Rightarrow> pyval \<Rightarrow> pyval option \<Rightarrow> int option \<Rightarrow>
     (('c, 'd) decoder, json \<times> (string \<times> string \<times> pyval) list) act" where
  "decode_data L d data address chain_id =
     (if \<not> pyval_truthy data then act_raise CannotDecode
      else
        act_bind (act_lift (HexBytes L data)) (\<lambda>data.
        act_bind (get_abi_function L d data address chain_id) (\<lambda>fn_abi.
          case fn_abi of
            None \<Rightarrow> act_raise CannotDecode
          | Some fn_abi \<Rightarrow>
              act_bind
                (act_catch (act_lift (decode_arguments L fn_abi (drop 4 data)))
                   decoding_problem (\<lambda>e. act_raise UnexpectedProblemDecoding)) (\<lambda>(names, types, values).
              act_bind (act_lift (json_item fn_abi ''name'')) (\<lambda>name.
                act_return (name, zip names (zip types values)))))))"

text \<open>
  The handlers of nested data are written over the method they call back,
  \<open>self.get_data_decoded\<close>, here the argument \<open>rec\<close>; the recursion is tied below.
\<close>

type_synonym ('c, 'd) get_decoded =
  "pyval \<Rightarrow> pyval option \<Rightarrow> int option \<Rightarrow> (('c, 'd) decoder, data_decoded option) act"

definition decode_multisend_data ::
    "('c, 'd) lib \<Rightarrow> ('c, 'd) get_decoded \<Rightarrow> pyval \<Rightarrow> int option \<Rightarrow>
     (('c, 'd) decoder, multisend_decoded list option) act" where
  "decode_multisend_data L rec data chain_id =
     act_catch
       (act_bind (act_lift (multisend_from_transaction_data L data)) (\<lambda>multisend_txs.
        act_bind (act_map (\<lambda>tx.
          act_bind (rec (VBytes (tx_data tx)) (Some (VStr (tx_to tx))) chain_id) (\<lambda>decoded.
            act_return (MultisendDecoded (tx_operation tx) (tx_to tx) (str_int (tx_value tx))
              (if tx_data tx \<noteq> [] then Some (to_0x_hex_str L (tx_data tx)) else None) decoded)))
          multisend_txs) (\<lambda>txs. act_return (Some txs))))
       is_value_error
       (\<lambda>e. act_bind (act_lift (HexBytes L data)) (\<lambda>_. act_return None))"

text \<open>\<open>parameters[i]["value_decoded"] = v\<close>\<close>

definition set_value_decoded ::
    "nat \<Rightarrow> value_decoded \<Rightarrow> parameter_decoded list \<Rightarrow> parameter_decoded list res" where
  "set_value_decoded i v ps =
     (if i < length ps
      then Inr (ps[i := ParameterDecoded (pd_name (ps ! i)) (pd_type (ps ! i)) (pd_value (ps ! i)) (Some v)])
      else Inl IndexError)"

definition decode_parameters_data ::
    "('c, 'd) lib \<Rightarrow> ('c, 'd) get_decoded \<Rightarrow> bytes \<Rightarrow> parameter_decoded list \<Rightarrow> int option \<Rightarrow>
     (('c, 'd) decoder, parameter_decoded list) act" where
  "decode_parameters_data L rec data parameters chain_id =
     (let fn_selector = take 4 data in
      act_bind act_get (\<lambda>s.
        if fn_selector \<in> dict_keys (multisend_fn_selectors_with_abis s) then
          act_bind (decode_multisend_data L rec (VBytes data) chain_id) (\<lambda>txs.
            act_lift (set_value_decoded 0
              (case txs of None \<Rightarrow> ValueNone | Some xs \<Rightarrow> ValueMultisend xs) parameters))
        else if fn_selector = EXEC_TRANSACTION_SELECTOR \<and> length parameters > 2 then
          act_bind (act_lift (HexBytes L (pd_value (parameters ! 2)))) (\<lambda>inner.
            if inner \<noteq> [] then
              act_catch
                (act_bind (rec (VBytes inner) (Some (pd_value (parameters ! 0))) chain_id) (\<lambda>decoded.
                   act_lift (set_value_decoded 2
                     (case decoded of None \<Rightarrow> ValueNone | Some x \<Rightarrow> ValueData x) parameters)))
                data_decoder_exception
                (\<lambda>e. act_return parameters)
            else act_return parameters)
        else act_return parameters))"

definition decode_transaction_with_types_rec ::
    "('c, 'd) lib \<Rightarrow> ('c, 'd) get_decoded \<Rightarrow> db \<Rightarrow> pyval \<Rightarrow> pyval option \<Rightarrow> int option \<Rightarrow>
     (('c, 'd) decoder, json \<times> parameter_decoded list) act" where
  "decode_transaction_with_types_rec L rec d data address chain_id =
     act_bind (act_lift (HexBytes L data)) (\<lambda>data.
     act_bind (decode_data L d (VBytes data) address chain_id) (\<lambda>(fn_name, raw_parameters).
       let parameters = map (\<lambda>(name, argument_type, value).
             ParameterDecoded name argument_type value None) raw_parameters in
       act_bind (decode_parameters_data L rec data parameters chain_id) (\<lambda>nested.
         act_return (fn_name, nested))))"

definition get_data_decoded_rec ::
    "('c, 'd) lib \<Rightarrow> ('c, 'd) get_decoded \<Rightarrow> db \<Rightarrow> ('c, 'd) get_decoded" where
  "get_data_decoded_rec L rec d data address chain_id =
     (if \<not> pyval_truthy data then act_return None
      else act_catch
        (act_bind (decode_transaction_with_types_rec L rec d data address chain_id) (\<lambda>(fn_name, parameters).
           act_return (Some (DataDecoded fn_name parameters))))
        data_decoder_exception
        (\<lambda>e. act_return None))"

text \<open>The recursion of \<open>get_data_decoded\<close>, with the call depth that is left.\<close>

fun get_data_decoded :: "('c, 'd) lib \<Rightarrow> db \<Rightarrow> nat \<Rightarrow> ('c, 'd) get_decoded" where
  "get_data_decoded L d 0 = (\<lambda>data address chain_id. act_raise RecursionError)"
| "get_data_decoded L d (Suc depth) = get_data_decoded_rec L (get_data_decoded L d depth) d"

definition decode_transaction_with_types ::
    "('c, 'd) lib \<Rightarrow> db \<Rightarrow> nat \<Rightarrow> pyval \<Rightarrow> pyval option \<Rightarrow> int option \<Rightarrow>
     (('c, 'd) decoder, json \<times> parameter_decoded list) act" where
  "decode_transaction_with_types L d depth =
     decode_transaction_with_types_rec L (get_data_decoded L d depth) d"

definition decode_transaction ::
    "('c, 'd) lib \<Rightarrow> db \<Rightarrow> nat \<Rightarrow> pyval \<Rightarrow> pyval option \<Rightarrow> int option \<Rightarrow>
     (('c, 'd) decoder, json \<times> (string, pyval) dict) act" where
  "decode_transaction L d depth data address chain_id =
     act_bind (decode_transaction_with_types L d depth data address chain_id) (\<lambda>(fn_name, ps).
       act_return (fn_name, foldl (\<lambda>acc p. AList.update (pd_name p) (pd_value p) acc) [] ps))"

section \<open>Accuracy\<close>

definition get_decoding_accuracy ::
    "('c, 'd) lib \<Rightarrow> db \<Rightarrow> pyval \<Rightarrow> pyval option \<Rightarrow> int option \<Rightarrow> (('c, 'd) decoder, decoding_accuracy) act" where
  "get_decoding_accuracy L d data address chain_id =
     act_bind (act_lift (HexBytes L data)) (\<lambda>data.
     act_bind act_get (\<lambda>s.
       let selector = take 4 data in
       if selector \<notin> dict_keys (fn_selectors_with_abis s) then act_return NO_MATCH
       else case address of
         None \<Rightarrow> act_return ONLY_FUNCTION_MATCH
       | Some a \<Rightarrow>
           act_bind (if chain_id \<noteq> None then get_contract_abi L d a chain_id else act_return None) (\<lambda>abi.
             if (case abi of None \<Rightarrow> False | Some j \<Rightarrow> json_truthy j) then act_return FULL_MATCH
             else act_bind (get_contract_abi L d a None) (\<lambda>abi.
               if (case abi of None \<Rightarrow> False | Some j \<Rightarrow> json_truthy j) then act_return PARTIAL_MATCH
               else act_return ONLY_FUNCTION_MATCH))))"

section \<open>Adding ABIs to a running decoder\<close>

text \<open>One pass of the loop of \<open>add_abi\<close>: keep what is there, add what is new.\<close>

fun add_selectors :: "selectors \<Rightarrow> selectors \<times> bool \<Rightarrow> selectors \<times> bool" where
  "add_selectors [] acc = acc"
| "add_selectors ((selector, new_abi) # items) (fns, updated) =
     (if selector \<notin> dict_keys fns
      then add_selectors items (AList.update selector new_abi fns, True)
      else add_selectors items (fns, updated))"

definition add_abi :: "('c, 'd) lib \<Rightarrow> json \<Rightarrow> (('c, 'd) decoder, bool) act" where
  "add_abi L abi =
     act_bind (act_lift (generate_selectors_with_abis_from_abi L abi)) (\<lambda>items s.
       let (fns, updated) = add_selectors items (fn_selectors_with_abis s, False)
       in (Inr updated, s\<lparr>fn_selectors_with_abis := fns\<rparr>))"

fun load_abis :: "('c, 'd) lib \<Rightarrow> json list \<Rightarrow> nat \<Rightarrow> (('c, 'd) decoder, nat) act" where
  "load_abis L [] loaded_abis = act_return loaded_abis"
| "load_abis L (abi # abis) loaded_abis =
     act_bind (add_abi L abi) (\<lambda>updated.
       load_abis L abis (if updated then loaded_abis + 1 else loaded_abis))"

definition load_new_abis_locked :: "('c, 'd) lib \<Rightarrow> db \<Rightarrow> (('c, 'd) decoder, nat) act" where
  "load_new_abis_locked L d =
     act_bind act_get (\<lambda>s.
       let previous_last_abi_id = last_abi_id s in
       act_bind (act_modify (\<lambda>s. s\<lparr>last_abi_id := get_last_inserted_id d\<rparr>)) (\<lambda>_.
         case previous_last_abi_id of
           None \<Rightarrow> load_abis L (get_abis_sorted_by_relevance d) 0
         | Some previous \<Rightarrow>
             (case get_last_inserted_id d of
                Some newest \<Rightarrow>
                  if newest > previous then load_abis L (get_abis_with_id_greater_than previous d) 0
                  else act_return 0
              | None \<Rightarrow> act_return 0)))"

text \<open>
  The lock is taken with a timeout: when another request holds it, the attempt ends in
  \<open>TimeoutError\<close> and the method answers 0. It is released on every way out.
\<close>

definition load_new_abis :: "('c, 'd) lib \<Rightarrow> db \<Rightarrow> (('c, 'd) decoder, nat) act" where
  "load_new_abis L d s =
     (if lock_load_new_abis s then (Inr 0, s)
      else act_finally
        (act_catch (load_new_abis_locked L d) (\<lambda>e. e = TimeoutError) (\<lambda>e. act_return 0))
        (act_modify (\<lambda>s. s\<lparr>lock_load_new_abis := False\<rparr>))
        (s\<lparr>lock_load_new_abis := True\<rparr>))"

end
