(* ===== verification/Decoder_Selectors.thy ===== *)
theory Decoder_Selectors
  imports Decoder
begin

text \<open>
  What the selector tables of the decoder hold: within an ABI the last function of a
  selector wins, across the ABIs read at start-up the most relevant one, and an ABI added
  later never displaces what is there.
\<close>

section \<open>One ABI\<close>

definition abi_defines :: "('c, 'd) lib \<Rightarrow> json \<Rightarrow> bytes \<Rightarrow> json \<Rightarrow> bool" where
  "abi_defines L abi selector fn_abi \<longleftrightarrow>
     (\<exists>items. generate_selectors_with_abis_from_abi L abi = Inr items
        \<and> map_of items selector = Some fn_abi)"

definition abi_selectors :: "('c, 'd) lib \<Rightarrow> json \<Rightarrow> bytes set" where
  "abi_selectors L abi = {selector. \<exists>fn_abi. abi_defines L abi selector fn_abi}"

definition abi_loads :: "('c, 'd) lib \<Rightarrow> json \<Rightarrow> bool" where
  "abi_loads L abi \<longleftrightarrow> (\<exists>items. generate_selectors_with_abis_from_abi L abi = Inr items)"

lemma generate_selectors_map:
  "generate_selectors L fns acc = Inr items \<Longrightarrow>
   map_of items k = (case find (\<lambda>f. function_abi_to_4byte_selector L f = Inr k) (rev fns) of
      Some f \<Rightarrow> Some f | None \<Rightarrow> map_of acc k)"
proof (induction fns arbitrary: acc)
  case Nil
  then show ?case by simp
next
  case (Cons f fns)
  from Cons.prems obtain s where s: "function_abi_to_4byte_selector L f = Inr s"
    and g: "generate_selectors L fns (AList.update s f acc) = Inr items"
    by (auto simp: res_bind_Inr_iff)
  have app: "find P (xs @ [x]) = (case find P xs of Some y \<Rightarrow> Some y | None \<Rightarrow> if P x then Some x else None)"
    for P :: "json \<Rightarrow> bool" and xs x by (induction xs) auto
  show ?case
    using Cons.IH [OF g] s by (auto simp: app split: option.splits)
qed

lemma generate_selectors_distinct:
  "generate_selectors L fns acc = Inr items \<Longrightarrow> distinct (map fst acc) \<Longrightarrow> distinct (map fst items)"
  by (induction fns arbitrary: acc) (auto simp: res_bind_Inr_iff distinct_update)

lemma from_abi_Inr_iff:
  "generate_selectors_with_abis_from_abi L abi = Inr items \<longleftrightarrow>
   (\<exists>entries fns. json_iter abi = Inr entries \<and> res_filter is_function_abi entries = Inr fns
      \<and> generate_selectors L fns [] = Inr items)"
proof -
  have "(if fns = [] then Inr [] else generate_selectors L fns []) = generate_selectors L fns []" for fns
    by simp
  then show ?thesis by (simp add: generate_selectors_with_abis_from_abi_def res_bind_Inr_iff)
qed

lemma from_abi_distinct:
  "generate_selectors_with_abis_from_abi L abi = Inr items \<Longrightarrow> distinct (map fst items)"
  by (auto simp: from_abi_Inr_iff dest: generate_selectors_distinct)

lemma map_of_rev_distinct: "distinct (map fst d) \<Longrightarrow> map_of (rev d) = map_of d"
  by (rule map_of_eqI) (auto simp: distinct_map inj_on_def)

lemma map_of_dict_update_items:
  assumes "generate_selectors_with_abis_from_abi L abi = Inr items"
  shows "map_of (dict_update d items) k = (case map_of items k of Some v \<Rightarrow> Some v | None \<Rightarrow> map_of d k)"
  using from_abi_distinct [OF assms]
  by (simp add: map_of_dict_update map_of_rev_distinct map_add_def)

lemma abi_selectors_items:
  "generate_selectors_with_abis_from_abi L abi = Inr items \<Longrightarrow> abi_selectors L abi = dict_keys items"
  by (auto simp: abi_selectors_def abi_defines_def dict_keys_iff)

section \<open>Several ABIs, one after the other\<close>

lemma from_abis_ConsE:
  assumes "generate_selectors_with_abis_from_abis L (abi # abis) acc = Inr d"
  obtains items where "generate_selectors_with_abis_from_abi L abi = Inr items"
    "generate_selectors_with_abis_from_abis L abis (dict_update acc items) = Inr d"
  using assms by (auto simp: res_bind_Inr_iff)

lemma from_abis_loads:
  "generate_selectors_with_abis_from_abis L abis acc = Inr d \<Longrightarrow> abi \<in> set abis \<Longrightarrow> abi_loads L abi"
proof (induction abis arbitrary: acc)
  case (Cons a abis)
  from Cons.prems(1) obtain items where "generate_selectors_with_abis_from_abi L a = Inr items"
    "generate_selectors_with_abis_from_abis L abis (dict_update acc items) = Inr d"
    by (rule from_abis_ConsE)
  with Cons show ?case by (auto simp: abi_loads_def)
qed simp

text \<open>The last ABI that defines a selector provides its function.\<close>

lemma from_abis_last:
  "generate_selectors_with_abis_from_abis L abis acc = Inr d \<Longrightarrow>
   (map_of d k = map_of acc k \<and> (\<forall>abi\<in>set abis. k \<notin> abi_selectors L abi)) \<or>
   (\<exists>pre abi post f. abis = pre @ abi # post \<and> abi_defines L abi k f \<and> map_of d k = Some f
      \<and> (\<forall>abi\<in>set post. k \<notin> abi_selectors L abi))"
proof (induction abis arbitrary: acc)
  case Nil
  then show ?case by simp
next
  case (Cons a abis)
  from Cons.prems obtain items where i: "generate_selectors_with_abis_from_abi L a = Inr items"
    and g: "generate_selectors_with_abis_from_abis L abis (dict_update acc items) = Inr d"
    by (rule from_abis_ConsE)
  from Cons.IH [OF g] show ?case
  proof
    assume h: "map_of d k = map_of (dict_update acc items) k \<and> (\<forall>abi\<in>set abis. k \<notin> abi_selectors L abi)"
    show ?thesis
    proof (cases "map_of items k")
      case None
      with h i show ?thesis
        by (auto simp: map_of_dict_update_items [OF i] abi_selectors_items [OF i] dict_keys_iff)
    next
      case (Some f)
      with i have "abi_defines L a k f" by (auto simp: abi_defines_def)
      moreover have "map_of d k = Some f" using h Some by (simp add: map_of_dict_update_items [OF i])
      ultimately show ?thesis using h by (metis append_Nil)
    qed
  next
    assume "\<exists>pre abi post f. abis = pre @ abi # post \<and> abi_defines L abi k f \<and> map_of d k = Some f
      \<and> (\<forall>abi\<in>set post. k \<notin> abi_selectors L abi)"
    then show ?thesis by (metis append_Cons)
  qed
qed

lemma from_abis_keys:
  "generate_selectors_with_abis_from_abis L abis acc = Inr d \<Longrightarrow>
   dict_keys d = dict_keys acc \<union> (\<Union>abi\<in>set abis. abi_selectors L abi)"
proof (induction abis arbitrary: acc)
  case Nil
  then show ?case by simp
next
  case (Cons a abis)
  from Cons.prems obtain items where i: "generate_selectors_with_abis_from_abi L a = Inr items"
    and g: "generate_selectors_with_abis_from_abis L abis (dict_update acc items) = Inr d"
    by (rule from_abis_ConsE)
  from Cons.IH [OF g] show ?case by (auto simp: abi_selectors_items [OF i])
qed

section \<open>Sorted rows\<close>

lemma sort_key_split_le:
  assumes "sort_key k rows = pre @ r # post"
  shows "r \<in> set rows" and "\<And>r'. r' \<in> set post \<Longrightarrow> k r \<le> k r'"
    and "\<And>r'. r' \<in> set pre \<Longrightarrow> k r' \<le> k r" and "set rows = set pre \<union> {r} \<union> set post"
proof -
  have s: "sorted (map k (pre @ r # post))" using sorted_sort_key [of k rows] assms by simp
  have "set (sort_key k rows) = set (pre @ r # post)" using assms by simp
  then show e: "set rows = set pre \<union> {r} \<union> set post" by auto
  then show "r \<in> set rows" by auto
  show "\<And>r'. r' \<in> set post \<Longrightarrow> k r \<le> k r'" and "\<And>r'. r' \<in> set pre \<Longrightarrow> k r' \<le> k r"
    using s by (auto simp: sorted_append)
qed

lemma map_split:
  assumes "map f xs = pre @ y # post"
  obtains p x q where "xs = p @ x # q" "map f p = pre" "f x = y" "map f q = post"
  using assms by (auto simp: map_eq_append_conv map_eq_Cons_conv)

section \<open>The table built at start-up\<close>

text \<open>
  The specification: a selector's function comes from an ABI whose relevance is maximal
  among the ABIs that define the selector; a selector nobody defines is absent.
\<close>

definition most_relevant :: "('c, 'd) lib \<Rightarrow> db \<Rightarrow> selectors \<Rightarrow> bool" where
  "most_relevant L d fns \<longleftrightarrow> (\<forall>k.
     case map_of fns k of
       None \<Rightarrow> (\<forall>r\<in>set (db_abis d). k \<notin> abi_selectors L (a_json r))
     | Some f \<Rightarrow> (\<exists>r\<in>set (db_abis d). abi_defines L (a_json r) k f \<and>
          (\<forall>r'\<in>set (db_abis d). k \<in> abi_selectors L (a_json r') \<longrightarrow> a_relevance r' \<le> a_relevance r)))"

lemma most_relevantI:
  assumes "generate_selectors_with_abis_from_abis L (get_supported_abis d) [] = Inr fns"
  shows "most_relevant L d fns"
  unfolding most_relevant_def
proof
  fix k
  from from_abis_last [OF assms, of k]
  show "case map_of fns k of None \<Rightarrow> (\<forall>r\<in>set (db_abis d). k \<notin> abi_selectors L (a_json r))
     | Some f \<Rightarrow> (\<exists>r\<in>set (db_abis d). abi_defines L (a_json r) k f \<and>
          (\<forall>r'\<in>set (db_abis d). k \<in> abi_selectors L (a_json r') \<longrightarrow> a_relevance r' \<le> a_relevance r))"
  proof
    assume "map_of fns k = map_of [] k \<and> (\<forall>abi\<in>set (get_supported_abis d). k \<notin> abi_selectors L abi)"
    then show ?thesis by (simp add: get_supported_abis_def get_abis_sorted_by_relevance_def)
  next
    assume "\<exists>pre abi post f. get_supported_abis d = pre @ abi # post \<and> abi_defines L abi k f
      \<and> map_of fns k = Some f \<and> (\<forall>abi\<in>set post. k \<notin> abi_selectors L abi)"
    then obtain pre abi post f where e: "map a_json (sort_key a_relevance (db_abis d)) = pre @ abi # post"
      and f: "abi_defines L abi k f" "map_of fns k = Some f"
      and none: "\<forall>abi\<in>set post. k \<notin> abi_selectors L abi"
      by (auto simp: get_supported_abis_def get_abis_sorted_by_relevance_def)
    from e obtain p r q where s: "sort_key a_relevance (db_abis d) = p @ r # q" and r: "a_json r = abi"
      and q: "map a_json q = post" by (rule map_split)
    note le = sort_key_split_le [OF s]
    have "a_relevance r' \<le> a_relevance r"
      if "r' \<in> set (db_abis d)" and "k \<in> abi_selectors L (a_json r')" for r'
    proof -
      have "r' \<notin> set q" using that(2) none q by auto
      with that(1) le(4) have "r' \<in> set p \<or> r' = r" by auto
      then show ?thesis using le(3) by auto
    qed
    then show ?thesis using f r le(1) by auto
  qed
qed

lemma init_Inr:
  assumes "init L d s = (Inr (), s')"
  shows "generate_selectors_with_abis_from_abis L (get_supported_abis d) [] = Inr (fn_selectors_with_abis s')"
    and "last_abi_id s' = get_last_inserted_id d" and "\<not> lock_load_new_abis s'"
    and "generate_selectors_with_abis_from_abis L (get_multisend_abis L) []
         = Inr (multisend_fn_selectors_with_abis s')"
    and "abi_cache s' = abi_cache s" and "sel_cache s' = sel_cache s"
  using assms by (auto simp: init_def act_bind_lift split: sum.splits)

section \<open>Adding an ABI to a running decoder\<close>

lemma add_selectors_map:
  "add_selectors items (fns, u) = (fns', u') \<Longrightarrow> distinct (map fst items) \<Longrightarrow>
   map_of fns' k = (case map_of fns k of Some f \<Rightarrow> Some f | None \<Rightarrow> map_of items k)"
proof (induction items arbitrary: fns u)
  case Nil
  then show ?case by (auto split: option.splits)
next
  case (Cons it items)
  obtain s f where it: "it = (s, f)" by (cases it)
  show ?case
  proof (cases "s \<in> dict_keys fns")
    case True
    with Cons.prems it have "add_selectors items (fns, u) = (fns', u')" by simp
    with Cons.IH [of fns u] Cons.prems(2) True it show ?thesis
      by (auto simp: dict_keys_iff split: option.splits)
  next
    case False
    with Cons.prems it have g: "add_selectors items (AList.update s f fns, True) = (fns', u')" by simp
    have "map_of items s = None" using Cons.prems(2) it by (auto simp: map_of_eq_None_iff)
    with Cons.IH [OF g] Cons.prems(2) False it show ?thesis
      by (auto simp: dict_keys_iff split: option.splits)
  qed
qed

lemma add_selectors_updated:
  "add_selectors items (fns, u) = (fns', u') \<Longrightarrow> u' \<longleftrightarrow> u \<or> \<not> dict_keys items \<subseteq> dict_keys fns"
proof (induction items arbitrary: fns u)
  case Nil
  then show ?case by auto
next
  case (Cons it items)
  obtain s f where it: "it = (s, f)" by (cases it)
  show ?case
  proof (cases "s \<in> dict_keys fns")
    case True
    with Cons it show ?thesis by auto
  next
    case False
    with Cons.prems it have "add_selectors items (AList.update s f fns, True) = (fns', u')" by simp
    from Cons.IH [OF this] False it show ?thesis by auto
  qed
qed

lemma add_abi_Inr:
  assumes "add_abi L abi s = (Inr b, s')"
  obtains items where "generate_selectors_with_abis_from_abi L abi = Inr items"
    "\<forall>k. map_of (fn_selectors_with_abis s') k =
       (case map_of (fn_selectors_with_abis s) k of Some f \<Rightarrow> Some f | None \<Rightarrow> map_of items k)"
    "b \<longleftrightarrow> \<not> dict_keys items \<subseteq> dict_keys (fn_selectors_with_abis s)"
    "s' = s\<lparr>fn_selectors_with_abis := fn_selectors_with_abis s'\<rparr>"
proof -
  from assms obtain items where i: "generate_selectors_with_abis_from_abi L abi = Inr items"
    by (auto simp: add_abi_def act_bind_lift split: sum.splits)
  obtain fns u where a: "add_selectors items (fn_selectors_with_abis s, False) = (fns, u)" by fastforce
  have s': "s' = s\<lparr>fn_selectors_with_abis := fns\<rparr>" and b: "b = u"
    using assms i a by (auto simp: add_abi_def)
  show ?thesis
  proof (rule that [OF i])
    show "\<forall>k. map_of (fn_selectors_with_abis s') k =
        (case map_of (fn_selectors_with_abis s) k of Some f \<Rightarrow> Some f | None \<Rightarrow> map_of items k)"
      using add_selectors_map [OF a from_abi_distinct [OF i]] s' by simp
    show "b \<longleftrightarrow> \<not> dict_keys items \<subseteq> dict_keys (fn_selectors_with_abis s)"
      using add_selectors_updated [OF a] b by simp
    show "s' = s\<lparr>fn_selectors_with_abis := fn_selectors_with_abis s'\<rparr>" using s' by simp
  qed
qed

lemma add_abi_Inl: "add_abi L abi s = (Inl e, s') \<Longrightarrow> s' = s \<and> \<not> abi_loads L abi"
  by (auto simp: add_abi_def act_bind_lift abi_loads_def split: sum.splits prod.splits)

end
