(* ===== verification/Models_Inv.thy ===== *)
theory Models_Inv
  imports Models
begin

text \<open>
  The integrity of the database and its preservation: identities are unique, positive and
  below the sequence, the unique constraints and foreign keys hold, and no ABI is null.
  Every operation of the theory \<open>Models\<close> keeps it, whether it succeeds or raises. The
  \<open>get_or_create\<close> operations of the three tables share one contract, the locale
  \<open>find_or_create\<close>; the two that rely on a unique constraint get it from \<open>unique_insert\<close>.
\<close>

section \<open>Generic facts about lookups in tables\<close>

lemma find_append_Some: "find P xs = Some x \<Longrightarrow> find P (xs @ ys) = Some x"
  by (induction xs) auto

lemma find_append_None: "find P xs = None \<Longrightarrow> find P (xs @ ys) = find P ys"
  by (induction xs) (auto split: if_splits)

lemma find_Some_in: "find P xs = Some x \<Longrightarrow> x \<in> set xs \<and> P x"
  by (induction xs) (auto split: if_splits)

lemma find_None_not: "find P xs = None \<longleftrightarrow> (\<forall>x\<in>set xs. \<not> P x)"
  by (induction xs) auto

lemma find_unique:
  assumes "x \<in> set xs" and "P x" and u: "\<And>y. y \<in> set xs \<Longrightarrow> P y \<Longrightarrow> y = x"
  shows "find P xs = Some x"
proof (cases "find P xs")
  case None
  with assms(1,2) show ?thesis by (auto simp: find_None_not)
next
  case (Some y)
  then show ?thesis using u [of y] by (auto dest: find_Some_in)
qed

lemma find_cong_map:
  "(\<And>x. x \<in> set xs \<Longrightarrow> P (f x) = Q x) \<Longrightarrow> find P (map f xs) = map_option f (find Q xs)"
  by (induction xs) auto

section \<open>The integrity invariant\<close>

definition sources_ok :: "db \<Rightarrow> bool" where
  "sources_ok d \<longleftrightarrow> distinct (map s_id (db_sources d)) \<and> 0 < db_source_seq d \<and>
     (\<forall>r\<in>set (db_sources d). 0 < s_id r \<and> s_id r < db_source_seq d)"

definition abis_ok :: "(json \<Rightarrow> bytes) \<Rightarrow> db \<Rightarrow> bool" where
  "abis_ok h d \<longleftrightarrow> distinct (map a_id (db_abis d)) \<and> 0 < db_abi_seq d \<and>
     distinct (map (h \<circ> a_json) (db_abis d)) \<and>
     (\<forall>r\<in>set (db_abis d). 0 < a_id r \<and> a_id r < db_abi_seq d \<and> a_json r \<noteq> JNull \<and>
        a_source_id r \<in> s_id ` set (db_sources d))"

definition contracts_ok :: "db \<Rightarrow> bool" where
  "contracts_ok d \<longleftrightarrow> distinct (map c_id (db_contracts d)) \<and> 0 < db_contract_seq d \<and>
     distinct (map (\<lambda>c. (c_address c, c_chain_id c)) (db_contracts d)) \<and>
     (\<forall>c\<in>set (db_contracts d). 0 < c_id c \<and> c_id c < db_contract_seq d \<and> foreign_keys_ok d c)"

definition db_ok :: "(json \<Rightarrow> bytes) \<Rightarrow> db \<Rightarrow> bool" where
  "db_ok h d \<longleftrightarrow> sources_ok d \<and> abis_ok h d \<and> contracts_ok d"

lemmas db_ok_defs = db_ok_def sources_ok_def abis_ok_def contracts_ok_def

lemma db_ok_empty: "db_ok h empty_db"
  by (simp add: db_ok_defs empty_db_def)

lemma db_okD [dest]:
  "db_ok h d \<Longrightarrow> sources_ok d" "db_ok h d \<Longrightarrow> abis_ok h d" "db_ok h d \<Longrightarrow> contracts_ok d"
  by (simp_all add: db_ok_def)

subsection \<open>Frames: which tables an operation can change\<close>

lemma foreign_keys_frame:
  "db_abis d' = db_abis d \<Longrightarrow> db_projects d' = db_projects d \<Longrightarrow>
   foreign_keys_ok d' c = foreign_keys_ok d c"
  by (simp add: foreign_keys_ok_def split: option.splits)

lemma foreign_keys_upd [simp]:
  "foreign_keys_ok (d\<lparr>db_sources := ss\<rparr>) c = foreign_keys_ok d c"
  "foreign_keys_ok (d\<lparr>db_contracts := cs\<rparr>) c = foreign_keys_ok d c"
  "foreign_keys_ok (d\<lparr>db_source_seq := n\<rparr>) c = foreign_keys_ok d c"
  "foreign_keys_ok (d\<lparr>db_abi_seq := n\<rparr>) c = foreign_keys_ok d c"
  "foreign_keys_ok (d\<lparr>db_contract_seq := n\<rparr>) c = foreign_keys_ok d c"
  by (rule foreign_keys_frame; simp)+

lemma foreign_keys_mono:
  "foreign_keys_ok d c \<Longrightarrow> set (db_abis d) \<subseteq> set (db_abis d') \<Longrightarrow> db_projects d' = db_projects d \<Longrightarrow>
   foreign_keys_ok d' c"
  by (auto simp: foreign_keys_ok_def split: option.splits)

section \<open>Insertions\<close>

lemma source_create_ok:
  assumes "db_ok h d"
  shows "db_ok h (snd (source_create name url d))"
  using assms by (fastforce simp: source_create_def db_ok_defs Let_def)

lemma abi_create_cases:
  obtains (bad) "abi_create h j src rel d = (Inl IntegrityError, d\<lparr>db_abi_seq := db_abi_seq d + 1\<rparr>)"
  | (good) row where "abi_create h j src rel d =
        (Inr row, d\<lparr>db_abi_seq := db_abi_seq d + 1, db_abis := db_abis d @ [row]\<rparr>)"
      "a_id row = db_abi_seq d" "a_json row = j" "src = Some (a_source_id row)"
      "rel = Some (a_relevance row)" "j \<noteq> JNull" "a_source_id row \<in> s_id ` set (db_sources d)"
      "h j \<notin> (h \<circ> a_json) ` set (db_abis d)" "get_abi_by_hash h (h j) d = None"
proof (cases "\<exists>sid r. src = Some sid \<and> rel = Some r \<and> j \<noteq> JNull \<and> sid \<in> s_id ` set (db_sources d)
                \<and> h j \<notin> (h \<circ> a_json) ` set (db_abis d)")
  case True
  then obtain sid r where "src = Some sid" "rel = Some r" "j \<noteq> JNull"
    "sid \<in> s_id ` set (db_sources d)" and n: "h j \<notin> (h \<circ> a_json) ` set (db_abis d)" by blast
  moreover have "get_abi_by_hash h (h j) d = None"
    using n by (force simp: get_abi_by_hash_def find_None_not)
  ultimately show ?thesis
    by (intro good [of "\<lparr>a_id = db_abi_seq d, a_relevance = r, a_json = j, a_source_id = sid,
          a_created = db_now d, a_modified = db_now d\<rparr>"]) (simp_all add: abi_create_def Let_def)
next
  case False
  then show ?thesis by (intro bad) (auto simp: abi_create_def Let_def split: option.splits)
qed

lemma abi_create_ok:
  assumes "db_ok h d"
  shows "db_ok h (snd (abi_create h j src rel d))"
proof (cases rule: abi_create_cases [of h j src rel d])
  case bad
  then show ?thesis using assms by (simp add: db_ok_defs) (fastforce simp: less_imp_le)
next
  case (good row)
  let ?d = "d\<lparr>db_abi_seq := db_abi_seq d + 1, db_abis := db_abis d @ [row]\<rparr>"
  have "sources_ok ?d" using assms by (simp add: db_ok_defs)
  moreover have "abis_ok h ?d" using assms good by (fastforce simp: db_ok_defs)
  moreover have "contracts_ok ?d"
    using assms by (auto simp: db_ok_defs intro: foreign_keys_mono [of d])
  ultimately show ?thesis using good(1) by (simp add: db_ok_def)
qed

lemma contract_create_cases:
  obtains (bad) "contract_create c d = (Inl IntegrityError, d\<lparr>db_contract_seq := db_contract_seq d + 1\<rparr>)"
      "\<not> foreign_keys_ok d c \<or> get_contract (c_address c) (c_chain_id c) d \<noteq> None"
  | (good) row where "contract_create c d =
        (Inr row, d\<lparr>db_contract_seq := db_contract_seq d + 1, db_contracts := db_contracts d @ [row]\<rparr>)"
      "row = c\<lparr>c_id := db_contract_seq d, c_created := db_now d, c_modified := db_now d\<rparr>"
      "foreign_keys_ok d c" "get_contract (c_address c) (c_chain_id c) d = None"
proof -
  have iff: "(c_address c, c_chain_id c) \<in> (\<lambda>r. (c_address r, c_chain_id r)) ` set (db_contracts d)
      \<longleftrightarrow> get_contract (c_address c) (c_chain_id c) d \<noteq> None"
    by (simp add: get_contract_def find_None_not image_iff del: not_None_eq) metis
  show ?thesis
  proof (cases "\<not> foreign_keys_ok d c \<or> get_contract (c_address c) (c_chain_id c) d \<noteq> None")
    case True
    then show ?thesis by (intro bad) (auto simp: contract_create_def Let_def iff)
  next
    case False
    then show ?thesis by (intro good) (auto simp: contract_create_def Let_def iff)
  qed
qed

lemma foreign_keys_ids [simp]:
  "foreign_keys_ok d (c\<lparr>c_id := i\<rparr>) = foreign_keys_ok d c"
  "foreign_keys_ok d (c\<lparr>c_created := t\<rparr>) = foreign_keys_ok d c"
  "foreign_keys_ok d (c\<lparr>c_modified := t\<rparr>) = foreign_keys_ok d c"
  "foreign_keys_ok d (c\<lparr>c_name := n\<rparr>) = foreign_keys_ok d c"
  "foreign_keys_ok d (c\<lparr>c_display_name := n\<rparr>) = foreign_keys_ok d c"
  "foreign_keys_ok d (c\<lparr>c_trusted_for_delegate_call := b\<rparr>) = foreign_keys_ok d c"
  "foreign_keys_ok d (c\<lparr>c_implementation := a\<rparr>) = foreign_keys_ok d c"
  "foreign_keys_ok d (c\<lparr>c_fetch_retries := f\<rparr>) = foreign_keys_ok d c"
  by (simp_all add: foreign_keys_ok_def)

lemma contract_create_ok:
  assumes "db_ok h d"
  shows "db_ok h (snd (contract_create c d))"
proof (cases rule: contract_create_cases [of c d])
  case bad
  then show ?thesis using assms by (simp add: db_ok_defs) (fastforce simp: less_imp_le)
next
  case (good row)
  let ?d = "d\<lparr>db_contract_seq := db_contract_seq d + 1, db_contracts := db_contracts d @ [row]\<rparr>"
  have "(c_address c, c_chain_id c) \<notin> (\<lambda>c. (c_address c, c_chain_id c)) ` set (db_contracts d)"
    using good(4) by (auto simp: get_contract_def find_None_not)
  then have "contracts_ok ?d"
    using assms good(2,3) by (fastforce simp: db_ok_defs)
  moreover have "sources_ok ?d" "abis_ok h ?d" using assms by (simp_all add: db_ok_defs)
  ultimately show ?thesis using good(1) by (simp add: db_ok_def)
qed

section \<open>Updates\<close>

lemma distinct_map_replace:
  assumes "distinct (map k xs)" and "\<And>x. x \<in> set xs \<Longrightarrow> k (f x) = k x"
  shows "distinct (map k (map f xs))"
proof -
  have "map k (map f xs) = map k xs" using assms(2) by simp
  then show ?thesis using assms(1) by (simp only:)
qed

lemma contract_update_cases:
  obtains (missing) "contract_update c d = (Inl OtherError, d)"
      "\<forall>r\<in>set (db_contracts d). c_id r \<noteq> c_id c"
  | (same) "contract_update c d = (Inr c, d)" "c \<in> set (db_contracts d)"
  | (clash) "contract_update c d = (Inl IntegrityError, d)"
      "\<not> foreign_keys_ok d c \<or> (\<exists>r\<in>set (db_contracts d). c_id r \<noteq> c_id c
         \<and> c_address r = c_address c \<and> c_chain_id r = c_chain_id c)"
  | (good) row where "contract_update c d = (Inr row, d\<lparr>db_contracts :=
        map (\<lambda>r. if c_id r = c_id c then row else r) (db_contracts d)\<rparr>)"
      "row = c\<lparr>c_modified := db_now d\<rparr>" "foreign_keys_ok d c"
      "\<forall>r\<in>set (db_contracts d). c_id r \<noteq> c_id c \<longrightarrow>
         (c_address r, c_chain_id r) \<noteq> (c_address c, c_chain_id c)"
proof (cases "find (\<lambda>r. c_id r = c_id c) (db_contracts d)")
  case None
  then have "\<forall>r\<in>set (db_contracts d). c_id r \<noteq> c_id c" by (simp add: find_None_not)
  with None show ?thesis by (intro missing) (simp_all add: contract_update_def)
next
  case (Some old)
  then have old: "old \<in> set (db_contracts d)" by (auto dest: find_Some_in)
  consider "c = old"
    | "c \<noteq> old" "\<not> foreign_keys_ok d c \<or> (\<exists>r\<in>set (db_contracts d). c_id r \<noteq> c_id c
         \<and> c_address r = c_address c \<and> c_chain_id r = c_chain_id c)"
    | "c \<noteq> old" "foreign_keys_ok d c" "\<forall>r\<in>set (db_contracts d). c_id r \<noteq> c_id c \<longrightarrow>
         (c_address r, c_chain_id r) \<noteq> (c_address c, c_chain_id c)"
    by auto
  then show ?thesis
  proof cases
    case 1
    with Some old show ?thesis by (intro same) (auto simp: contract_update_def)
  next
    case 2
    with Some show ?thesis by (intro clash) (auto simp: contract_update_def)
  next
    case 3
    with Some show ?thesis by (intro good) (auto simp: contract_update_def Let_def)
  qed
qed

lemma contract_update_ok:
  assumes ok: "db_ok h d"
  shows "db_ok h (snd (contract_update c d))"
proof (cases rule: contract_update_cases [of c d])
  case (good row)
  let ?f = "\<lambda>r. if c_id r = c_id c then row else r"
  let ?d = "d\<lparr>db_contracts := map ?f (db_contracts d)\<rparr>"
  let ?k = "\<lambda>c. (c_address c, c_chain_id c)"
  have ids: "c_id (?f r) = c_id r" for r using good(2) by simp
  have "distinct (map c_id (map ?f (db_contracts d)))"
    using ok by (intro distinct_map_replace) (auto simp: db_ok_defs good(2))
  moreover have "distinct (map ?k (map ?f (db_contracts d)))"
  proof -
    have inj: "inj_on c_id (set (db_contracts d))" and dk: "inj_on ?k (set (db_contracts d))"
      and d0: "distinct (db_contracts d)"
      using ok by (auto simp: db_ok_defs distinct_map)
    have "inj_on (?k \<circ> ?f) (set (db_contracts d))"
    proof (rule inj_onI)
      fix x y assume x: "x \<in> set (db_contracts d)" and y: "y \<in> set (db_contracts d)"
        and e: "(?k \<circ> ?f) x = (?k \<circ> ?f) y"
      show "x = y"
        using x y e good(2,4) inj_onD [OF inj, of x y] inj_onD [OF dk, of x y]
        by (auto split: if_splits)
    qed
    with d0 show ?thesis by (simp add: distinct_map)
  qed
  moreover have "\<forall>c'\<in>set (map ?f (db_contracts d)). 0 < c_id c' \<and> c_id c' < db_contract_seq d
      \<and> foreign_keys_ok ?d c'"
    using ok good(2,3) by (auto simp: db_ok_defs)
  ultimately have "contracts_ok ?d" using ok by (auto simp: db_ok_defs)
  moreover have "sources_ok ?d" "abis_ok h ?d" using ok by (simp_all add: db_ok_defs)
  ultimately show ?thesis using good(1) by (simp add: db_ok_def)
qed (simp_all add: ok)

lemma update_contract_info_ok:
  assumes "db_ok h d"
  shows "db_ok h (snd (update_contract_info address name display_name trusted d))"
proof -
  let ?f = "\<lambda>c. if c_address c = address
            then c\<lparr>c_name := Some name, c_display_name := Some display_name,
                   c_trusted_for_delegate_call := trusted, c_modified := db_now d\<rparr> else c"
  have k: "map c_id (map ?f xs) = map c_id xs"
    "map (\<lambda>c. (c_address c, c_chain_id c)) (map ?f xs) = map (\<lambda>c. (c_address c, c_chain_id c)) xs" for xs
    by simp_all
  show ?thesis
    using assms
    by (auto simp: update_contract_info_def db_ok_defs k simp del: map_map)
qed

end
