(* ===== verification/Upsert.thy ===== *)
theory Upsert
  imports Models_Inv
begin

text \<open>
  The contract of the \<open>get_or_create\<close> class methods, and what every caller may conclude
  from it. \<open>find_or_create\<close> states the laws; \<open>unique_insert\<close> derives them for the
  operations that insert first and fall back to a lookup when a unique constraint
  refuses the row. The three tables interpret them at the end.
\<close>

section \<open>The contract\<close>

locale find_or_create =
  fixes key :: "'a \<Rightarrow> 'k"
    and lookup :: "'k \<Rightarrow> 's \<Rightarrow> 'r option"
    and goc :: "'a \<Rightarrow> ('s, 'r \<times> bool) act"
    and inv :: "'s \<Rightarrow> bool"
  assumes goc_found: "inv s \<Longrightarrow> goc a s = (Inr (r, b), s') \<Longrightarrow>
      lookup (key a) s' = Some r \<and> (b \<longleftrightarrow> lookup (key a) s = None)"
    and goc_keeps: "inv s \<Longrightarrow> lookup k s = Some r \<Longrightarrow> lookup k (snd (goc a s)) = Some r"
    and goc_other: "inv s \<Longrightarrow> lookup k s = None \<Longrightarrow> k \<noteq> key a \<Longrightarrow> lookup k (snd (goc a s)) = None"
    and goc_existing: "inv s \<Longrightarrow> lookup (key a) s = Some r \<Longrightarrow> fst (goc a s) = Inr (r, False)"
    and goc_inv: "inv s \<Longrightarrow> inv (snd (goc a s))"
begin

text \<open>A second call with the same key returns the same row and creates nothing.\<close>

lemma goc_again:
  assumes "inv s" and "goc a s = (Inr (r, b), s')" and "key a' = key a"
  shows "fst (goc a' s') = Inr (r, False)"
proof (rule goc_existing)
  show "inv s'" using goc_inv [OF assms(1), of a] assms(2) by simp
  show "lookup (key a') s' = Some r" using goc_found [OF assms(1,2)] assms(3) by simp
qed

lemma goc_map_inv: "inv s \<Longrightarrow> inv (snd (act_map goc as s))"
proof (induction as arbitrary: s)
  case Nil
  then show ?case by simp
next
  case (Cons a as)
  obtain x s1 where g: "goc a s = (x, s1)" by fastforce
  then have i: "inv s1" using goc_inv [OF Cons.prems, of a] by simp
  from Cons.IH [OF i] i show ?case
    by (cases x) (auto simp: act_bind_def g split: prod.splits sum.splits)
qed

lemma goc_map_keeps: "inv s \<Longrightarrow> lookup k s = Some r \<Longrightarrow> lookup k (snd (act_map goc as s)) = Some r"
proof (induction as arbitrary: s)
  case Nil
  then show ?case by simp
next
  case (Cons a as)
  obtain x s1 where g: "goc a s = (x, s1)" by fastforce
  then have i: "inv s1" and l: "lookup k s1 = Some r"
    using goc_inv [OF Cons.prems(1), of a] goc_keeps [OF Cons.prems, of a] by simp_all
  from Cons.IH [OF i l] l show ?case
    by (cases x) (auto simp: act_bind_def g split: prod.splits sum.splits)
qed

lemma goc_map_ConsE:
  assumes "act_map goc (a # as) s = (Inr rs, s')"
  obtains r b s1 rs1 where "goc a s = (Inr (r, b), s1)" "act_map goc as s1 = (Inr rs1, s')"
    "rs = (r, b) # rs1"
  using assms by (auto simp: act_bind_def split: prod.splits sum.splits)

lemma goc_keys:
  assumes "inv s" and "goc a s = (Inr (r, b), s')"
  shows "{k. lookup k s' \<noteq> None} = insert (key a) {k. lookup k s \<noteq> None}"
proof (intro set_eqI iffI)
  fix k assume "k \<in> {k. lookup k s' \<noteq> None}"
  then show "k \<in> insert (key a) {k. lookup k s \<noteq> None}"
    using goc_other [OF assms(1), of k a] assms(2) by (cases "k = key a"; cases "lookup k s") auto
next
  fix k assume "k \<in> insert (key a) {k. lookup k s \<noteq> None}"
  then show "k \<in> {k. lookup k s' \<noteq> None}"
    using goc_found [OF assms] goc_keeps [OF assms(1), of k _ a] assms(2) by auto
qed

lemma goc_map_keys:
  "inv s \<Longrightarrow> act_map goc as s = (Inr rs, s') \<Longrightarrow>
   {k. lookup k s' \<noteq> None} = key ` set as \<union> {k. lookup k s \<noteq> None}"
proof (induction as arbitrary: s rs)
  case Nil
  then show ?case by simp
next
  case (Cons a as)
  from Cons.prems(2) obtain r b s1 rs1 where g: "goc a s = (Inr (r, b), s1)"
    and m: "act_map goc as s1 = (Inr rs1, s')" by (rule goc_map_ConsE)
  have "inv s1" using goc_inv [OF Cons.prems(1), of a] g by simp
  from Cons.IH [OF this m] goc_keys [OF Cons.prems(1) g] show ?case by auto
qed

text \<open>Over a list of arguments, as many rows are created as there are keys that were absent.\<close>

lemma goc_map_count:
  "inv s \<Longrightarrow> act_map goc as s = (Inr rs, s') \<Longrightarrow>
   length (filter snd rs) = card (key ` set as - {k. lookup k s \<noteq> None})"
proof (induction as arbitrary: s rs)
  case Nil
  then show ?case by simp
next
  case (Cons a as)
  from Cons.prems(2) obtain r b s1 rs1 where g: "goc a s = (Inr (r, b), s1)"
    and m: "act_map goc as s1 = (Inr rs1, s')" and rs: "rs = (r, b) # rs1" by (rule goc_map_ConsE)
  let ?F = "{k. lookup k s \<noteq> None}" and ?K = "key ` set as"
  have "inv s1" using goc_inv [OF Cons.prems(1), of a] g by simp
  from Cons.IH [OF this m] have ih: "length (filter snd rs1) = card (?K - insert (key a) ?F)"
    by (simp only: goc_keys [OF Cons.prems(1) g])
  have b: "b \<longleftrightarrow> key a \<notin> ?F" using goc_found [OF Cons.prems(1) g] by simp
  show ?case
  proof (cases b)
    case True
    with b have "key ` set (a # as) - ?F = insert (key a) (?K - insert (key a) ?F)" by auto
    then have "card (key ` set (a # as) - ?F) = Suc (card (?K - insert (key a) ?F))"
      by (simp add: card_insert_disjoint)
    with ih rs True show ?thesis by simp
  next
    case False
    with b have "key ` set (a # as) - ?F = ?K - insert (key a) ?F" by auto
    with ih rs False show ?thesis by simp
  qed
qed

end

section \<open>Insert first, look up on a violated constraint\<close>

locale unique_insert =
  fixes key :: "'a \<Rightarrow> 'k"
    and lookup :: "'k \<Rightarrow> 's \<Rightarrow> 'r option"
    and insert_row :: "'a \<Rightarrow> ('s, 'r) act"
    and goc :: "'a \<Rightarrow> ('s, 'r \<times> bool) act"
    and inv :: "'s \<Rightarrow> bool"
  assumes ins_ok: "inv s \<Longrightarrow> insert_row a s = (Inr r, s') \<Longrightarrow>
      lookup (key a) s = None \<and> lookup (key a) s' = Some r"
    and ins_keeps: "inv s \<Longrightarrow> lookup k s = Some r \<Longrightarrow> lookup k (snd (insert_row a s)) = Some r"
    and ins_other: "inv s \<Longrightarrow> k \<noteq> key a \<Longrightarrow> lookup k (snd (insert_row a s)) = lookup k s"
    and ins_err: "inv s \<Longrightarrow> insert_row a s = (Inl e, s') \<Longrightarrow>
      e = IntegrityError \<and> lookup k s' = lookup k s"
    and ins_inv: "inv s \<Longrightarrow> inv (snd (insert_row a s))"
    and goc_eq: "goc a = act_catch
      (act_bind (insert_row a) (\<lambda>r. act_return (r, True)))
      (\<lambda>e. e = IntegrityError)
      (\<lambda>e. act_bind act_get (\<lambda>s.
         case lookup (key a) s of None \<Rightarrow> act_raise e | Some r \<Rightarrow> act_return (r, False)))"
begin

lemma goc_insert: "insert_row a s = (Inr r, s') \<Longrightarrow> goc a s = (Inr (r, True), s')"
  by (simp add: goc_eq act_catch_def act_bind_def)

lemma goc_refused:
  "inv s \<Longrightarrow> insert_row a s = (Inl e, s') \<Longrightarrow>
   goc a s = ((case lookup (key a) s of None \<Rightarrow> Inl IntegrityError | Some r \<Rightarrow> Inr (r, False)), s')"
  using ins_err [of s a e s' "key a"]
  by (auto simp: goc_eq act_catch_def act_bind_def split: option.splits)

lemma goc_state: "inv s \<Longrightarrow> snd (goc a s) = snd (insert_row a s)"
  by (cases "insert_row a s"; cases "fst (insert_row a s)") (auto simp: goc_insert goc_refused)

lemma goc_result:
  assumes "inv s" and "goc a s = (Inr (r, b), s')"
  shows "lookup (key a) s' = Some r \<and> (b \<longleftrightarrow> lookup (key a) s = None)"
proof (cases "fst (insert_row a s)")
  case (Inl e)
  then have i: "insert_row a s = (Inl e, snd (insert_row a s))" by (simp add: prod_eq_iff)
  from goc_refused [OF assms(1) i] ins_err [OF assms(1) i, of "key a"] assms(2)
  show ?thesis by (auto split: option.splits)
next
  case (Inr x)
  then have i: "insert_row a s = (Inr x, snd (insert_row a s))" by (simp add: prod_eq_iff)
  from goc_insert [OF i] ins_ok [OF assms(1) i] assms(2) show ?thesis by simp
qed

lemma goc_present:
  assumes "inv s" and "lookup (key a) s = Some r"
  shows "fst (goc a s) = Inr (r, False)"
proof (cases "fst (insert_row a s)")
  case (Inl e)
  then have "insert_row a s = (Inl e, snd (insert_row a s))" by (simp add: prod_eq_iff)
  from goc_refused [OF assms(1) this] assms(2) show ?thesis by simp
next
  case (Inr x)
  then have "insert_row a s = (Inr x, snd (insert_row a s))" by (simp add: prod_eq_iff)
  from ins_ok [OF assms(1) this] assms(2) show ?thesis by simp
qed

end

sublocale unique_insert \<subseteq> find_or_create
  by unfold_locales
    (simp_all add: goc_result goc_present goc_state ins_keeps ins_other ins_inv)

section \<open>The three tables\<close>

interpretation source_upsert: find_or_create
  "\<lambda>k. k" source_find source_get_or_create "db_ok h"
proof unfold_locales
  fix d a r b d' assume "source_get_or_create a d = (Inr (r, b), d')"
  then show "source_find a d' = Some r \<and> (b \<longleftrightarrow> source_find a d = None)"
    by (cases a) (auto simp: source_get_or_create_def source_create_def source_find_def Let_def act_bind_def
      find_append_None split: option.splits)
next
  fix d k r a assume "source_find k d = Some r"
  then show "source_find k (snd (source_get_or_create a d)) = Some r"
    by (auto simp: source_get_or_create_def source_create_def source_find_def Let_def act_bind_def
      find_append_Some split: option.splits)
next
  fix d and k a :: "string \<times> string" assume "source_find k d = None" and "k \<noteq> a"
  then show "source_find k (snd (source_get_or_create a d)) = None"
    by (cases k; cases a) (auto simp: source_get_or_create_def source_create_def source_find_def Let_def
      act_bind_def find_append_None split: option.splits)
next
  fix d a r assume "source_find a d = Some r"
  then show "fst (source_get_or_create a d) = Inr (r, False)"
    by (simp add: source_get_or_create_def)
next
  fix d a assume "db_ok h d"
  then show "db_ok h (snd (source_get_or_create a d))"
    using source_create_ok [of h d "fst a" "snd a"]
    by (auto simp: source_get_or_create_def act_bind_def split: option.splits prod.splits sum.splits)
qed

text \<open>The arguments of \<open>get_or_create_abi\<close> and of \<open>Contract.get_or_create\<close> as tuples.\<close>

definition abi_goc :: "(json \<Rightarrow> bytes) \<Rightarrow> json \<times> int option \<times> int option \<Rightarrow> (db, abi_row \<times> bool) act" where
  "abi_goc h = (\<lambda>(j, src, rel). get_or_create_abi h j src rel)"

definition contract_goc :: "bytes \<times> int \<times> contract_kwarg list \<Rightarrow> (db, contract \<times> bool) act" where
  "contract_goc = (\<lambda>(address, chain_id, kwargs). contract_get_or_create address chain_id kwargs)"

interpretation abi_upsert: unique_insert
  "\<lambda>(j, src, rel). h j" "get_abi_by_hash h" "\<lambda>(j, src, rel). abi_create h j src rel"
  "abi_goc h" "db_ok h"
proof (unfold_locales, goal_cases)
  case (1 d a r d')
  obtain j src rel where a: "a = (j, src, rel)" by (cases a)
  with 1 show ?case
    by (cases rule: abi_create_cases [of h j src rel d])
      (auto simp: get_abi_by_hash_def find_append_None)
next
  case (2 d k r a)
  obtain j src rel where a: "a = (j, src, rel)" by (cases a)
  with 2 show ?case
    by (cases rule: abi_create_cases [of h j src rel d])
      (auto simp: get_abi_by_hash_def find_append_Some)
next
  case (3 d k a)
  obtain j src rel where a: "a = (j, src, rel)" by (cases a)
  with 3 show ?case
    by (cases rule: abi_create_cases [of h j src rel d]; cases "get_abi_by_hash h k d")
      (auto simp: get_abi_by_hash_def find_append_Some find_append_None)
next
  case (4 d a e d' k)
  obtain j src rel where a: "a = (j, src, rel)" by (cases a)
  with 4 show ?case
    by (cases rule: abi_create_cases [of h j src rel d]) (auto simp: get_abi_by_hash_def)
next
  case (5 d a)
  then show ?case by (simp add: abi_create_ok split: prod.splits)
next
  case (6 a)
  then show ?case by (simp add: abi_goc_def get_or_create_abi_def get_abi_def split: prod.splits)
qed

lemma fold_kwargs_key [simp]:
  "c_address (fold set_kwarg kws c) = c_address c \<and> c_chain_id (fold set_kwarg kws c) = c_chain_id c"
proof (induction kws arbitrary: c)
  case (Cons kw kws)
  then show ?case by (cases kw) simp_all
qed simp

lemma new_contract_key [simp]:
  "c_address (new_contract a i) = a" "c_chain_id (new_contract a i) = i"
  by (simp_all add: new_contract_def)

interpretation contract_upsert: unique_insert
  "\<lambda>(address, chain_id, kwargs). (address, chain_id)" "\<lambda>(address, chain_id). get_contract address chain_id"
  "\<lambda>(address, chain_id, kwargs). contract_create (fold set_kwarg kwargs (new_contract address chain_id))"
  contract_goc "db_ok h"
proof (unfold_locales, goal_cases)
  case (1 d a r d')
  obtain ad i kw where a: "a = (ad, i, kw)" by (cases a)
  with 1 show ?case
    by (cases rule: contract_create_cases [of "fold set_kwarg kw (new_contract ad i)" d])
      (auto simp: get_contract_def find_append_None)
next
  case (2 d k r a)
  obtain ad i kw where a: "a = (ad, i, kw)" by (cases a)
  with 2 show ?case
    by (cases k; cases rule: contract_create_cases [of "fold set_kwarg kw (new_contract ad i)" d])
      (auto simp: get_contract_def find_append_Some)
next
  case (3 d k a)
  obtain ad i kw where a: "a = (ad, i, kw)" by (cases a)
  with 3 show ?case
    by (cases k; cases rule: contract_create_cases [of "fold set_kwarg kw (new_contract ad i)" d];
        cases "get_contract (fst k) (snd k) d")
      (auto simp: get_contract_def find_append_Some find_append_None)
next
  case (4 d a e d' k)
  obtain ad i kw where a: "a = (ad, i, kw)" by (cases a)
  with 4 show ?case
    by (cases k; cases rule: contract_create_cases [of "fold set_kwarg kw (new_contract ad i)" d])
      (auto simp: get_contract_def)
next
  case (5 d a)
  then show ?case by (simp add: contract_create_ok split: prod.splits)
next
  case (6 a)
  then show ?case
    by (simp add: contract_goc_def contract_get_or_create_def Let_def split: prod.splits)
qed

end
