(* ===== verification/Decoder_Demo.thy ===== *)
theory Decoder_Demo
  imports Decoder
begin

text \<open>
  A concrete instance of the third-party interface, small enough to evaluate in the
  kernel. The witnesses of the properties run the decoder on it. Its wire format is one
  byte per number and a length byte before a byte string, a function's selector is the
  first four letters of its name, and its caches are association lists that never evict.
  It stands for no package of the program: it only shows that the hypotheses of the
  properties can hold together.
\<close>

definition demo_hex_value :: "char \<Rightarrow> nat option" where
  "demo_hex_value c = (let n = of_char c in
     if 48 \<le> n \<and> n \<le> 57 then Some (n - 48)
     else if 97 \<le> n \<and> n \<le> 102 then Some (n - 87)
     else None)"

fun demo_hex_bytes :: "string \<Rightarrow> bytes res" where
  "demo_hex_bytes [] = Inr []"
| "demo_hex_bytes [c] = Inl ValueError"
| "demo_hex_bytes (c # e # cs) =
     (case (demo_hex_value c, demo_hex_value e) of
        (Some x, Some y) \<Rightarrow> res_bind (demo_hex_bytes cs) (\<lambda>bs. Inr (of_nat (16 * x + y) # bs))
      | _ \<Rightarrow> Inl ValueError)"

fun demo_HexBytes :: "pyval \<Rightarrow> bytes res" where
  "demo_HexBytes (VBytes b) = Inr b"
| "demo_HexBytes (VStr s) = (if take 2 s = ''0x'' then demo_hex_bytes (drop 2 s) else Inl ValueError)"
| "demo_HexBytes _ = Inl TypeError"

definition demo_to_hex :: "bytes \<Rightarrow> string" where
  "demo_to_hex b = ''0x'' @ bytes_hex b"

definition demo_selector :: "json \<Rightarrow> bytes res" where
  "demo_selector fn_abi =
     res_bind (json_item fn_abi ''name'') (\<lambda>n. Inr (map (\<lambda>c. of_nat (of_char c)) (take 4 (json_str n))))"

definition demo_inputs :: "string \<Rightarrow> json \<Rightarrow> string list res" where
  "demo_inputs k fn_abi =
     res_bind (json_item fn_abi ''inputs'') (\<lambda>inputs.
     res_bind (json_iter inputs) (res_map (\<lambda>i. res_bind (json_item i k) (\<lambda>v. Inr (json_str v)))))"

fun demo_decode :: "string list \<Rightarrow> bytes \<Rightarrow> pyval list res" where
  "demo_decode [] bs = Inr []"
| "demo_decode (t # ts) [] = Inl DecodingError"
| "demo_decode (t # ts) (b # bs) =
     (if t = ''bytes'' then
        (if length bs < unat b then Inl DecodingError
         else res_bind (demo_decode ts (drop (unat b) bs)) (\<lambda>vs. Inr (VBytes (take (unat b) bs) # vs)))
      else if t = ''address'' then res_bind (demo_decode ts bs) (\<lambda>vs. Inr (VStr (demo_to_hex [b]) # vs))
      else if t = ''bool'' then res_bind (demo_decode ts bs) (\<lambda>vs. Inr (VBool (b \<noteq> 0) # vs))
      else res_bind (demo_decode ts bs) (\<lambda>vs. Inr (VInt (uint b) # vs)))"

fun demo_map_data ::
    "(string \<Rightarrow> pyval \<Rightarrow> (string \<times> pyval) option res) list \<Rightarrow> string list \<Rightarrow> pyval list \<Rightarrow> pyval list res" where
  "demo_map_data [] ts vs = Inr vs"
| "demo_map_data (n # ns) ts vs =
     res_bind (res_map (\<lambda>(t, v). res_bind (n t v) (\<lambda>r. Inr (case r of None \<Rightarrow> v | Some (_, w) \<Rightarrow> w))) (zip ts vs))
       (demo_map_data ns ts)"

fun demo_checksum :: "pyval \<Rightarrow> string res" where
  "demo_checksum (VStr s) = Inr s"
| "demo_checksum _ = Inl TypeError"

text \<open>Transactions of a multisend: target byte, length byte, data.\<close>

fun demo_txs :: "nat \<Rightarrow> bytes \<Rightarrow> multisend_tx list" where
  "demo_txs (Suc n) (t # k # bs) =
     (if length bs < unat k then []
      else \<lparr>tx_operation = 0, tx_to = demo_to_hex [t], tx_value = 0, tx_data = take (unat k) bs\<rparr>
           # demo_txs n (drop (unat k) bs))"
| "demo_txs _ _ = []"

fun demo_multisend :: "pyval \<Rightarrow> multisend_tx list res" where
  "demo_multisend (VBytes b) = Inr (demo_txs (length b) (drop 5 b))"
| "demo_multisend _ = Inl ValueError"

definition demo_fn :: "string \<Rightarrow> (string \<times> string) list \<Rightarrow> json" where
  "demo_fn name inputs = JObj [(''type'', JStr ''function''), (''name'', JStr name),
     (''inputs'', JList (map (\<lambda>(n, t). JObj [(''name'', JStr n), (''type'', JStr t)]) inputs))]"

definition demo_lib :: "((cache_key \<times> json option) list, (cache_key \<times> selectors option) list) lib" where
  "demo_lib = \<lparr>HexBytes = demo_HexBytes, to_0x_hex_str = demo_to_hex,
     function_abi_to_4byte_selector = demo_selector,
     get_abi_input_names = demo_inputs ''name'', get_abi_input_types = demo_inputs ''type'',
     decode_abi = demo_decode, map_abi_data = demo_map_data,
     fast_to_checksum_address = demo_checksum,
     multisend_from_transaction_data = demo_multisend,
     multi_send_contract_abi = JList [demo_fn ''multiSend'' [(''transactions'', ''bytes'')]],
     abi_cache_empty = [], abi_cache_get = (\<lambda>c k. (map_of c k, c)), abi_cache_put = (\<lambda>c k v. (k, v) # c),
     sel_cache_empty = [], sel_cache_get = (\<lambda>c k. (map_of c k, c)), sel_cache_put = (\<lambda>c k v. (k, v) # c)\<rparr>"

lemma demo_HexBytes_bytes [simp]: "HexBytes demo_lib (VBytes b) = Inr b"
  by (simp add: demo_lib_def)

text \<open>A database with two ABIs that share a selector, and one contract on chain 1.\<close>

definition demo_transfer :: json where
  "demo_transfer = demo_fn ''transfer'' [(''to'', ''address''), (''value'', ''uint8'')]"

definition demo_transit :: json where
  "demo_transit = demo_fn ''transit'' [(''flag'', ''bool''), (''amount'', ''uint8'')]"

definition demo_pause :: json where
  "demo_pause = demo_fn ''pause'' []"

definition demo_abi_row :: "int \<Rightarrow> int \<Rightarrow> json list \<Rightarrow> abi_row" where
  "demo_abi_row i rel entries = \<lparr>a_id = i, a_relevance = rel, a_json = JList entries, a_source_id = 1,
     a_created = 0, a_modified = 0\<rparr>"

definition demo_db :: db where
  "demo_db = empty_db\<lparr>db_sources := [\<lparr>s_id = 1, s_name = ''localstorage'', s_url = ''decoder-service''\<rparr>],
     db_source_seq := 2,
     db_abis := [demo_abi_row 1 100 [demo_transfer], demo_abi_row 2 50 [demo_transit, demo_pause]],
     db_abi_seq := 3,
     db_contracts := [(new_contract [0xaa] 1)\<lparr>c_id := 1, c_abi_id := Some 2\<rparr>],
     db_contract_seq := 2\<rparr>"

definition demo_hash :: "json \<Rightarrow> bytes" where
  "demo_hash j = (case j of JList es \<Rightarrow> concat (map (\<lambda>e. case demo_selector e of Inl _ \<Rightarrow> [0] | Inr s \<Rightarrow> s) es)
     | _ \<Rightarrow> [])"

definition demo_decoder ::
    "((cache_key \<times> json option) list, (cache_key \<times> selectors option) list) decoder" where
  "demo_decoder = snd (init demo_lib demo_db (new_decoder demo_lib))"

definition tran_selector :: bytes where
  "tran_selector = [116, 114, 97, 110]"

lemmas demo_defs = demo_lib_def demo_db_def demo_transfer_def demo_transit_def demo_pause_def
  demo_abi_row_def demo_fn_def


text \<open>
  A second database also has the MultiSend ABI and a function whose selector is that of
  \<open>execTransaction\<close> but whose third input is a boolean. The batch holds a transfer and a
  transaction without data.
\<close>

definition demo_exec :: json where
  "demo_exec = demo_fn (map char_of [0x6a, 0x76, 0x12, 0x02 :: nat])
     [(''a'', ''uint8''), (''b'', ''uint8''), (''c'', ''bool'')]"

definition demo_batch_db :: db where
  "demo_batch_db = demo_db\<lparr>db_abis := db_abis demo_db
     @ [demo_abi_row 3 10 [demo_fn ''multiSend'' [(''transactions'', ''bytes'')]], demo_abi_row 4 5 [demo_exec]],
     db_abi_seq := 5\<rparr>"

definition demo_batch_decoder ::
    "((cache_key \<times> json option) list, (cache_key \<times> selectors option) list) decoder" where
  "demo_batch_decoder = snd (init demo_lib demo_batch_db (new_decoder demo_lib))"

definition demo_batch :: bytes where
  "demo_batch = [109, 117, 108, 116, 10] @ [1, 6] @ tran_selector @ [9, 5] @ [2, 0]"

end
