(* ===== verification/Decoder_Service.thy ===== *)
theory Decoder_Service
  imports Decoder_Reload Decoder_Demo
begin

text \<open>
  The running service as a transition system over the database and the decoder: ABIs are
  inserted, other tables change, requests decode data, requests reload, a worker starts.
  In every reachable state a reload succeeds and leaves no stored function unknown. The
  two ways in which a reload can miss ABIs, and the two orders of preference, are at the
  end.
\<close>

inductive service_step ::
    "(json \<Rightarrow> bytes) \<Rightarrow> ('c, 'd) lib \<Rightarrow> db \<times> ('c, 'd) decoder \<Rightarrow> db \<times> ('c, 'd) decoder \<Rightarrow> bool"
  for h L where
  insert_abi: "abi_loads L j \<Longrightarrow>
     service_step h L (d, s) (snd (abi_create h j src rel d), s)"
| other_table: "db_abis d' = db_abis d \<Longrightarrow> db_abi_seq d' = db_abi_seq d \<Longrightarrow> db_sources d' = db_sources d \<Longrightarrow>
     service_step h L (d, s) (d', s)"
| decode: "service_step h L (d, s) (d, snd (get_data_decoded L d depth data address chain_id s))"
| reload: "service_step h L (d, s) (d, snd (load_new_abis L d s))"
| restart: "service_step h L (d, s) (d, snd (init L d (new_decoder L)))"

inductive service_reachable ::
    "(json \<Rightarrow> bytes) \<Rightarrow> ('c, 'd) lib \<Rightarrow> db \<times> ('c, 'd) decoder \<Rightarrow> bool"
  for h L where
  start: "db_ok h d \<Longrightarrow> \<forall>r\<in>set (db_abis d). abi_loads L (a_json r) \<Longrightarrow> abi_loads L (multi_send_contract_abi L) \<Longrightarrow>
     service_reachable h L (d, snd (init L d (new_decoder L)))"
| step: "service_reachable h L c \<Longrightarrow> service_step h L c c' \<Longrightarrow> service_reachable h L c'"

inductive_cases service_stepE: "service_step h L (d, s) c'"

section \<open>Loading succeeds when every ABI is well formed\<close>

lemma from_abis_total:
  "\<forall>abi\<in>set abis. abi_loads L abi \<Longrightarrow> \<exists>d. generate_selectors_with_abis_from_abis L abis acc = Inr d"
  by (induction abis arbitrary: acc) (auto simp: abi_loads_def)

lemma init_total:
  assumes "\<forall>r\<in>set (db_abis d). abi_loads L (a_json r)" and "abi_loads L (multi_send_contract_abi L)"
  shows "init L d s = (Inr (), snd (init L d s))"
proof -
  obtain f where "generate_selectors_with_abis_from_abis L (get_supported_abis d) [] = Inr f"
    using from_abis_total [of "get_supported_abis d" L "[]"] assms(1)
    by (auto simp: get_supported_abis_def get_abis_sorted_by_relevance_def)
  moreover obtain m where "generate_selectors_with_abis_from_abis L (get_multisend_abis L) [] = Inr m"
    using from_abis_total [of "get_multisend_abis L" L "[]"] assms(2) by (auto simp: get_multisend_abis_def)
  ultimately show ?thesis by (simp add: init_def)
qed

lemma load_abis_total:
  "\<forall>abi\<in>set abis. abi_loads L abi \<Longrightarrow> \<exists>m s'. load_abis L abis n s = (Inr m, s')"
proof (induction abis arbitrary: n s)
  case (Cons abi abis)
  then obtain items where "generate_selectors_with_abis_from_abi L abi = Inr items"
    by (auto simp: abi_loads_def)
  then obtain b s1 where "add_abi L abi s = (Inr b, s1)"
    by (cases "add_selectors items (fn_selectors_with_abis s, False)") (auto simp: add_abi_def)
  with Cons show ?case by (auto simp: act_bind_def)
qed simp

lemma reload_abis_subset: "set (reload_abis d p) \<subseteq> a_json ` set (db_abis d)"
  by (auto simp: reload_abis_def get_abis_sorted_by_relevance_def get_abis_with_id_greater_than_def
      split: option.splits)

lemma load_new_abis_total:
  assumes "\<forall>r\<in>set (db_abis d). abi_loads L (a_json r)" and "covered L d s" and "\<not> lock_load_new_abis s"
  obtains n s' where "load_new_abis L d s = (Inr n, s')" "fully_covered L d s'"
proof -
  let ?s = "s\<lparr>lock_load_new_abis := True, last_abi_id := get_last_inserted_id d\<rparr>"
  have "\<forall>abi\<in>set (reload_abis d (last_abi_id s)). abi_loads L abi"
    using assms(1) reload_abis_subset [of d "last_abi_id s"] by auto
  then obtain n s1 where l: "load_abis L (reload_abis d (last_abi_id s)) 0 ?s = (Inr n, s1)"
    by (metis load_abis_total)
  then have "load_new_abis L d s = (Inr n, s1\<lparr>lock_load_new_abis := False\<rparr>)"
    using assms(3) by (simp add: load_new_abis_def load_new_abis_locked_eq act_finally_def act_catch_def)
  then show ?thesis using load_covers [OF assms(2,3) l] by (rule that)
qed

section \<open>The invariant of the service\<close>

definition service_ok :: "(json \<Rightarrow> bytes) \<Rightarrow> ('c, 'd) lib \<Rightarrow> db \<times> ('c, 'd) decoder \<Rightarrow> bool" where
  "service_ok h L c \<longleftrightarrow> (case c of (d, s) \<Rightarrow>
     abis_ok h d \<and> (\<forall>r\<in>set (db_abis d). abi_loads L (a_json r)) \<and> abi_loads L (multi_send_contract_abi L) \<and>
     covered L d s \<and> \<not> lock_load_new_abis s \<and> (\<forall>n. last_abi_id s = Some n \<longrightarrow> n < db_abi_seq d))"

lemma last_below_seq: "abis_ok h d \<Longrightarrow> get_last_inserted_id d = Some n \<Longrightarrow> n < db_abi_seq d"
  using get_last_inserted_id_Some(1) [of d n] by (auto simp: abis_ok_def)

lemma service_ok_init:
  assumes "abis_ok h d" and "\<forall>r\<in>set (db_abis d). abi_loads L (a_json r)"
    and "abi_loads L (multi_send_contract_abi L)"
  shows "service_ok h L (d, snd (init L d (new_decoder L)))"
proof -
  note i = init_total [OF assms(2,3), of "new_decoder L"]
  show ?thesis
    using assms init_fully_covered [OF i] init_Inr(2,3) [OF i] last_below_seq [OF assms(1)]
    by (simp add: service_ok_def fully_covered_covered)
qed

lemma service_ok_insert:
  assumes "service_ok h L (d, s)" and "abi_loads L j"
  shows "service_ok h L (snd (abi_create h j src rel d), s)"
proof (cases rule: abi_create_cases [of h j src rel d])
  case bad
  with assms show ?thesis by (force simp: service_ok_def abis_ok_def covered_def)
next
  case (good row)
  let ?d = "d\<lparr>db_abi_seq := db_abi_seq d + 1, db_abis := db_abis d @ [row]\<rparr>"
  have "abis_ok h ?d" using assms(1) good by (fastforce simp: service_ok_def abis_ok_def)
  moreover have "covered L ?d s" using assms(1) good by (fastforce simp: service_ok_def covered_def)
  ultimately show ?thesis using assms good by (fastforce simp: service_ok_def)
qed

lemma service_ok_step:
  assumes "service_step h L c c'" and "service_ok h L c"
  shows "service_ok h L c'"
  using assms
proof (induction rule: service_step.induct)
  case (insert_abi j d s src rel)
  then show ?case by (intro service_ok_insert)
next
  case (other_table d' d s)
  then show ?case by (simp add: service_ok_def abis_ok_def covered_def)
next
  case (decode d s depth data address chain_id)
  let ?s = "snd (get_data_decoded L d depth data address chain_id s)"
  have k: "decoder_core ?s = decoder_core s" by (rule keepsD [OF keeps_get_data_decoded])
  then show ?case using decode covered_core [OF k, of L d] by (simp add: service_ok_def decoder_core_def)
next
  case (reload d s)
  then have ok: "abis_ok h d" "\<forall>r\<in>set (db_abis d). abi_loads L (a_json r)" "covered L d s"
    "\<not> lock_load_new_abis s" by (simp_all add: service_ok_def)
  obtain n s' where l: "load_new_abis L d s = (Inr n, s')" and f: "fully_covered L d s'"
    by (rule load_new_abis_total [OF ok(2-4)])
  show ?case
    using reload l f load_new_abis_cursor [OF ok(4), of L d] last_below_seq [OF ok(1)]
    by (simp add: service_ok_def fully_covered_covered)
next
  case (restart d s)
  then show ?case by (intro service_ok_init) (simp_all add: service_ok_def)
qed

lemma service_reachable_ok: "service_reachable h L c \<Longrightarrow> service_ok h L c"
proof (induction rule: service_reachable.induct)
  case (start d)
  then show ?case by (intro service_ok_init) auto
next
  case (step c c')
  then show ?case by (metis service_ok_step)
qed

section \<open>Properties\<close>

text \<open>C2. After start-up, every selector of the table is bound to a function of an ABI whose
  relevance is maximal among the stored ABIs that define the selector, and every selector
  that some stored ABI defines is in the table.\<close>

theorem init_most_relevant:
  assumes "init L d s = (Inr (), s')"
  shows "most_relevant L d (fn_selectors_with_abis s')"
  by (rule most_relevantI [OF init_Inr(1) [OF assms]])

theorem init_most_relevant_witness:
  "most_relevant demo_lib demo_db (fn_selectors_with_abis demo_decoder) \<and>
   map_of (fn_selectors_with_abis demo_decoder) tran_selector = Some demo_transfer"
proof
  have "init demo_lib demo_db (new_decoder demo_lib) = (Inr (), demo_decoder)" by code_simp
  then show "most_relevant demo_lib demo_db (fn_selectors_with_abis demo_decoder)"
    by (rule init_most_relevant)
  show "map_of (fn_selectors_with_abis demo_decoder) tran_selector = Some demo_transfer" by code_simp
qed


lemma demo_db_loads:
  "\<forall>r\<in>set (db_abis demo_db). abi_loads demo_lib (a_json r)" "abi_loads demo_lib (multi_send_contract_abi demo_lib)"
proof -
  have "\<not> isl (generate_selectors_with_abis_from_abi demo_lib (JList [demo_transfer]))"
    "\<not> isl (generate_selectors_with_abis_from_abi demo_lib (JList [demo_transit, demo_pause]))"
    "\<not> isl (generate_selectors_with_abis_from_abi demo_lib (multi_send_contract_abi demo_lib))"
    by code_simp+
  then show "\<forall>r\<in>set (db_abis demo_db). abi_loads demo_lib (a_json r)"
    "abi_loads demo_lib (multi_send_contract_abi demo_lib)"
    by (auto simp: abi_loads_def isl_def demo_db_def demo_abi_row_def) (metis sumE)+
qed

lemma demo_db_ok: "db_ok demo_hash demo_db"
proof -
  have "h \<noteq> k \<Longrightarrow> distinct [h, k]" for h k :: bytes by simp
  moreover have "demo_hash (JList [demo_transfer]) \<noteq> demo_hash (JList [demo_transit, demo_pause])"
    by code_simp
  ultimately show ?thesis
    by (simp add: db_ok_defs demo_db_def demo_abi_row_def empty_db_def new_contract_def foreign_keys_ok_def)
qed


lemma load_abis_keeps_bindings:
  "map_of (fn_selectors_with_abis s) k = Some f \<Longrightarrow>
   map_of (fn_selectors_with_abis (snd (load_abis L abis n s))) k = Some f"
proof (induction abis arbitrary: n s)
  case (Cons abi abis)
  obtain r s1 where a: "add_abi L abi s = (r, s1)" by fastforce
  have "map_of (fn_selectors_with_abis s1) k = Some f"
    using a Cons.prems by (cases r) (auto dest: add_abi_Inl elim: add_abi_Inr)
  with Cons.IH a show ?case by (cases r) (auto simp: act_bind_def)
qed simp

text \<open>C32. Adding ABIs to a running decoder never rebinds a selector: what was in the table
  before a reload is there afterwards with the same function, whether the reload returns
  or raises, and the lock is free again.\<close>

theorem reload_keeps_bindings:
  assumes "map_of (fn_selectors_with_abis s) k = Some f" and "\<not> lock_load_new_abis s"
  shows "map_of (fn_selectors_with_abis (snd (load_new_abis L d s))) k = Some f
    \<and> \<not> lock_load_new_abis (snd (load_new_abis L d s))"
proof -
  let ?s = "s\<lparr>lock_load_new_abis := True, last_abi_id := get_last_inserted_id d\<rparr>"
  obtain r s1 where l: "load_abis L (reload_abis d (last_abi_id s)) 0 ?s = (r, s1)" by fastforce
  have "map_of (fn_selectors_with_abis s1) k = Some f"
    using load_abis_keeps_bindings [of ?s k f L "reload_abis d (last_abi_id s)" 0] l assms(1) by simp
  moreover have "fn_selectors_with_abis (snd (load_new_abis L d s)) = fn_selectors_with_abis s1"
    using l assms(2)
    by (cases r) (simp_all add: load_new_abis_def load_new_abis_locked_eq act_finally_def act_catch_def)
  ultimately show ?thesis using load_new_abis_cursor(2) [OF assms(2), of L d] by simp
qed

theorem reload_keeps_bindings_witness:
  "map_of (fn_selectors_with_abis (snd (load_new_abis demo_lib demo_db demo_decoder))) tran_selector
     = Some demo_transfer
   \<and> \<not> lock_load_new_abis (snd (load_new_abis demo_lib demo_db demo_decoder))"
  by (rule reload_keeps_bindings) code_simp+

text \<open>C35. A reload that raises is not repaired by the next one: the cursor has already moved
  to the newest row, so a second reload on the same database loads nothing and reports
  success. The ABIs behind the failing one stay unknown until the service restarts.\<close>

theorem failed_reload_is_not_retried:
  assumes "\<not> lock_load_new_abis s" and "load_new_abis L d s = (Inl e, s')"
  shows "load_new_abis L d s' = (Inr 0, s')"
proof -
  have free: "\<not> lock_load_new_abis s'" and cur: "last_abi_id s' = get_last_inserted_id d"
    using load_new_abis_cursor [OF assms(1), of L d] assms(2) by simp_all
  have "db_abis d \<noteq> []"
  proof
    assume "db_abis d = []"
    then have "reload_abis d p = []" for p
      by (simp add: reload_abis_def get_abis_sorted_by_relevance_def get_abis_with_id_greater_than_def
          split: option.splits)
    then show False using assms
      by (simp add: load_new_abis_def load_new_abis_locked_eq act_finally_def act_catch_def)
  qed
  then obtain n where n: "get_last_inserted_id d = Some n"
    using get_last_inserted_id_None [of d] by auto
  with cur have c: "last_abi_id s' = Some n" by simp
  have "load_new_abis L d s' = (Inr 0, s'\<lparr>last_abi_id := get_last_inserted_id d\<rparr>)"
    by (rule load_new_abis_nothing_new [OF free c get_last_inserted_id_Some(2) [OF n]])
  moreover have "s'\<lparr>last_abi_id := get_last_inserted_id d\<rparr> = s'" using cur by simp
  ultimately show ?thesis by simp
qed

text \<open>The stored ABI 3 has an entry without the key \<open>type\<close>; ABI 4 is fine and is lost with it.\<close>

definition broken_db :: db where
  "broken_db = demo_db\<lparr>db_abis := db_abis demo_db @
     [demo_abi_row 3 0 [JObj [(''name'', JStr ''burn''), (''inputs'', JList [])]],
      demo_abi_row 4 0 [demo_fn ''mint'' []]], db_abi_seq := 5\<rparr>"

theorem failed_reload_is_not_retried_witness:
  "fst (load_new_abis demo_lib broken_db demo_decoder) = Inl KeyError \<and>
   load_new_abis demo_lib broken_db (snd (load_new_abis demo_lib broken_db demo_decoder))
     = (Inr 0, snd (load_new_abis demo_lib broken_db demo_decoder)) \<and>
   map_of (fn_selectors_with_abis (snd (load_new_abis demo_lib broken_db demo_decoder)))
     [109, 105, 110, 116] = None"
proof (intro conjI)
  show k: "fst (load_new_abis demo_lib broken_db demo_decoder) = Inl KeyError" by code_simp
  have "\<not> lock_load_new_abis demo_decoder" by code_simp
  moreover have "load_new_abis demo_lib broken_db demo_decoder
      = (Inl KeyError, snd (load_new_abis demo_lib broken_db demo_decoder))"
    using k by (simp add: prod_eq_iff)
  ultimately show "load_new_abis demo_lib broken_db (snd (load_new_abis demo_lib broken_db demo_decoder))
     = (Inr 0, snd (load_new_abis demo_lib broken_db demo_decoder))"
    by (rule failed_reload_is_not_retried)
  show "map_of (fn_selectors_with_abis (snd (load_new_abis demo_lib broken_db demo_decoder)))
     [109, 105, 110, 116] = None" by code_simp
qed

text \<open>A row that becomes visible with an id at or below the cursor is never loaded: a
  reload whose rows are all at or below the cursor returns 0 and leaves the table alone.
  Ids follow the order of insertion, not of commit, so such a row can appear.\<close>

theorem late_row_is_skipped:
  assumes "\<not> lock_load_new_abis s" and "last_abi_id s = Some p"
    and "\<forall>r\<in>set (db_abis d). a_id r \<le> p"
  shows "fst (load_new_abis L d s) = Inr 0 \<and>
    fn_selectors_with_abis (snd (load_new_abis L d s)) = fn_selectors_with_abis s"
  using load_new_abis_nothing_new [OF assms(1,2), of d L] assms(3) by simp

definition late_db :: db where
  "late_db = demo_db\<lparr>db_abis := [demo_abi_row 2 50 [demo_transit, demo_pause]]\<rparr>"

theorem late_row_is_skipped_witness:
  "let s = snd (init demo_lib late_db (new_decoder demo_lib));
       d = late_db\<lparr>db_abis := db_abis late_db @ [demo_abi_row 1 100 [demo_fn ''mint'' []]]\<rparr>
   in fst (load_new_abis demo_lib d s) = Inr 0 \<and>
      fn_selectors_with_abis (snd (load_new_abis demo_lib d s)) = fn_selectors_with_abis s \<and>
      map_of (fn_selectors_with_abis s) [109, 105, 110, 116] = None"
proof -
  let ?s = "snd (init demo_lib late_db (new_decoder demo_lib))"
  let ?d = "late_db\<lparr>db_abis := db_abis late_db @ [demo_abi_row 1 100 [demo_fn ''mint'' []]]\<rparr>"
  have "\<not> lock_load_new_abis ?s" "last_abi_id ?s = Some 2" by code_simp+
  moreover have "\<forall>r\<in>set (db_abis ?d). a_id r \<le> 2" by (simp add: late_db_def demo_abi_row_def)
  ultimately have "fst (load_new_abis demo_lib ?d ?s) = Inr 0 \<and>
      fn_selectors_with_abis (snd (load_new_abis demo_lib ?d ?s)) = fn_selectors_with_abis ?s"
    by (rule late_row_is_skipped)
  moreover have "map_of (fn_selectors_with_abis ?s) [109, 105, 110, 116] = None" by code_simp
  ultimately show ?thesis by (simp add: Let_def)
qed

text \<open>A decoder that started on an empty database prefers the other way round: its first
  reload reads the ABIs in ascending relevance and never rebinds, so a selector gets its
  function from an ABI of minimal relevance among those that define it.\<close>

theorem first_reload_prefers_least_relevant:
  assumes "\<not> lock_load_new_abis s" and "last_abi_id s = None" and "fn_selectors_with_abis s = []"
    and "\<forall>r\<in>set (db_abis d). abi_loads L (a_json r)"
    and "map_of (fn_selectors_with_abis (snd (load_new_abis L d s))) k = Some f"
  shows "\<exists>r\<in>set (db_abis d). abi_defines L (a_json r) k f \<and>
    (\<forall>r'\<in>set (db_abis d). k \<in> abi_selectors L (a_json r') \<longrightarrow> a_relevance r \<le> a_relevance r')"
proof -
  let ?s = "s\<lparr>lock_load_new_abis := True, last_abi_id := get_last_inserted_id d\<rparr>"
  have "\<forall>abi\<in>set (reload_abis d None). abi_loads L abi"
    using assms(4) reload_abis_subset [of d None] by auto
  then obtain n s1 where l: "load_abis L (reload_abis d None) 0 ?s = (Inr n, s1)"
    by (metis load_abis_total)
  then have "map_of (fn_selectors_with_abis s1) k = Some f"
    using assms(1,2,5) by (simp add: load_new_abis_def load_new_abis_locked_eq act_finally_def act_catch_def)
  with load_abis_first [OF l, of k] assms(3) obtain pre abi post where
    e: "map a_json (sort_key a_relevance (db_abis d)) = pre @ abi # post"
    and f: "abi_defines L abi k f" and none: "\<forall>abi\<in>set pre. k \<notin> abi_selectors L abi"
    by (auto simp: reload_abis_def get_abis_sorted_by_relevance_def first_binding_def)
  from e obtain p r q where s: "sort_key a_relevance (db_abis d) = p @ r # q" and r: "a_json r = abi"
    and p: "map a_json p = pre" by (rule map_split)
  note le = sort_key_split_le [OF s]
  have "a_relevance r \<le> a_relevance r'"
    if "r' \<in> set (db_abis d)" and "k \<in> abi_selectors L (a_json r')" for r'
  proof -
    have "r' \<notin> set p" using that(2) none p by auto
    with that(1) le(4) have "r' \<in> set q \<or> r' = r" by auto
    then show ?thesis using le(2) by auto
  qed
  then show ?thesis using f r le(1) by auto
qed

theorem first_reload_prefers_least_relevant_witness:
  "let s = snd (init demo_lib empty_db (new_decoder demo_lib)) in
   \<exists>r\<in>set (db_abis demo_db). abi_defines demo_lib (a_json r) tran_selector demo_transit \<and>
    (\<forall>r'\<in>set (db_abis demo_db). tran_selector \<in> abi_selectors demo_lib (a_json r') \<longrightarrow>
       a_relevance r \<le> a_relevance r')"
proof -
  let ?s = "snd (init demo_lib empty_db (new_decoder demo_lib))"
  have "\<not> lock_load_new_abis ?s" "last_abi_id ?s = None" "fn_selectors_with_abis ?s = []"
    "map_of (fn_selectors_with_abis (snd (load_new_abis demo_lib demo_db ?s))) tran_selector = Some demo_transit"
    by code_simp+
  then show ?thesis
    unfolding Let_def by (intro first_reload_prefers_least_relevant [OF _ _ _ demo_db_loads(1)])
qed

end
