(* ===== verification/Decoder_Cache.thy ===== *)
theory Decoder_Cache
  imports Decoder_Reload Decoder_Demo
begin

text \<open>
  The two result caches are transparent while the database stays as it is: with them, the
  choice of the function that decodes a piece of data, and the reported accuracy, are the
  ones the specifications below compute from the database directly. What is documented of
  \<open>alru_cache\<close> and used here: it only answers with what was stored under the same key. It
  may forget at any time. An answer it does remember is served whatever the database says.
\<close>

definition cache_laws :: "('c, 'd) lib \<Rightarrow> bool" where
  "cache_laws L \<longleftrightarrow>
     (\<forall>k. fst (abi_cache_get L (abi_cache_empty L) k) = None) \<and>
     (\<forall>c k k' v. fst (abi_cache_get L (snd (abi_cache_get L c k)) k') = Some v \<longrightarrow>
        fst (abi_cache_get L c k') = Some v) \<and>
     (\<forall>c k w k' v. fst (abi_cache_get L (abi_cache_put L c k w) k') = Some v \<longrightarrow>
        (k' = k \<and> v = w) \<or> fst (abi_cache_get L c k') = Some v) \<and>
     (\<forall>k. fst (sel_cache_get L (sel_cache_empty L) k) = None) \<and>
     (\<forall>c k k' v. fst (sel_cache_get L (snd (sel_cache_get L c k)) k') = Some v \<longrightarrow>
        fst (sel_cache_get L c k') = Some v) \<and>
     (\<forall>c k w k' v. fst (sel_cache_get L (sel_cache_put L c k w) k') = Some v \<longrightarrow>
        (k' = k \<and> v = w) \<or> fst (sel_cache_get L c k') = Some v)"

lemma demo_cache_laws: "cache_laws demo_lib"
  by (auto simp: cache_laws_def demo_lib_def split: if_splits)

section \<open>What the database says\<close>

definition contract_abi_of :: "('c, 'd) lib \<Rightarrow> db \<Rightarrow> pyval \<times> int option \<Rightarrow> json option" where
  "contract_abi_of L d k = (case HexBytes L (fst k) of
     Inl e \<Rightarrow> None | Inr a \<Rightarrow> get_abi_by_contract_address a (snd k) d)"

text \<open>The contract's own ABI on the chain, or else its ABI on the lowest other chain.\<close>

definition contract_selectors_of :: "('c, 'd) lib \<Rightarrow> db \<Rightarrow> pyval \<times> int option \<Rightarrow> selectors option res" where
  "contract_selectors_of L d k =
     (case (case contract_abi_of L d k of Some j \<Rightarrow> Some j
            | None \<Rightarrow> if snd k \<noteq> None then contract_abi_of L d (fst k, None) else None) of
        None \<Rightarrow> Inr None
      | Some j \<Rightarrow> res_bind (generate_selectors_with_abis_from_abi L j) (\<lambda>sel. Inr (Some sel)))"

definition usable_address :: "('c, 'd) lib \<Rightarrow> pyval \<Rightarrow> bool" where
  "usable_address L a \<longleftrightarrow> hashable a \<and> (\<exists>b. HexBytes L a = Inr b)"

definition coherent :: "('c, 'd) lib \<Rightarrow> db \<Rightarrow> ('c, 'd) decoder \<Rightarrow> bool" where
  "coherent L d s \<longleftrightarrow>
     (\<forall>k v. fst (abi_cache_get L (abi_cache s) k) = Some v \<longrightarrow> v = contract_abi_of L d k) \<and>
     (\<forall>k v. fst (sel_cache_get L (sel_cache s) k) = Some v \<longrightarrow> contract_selectors_of L d k = Inr v)"

lemma coherentD:
  "coherent L d s \<Longrightarrow> fst (abi_cache_get L (abi_cache s) k) = Some v \<Longrightarrow> v = contract_abi_of L d k"
  "coherent L d s \<Longrightarrow> fst (sel_cache_get L (sel_cache s) k) = Some w \<Longrightarrow> contract_selectors_of L d k = Inr w"
  unfolding coherent_def by blast+

lemma coherent_abi_cache:
  assumes "coherent L d s" and "\<And>k v. fst (abi_cache_get L c k) = Some v \<Longrightarrow> v = contract_abi_of L d k"
  shows "coherent L d (s\<lparr>abi_cache := c\<rparr>)"
  unfolding coherent_def decoder.select_convs decoder.update_convs
  using assms(2) coherentD(2) [OF assms(1)] by (auto simp del: split_paired_All)

lemma coherent_sel_cache:
  assumes "coherent L d s"
    and "\<And>k v. fst (sel_cache_get L c k) = Some v \<Longrightarrow> contract_selectors_of L d k = Inr v"
  shows "coherent L d (s\<lparr>sel_cache := c\<rparr>)"
  unfolding coherent_def decoder.select_convs decoder.update_convs
  using assms(2) coherentD(1) [OF assms(1)] by (auto simp del: split_paired_All)

lemma coherent_new: "cache_laws L \<Longrightarrow> coherent L d (new_decoder L)"
  by (simp add: coherent_def cache_laws_def new_decoder_def)

lemma contract_abi_truthy: "contract_abi_of L d k = Some j \<Longrightarrow> json_truthy j"
  by (auto simp: contract_abi_of_def get_abi_by_contract_address_def Let_def
      split: sum.splits list.splits if_splits)

section \<open>The cached methods agree with the database\<close>

lemma get_contract_abi_correct:
  assumes laws: "cache_laws L" and coh: "coherent L d s" and use: "usable_address L a"
  obtains s' where "get_contract_abi L d a ch s = (Inr (contract_abi_of L d (a, ch)), s')"
    "coherent L d s'" "sel_cache s' = sel_cache s"
proof -
  obtain hit c where g: "abi_cache_get L (abi_cache s) (a, ch) = (hit, c)" by fastforce
  have sub: "fst (abi_cache_get L c k) = Some v \<Longrightarrow> v = contract_abi_of L d k" for k v
  proof -
    assume "fst (abi_cache_get L c k) = Some v"
    moreover have "c = snd (abi_cache_get L (abi_cache s) (a, ch))" using g by simp
    ultimately have "fst (abi_cache_get L (abi_cache s) k) = Some v"
      using laws unfolding cache_laws_def by metis
    then show ?thesis by (rule coherentD(1) [OF coh])
  qed
  show ?thesis
  proof (cases hit)
    case (Some v)
    with g have "v = contract_abi_of L d (a, ch)" by (intro coherentD(1) [OF coh]) simp
    with g Some use have "get_contract_abi L d a ch s = (Inr (contract_abi_of L d (a, ch)), s\<lparr>abi_cache := c\<rparr>)"
      by (simp add: get_contract_abi_def usable_address_def)
    then show ?thesis by (rule that [OF _ coherent_abi_cache [OF coh sub]]) simp_all
  next
    case None
    from use obtain b where b: "HexBytes L a = Inr b" "hashable a" by (auto simp: usable_address_def)
    let ?v = "contract_abi_of L d (a, ch)"
    let ?c = "abi_cache_put L c (a, ch) ?v"
    have v: "get_abi_by_contract_address b ch d = ?v" using b by (simp add: contract_abi_of_def)
    have sub2: "w = contract_abi_of L d k" if "fst (abi_cache_get L ?c k) = Some w" for k w
    proof -
      have "(k = (a, ch) \<and> w = ?v) \<or> fst (abi_cache_get L c k) = Some w"
        using that laws unfolding cache_laws_def by metis
      then show ?thesis using sub by blast
    qed
    have "get_contract_abi L d a ch s = (Inr ?v, s\<lparr>abi_cache := ?c\<rparr>)"
      using g None b by (simp add: get_contract_abi_def v Let_def)
    then show ?thesis by (rule that [OF _ coherent_abi_cache [OF coh sub2]]) simp_all
  qed
qed

lemma contract_selectors_uncached_correct:
  assumes laws: "cache_laws L" and coh: "coherent L d s" and use: "usable_address L a"
  obtains s' where "contract_selectors_uncached L d a ch s = (contract_selectors_of L d (a, ch), s')"
    "coherent L d s'"
proof -
  obtain s1 where g1: "get_contract_abi L d a ch s = (Inr (contract_abi_of L d (a, ch)), s1)"
    and c1: "coherent L d s1" by (rule get_contract_abi_correct [OF laws coh use])
  obtain s2 where g2: "get_contract_abi L d a None s1 = (Inr (contract_abi_of L d (a, None)), s2)"
    and c2: "coherent L d s2" by (rule get_contract_abi_correct [OF laws c1 use])
  show ?thesis
  proof (cases "contract_abi_of L d (a, ch)")
    case (Some j)
    then have t: "json_truthy j" by (rule contract_abi_truthy)
    show ?thesis
      using g1 c1 Some t
      by (intro that [of s1])
        (auto simp: contract_selectors_uncached_def contract_selectors_of_def act_bind_def res_bind_def
          split: sum.splits)
  next
    case None
    show ?thesis
    proof (cases "ch = None")
      case True
      with None g1 c1 show ?thesis
        by (intro that [of s1])
          (auto simp: contract_selectors_uncached_def contract_selectors_of_def act_bind_def)
    next
      case False
      show ?thesis
      proof (cases "contract_abi_of L d (a, None)")
        case None2: None
        with None False g1 g2 c2 show ?thesis
          by (intro that [of s2])
            (auto simp: contract_selectors_uncached_def contract_selectors_of_def act_bind_def)
      next
        case (Some j)
        then have "json_truthy j" by (rule contract_abi_truthy)
        with None False Some g1 g2 c2 show ?thesis
          by (intro that [of s2])
            (auto simp: contract_selectors_uncached_def contract_selectors_of_def act_bind_def res_bind_def
              split: sum.splits)
      qed
    qed
  qed
qed

lemma contract_selectors_correct:
  assumes laws: "cache_laws L" and coh: "coherent L d s" and use: "usable_address L a"
  obtains s' where
    "get_contract_abi_selectors_with_functions L d a ch s = (contract_selectors_of L d (a, ch), s')"
    "coherent L d s'"
proof -
  obtain hit c where g: "sel_cache_get L (sel_cache s) (a, ch) = (hit, c)" by fastforce
  have h: "hashable a" using use by (simp add: usable_address_def)
  have sub: "contract_selectors_of L d k = Inr v" if "fst (sel_cache_get L c k) = Some v" for k v
  proof -
    have "c = snd (sel_cache_get L (sel_cache s) (a, ch))" using g by simp
    with that have "fst (sel_cache_get L (sel_cache s) k) = Some v"
      using laws unfolding cache_laws_def by metis
    then show ?thesis by (rule coherentD(2) [OF coh])
  qed
  have cohc: "coherent L d (s\<lparr>sel_cache := c\<rparr>)" by (rule coherent_sel_cache [OF coh sub])
  show ?thesis
  proof (cases hit)
    case (Some v)
    with g have "contract_selectors_of L d (a, ch) = Inr v" by (intro coherentD(2) [OF coh]) simp
    with g Some h cohc show ?thesis
      by (intro that [of "s\<lparr>sel_cache := c\<rparr>"]) (simp_all add: get_contract_abi_selectors_with_functions_def)
  next
    case None
    obtain s1 where u: "contract_selectors_uncached L d a ch (s\<lparr>sel_cache := c\<rparr>)
        = (contract_selectors_of L d (a, ch), s1)" and c1: "coherent L d s1"
      by (rule contract_selectors_uncached_correct [OF laws cohc use])
    show ?thesis
    proof (cases "contract_selectors_of L d (a, ch)")
      case (Inl e)
      with u g None h c1 show ?thesis
        by (intro that [of s1]) (simp_all add: get_contract_abi_selectors_with_functions_def act_bind_def)
    next
      case (Inr v)
      let ?c = "sel_cache_put L (sel_cache s1) (a, ch) v"
      have "contract_selectors_of L d k = Inr w" if "fst (sel_cache_get L ?c k) = Some w" for k w
      proof -
        have "(k = (a, ch) \<and> w = v) \<or> fst (sel_cache_get L (sel_cache s1) k) = Some w"
          using that laws unfolding cache_laws_def by metis
        then show ?thesis using Inr coherentD(2) [OF c1, of k w] by blast
      qed
      then have "coherent L d (s1\<lparr>sel_cache := ?c\<rparr>)" by (rule coherent_sel_cache [OF c1])
      with u g None h Inr show ?thesis
        by (intro that [of "s1\<lparr>sel_cache := ?c\<rparr>"])
          (simp_all add: get_contract_abi_selectors_with_functions_def act_bind_def)
    qed
  qed
qed

section \<open>Which function decodes the data\<close>

definition abi_function_spec ::
    "('c, 'd) lib \<Rightarrow> db \<Rightarrow> selectors \<Rightarrow> bytes \<Rightarrow> pyval option \<Rightarrow> int option \<Rightarrow> json option res" where
  "abi_function_spec L d fns data address chain_id =
     (case map_of fns (take 4 data) of
        None \<Rightarrow> Inr None
      | Some general \<Rightarrow>
          (case address of
             None \<Rightarrow> Inr (Some general)
           | Some a \<Rightarrow>
               if pyval_truthy a
               then res_bind (contract_selectors_of L d (a, chain_id)) (\<lambda>own.
                 Inr (Some (case own of None \<Rightarrow> general
                            | Some t \<Rightarrow> (case map_of t (take 4 data) of None \<Rightarrow> general | Some f \<Rightarrow> f))))
               else Inr (Some general)))"

lemma get_abi_function_correct:
  assumes laws: "cache_laws L" and coh: "coherent L d s"
    and use: "\<And>a. address = Some a \<Longrightarrow> pyval_truthy a \<Longrightarrow> usable_address L a"
  obtains s' where "get_abi_function L d data address ch s =
      (abi_function_spec L d (fn_selectors_with_abis s) data address ch, s')"
    "coherent L d s'" "decoder_core s' = decoder_core s"
proof -
  obtain r s' where g: "get_abi_function L d data address ch s = (r, s')" by fastforce
  have core: "decoder_core s' = decoder_core s" by (rule keepsD' [OF keeps_get_abi_function g])
  have "r = abi_function_spec L d (fn_selectors_with_abis s) data address ch \<and> coherent L d s'"
  proof (cases "map_of (fn_selectors_with_abis s) (take 4 data)")
    case None
    with g coh show ?thesis by (simp add: get_abi_function_def abi_function_spec_def Let_def)
  next
    case (Some general)
    show ?thesis
    proof (cases "\<exists>a. address = Some a \<and> pyval_truthy a")
      case False
      with g coh Some show ?thesis
        by (auto simp: get_abi_function_def abi_function_spec_def Let_def split: option.splits)
    next
      case True
      then obtain a where a: "address = Some a" "pyval_truthy a" by blast
      obtain s1 where
        "get_contract_abi_selectors_with_functions L d a ch s = (contract_selectors_of L d (a, ch), s1)"
        "coherent L d s1" by (rule contract_selectors_correct [OF laws coh use [OF a]])
      with g Some a show ?thesis
        by (auto simp: get_abi_function_def abi_function_spec_def Let_def act_bind_def res_bind_def
            split: sum.splits option.splits)
    qed
  qed
  with g core show ?thesis by (intro that [of s']) auto
qed

section \<open>The reported accuracy\<close>

definition accuracy_spec ::
    "('c, 'd) lib \<Rightarrow> db \<Rightarrow> selectors \<Rightarrow> bytes \<Rightarrow> pyval option \<Rightarrow> int option \<Rightarrow> decoding_accuracy" where
  "accuracy_spec L d fns data address chain_id =
     (if take 4 data \<notin> dict_keys fns then NO_MATCH
      else case address of
        None \<Rightarrow> ONLY_FUNCTION_MATCH
      | Some a \<Rightarrow>
          if chain_id \<noteq> None \<and> contract_abi_of L d (a, chain_id) \<noteq> None then FULL_MATCH
          else if contract_abi_of L d (a, None) \<noteq> None then PARTIAL_MATCH
          else ONLY_FUNCTION_MATCH)"

text \<open>The accuracies are ordered by how much of the asked contract was recognised.\<close>

primrec accuracy_rank :: "decoding_accuracy \<Rightarrow> nat" where
  "accuracy_rank NO_MATCH = 0"
| "accuracy_rank ONLY_FUNCTION_MATCH = 1"
| "accuracy_rank PARTIAL_MATCH = 2"
| "accuracy_rank FULL_MATCH = 3"

lemma accuracy_rank_eq_iff: "accuracy_rank x = accuracy_rank y \<longleftrightarrow> x = y"
  by (cases x; cases y) simp_all

instantiation decoding_accuracy :: linorder
begin

definition less_eq_decoding_accuracy :: "decoding_accuracy \<Rightarrow> decoding_accuracy \<Rightarrow> bool" where
  "x \<le> y \<longleftrightarrow> accuracy_rank x \<le> accuracy_rank y"

definition less_decoding_accuracy :: "decoding_accuracy \<Rightarrow> decoding_accuracy \<Rightarrow> bool" where
  "x < y \<longleftrightarrow> accuracy_rank x < accuracy_rank y"

instance
  by standard
    (auto simp: less_eq_decoding_accuracy_def less_decoding_accuracy_def accuracy_rank_eq_iff [symmetric])

end

lemma accuracy_le_FULL_MATCH: "x \<le> FULL_MATCH"
  by (cases x) (simp_all add: less_eq_decoding_accuracy_def)

lemma accuracy_NO_MATCH_le: "NO_MATCH \<le> x"
  by (simp add: less_eq_decoding_accuracy_def)

lemma accuracy_spec_mono:
  assumes "dict_keys fns \<subseteq> dict_keys fns'"
    and "a = None \<or> a = a' \<and> (c = None \<or> c = c')"
  shows "accuracy_spec L d fns b a c \<le> accuracy_spec L d fns' b a' c'"
  using assms accuracy_le_FULL_MATCH accuracy_NO_MATCH_le
  by (auto simp: accuracy_spec_def less_eq_decoding_accuracy_def split: option.splits)

lemma get_decoding_accuracy_correct:
  assumes laws: "cache_laws L" and coh: "coherent L d s" and hex: "HexBytes L data = Inr b"
    and use: "\<And>a. address = Some a \<Longrightarrow> usable_address L a"
  shows "fst (get_decoding_accuracy L d data address ch s) =
    Inr (accuracy_spec L d (fn_selectors_with_abis s) b address ch)"
proof (cases "take 4 b \<notin> dict_keys (fn_selectors_with_abis s) \<or> address = None")
  case True
  then show ?thesis using hex
    by (auto simp: get_decoding_accuracy_def accuracy_spec_def Let_def split: option.splits)
next
  case False
  then obtain a where a: "address = Some a" and k: "take 4 b \<in> dict_keys (fn_selectors_with_abis s)" by auto
  obtain s1 where g1: "get_contract_abi L d a ch s = (Inr (contract_abi_of L d (a, ch)), s1)"
    and c1: "coherent L d s1" by (rule get_contract_abi_correct [OF laws coh use [OF a]])
  obtain s2 where g2: "get_contract_abi L d a None s1 = (Inr (contract_abi_of L d (a, None)), s2)"
    by (rule get_contract_abi_correct [OF laws c1 use [OF a]])
  obtain s3 where g3: "get_contract_abi L d a None s = (Inr (contract_abi_of L d (a, None)), s3)"
    by (rule get_contract_abi_correct [OF laws coh use [OF a]])
  have t: "(case contract_abi_of L d q of None \<Rightarrow> False | Some j \<Rightarrow> json_truthy j)
      = (contract_abi_of L d q \<noteq> None)" for q
    using contract_abi_truthy [of L d q] by (auto split: option.splits)
  show ?thesis
    using hex a k g1 g2 g3 t [of "(a, ch)"] t [of "(a, None)"]
    by (cases ch) (auto simp: get_decoding_accuracy_def accuracy_spec_def Let_def act_bind_def)
qed

section \<open>Properties\<close>

lemma coherent_same_caches:
  "coherent L d s \<Longrightarrow> abi_cache s' = abi_cache s \<Longrightarrow> sel_cache s' = sel_cache s \<Longrightarrow> coherent L d s'"
  by (simp add: coherent_def)

lemma coherent_init:
  assumes "cache_laws L" and "init L d (new_decoder L) = (Inr (), s)"
  shows "coherent L d' s"
  by (rule coherent_same_caches [OF coherent_new [OF assms(1)]])
    (simp_all add: init_Inr(5,6) [OF assms(2)])

lemma demo_decoder_init: "init demo_lib demo_db (new_decoder demo_lib) = (Inr (), demo_decoder)"
  by code_simp

text \<open>C1. With coherent caches and a usable address, \<open>get_abi_function\<close> computes exactly the
  specification: the contract's own function on the chain, else its function on the lowest
  other chain, else the general function of the selector, and nothing for an unknown
  selector. The caches stay coherent and the tables are untouched.\<close>

theorem abi_function_refines_spec:
  assumes "cache_laws L" and "coherent L d s" and "\<And>a. address = Some a \<Longrightarrow> usable_address L a"
  shows "\<exists>s'. get_abi_function L d data address chain_id s =
      (abi_function_spec L d (fn_selectors_with_abis s) data address chain_id, s')
    \<and> coherent L d s' \<and> decoder_core s' = decoder_core s"
  by (rule get_abi_function_correct [OF assms(1,2), of address data chain_id]) (use assms(3) in auto)

lemma demo_address_usable: "usable_address demo_lib (VStr ''0xaa'')"
proof -
  have "HexBytes demo_lib (VStr ''0xaa'') = Inr [0xaa]" by code_simp
  then show ?thesis by (simp add: usable_address_def)
qed

theorem abi_function_refines_spec_witness:
  "\<exists>s'. get_abi_function demo_lib demo_db tran_selector (Some (VStr ''0xaa'')) (Some 7) demo_decoder =
      (abi_function_spec demo_lib demo_db (fn_selectors_with_abis demo_decoder) tran_selector
         (Some (VStr ''0xaa'')) (Some 7), s')
    \<and> coherent demo_lib demo_db s' \<and> decoder_core s' = decoder_core demo_decoder"
  by (rule abi_function_refines_spec [OF demo_cache_laws coherent_init [OF demo_cache_laws demo_decoder_init]])
    (simp add: demo_address_usable)

text \<open>C11. With coherent caches and a usable address, the reported accuracy is the one the
  database dictates: \<open>NO_MATCH\<close> for an unknown selector, \<open>FULL_MATCH\<close> when the contract has
  an ABI on the given chain, \<open>PARTIAL_MATCH\<close> when it has one on some chain.\<close>

theorem accuracy_matches_database:
  assumes "cache_laws L" and "coherent L d s" and "HexBytes L data = Inr b"
    and "\<And>a. address = Some a \<Longrightarrow> usable_address L a"
  shows "fst (get_decoding_accuracy L d data address chain_id s) =
    Inr (accuracy_spec L d (fn_selectors_with_abis s) b address chain_id)"
  by (rule get_decoding_accuracy_correct [OF assms])

theorem accuracy_matches_database_witness:
  "fst (get_decoding_accuracy demo_lib demo_db (VBytes tran_selector) (Some (VStr ''0xaa'')) (Some 7) demo_decoder)
     = Inr (accuracy_spec demo_lib demo_db (fn_selectors_with_abis demo_decoder) tran_selector
         (Some (VStr ''0xaa'')) (Some 7)) \<and>
   accuracy_spec demo_lib demo_db (fn_selectors_with_abis demo_decoder) tran_selector
         (Some (VStr ''0xaa'')) (Some 7) = PARTIAL_MATCH"
proof
  show "fst (get_decoding_accuracy demo_lib demo_db (VBytes tran_selector) (Some (VStr ''0xaa'')) (Some 7) demo_decoder)
     = Inr (accuracy_spec demo_lib demo_db (fn_selectors_with_abis demo_decoder) tran_selector
         (Some (VStr ''0xaa'')) (Some 7))"
    by (rule accuracy_matches_database [OF demo_cache_laws coherent_init [OF demo_cache_laws demo_decoder_init]])
      (simp_all add: demo_address_usable)
  show "accuracy_spec demo_lib demo_db (fn_selectors_with_abis demo_decoder) tran_selector
         (Some (VStr ''0xaa'')) (Some 7) = PARTIAL_MATCH" by code_simp
qed

text \<open>Naming the target, or its chain, never lowers the accuracy, nor does a selector learnt
  meanwhile: the answer to the less precise question is at most the one to the other.\<close>

theorem detail_never_lowers_accuracy:
  assumes "cache_laws L" and "coherent L d s" and "coherent L d s'" and "HexBytes L data = Inr b"
    and "\<And>x. a' = Some x \<Longrightarrow> usable_address L x"
    and "dict_keys (fn_selectors_with_abis s) \<subseteq> dict_keys (fn_selectors_with_abis s')"
    and "a = None \<or> a = a' \<and> (c = None \<or> c = c')"
  shows "\<exists>x y. fst (get_decoding_accuracy L d data a c s) = Inr x
    \<and> fst (get_decoding_accuracy L d data a' c' s') = Inr y \<and> x \<le> y"
  using get_decoding_accuracy_correct [OF assms(1,2,4), of a c] assms(5,7)
    get_decoding_accuracy_correct [OF assms(1,3,4), of a' c'] accuracy_spec_mono [OF assms(6,7)]
  by auto

text \<open>The accuracy speaks of the contract, not of the function: when the contract has an
  ABI on the chain that lacks the selector, \<open>FULL_MATCH\<close> is reported although the function
  that decodes the data is the general one, from another contract's ABI.\<close>

theorem full_match_with_foreign_function:
  assumes "cache_laws L" and "coherent L d s" and "usable_address L a" and "pyval_truthy a"
    and "contract_abi_of L d (a, Some i) = Some j"
    and "generate_selectors_with_abis_from_abi L j = Inr own" and "take 4 b \<notin> dict_keys own"
    and "map_of (fn_selectors_with_abis s) (take 4 b) = Some general" and "HexBytes L data = Inr b"
  shows "fst (get_decoding_accuracy L d data (Some a) (Some i) s) = Inr FULL_MATCH
    \<and> fst (get_abi_function L d b (Some a) (Some i) s) = Inr (Some general)"
proof
  have "take 4 b \<in> dict_keys (fn_selectors_with_abis s)" using assms(8) by (simp add: dict_keys_iff)
  then show "fst (get_decoding_accuracy L d data (Some a) (Some i) s) = Inr FULL_MATCH"
    using get_decoding_accuracy_correct [OF assms(1,2,9), of "Some a" "Some i"] assms(3,5)
    by (simp add: accuracy_spec_def)
  have "contract_selectors_of L d (a, Some i) = Inr (Some own)"
    using assms(5,6) by (simp add: contract_selectors_of_def)
  moreover have "map_of own (take 4 b) = None" using assms(7) by (simp add: dict_keys_iff)
  ultimately have "abi_function_spec L d (fn_selectors_with_abis s) b (Some a) (Some i) = Inr (Some general)"
    using assms(4,8) by (simp add: abi_function_spec_def)
  moreover obtain s' where "get_abi_function L d b (Some a) (Some i) s =
      (abi_function_spec L d (fn_selectors_with_abis s) b (Some a) (Some i), s')"
    by (rule get_abi_function_correct [OF assms(1,2), of "Some a" b "Some i"]) (use assms(3) in auto)
  ultimately show "fst (get_abi_function L d b (Some a) (Some i) s) = Inr (Some general)" by simp
qed

definition mint_db :: db where
  "mint_db = demo_db\<lparr>db_abis := db_abis demo_db @ [demo_abi_row 3 0 [demo_fn ''mint'' []]], db_abi_seq := 4\<rparr>"

definition mint_decoder ::
    "((cache_key \<times> json option) list, (cache_key \<times> selectors option) list) decoder" where
  "mint_decoder = snd (init demo_lib mint_db (new_decoder demo_lib))"

theorem full_match_with_foreign_function_witness:
  "let mint = [109, 105, 110, 116] in
   fst (get_decoding_accuracy demo_lib mint_db (VBytes mint) (Some (VStr ''0xaa'')) (Some 1) mint_decoder)
     = Inr FULL_MATCH
   \<and> fst (get_abi_function demo_lib mint_db mint (Some (VStr ''0xaa'')) (Some 1) mint_decoder)
     = Inr (Some (demo_fn ''mint'' []))"
proof -
  let ?m = "[109, 105, 110, 116] :: bytes"
  let ?j = "JList [demo_transit, demo_pause]"
  let ?own = "[(tran_selector, demo_transit), ([112, 97, 117, 115], demo_pause)]"
  have i: "init demo_lib mint_db (new_decoder demo_lib) = (Inr (), mint_decoder)" by code_simp
  have j: "contract_abi_of demo_lib mint_db (VStr ''0xaa'', Some 1) = Some ?j" by code_simp
  have own: "generate_selectors_with_abis_from_abi demo_lib ?j = Inr ?own" by code_simp
  have t: "pyval_truthy (VStr ''0xaa'')" by simp
  have no: "take 4 ?m \<notin> dict_keys ?own" by (simp add: tran_selector_def)
  have g: "map_of (fn_selectors_with_abis mint_decoder) (take 4 ?m) = Some (demo_fn ''mint'' [])" by code_simp
  have hex: "HexBytes demo_lib (VBytes ?m) = Inr ?m" by simp
  show ?thesis
    unfolding Let_def
    by (rule full_match_with_foreign_function [OF demo_cache_laws coherent_init [OF demo_cache_laws i]
          demo_address_usable t j own no g hex])
qed

text \<open>A remembered answer is served whatever the database says, an absent ABI included:
  once \<open>get_contract_abi\<close> has answered \<open>None\<close> for a contract, it keeps answering \<open>None\<close> after
  the contract's ABI has been stored, for as long as the entry stays in the cache.\<close>

theorem cached_answer_outlives_database:
  assumes "hashable a" and "fst (abi_cache_get L (abi_cache s) (a, chain_id)) = Some v"
  shows "\<forall>d. fst (get_contract_abi L d a chain_id s) = Inr v"
  using assms by (auto simp: get_contract_abi_def split: prod.splits)

theorem cached_answer_outlives_database_witness:
  "let s = snd (get_contract_abi demo_lib empty_db (VStr ''0xaa'') (Some 1) demo_decoder) in
   (\<forall>d. fst (get_contract_abi demo_lib d (VStr ''0xaa'') (Some 1) s) = Inr None) \<and>
   contract_abi_of demo_lib demo_db (VStr ''0xaa'', Some 1) \<noteq> None"
proof -
  let ?s = "snd (get_contract_abi demo_lib empty_db (VStr ''0xaa'') (Some 1) demo_decoder)"
  have h: "hashable (VStr ''0xaa'')" by simp
  have c: "fst (abi_cache_get demo_lib (abi_cache ?s) (VStr ''0xaa'', Some 1)) = Some None" by code_simp
  have "\<not> Option.is_none (contract_abi_of demo_lib demo_db (VStr ''0xaa'', Some 1))" by code_simp
  then show ?thesis
    unfolding Let_def using cached_answer_outlives_database [OF h c] by (simp add: Option.is_none_def)
qed

end
