(* ===== verification/Decoder_Nested.thy ===== *)
theory Decoder_Nested
  imports Decoder_Reload Decoder_Demo
begin

text \<open>
  Nested data: the recursion through MultiSend batches and \<open>execTransaction\<close> ends, because
  the data handed to the recursive call is part of the data being decoded; a depth above
  the length of the data is enough and gives one and the same result. Also here: the shape
  of the results, and the conversion of decoded values for JSON.
\<close>

section \<open>Inner data is shorter\<close>

text \<open>
  What is documented of the packages and used here: \<open>HexBytes\<close> of bytes is those bytes;
  the transactions of a batch are slices of it behind the selector; the arguments decoded
  from the data behind the selector, at least three of them, are encoded in it.
\<close>

definition nested_shrinks :: "('c, 'd) lib \<Rightarrow> bool" where
  "nested_shrinks L \<longleftrightarrow>
     (\<forall>b. HexBytes L (VBytes b) = Inr b) \<and>
     (\<forall>b txs tx. multisend_from_transaction_data L (VBytes b) = Inr txs \<longrightarrow> tx \<in> set txs \<longrightarrow>
        length (tx_data tx) < length b) \<and>
     (\<forall>fn_abi b names types vals v w. decode_arguments L fn_abi (drop 4 b) = Inr (names, types, vals) \<longrightarrow>
        2 < length vals \<longrightarrow> v \<in> set vals \<longrightarrow> HexBytes L v = Inr w \<longrightarrow> length w < length b)"

definition agree :: "nat \<Rightarrow> ('c, 'd) get_decoded \<Rightarrow> ('c, 'd) get_decoded \<Rightarrow> bool" where
  "agree n rec rec' \<longleftrightarrow> (\<forall>b a c. length b < n \<longrightarrow> rec (VBytes b) a c = rec' (VBytes b) a c)"

lemma multisend_agree:
  assumes "nested_shrinks L" and "agree (length b) rec rec'"
  shows "decode_multisend_data L rec (VBytes b) c = decode_multisend_data L rec' (VBytes b) c"
proof (cases "multisend_from_transaction_data L (VBytes b)")
  case (Inl e)
  then show ?thesis by (simp add: decode_multisend_data_def act_catch_def fun_eq_iff)
next
  case (Inr txs)
  have eq: "rec (VBytes (tx_data tx)) a c = rec' (VBytes (tx_data tx)) a c" if "tx \<in> set txs" for tx a
    using assms Inr that unfolding nested_shrinks_def agree_def by metis
  let ?F = "\<lambda>r tx. act_bind (r (VBytes (tx_data tx)) (Some (VStr (tx_to tx))) c) (\<lambda>decoded.
      act_return (MultisendDecoded (tx_operation tx) (tx_to tx) (str_int (tx_value tx))
        (if tx_data tx \<noteq> [] then Some (to_0x_hex_str L (tx_data tx)) else None) decoded))"
  have "act_map (?F rec) txs = act_map (?F rec') txs" by (rule act_map_cong) (simp add: eq)
  then show ?thesis by (simp only: decode_multisend_data_def Inr act_bind_lift_fun)
qed

lemma parameters_agree:
  assumes "nested_shrinks L" and "agree (length b) rec rec'"
    and "\<And>w. 2 < length ps \<Longrightarrow> HexBytes L (pd_value (ps ! 2)) = Inr w \<Longrightarrow> length w < length b"
  shows "decode_parameters_data L rec b ps c s = decode_parameters_data L rec' b ps c s"
proof (cases "2 < length ps")
  case False
  then show ?thesis
    by (simp add: decode_parameters_data_def Let_def multisend_agree [OF assms(1,2)])
next
  case True
  show ?thesis
  proof (cases "HexBytes L (pd_value (ps ! 2))")
    case (Inl e)
    then show ?thesis
      by (simp add: decode_parameters_data_def Let_def multisend_agree [OF assms(1,2)])
  next
    case (Inr w)
    then have "length w < length b" using assms(3) True by blast
    then have "rec (VBytes w) a c = rec' (VBytes w) a c" for a using assms(2) by (simp add: agree_def)
    with Inr show ?thesis
      by (simp add: decode_parameters_data_def Let_def multisend_agree [OF assms(1,2)])
  qed
qed

lemma decode_data_Inr:
  assumes "decode_data L d data a c s = (Inr (name, raw), s')"
  obtains b fn_abi names types vals where "HexBytes L data = Inr b" "data \<noteq> VBytes []"
    "decode_arguments L fn_abi (drop 4 b) = Inr (names, types, vals)"
    "raw = zip names (zip types vals)" "json_item fn_abi ''name'' = Inr name"
  using assms
  by (fastforce simp: decode_data_def act_bind_def act_catch_def
      split: if_splits sum.splits prod.splits option.splits)

lemma decode_data_inner:
  assumes "nested_shrinks L" and "decode_data L d (VBytes b) a c s = (Inr (name, raw), s')"
    and "2 < length raw" and "HexBytes L (snd (snd (raw ! 2))) = Inr w"
  shows "length w < length b"
proof -
  from assms(2) obtain b' fn_abi names types vals where hb: "HexBytes L (VBytes b) = Inr b'"
    and dec: "decode_arguments L fn_abi (drop 4 b') = Inr (names, types, vals)"
    and raw: "raw = zip names (zip types vals)" by (rule decode_data_Inr)
  have "b' = b" using hb assms(1) by (simp add: nested_shrinks_def)
  moreover have "2 < length vals" and "snd (snd (raw ! 2)) = vals ! 2"
    using assms(3) raw by simp_all
  ultimately show ?thesis
    using dec assms(1,4) unfolding nested_shrinks_def by (metis nth_mem)
qed

lemma transaction_agree:
  assumes ns: "nested_shrinks L" and ag: "agree (length b) rec rec'"
  shows "decode_transaction_with_types_rec L rec d (VBytes b) a c
       = decode_transaction_with_types_rec L rec' d (VBytes b) a c"
proof
  fix s
  have hb: "HexBytes L (VBytes b) = Inr b" using ns by (simp add: nested_shrinks_def)
  obtain r s1 where dd: "decode_data L d (VBytes b) a c s = (r, s1)" by fastforce
  show "decode_transaction_with_types_rec L rec d (VBytes b) a c s
      = decode_transaction_with_types_rec L rec' d (VBytes b) a c s"
  proof (cases r)
    case (Inl e)
    with dd hb show ?thesis by (simp add: decode_transaction_with_types_rec_def act_bind_def)
  next
    case (Inr x)
    obtain name raw where x: "x = (name, raw)" by (cases x)
    let ?ps = "map (\<lambda>(name, argument_type, value). ParameterDecoded name argument_type value None) raw"
    have "decode_parameters_data L rec b ?ps c s1 = decode_parameters_data L rec' b ?ps c s1"
    proof (rule parameters_agree [OF ns ag])
      fix w assume "2 < length ?ps" and "HexBytes L (pd_value (?ps ! 2)) = Inr w"
      then show "length w < length b"
        using decode_data_inner [OF ns dd [unfolded Inr x], of w]
        by (cases "raw ! 2") (simp add: case_prod_unfold)
    qed
    with dd hb Inr x show ?thesis
      by (simp add: decode_transaction_with_types_rec_def act_bind_def Let_def)
  qed
qed

lemma get_data_decoded_agree:
  assumes "nested_shrinks L" and "length b < m" and "length b < n"
  shows "get_data_decoded L d m (VBytes b) a c = get_data_decoded L d n (VBytes b) a c"
  using assms(2,3)
proof (induction m arbitrary: n b a c)
  case 0
  then show ?case by simp
next
  case (Suc m)
  from Suc.prems(2) obtain k where n: "n = Suc k" by (cases n) auto
  have "agree (length b) (get_data_decoded L d m) (get_data_decoded L d k)"
    unfolding agree_def
  proof (intro allI impI)
    fix w :: bytes and a' c' assume "length w < length b"
    with Suc.prems n show "get_data_decoded L d m (VBytes w) a' c' = get_data_decoded L d k (VBytes w) a' c'"
      by (intro Suc.IH) simp_all
  qed
  from transaction_agree [OF assms(1) this]
  show ?case by (simp add: n get_data_decoded_rec_def act_catch_def act_bind_def fun_eq_iff)
qed

section \<open>Enough depth never runs out\<close>

definition lib_never :: "exc \<Rightarrow> ('c, 'd) lib \<Rightarrow> bool" where
  "lib_never e L \<longleftrightarrow> (\<forall>v. HexBytes L v \<noteq> Inl e) \<and> (\<forall>f. function_abi_to_4byte_selector L f \<noteq> Inl e) \<and>
     (\<forall>f. get_abi_input_names L f \<noteq> Inl e) \<and> (\<forall>f. get_abi_input_types L f \<noteq> Inl e) \<and>
     (\<forall>ts b. decode_abi L ts b \<noteq> Inl e) \<and> (\<forall>ts vs. map_abi_data L [addresses_checksummed_normalizer L] ts vs \<noteq> Inl e) \<and>
     (\<forall>v. multisend_from_transaction_data L v \<noteq> Inl e)"

lemma json_never: "json_item j k \<noteq> Inl RecursionError" "json_iter j \<noteq> Inl RecursionError"
  by (cases j; simp split: option.splits)+

lemma is_function_abi_never: "is_function_abi f \<noteq> Inl RecursionError"
  using json_never(1) [of f "''type''"] by (auto simp: is_function_abi_def res_bind_def split: sum.splits)

lemma res_filter_never: "(\<And>x. p x \<noteq> Inl e) \<Longrightarrow> res_filter p xs \<noteq> Inl e"
proof (induction xs)
  case (Cons x xs)
  then have "p x \<noteq> Inl e" "res_filter p xs \<noteq> Inl e" by auto
  then show ?case by (auto simp: res_bind_def split: sum.splits)
qed simp

lemma generate_selectors_never:
  "(\<And>f. function_abi_to_4byte_selector L f \<noteq> Inl e) \<Longrightarrow> generate_selectors L fns acc \<noteq> Inl e"
proof (induction fns arbitrary: acc)
  case (Cons f fns)
  then have "function_abi_to_4byte_selector L f \<noteq> Inl e" "\<And>acc. generate_selectors L fns acc \<noteq> Inl e" by auto
  then show ?case by (auto simp: res_bind_def split: sum.splits)
qed simp

lemma from_abi_never:
  assumes "lib_never RecursionError L"
  shows "generate_selectors_with_abis_from_abi L abi \<noteq> Inl RecursionError"
proof -
  have f: "res_filter is_function_abi xs \<noteq> Inl RecursionError" for xs
    by (rule res_filter_never) (rule is_function_abi_never)
  have g: "generate_selectors L fns [] \<noteq> Inl RecursionError" for fns
    by (rule generate_selectors_never) (use assms in \<open>simp add: lib_never_def\<close>)
  show ?thesis
    using json_never(2) [of abi] f g
    by (auto simp: generate_selectors_with_abis_from_abi_def res_bind_def split: sum.splits if_splits)
qed

lemma never_get_contract_abi:
  "lib_never RecursionError L \<Longrightarrow> never RecursionError (get_contract_abi L d a c)"
  by (auto simp: never_def get_contract_abi_def lib_never_def Let_def split: option.splits prod.splits sum.splits)

lemma never_contract_selectors:
  fixes L :: "('c, 'd) lib"
  assumes "lib_never RecursionError L"
  shows "never RecursionError (get_contract_abi_selectors_with_functions L d a c)"
proof -
  have n: "never RecursionError (contract_selectors_uncached L d a c)"
    unfolding contract_selectors_uncached_def
    by (intro never_rules never_get_contract_abi from_abi_never assms)
  show ?thesis
  proof (unfold never_def, intro allI)
    fix s :: "('c, 'd) decoder"
    obtain hit e where g: "sel_cache_get L (sel_cache s) (a, c) = (hit, e)" by fastforce
    obtain r s1 where u: "contract_selectors_uncached L d a c (s\<lparr>sel_cache := e\<rparr>) = (r, s1)" by fastforce
    have "r \<noteq> Inl RecursionError" using neverD [OF n] u by metis
    then show "fst (get_contract_abi_selectors_with_functions L d a c s) \<noteq> Inl RecursionError"
      using g u by (cases hit; cases r) (auto simp: get_contract_abi_selectors_with_functions_def act_bind_def)
  qed
qed

lemma never_get_abi_function:
  "lib_never RecursionError L \<Longrightarrow> never RecursionError (get_abi_function L d data a c)"
  unfolding get_abi_function_def Let_def by (intro never_rules never_contract_selectors) assumption+

lemma decode_arguments_never:
  assumes "lib_never RecursionError L"
  shows "decode_arguments L f b \<noteq> Inl RecursionError"
  using assms by (auto simp: decode_arguments_def lib_never_def res_bind_def split: sum.splits)

lemma never_decode_data:
  assumes "lib_never RecursionError L"
  shows "never RecursionError (decode_data L d data a c)"
  unfolding decode_data_def
  by (intro never_rules never_get_abi_function assms disjI2 decode_arguments_never json_never)
    (use assms in \<open>simp_all add: lib_never_def\<close>)

lemma set_value_decoded_never: "set_value_decoded i v ps \<noteq> Inl RecursionError"
  by (simp add: set_value_decoded_def)

lemma never_multisend:
  assumes "lib_never RecursionError L" and "\<And>v a c. never RecursionError (rec v a c)"
  shows "never RecursionError (decode_multisend_data L rec data c)"
  unfolding decode_multisend_data_def
  by (intro never_rules disjI2 assms(2)) (use assms(1) in \<open>simp_all add: lib_never_def\<close>)

lemma never_parameters:
  assumes "lib_never RecursionError L" and "\<And>v a c. never RecursionError (rec v a c)"
  shows "never RecursionError (decode_parameters_data L rec data ps c)"
  unfolding decode_parameters_data_def Let_def
  by (intro never_rules never_multisend assms disjI2 set_value_decoded_never)
    (use assms(1) in \<open>simp_all add: lib_never_def\<close>)

lemma never_get_data_decoded_rec:
  assumes "lib_never RecursionError L" and "\<And>v a c. never RecursionError (rec v a c)"
  shows "never RecursionError (get_data_decoded_rec L rec d data a c)"
  unfolding get_data_decoded_rec_def decode_transaction_with_types_rec_def Let_def
  by (intro never_rules never_decode_data never_parameters assms disjI2)
    (use assms(1) in \<open>simp_all add: lib_never_def\<close>)

lemma get_data_decoded_enough:
  assumes ns: "nested_shrinks L" and ln: "lib_never RecursionError L" and "length b < n"
  shows "never RecursionError (get_data_decoded L d n (VBytes b) a c)"
  using assms(3)
proof (induction n arbitrary: b a c)
  case 0
  then show ?case by simp
next
  case (Suc n)
  let ?rec = "\<lambda>v a c. case v of VBytes w \<Rightarrow>
      if length w < n then get_data_decoded L d n (VBytes w) a c else act_return None
    | _ \<Rightarrow> act_return None"
  have "never RecursionError (?rec v a c)" for v a c
    using Suc.IH by (auto simp: never_def split: pyval.splits)
  then have "never RecursionError (get_data_decoded_rec L ?rec d (VBytes b) a c)"
    by (rule never_get_data_decoded_rec [OF ln])
  moreover have "agree (length b) (get_data_decoded L d n) ?rec"
    using Suc.prems by (simp add: agree_def)
  then have "get_data_decoded L d (Suc n) (VBytes b) a c = get_data_decoded_rec L ?rec d (VBytes b) a c"
    using transaction_agree [OF ns]
    by (simp add: get_data_decoded_rec_def act_catch_def act_bind_def fun_eq_iff)
  ultimately show ?case by simp
qed

section \<open>The demo instance satisfies the laws\<close>

lemma demo_hex_length: "demo_hex_bytes s = Inr b \<Longrightarrow> length s = 2 * length b"
  by (induction s arbitrary: b rule: demo_hex_bytes.induct) (auto simp: res_bind_Inr_iff split: option.splits)

lemma bytes_hex_length: "length (bytes_hex b) = 2 * length b"
  by (induction b) (simp_all add: bytes_hex_def byte_hex_def)

lemma demo_decode_sizes:
  "demo_decode ts bs = Inr vs \<Longrightarrow> v \<in> set vs \<Longrightarrow>
   (case v of VBytes w \<Rightarrow> length w < length bs | VStr s \<Rightarrow> length s = 4 \<and> bs \<noteq> [] | _ \<Rightarrow> True)"
proof (induction ts bs arbitrary: vs rule: demo_decode.induct)
  case (3 t ts b bs)
  show ?case
  proof (cases "t = ''bytes''")
    case True
    with 3 show ?thesis
      by (auto simp: res_bind_Inr_iff split: if_splits pyval.splits)
  next
    case False
    with 3 show ?thesis
      by (auto simp: res_bind_Inr_iff demo_to_hex_def bytes_hex_length split: if_splits pyval.splits)
  qed
qed simp_all


lemma demo_txs_length: "tx \<in> set (demo_txs n bs) \<Longrightarrow> length (tx_data tx) + 2 \<le> length bs"
  by (induction n bs rule: demo_txs.induct) (fastforce split: if_splits)+

lemma demo_map_data_cases:
  assumes "demo_map_data [n] ts vs = Inr ws" and "w \<in> set ws"
  obtains t v r where "v \<in> set vs" "n t v = Inr r" "w = (case r of None \<Rightarrow> v | Some (_, u) \<Rightarrow> u)"
proof -
  define F where "F = (\<lambda>(t, v). res_bind (n t v) (\<lambda>r. Inr (case r of None \<Rightarrow> v | Some (_, w) \<Rightarrow> w)))"
  have "res_map F (zip ts vs) = Inr ws"
    using assms(1) unfolding demo_map_data.simps F_def [symmetric] by (simp add: res_bind_Inr_iff)
  then have "list_all2 (\<lambda>p w. F p = Inr w) (zip ts vs) ws" by (simp only: res_map_Inr_iff)
  from list_all2_left [OF this assms(2)] obtain t v where "(t, v) \<in> set (zip ts vs)" and "F (t, v) = Inr w"
    by fastforce
  then show thesis
    by (auto simp: F_def res_bind_Inr_iff dest: set_zip_rightD intro: that)
qed

lemma demo_checksum_same: "fast_to_checksum_address demo_lib v = Inr a \<Longrightarrow> v = VStr a"
  by (cases v) (simp_all add: demo_lib_def)

lemma demo_map_values:
  assumes "demo_map_data [addresses_checksummed_normalizer demo_lib] ts vs = Inr ws" and "w \<in> set ws"
  shows "w \<in> set vs"
  using assms
  by (rule demo_map_data_cases)
    (auto simp: addresses_checksummed_normalizer_def res_bind_Inr_iff dest!: demo_checksum_same split: if_splits)

lemma str_int_not_hex: "0 \<le> i \<Longrightarrow> take 2 (str_int i) \<noteq> ''0x''"
proof
  assume i: "0 \<le> i" and t: "take 2 (str_int i) = ''0x''"
  have "list_all is_decimal_char (str_int i)" using i nat_digits_decimal by (simp add: str_int_def)
  moreover have "CHR ''x'' \<in> set (str_int i)"
    using t set_take_subset [of 2 "str_int i"] by auto
  ultimately have "is_decimal_char (CHR ''x'')" by (simp add: list_all_iff)
  then show False by (simp add: is_decimal_char_def)
qed

lemma demo_parsed_length:
  assumes "HexBytes demo_lib (parse_decoded_arguments demo_lib v) = Inr w"
    and "case v of VBytes u \<Rightarrow> length u < n | VStr s \<Rightarrow> length s = 4 \<and> 0 < n | VInt i \<Rightarrow> 0 \<le> i | _ \<Rightarrow> True"
  shows "length w < n + 4"
  using assms str_int_not_hex
  by (cases v) (auto simp: demo_lib_def demo_to_hex_def bytes_hex_length split: if_splits dest!: demo_hex_length)

lemma demo_decode_ints: "demo_decode ts bs = Inr vs \<Longrightarrow> VInt i \<in> set vs \<Longrightarrow> 0 \<le> i"
  by (induction ts bs arbitrary: vs rule: demo_decode.induct)
    (auto simp: res_bind_Inr_iff split: if_splits)

lemma demo_nested_shrinks: "nested_shrinks demo_lib"
  unfolding nested_shrinks_def
proof (intro conjI allI impI)
  fix b txs tx assume "multisend_from_transaction_data demo_lib (VBytes b) = Inr txs" "tx \<in> set txs"
  then have "tx \<in> set (demo_txs (length b) (drop 5 b))" by (simp add: demo_lib_def)
  from demo_txs_length [OF this] show "length (tx_data tx) < length b" by simp
next
  fix fn_abi b names types vals v w
  assume dec: "decode_arguments demo_lib fn_abi (drop 4 b) = Inr (names, types, vals)"
    and "2 < length vals" and v: "v \<in> set vals" and w: "HexBytes demo_lib v = Inr w"
  from dec obtain ds ws where ds: "demo_decode types (drop 4 b) = Inr ds"
    and ws: "demo_map_data [addresses_checksummed_normalizer demo_lib] types ds = Inr ws"
    and vals: "vals = map (parse_decoded_arguments demo_lib) ws"
    by (auto simp: decode_arguments_def res_bind_Inr_iff demo_lib_def)
  from v vals obtain u where u: "u \<in> set ws" and vu: "v = parse_decoded_arguments demo_lib u" by auto
  have "u \<in> set ds" by (rule demo_map_values [OF ws u])
  with ds have "case u of VBytes w \<Rightarrow> length w < length (drop 4 b)
      | VStr s \<Rightarrow> length s = 4 \<and> 0 < length (drop 4 b) | VInt i \<Rightarrow> 0 \<le> i | _ \<Rightarrow> True"
    using demo_decode_sizes [OF ds, of u] demo_decode_ints [OF ds] by (auto split: pyval.splits)
  from demo_parsed_length [OF w [unfolded vu] this] show "length w < length b"
    using \<open>u \<in> set ds\<close> ds by (cases "drop 4 b = []") (auto elim: demo_decode.elims)
qed simp


lemma res_map_never: "(\<And>x. f x \<noteq> Inl e) \<Longrightarrow> res_map f xs \<noteq> Inl e"
proof (induction xs)
  case (Cons x xs)
  then have "f x \<noteq> Inl e" "res_map f xs \<noteq> Inl e" by auto
  then show ?case by (auto simp: res_bind_def split: sum.splits)
qed simp

lemma res_bind_never: "r \<noteq> Inl e \<Longrightarrow> (\<And>a. f a \<noteq> Inl e) \<Longrightarrow> res_bind r f \<noteq> Inl e"
  by (cases r) auto

lemma demo_HexBytes_never: "demo_HexBytes v \<noteq> Inl RecursionError"
proof -
  have "demo_hex_bytes s \<noteq> Inl RecursionError" for s
    by (induction s rule: demo_hex_bytes.induct) (auto simp: res_bind_Inl_iff split: option.splits)
  then show ?thesis by (cases v) auto
qed

lemma demo_decode_never: "demo_decode ts bs \<noteq> Inl RecursionError"
  by (induction ts bs rule: demo_decode.induct) (auto simp: res_bind_Inl_iff)

lemma demo_inputs_never: "demo_inputs k f \<noteq> Inl RecursionError"
  unfolding demo_inputs_def by (intro res_bind_never res_map_never json_never) simp

lemma demo_normalizer_never: "addresses_checksummed_normalizer demo_lib t v \<noteq> Inl RecursionError"
  by (cases v) (auto simp: addresses_checksummed_normalizer_def demo_lib_def)

lemma demo_map_never:
  "demo_map_data [addresses_checksummed_normalizer demo_lib] ts vs \<noteq> Inl RecursionError"
proof -
  have "res_map (\<lambda>(t, v). res_bind (addresses_checksummed_normalizer demo_lib t v)
      (\<lambda>r. Inr (case r of None \<Rightarrow> v | Some (_, w) \<Rightarrow> w))) (zip ts vs) \<noteq> Inl RecursionError"
    using demo_normalizer_never by (intro res_map_never) (auto simp: res_bind_Inl_iff)
  then show ?thesis by (auto simp: res_bind_Inl_iff)
qed

lemma demo_lib_never: "lib_never RecursionError demo_lib"
proof -
  have "demo_selector f \<noteq> Inl RecursionError" for f
    unfolding demo_selector_def by (intro res_bind_never json_never) simp
  moreover have "demo_multisend v \<noteq> Inl RecursionError" for v by (cases v) auto
  ultimately show ?thesis
    using demo_HexBytes_never demo_decode_never demo_inputs_never demo_map_never
    by (simp add: lib_never_def demo_lib_def)
qed

end
