(* ===== verification/Decoder_Results.thy ===== *)
theory Decoder_Results
  imports Decoder_Nested
begin

text \<open>
  What a decoded transaction looks like: the parameters follow the signature of the
  function that was chosen, the transactions of a MultiSend batch appear one for one and
  in order, every value at every depth of the result is ready for JSON, and the errors of
  the decoder itself stay inside \<open>get_data_decoded\<close>.
\<close>

section \<open>Values that survive serialisation unchanged\<close>

text \<open>
  No byte string, integer or boolean is left: bytes became hexadecimal strings, and
  integers, which JavaScript clients would round above \<open>2^53\<close>, became decimal strings.
\<close>

fun serialisable :: "pyval \<Rightarrow> bool" where
  "serialisable (VInt i) = False"
| "serialisable (VBool b) = False"
| "serialisable (VBytes b) = False"
| "serialisable (VStr s) = True"
| "serialisable (VDecimal s) = True"
| "serialisable (VTuple vs) = list_all serialisable vs"
| "serialisable (VList vs) = list_all serialisable vs"

fun parameter_ok :: "parameter_decoded \<Rightarrow> bool"
  and value_ok :: "value_decoded \<Rightarrow> bool"
  and decoded_ok :: "data_decoded \<Rightarrow> bool"
  and multisend_ok :: "multisend_decoded \<Rightarrow> bool" where
  "parameter_ok (ParameterDecoded n t v w) =
     (serialisable v \<and> (case w of None \<Rightarrow> True | Some x \<Rightarrow> value_ok x))"
| "value_ok ValueNone = True"
| "value_ok (ValueMultisend ms) = list_all multisend_ok ms"
| "value_ok (ValueData d) = decoded_ok d"
| "decoded_ok (DataDecoded m ps) = list_all parameter_ok ps"
| "multisend_ok (MultisendDecoded op t v dat d) = (case d of None \<Rightarrow> True | Some x \<Rightarrow> decoded_ok x)"

lemma parse_serialisable: "serialisable (parse_decoded_arguments L v)"
  by (induction v rule: serialisable.induct) (simp_all add: list_all_iff)

lemma parse_serialisable_id: "serialisable v \<Longrightarrow> parse_decoded_arguments L v = v"
  by (induction v rule: serialisable.induct) (simp_all add: list_all_iff map_idI)

section \<open>What an operation returns, when it returns\<close>

definition returns :: "('a \<Rightarrow> bool) \<Rightarrow> ('s, 'a) act \<Rightarrow> bool" where
  "returns Q m \<longleftrightarrow> triple (\<lambda>_. True) m (\<lambda>a _. Q a) (\<lambda>_ _. True)"

lemma returnsD: "returns Q m \<Longrightarrow> m s = (Inr a, s') \<Longrightarrow> Q a"
  by (auto simp: returns_def dest: tripleD_Inr)

lemma returnsI: "(\<And>s a s'. m s = (Inr a, s') \<Longrightarrow> Q a) \<Longrightarrow> returns Q m"
  unfolding returns_def by (rule tripleI) simp_all

lemma returns_basic:
  "Q a \<Longrightarrow> returns Q (act_return a)" "returns Q (act_raise e)" "(\<And>s. Q s) \<Longrightarrow> returns Q act_get"
  by (rule returnsI; simp)+

lemma returns_lift: "(\<And>a. r = Inr a \<Longrightarrow> Q a) \<Longrightarrow> returns Q (act_lift r)"
  by (rule returnsI) simp

lemma returns_bind: "returns R m \<Longrightarrow> (\<And>a. R a \<Longrightarrow> returns Q (f a)) \<Longrightarrow> returns Q (act_bind m f)"
  by (fastforce simp: returns_def triple_def act_bind_def split: prod.splits sum.splits)

lemma returns_bind_any: "(\<And>a. returns Q (f a)) \<Longrightarrow> returns Q (act_bind m f)"
  by (fastforce simp: returns_def triple_def act_bind_def split: prod.splits sum.splits)

lemma returns_catch: "returns Q m \<Longrightarrow> (\<And>e. returns Q (h e)) \<Longrightarrow> returns Q (act_catch m c h)"
  by (fastforce simp: returns_def triple_def act_catch_def split: prod.splits sum.splits)

lemma returns_if: "(b \<Longrightarrow> returns Q m) \<Longrightarrow> (\<not> b \<Longrightarrow> returns Q n) \<Longrightarrow> returns Q (if b then m else n)"
  by simp

lemma returns_map:
  assumes "\<And>x. x \<in> set xs \<Longrightarrow> returns Q (f x)"
  shows "returns (list_all Q) (act_map f xs)"
proof (rule returnsI)
  fix s ys s' assume "act_map f xs s = (Inr ys, s')"
  from act_map_Inr [OF this] have l: "list_all2 (\<lambda>x y. \<exists>s1 s2. f x s1 = (Inr y, s2)) xs ys" .
  show "list_all Q ys"
    unfolding list_all_iff
  proof
    fix y assume "y \<in> set ys"
    from list_all2_left [OF l this] assms show "Q y" by (blast dest: returnsD)
  qed
qed

section \<open>Every value of a result is serialisable\<close>

definition rec_ok :: "('c, 'd) get_decoded \<Rightarrow> bool" where
  "rec_ok rec \<longleftrightarrow> (\<forall>v a c. returns (\<lambda>r. case r of None \<Rightarrow> True | Some x \<Rightarrow> decoded_ok x) (rec v a c))"

lemma rec_okD: "rec_ok rec \<Longrightarrow> returns (\<lambda>r. case r of None \<Rightarrow> True | Some x \<Rightarrow> decoded_ok x) (rec v a c)"
  by (simp add: rec_ok_def)

lemma decode_multisend_ok:
  assumes "rec_ok rec"
  shows "returns (\<lambda>r. case r of None \<Rightarrow> True | Some xs \<Rightarrow> list_all multisend_ok xs)
    (decode_multisend_data L rec data c)"
  unfolding decode_multisend_data_def
  by (intro returns_catch returns_bind_any [where f = "\<lambda>_. act_return None"]
      returns_bind_any [where m = "act_lift (multisend_from_transaction_data L data)"]
      returns_bind [OF returns_map] returns_bind [OF rec_okD [OF assms]] returns_basic)
    (auto intro: returns_basic)

lemma set_value_decoded_ok:
  assumes "set_value_decoded i v ps = Inr qs" and "list_all parameter_ok ps" and "value_ok v"
  shows "list_all parameter_ok qs"
proof -
  from assms(1) have i: "i < length ps" and
    qs: "qs = ps[i := ParameterDecoded (pd_name (ps ! i)) (pd_type (ps ! i)) (pd_value (ps ! i)) (Some v)]"
    by (auto simp: set_value_decoded_def split: if_splits)
  have "parameter_ok (ps ! i)" using i assms(2) by (simp add: list_all_length)
  then have "parameter_ok (ParameterDecoded (pd_name (ps ! i)) (pd_type (ps ! i)) (pd_value (ps ! i)) (Some v))"
    using assms(3) by (cases "ps ! i") simp
  then show ?thesis using assms(2) unfolding qs by (intro list_all_update)
qed

lemma decode_parameters_ok:
  assumes rec: "rec_ok rec" and ps: "list_all parameter_ok ps"
  shows "returns (list_all parameter_ok) (decode_parameters_data L rec b ps c)"
proof -
  have multi: "returns (list_all parameter_ok) (act_bind (decode_multisend_data L rec data c) (\<lambda>txs.
      act_lift (set_value_decoded i (case txs of None \<Rightarrow> ValueNone | Some xs \<Rightarrow> ValueMultisend xs) ps)))" for data i
    by (rule returns_bind [OF decode_multisend_ok [OF rec]])
      (auto intro!: returns_lift dest!: set_value_decoded_ok [OF _ ps] split: option.splits)
  have inner: "returns (list_all parameter_ok) (act_bind (rec v a c) (\<lambda>decoded.
      act_lift (set_value_decoded i (case decoded of None \<Rightarrow> ValueNone | Some x \<Rightarrow> ValueData x) ps)))" for v a i
    by (rule returns_bind [OF rec_okD [OF rec]])
      (auto intro!: returns_lift dest!: set_value_decoded_ok [OF _ ps] split: option.splits)
  show ?thesis
    unfolding decode_parameters_data_def Let_def
    by (intro returns_bind_any [where m = act_get] returns_if multi
        returns_bind_any [where m = "act_lift (HexBytes L (pd_value (ps ! 2)))"] returns_catch inner
        returns_basic ps)
qed

lemma decode_data_ok:
  "returns (\<lambda>(name, raw). \<forall>(n, t, v) \<in> set raw. serialisable v) (decode_data L d data a c)"
proof (rule returnsI)
  fix s r s' assume r: "decode_data L d data a c s = (Inr r, s')"
  obtain name raw where nr: "r = (name, raw)" by (cases r)
  from decode_data_Inr [OF r [unfolded nr]] obtain b fn_abi names types vals where
    dec: "decode_arguments L fn_abi (drop 4 b) = Inr (names, types, vals)"
    and raw: "raw = zip names (zip types vals)" by metis
  from dec have "\<forall>v\<in>set vals. serialisable v"
    by (auto simp: decode_arguments_def res_bind_Inr_iff parse_serialisable)
  then show "case r of (name, raw) \<Rightarrow> \<forall>(n, t, v) \<in> set raw. serialisable v"
    by (auto simp: nr raw dest!: set_zip_rightD)
qed

lemma decode_transaction_ok:
  assumes "rec_ok rec"
  shows "returns (\<lambda>(name, ps). list_all parameter_ok ps) (decode_transaction_with_types_rec L rec d data a c)"
  unfolding decode_transaction_with_types_rec_def
  by (intro returns_bind_any [where m = "act_lift (HexBytes L data)"] returns_bind [OF decode_data_ok])
    (fastforce simp: Let_def list_all_iff intro!: returns_bind [OF decode_parameters_ok [OF assms]] returns_basic)

lemma get_data_decoded_ok: "rec_ok (get_data_decoded L d n)"
proof (induction n)
  case 0
  show ?case unfolding rec_ok_def get_data_decoded.simps by (intro allI returns_basic)
next
  case (Suc n)
  show ?case
    unfolding rec_ok_def get_data_decoded.simps get_data_decoded_rec_def
    by (intro allI returns_if returns_catch returns_bind [OF decode_transaction_ok [OF Suc]])
      (auto intro!: returns_basic)
qed


section \<open>The demo batch\<close>

lemma pair_Inr_Some: "(case fst p of Inr (Some _) \<Rightarrow> True | _ \<Rightarrow> False) \<Longrightarrow> \<exists>x s'. p = (Inr (Some x), s')"
  by (cases p) (auto split: sum.splits option.splits)

lemma demo_batch_decoded:
  "\<exists>x s'. get_data_decoded demo_lib demo_batch_db 30 (VBytes demo_batch) None None demo_batch_decoder
     = (Inr (Some x), s')"
  by (rule pair_Inr_Some) code_simp

lemma demo_batch_typed:
  "\<exists>fn_name ps s'. decode_transaction_with_types demo_lib demo_batch_db 30 (VBytes demo_batch) None None
     demo_batch_decoder = (Inr (fn_name, ps), s')"
proof -
  let ?p = "decode_transaction_with_types demo_lib demo_batch_db 30 (VBytes demo_batch) None None demo_batch_decoder"
  have "\<not> (case fst ?p of Inl _ \<Rightarrow> True | Inr _ \<Rightarrow> False)" by code_simp
  then show ?thesis by (cases ?p) (auto split: sum.splits)
qed

lemma demo_batch_multisend:
  "\<exists>xs s'. decode_multisend_data demo_lib (get_data_decoded demo_lib demo_batch_db 30) (VBytes demo_batch) None
     demo_batch_decoder = (Inr (Some xs), s')"
  by (rule pair_Inr_Some) code_simp

definition demo_exec_data :: bytes where
  "demo_exec_data = EXEC_TRANSACTION_SELECTOR @ [1, 2, 1]"

lemma demo_exec_decoded:
  "\<exists>fn_name raw s1. decode_data demo_lib demo_batch_db (VBytes demo_exec_data) None None demo_batch_decoder
       = (Inr (fn_name, raw), s1)
     \<and> EXEC_TRANSACTION_SELECTOR \<notin> dict_keys (multisend_fn_selectors_with_abis s1)
     \<and> 2 < length raw \<and> HexBytes demo_lib (snd (snd (raw ! 2))) = Inl ValueError"
proof -
  let ?p = "decode_data demo_lib demo_batch_db (VBytes demo_exec_data) None None demo_batch_decoder"
  have "case ?p of (Inl _, s1) \<Rightarrow> False
    | (Inr (fn_name, raw), s1) \<Rightarrow> \<not> EXEC_TRANSACTION_SELECTOR \<in> fst ` set (multisend_fn_selectors_with_abis s1)
       \<and> 2 < length raw \<and> HexBytes demo_lib (snd (snd (raw ! 2))) = Inl ValueError" by code_simp
  then show ?thesis by (cases ?p) (auto simp: dict_keys_def split: sum.splits)
qed

section \<open>Parameters follow the signature\<close>

abbreviation raw_parameter :: "parameter_decoded \<Rightarrow> string \<times> string \<times> pyval" where
  "raw_parameter p \<equiv> (pd_name p, pd_type p, pd_value p)"

lemma set_value_decoded_raw: "set_value_decoded i v ps = Inr qs \<Longrightarrow> map raw_parameter qs = map raw_parameter ps"
  by (auto simp: set_value_decoded_def map_update list_update_same_conv split: if_splits)

lemma decode_parameters_raw:
  "returns (\<lambda>qs. map raw_parameter qs = map raw_parameter ps) (decode_parameters_data L rec b ps c)"
  unfolding decode_parameters_data_def Let_def
  by (intro returns_bind_any [where m = act_get] returns_if
      returns_bind_any [where m = "decode_multisend_data L rec (VBytes b) c"]
      returns_bind_any [where m = "act_lift (HexBytes L (pd_value (ps ! 2)))"]
      returns_bind_any [where m = "rec x y c" for x y] returns_lift set_value_decoded_raw
      returns_catch returns_basic refl)

lemma decode_data_function:
  assumes "decode_data L d data a c s = (Inr (name, raw), s')"
  obtains b fn_abi names types vals where "HexBytes L data = Inr b"
    "fst (get_abi_function L d b a c s) = Inr (Some fn_abi)"
    "decode_arguments L fn_abi (drop 4 b) = Inr (names, types, vals)"
    "raw = zip names (zip types vals)" "json_item fn_abi ''name'' = Inr name"
  using assms
  by (fastforce simp: decode_data_def act_bind_def act_catch_def
      split: if_splits sum.splits prod.splits option.splits)

text \<open>
  C4. When a transaction is decoded, its name and its parameters are those of the
  function that \<open>get_abi_function\<close> chose for the data's selector: the names, types and
  values of the parameters, in order, are the inputs of that function zipped with the
  values decoded from the data behind the selector. Decoding nested data adds to the
  parameters and changes none of the three.
\<close>

theorem decode_follows_signature:
  assumes "\<And>b. HexBytes L (VBytes b) = Inr b"
    and "decode_transaction_with_types L d n data a c s = (Inr (fn_name, ps), s')"
  shows "\<exists>b fn_abi names types vals. HexBytes L data = Inr b
    \<and> fst (get_abi_function L d b a c s) = Inr (Some fn_abi)
    \<and> json_item fn_abi ''name'' = Inr fn_name
    \<and> decode_arguments L fn_abi (drop 4 b) = Inr (names, types, vals)
    \<and> map raw_parameter ps = zip names (zip types vals)"
proof -
  from assms(2) obtain b raw s1 where b: "HexBytes L data = Inr b"
    and raw: "decode_data L d (VBytes b) a c s = (Inr (fn_name, raw), s1)"
    and ps: "decode_parameters_data L (get_data_decoded L d n) b
        (map (\<lambda>(name, argument_type, value). ParameterDecoded name argument_type value None) raw) c s1 = (Inr ps, s')"
    by (auto simp: decode_transaction_with_types_def decode_transaction_with_types_rec_def act_bind_def
        split: sum.splits prod.splits)
  from returnsD [OF decode_parameters_raw ps] have "map raw_parameter ps = raw"
    by (auto simp: comp_def case_prod_unfold)
  with raw b assms(1) show ?thesis by (elim decode_data_function) auto
qed

lemma decode_follows_signature_witness:
  "\<exists>fn_name ps s' b fn_abi names types vals.
     decode_transaction_with_types demo_lib demo_batch_db 30 (VBytes demo_batch) None None demo_batch_decoder
       = (Inr (fn_name, ps), s')
     \<and> decode_arguments demo_lib fn_abi (drop 4 b) = Inr (names, types, vals)
     \<and> map raw_parameter ps = zip names (zip types vals)"
proof -
  obtain fn_name ps s' where r: "decode_transaction_with_types demo_lib demo_batch_db 30 (VBytes demo_batch)
      None None demo_batch_decoder = (Inr (fn_name, ps), s')" using demo_batch_typed by blast
  from decode_follows_signature [OF demo_HexBytes_bytes r] r show ?thesis by blast
qed



text \<open>
  C10. A MultiSend batch is decoded transaction by transaction: the result has one element
  per transaction of the batch, in order, with its operation, its target, its value as a
  decimal numeral that reads back to the value, no data exactly when the transaction has
  none, and what \<open>get_data_decoded\<close> returned for its data and its own target address.
\<close>

theorem multisend_one_for_one:
  assumes "decode_multisend_data L (get_data_decoded L d n) data c s = (Inr (Some xs), s')"
  shows "\<exists>txs. multisend_from_transaction_data L data = Inr txs \<and>
    list_all2 (\<lambda>tx m. md_operation m = tx_operation tx \<and> md_to m = tx_to tx
      \<and> (0 \<le> tx_value tx \<longrightarrow> int_of_str (md_value m) = Inr (tx_value tx))
      \<and> md_data m = (if tx_data tx = [] then None else Some (to_0x_hex_str L (tx_data tx)))
      \<and> (\<exists>s1 s2. get_data_decoded L d n (VBytes (tx_data tx)) (Some (VStr (tx_to tx))) c s1
                  = (Inr (md_data_decoded m), s2))) txs xs"
proof (cases "multisend_from_transaction_data L data")
  case (Inl e)
  with assms show ?thesis
    by (auto simp: decode_multisend_data_def act_catch_def act_bind_def split: if_splits sum.splits)
next
  case (Inr txs)
  let ?f = "\<lambda>tx. act_bind (get_data_decoded L d n (VBytes (tx_data tx)) (Some (VStr (tx_to tx))) c) (\<lambda>decoded.
      act_return (MultisendDecoded (tx_operation tx) (tx_to tx) (str_int (tx_value tx))
        (if tx_data tx \<noteq> [] then Some (to_0x_hex_str L (tx_data tx)) else None) decoded))"
  have "act_map ?f txs s = (Inr xs, s')"
    using assms Inr
    by (auto simp: decode_multisend_data_def act_catch_def act_bind_def split: if_splits sum.splits prod.splits)
  from act_map_Inr [OF this] have txs: "list_all2 (\<lambda>tx m. \<exists>s1 s2. ?f tx s1 = (Inr m, s2)) txs xs" .
  show ?thesis
    unfolding Inr by (intro exI [of _ txs] conjI refl, rule list_all2_mono [OF txs])
      (force simp: act_bind_Inr_iff int_of_str_int)
qed

lemma multisend_one_for_one_witness:
  "\<exists>xs txs. multisend_from_transaction_data demo_lib (VBytes demo_batch) = Inr txs
     \<and> list_all2 (\<lambda>tx m. md_operation m = tx_operation tx \<and> md_to m = tx_to tx) txs xs"
proof -
  obtain xs s' where r: "decode_multisend_data demo_lib (get_data_decoded demo_lib demo_batch_db 30)
      (VBytes demo_batch) None demo_batch_decoder = (Inr (Some xs), s')" using demo_batch_multisend by blast
  obtain txs where "multisend_from_transaction_data demo_lib (VBytes demo_batch) = Inr txs"
    "list_all2 (\<lambda>tx m. md_operation m = tx_operation tx \<and> md_to m = tx_to tx) txs xs"
    using multisend_one_for_one [OF r] by (blast intro: list_all2_mono)
  then show ?thesis by blast
qed

section \<open>Errors and termination\<close>

text \<open>
  Data whose selector no ABI of the decoder defines, and data that is only a
  prefix, make the decoding raise \<open>CannotDecode\<close> and leave the service unchanged, whatever
  the address and the chain; \<open>get_data_decoded\<close> answers \<open>None\<close>.
\<close>

theorem unknown_selector_cannot_decode:
  assumes "HexBytes L data = Inr b" and "\<And>w. HexBytes L (VBytes w) = Inr w"
    and "map_of (fn_selectors_with_abis s) (take 4 b) = None"
  shows "decode_transaction_with_types L d n data a c s = (Inl CannotDecode, s)
    \<and> get_data_decoded L d (Suc n) data a c s = (Inr None, s)"
proof -
  have "decode_data L d (VBytes b) a c s = (Inl CannotDecode, s)"
    using assms(2,3) by (simp add: decode_data_def get_abi_function_def Let_def act_bind_def)
  then show ?thesis
    using assms(1)
    by (simp add: decode_transaction_with_types_def decode_transaction_with_types_rec_def
        get_data_decoded_rec_def act_bind_def act_catch_def data_decoder_exception_def)
qed

lemma unknown_selector_cannot_decode_witness:
  "get_data_decoded demo_lib demo_batch_db 5 (VBytes [1, 2, 3]) None None demo_batch_decoder
     = (Inr None, demo_batch_decoder)"
proof -
  have "map_of (fn_selectors_with_abis demo_batch_decoder) (take 4 [1, 2, 3]) = None" by code_simp
  from unknown_selector_cannot_decode [OF demo_HexBytes_bytes demo_HexBytes_bytes this, of demo_batch_db 4 None None]
  show ?thesis by (simp add: eval_nat_numeral)
qed

text \<open>
  The errors of the decoder stay inside \<open>get_data_decoded\<close>, at every depth. The errors
  of \<open>HexBytes\<close> do not: data that carries the selector of \<open>execTransaction\<close> and decodes
  with a function of that selector whose third argument is not hexadecimal makes the call
  raise the error of \<open>HexBytes\<close>, since the walrus in the \<open>elif\<close> is evaluated before the \<open>try\<close>.
\<close>

theorem exec_transaction_value_error:
  assumes "\<And>b. HexBytes L (VBytes b) = Inr b"
    and "take 4 b = EXEC_TRANSACTION_SELECTOR"
    and "EXEC_TRANSACTION_SELECTOR \<notin> dict_keys (multisend_fn_selectors_with_abis s1)"
    and "decode_data L d (VBytes b) a c s = (Inr (fn_name, raw), s1)"
    and "2 < length raw" and "HexBytes L (snd (snd (raw ! 2))) = Inl e" and "\<not> data_decoder_exception e"
  shows "get_data_decoded L d (Suc n) (VBytes b) a c s = (Inl e, s1)
    \<and> never CannotDecode (get_data_decoded L d n data a c)
    \<and> never UnexpectedProblemDecoding (get_data_decoded L d n data a c)"
proof (intro conjI)
  have "b \<noteq> []" using assms(2) by (auto simp: EXEC_TRANSACTION_SELECTOR_def)
  then show "get_data_decoded L d (Suc n) (VBytes b) a c s = (Inl e, s1)"
    using assms
    by (simp add: get_data_decoded_rec_def decode_transaction_with_types_rec_def decode_parameters_data_def
        act_bind_def act_catch_def case_prod_unfold Let_def)
  show "never CannotDecode (get_data_decoded L d n data a c)"
    "never UnexpectedProblemDecoding (get_data_decoded L d n data a c)"
    by (cases n; auto simp: get_data_decoded_rec_def data_decoder_exception_def intro!: never_rules)+
qed

lemma exec_transaction_value_error_witness:
  "\<exists>s1. get_data_decoded demo_lib demo_batch_db (Suc 20) (VBytes demo_exec_data) None None demo_batch_decoder
     = (Inl ValueError, s1)"
proof -
  obtain fn_name raw s1 where r: "decode_data demo_lib demo_batch_db (VBytes demo_exec_data) None None
      demo_batch_decoder = (Inr (fn_name, raw), s1)"
    and rest: "EXEC_TRANSACTION_SELECTOR \<notin> dict_keys (multisend_fn_selectors_with_abis s1)" "2 < length raw"
      "HexBytes demo_lib (snd (snd (raw ! 2))) = Inl ValueError" using demo_exec_decoded by blast
  have sel: "take 4 demo_exec_data = EXEC_TRANSACTION_SELECTOR" by code_simp
  have "\<not> data_decoder_exception ValueError" by (simp add: data_decoder_exception_def)
  from exec_transaction_value_error [OF demo_HexBytes_bytes sel rest(1) r rest(2,3) this] show ?thesis by blast
qed

text \<open>
  C5. Decoding terminates: with a call depth above the length of the data, the recursion
  through nested batches and \<open>execTransaction\<close> calls never runs out, and every such depth
  gives the same answer and the same state.
\<close>

theorem nested_decoding_terminates:
  assumes "nested_shrinks L" and "lib_never RecursionError L" and "length b < m" and "length b < n"
  shows "get_data_decoded L d m (VBytes b) a c s = get_data_decoded L d n (VBytes b) a c s
    \<and> fst (get_data_decoded L d n (VBytes b) a c s) \<noteq> Inl RecursionError"
  using get_data_decoded_agree [OF assms(1,3,4)] get_data_decoded_enough [OF assms(1,2,4)]
  by (simp add: never_def)

lemma nested_decoding_terminates_witness:
  "get_data_decoded demo_lib demo_batch_db 16 (VBytes demo_batch) None None demo_batch_decoder
     = get_data_decoded demo_lib demo_batch_db 900 (VBytes demo_batch) None None demo_batch_decoder"
proof -
  have "length demo_batch < 16" "length demo_batch < 900" by (simp_all add: demo_batch_def tran_selector_def)
  from nested_decoding_terminates [OF demo_nested_shrinks demo_lib_never this] show ?thesis by blast
qed

end
