(* ===== verification/Response.thy ===== *)
theory Response
  imports Decoder_Results
begin

text \<open>
  The response of the decoding endpoint: the models \<open>ParameterDecodedPublic\<close> to
  \<open>MultisendDecodedPublic\<close> of \<open>app/routers/models.py\<close>. A decoding is validated level by level
  into these models and then written as JSON under the camel-case names. The decoding of a
  byte string as UTF-8 text, which no value of a decoding needs, is an argument.
\<close>

section \<open>The published models\<close>

datatype parameter_decoded_public =
  ParameterDecodedPublic (pp_name: string) (pp_type: string) (pp_value: pyval) (pp_value_decoded: value_public)
and value_public =
    NoValue
  | MultisendValue "multisend_decoded_public list"
  | DataValue base_data_decoded_public
and base_data_decoded_public =
  BaseDataDecodedPublic (bp_method: string) (bp_parameters: "parameter_decoded_public list")
and multisend_decoded_public =
  MultisendDecodedPublic (mp_operation: int) (mp_to: string) (mp_value: string) (mp_data: "string option")
    (mp_data_decoded: "base_data_decoded_public option")

text \<open>Validation: only the method can have a wrong type, at any depth.\<close>

fun publish_method :: "json \<Rightarrow> string res" where
  "publish_method (JStr m) = Inr m"
| "publish_method _ = Inl ValueError"

fun publish_parameter :: "parameter_decoded \<Rightarrow> parameter_decoded_public res"
  and publish_value :: "value_decoded \<Rightarrow> value_public res"
  and publish_data :: "data_decoded \<Rightarrow> base_data_decoded_public res"
  and publish_multisend :: "multisend_decoded \<Rightarrow> multisend_decoded_public res" where
  "publish_parameter (ParameterDecoded n t v w) =
     res_bind (case w of None \<Rightarrow> Inr NoValue | Some x \<Rightarrow> publish_value x) (\<lambda>w.
       Inr (ParameterDecodedPublic n t v w))"
| "publish_value ValueNone = Inr NoValue"
| "publish_value (ValueMultisend ms) = res_bind (res_map publish_multisend ms) (\<lambda>ms. Inr (MultisendValue ms))"
| "publish_value (ValueData d) = res_bind (publish_data d) (\<lambda>d. Inr (DataValue d))"
| "publish_data (DataDecoded m ps) =
     res_bind (publish_method m) (\<lambda>m.
     res_bind (res_map publish_parameter ps) (\<lambda>ps. Inr (BaseDataDecodedPublic m ps)))"
| "publish_multisend (MultisendDecoded operation to v dat d) =
     res_bind (case d of None \<Rightarrow> Inr None | Some x \<Rightarrow> res_bind (publish_data x) (\<lambda>x. Inr (Some x))) (\<lambda>d.
       Inr (MultisendDecodedPublic operation to v dat d))"

section \<open>The JSON text's value\<close>

fun json_of_value :: "(bytes \<Rightarrow> string res) \<Rightarrow> pyval \<Rightarrow> json res" where
  "json_of_value utf8 (VInt i) = Inr (JInt i)"
| "json_of_value utf8 (VBool b) = Inr (JBool b)"
| "json_of_value utf8 (VBytes b) = res_bind (utf8 b) (\<lambda>s. Inr (JStr s))"
| "json_of_value utf8 (VStr s) = Inr (JStr s)"
| "json_of_value utf8 (VDecimal s) = Inr (JStr s)"
| "json_of_value utf8 (VTuple vs) = res_bind (res_map (json_of_value utf8) vs) (\<lambda>js. Inr (JList js))"
| "json_of_value utf8 (VList vs) = res_bind (res_map (json_of_value utf8) vs) (\<lambda>js. Inr (JList js))"

definition json_of_option :: "string option \<Rightarrow> json" where
  "json_of_option s = (case s of None \<Rightarrow> JNull | Some s \<Rightarrow> JStr s)"

fun json_of_parameter :: "(bytes \<Rightarrow> string res) \<Rightarrow> parameter_decoded_public \<Rightarrow> json res"
  and json_of_value_decoded :: "(bytes \<Rightarrow> string res) \<Rightarrow> value_public \<Rightarrow> json res"
  and json_of_data :: "(bytes \<Rightarrow> string res) \<Rightarrow> base_data_decoded_public \<Rightarrow> json res"
  and json_of_multisend :: "(bytes \<Rightarrow> string res) \<Rightarrow> multisend_decoded_public \<Rightarrow> json res" where
  "json_of_parameter utf8 (ParameterDecodedPublic n t v w) =
     res_bind (json_of_value utf8 v) (\<lambda>v. res_bind (json_of_value_decoded utf8 w) (\<lambda>w.
       Inr (JObj [(''name'', JStr n), (''type'', JStr t), (''value'', v), (''valueDecoded'', w)])))"
| "json_of_value_decoded utf8 NoValue = Inr JNull"
| "json_of_value_decoded utf8 (MultisendValue ms) = res_bind (res_map (json_of_multisend utf8) ms) (\<lambda>js. Inr (JList js))"
| "json_of_value_decoded utf8 (DataValue d) = json_of_data utf8 d"
| "json_of_data utf8 (BaseDataDecodedPublic m ps) =
     res_bind (res_map (json_of_parameter utf8) ps) (\<lambda>js.
       Inr (JObj [(''method'', JStr m), (''parameters'', JList js)]))"
| "json_of_multisend utf8 (MultisendDecodedPublic operation to v dat d) =
     res_bind (case d of None \<Rightarrow> Inr JNull | Some x \<Rightarrow> json_of_data utf8 x) (\<lambda>d.
       Inr (JObj [(''operation'', JInt operation), (''to'', JStr to), (''value'', JStr v), (''data'', json_of_option dat),
         (''dataDecoded'', d)]))"

section \<open>Reading the response back\<close>

text \<open>What a client reads: texts and lists; a missing option is \<open>null\<close>.\<close>

fun read_value :: "json \<Rightarrow> pyval" where
  "read_value (JStr s) = VStr s"
| "read_value (JList js) = VList (map read_value js)"
| "read_value _ = VList []"

fun read_option :: "json \<Rightarrow> string option" where
  "read_option (JStr s) = Some s"
| "read_option _ = None"

fun read_parameter :: "json \<Rightarrow> parameter_decoded_public option"
  and read_value_decoded :: "json \<Rightarrow> value_public option"
  and read_data :: "json \<Rightarrow> base_data_decoded_public option"
  and read_multisend :: "json \<Rightarrow> multisend_decoded_public option" where
  "read_parameter (JObj [(_, JStr n), (_, JStr t), (_, v), (_, w)]) =
     map_option (ParameterDecodedPublic n t (read_value v)) (read_value_decoded w)"
| "read_parameter _ = None"
| "read_value_decoded JNull = Some NoValue"
| "read_value_decoded (JList js) = map_option MultisendValue (those (map read_multisend js))"
| "read_value_decoded j = map_option DataValue (read_data j)"
| "read_data (JObj [(_, JStr m), (_, JList js)]) = map_option (BaseDataDecodedPublic m) (those (map read_parameter js))"
| "read_data _ = None"
| "read_multisend (JObj [(_, JInt operation), (_, JStr to), (_, JStr v), (_, dat), (_, d)]) =
     (case d of
        JNull \<Rightarrow> Some (MultisendDecodedPublic operation to v (read_option dat) None)
      | _ \<Rightarrow> map_option (\<lambda>x. MultisendDecodedPublic operation to v (read_option dat) (Some x)) (read_data d))"
| "read_multisend _ = None"

text \<open>The same decoding with every value as the texts and lists that JSON has for it.\<close>

fun text_value :: "pyval \<Rightarrow> pyval" where
  "text_value (VDecimal s) = VStr s"
| "text_value (VTuple vs) = VList (map text_value vs)"
| "text_value (VList vs) = VList (map text_value vs)"
| "text_value v = v"

fun text_parameter :: "parameter_decoded_public \<Rightarrow> parameter_decoded_public"
  and text_value_decoded :: "value_public \<Rightarrow> value_public"
  and text_data :: "base_data_decoded_public \<Rightarrow> base_data_decoded_public"
  and text_multisend :: "multisend_decoded_public \<Rightarrow> multisend_decoded_public" where
  "text_parameter (ParameterDecodedPublic n t v w) = ParameterDecodedPublic n t (text_value v) (text_value_decoded w)"
| "text_value_decoded NoValue = NoValue"
| "text_value_decoded (MultisendValue ms) = MultisendValue (map text_multisend ms)"
| "text_value_decoded (DataValue d) = DataValue (text_data d)"
| "text_data (BaseDataDecodedPublic m ps) = BaseDataDecodedPublic m (map text_parameter ps)"
| "text_multisend (MultisendDecodedPublic operation to v dat d) =
     MultisendDecodedPublic operation to v dat (case d of None \<Rightarrow> None | Some x \<Rightarrow> Some (text_data x))"

fun parameter_public_ok :: "parameter_decoded_public \<Rightarrow> bool"
  and value_public_ok :: "value_public \<Rightarrow> bool"
  and data_public_ok :: "base_data_decoded_public \<Rightarrow> bool"
  and multisend_public_ok :: "multisend_decoded_public \<Rightarrow> bool" where
  "parameter_public_ok (ParameterDecodedPublic n t v w) = (serialisable v \<and> value_public_ok w)"
| "value_public_ok NoValue = True"
| "value_public_ok (MultisendValue ms) = list_all multisend_public_ok ms"
| "value_public_ok (DataValue d) = data_public_ok d"
| "data_public_ok (BaseDataDecodedPublic m ps) = list_all parameter_public_ok ps"
| "multisend_public_ok (MultisendDecodedPublic operation to v dat d) =
     (case d of None \<Rightarrow> True | Some x \<Rightarrow> data_public_ok x)"

lemma publish_ok:
  "parameter_ok p \<Longrightarrow> publish_parameter p = Inr p' \<Longrightarrow> parameter_public_ok p'"
  "value_ok v \<Longrightarrow> publish_value v = Inr v' \<Longrightarrow> value_public_ok v'"
  "decoded_ok d \<Longrightarrow> publish_data d = Inr d' \<Longrightarrow> data_public_ok d'"
  "multisend_ok m \<Longrightarrow> publish_multisend m = Inr m' \<Longrightarrow> multisend_public_ok m'"
proof (induction p and v and d and m arbitrary: p' and v' and d' and m'
    rule: publish_parameter_publish_value_publish_data_publish_multisend.induct)
  case (1 n t v w)
  then show ?case by (cases w) (auto simp: res_bind_Inr_iff)
next
  case (3 ms)
  then obtain ms' where ms': "list_all2 (\<lambda>x y. publish_multisend x = Inr y) ms ms'" "v' = MultisendValue ms'"
    by (auto simp: res_bind_Inr_iff res_map_Inr_iff)
  have "multisend_public_ok y" if y: "y \<in> set ms'" for y
  proof -
    obtain x where "x \<in> set ms" "publish_multisend x = Inr y" using list_all2_left [OF ms'(1) y] by blast
    then show ?thesis using 3 by (auto simp: list_all_iff)
  qed
  then show ?case by (simp add: ms'(2) list_all_iff)
next
  case (5 m ps)
  then obtain m' ps' where ps': "list_all2 (\<lambda>x y. publish_parameter x = Inr y) ps ps'" "d' = BaseDataDecodedPublic m' ps'"
    by (auto simp: res_bind_Inr_iff res_map_Inr_iff)
  have "parameter_public_ok y" if y: "y \<in> set ps'" for y
  proof -
    obtain x where "x \<in> set ps" "publish_parameter x = Inr y" using list_all2_left [OF ps'(1) y] by blast
    then show ?thesis using 5 by (auto simp: list_all_iff)
  qed
  then show ?case by (simp add: ps'(2) list_all_iff)
next
  case (6 operation to v dat d)
  then show ?case by (cases d) (auto simp: res_bind_Inr_iff)
qed (auto simp: res_bind_Inr_iff)

lemma res_map_read:
  "\<forall>x\<in>set xs. \<exists>j. f x = Inr j \<and> r j = t x \<Longrightarrow> \<exists>js. res_map f xs = Inr js \<and> map r js = map t xs"
proof (induction xs)
  case (Cons x xs)
  then obtain j js where "f x = Inr j" "r j = t x" "res_map f xs = Inr js" "map r js = map t xs" by auto
  then show ?case by (intro exI [of _ "j # js"]) simp
qed simp

lemma those_read: "map r js = map (\<lambda>x. Some (t x)) xs \<Longrightarrow> those (map r js) = Some (map t xs)"
proof (induction xs arbitrary: js)
  case (Cons x xs)
  then show ?case by (cases js) auto
qed simp

lemma value_read: "serialisable v \<Longrightarrow> \<exists>j. json_of_value utf8 v = Inr j \<and> read_value j = text_value v"
proof (induction v rule: serialisable.induct)
  case (6 vs)
  then have "\<forall>v\<in>set vs. \<exists>j. json_of_value utf8 v = Inr j \<and> read_value j = text_value v" by (simp add: list_all_iff)
  from res_map_read [OF this] show ?case by auto
next
  case (7 vs)
  then have "\<forall>v\<in>set vs. \<exists>j. json_of_value utf8 v = Inr j \<and> read_value j = text_value v" by (simp add: list_all_iff)
  from res_map_read [OF this] show ?case by auto
qed simp_all

lemma response_read:
  "parameter_public_ok p \<Longrightarrow> \<exists>j. json_of_parameter utf8 p = Inr j \<and> read_parameter j = Some (text_parameter p)"
  "value_public_ok v \<Longrightarrow> \<exists>j. json_of_value_decoded utf8 v = Inr j \<and> read_value_decoded j = Some (text_value_decoded v)"
  "data_public_ok d \<Longrightarrow> \<exists>kvs. json_of_data utf8 d = Inr (JObj kvs) \<and> read_data (JObj kvs) = Some (text_data d)"
  "multisend_public_ok m \<Longrightarrow> \<exists>j. json_of_multisend utf8 m = Inr j \<and> read_multisend j = Some (text_multisend m)"
proof (induction p and v and d and m rule: text_parameter_text_value_decoded_text_data_text_multisend.induct)
  case (1 n t v w)
  then obtain j k where "json_of_value utf8 v = Inr j" "read_value j = text_value v"
    "json_of_value_decoded utf8 w = Inr k" "read_value_decoded k = Some (text_value_decoded w)"
    using value_read [of v utf8] by auto
  then show ?case by simp
next
  case (3 ms)
  then have "\<forall>m\<in>set ms. \<exists>j. json_of_multisend utf8 m = Inr j \<and> read_multisend j = Some (text_multisend m)"
    by (simp add: list_all_iff)
  from res_map_read [OF this] show ?case by (auto simp: those_read)
next
  case (5 m ps)
  then have "\<forall>p\<in>set ps. \<exists>j. json_of_parameter utf8 p = Inr j \<and> read_parameter j = Some (text_parameter p)"
    by (simp add: list_all_iff)
  from res_map_read [OF this] show ?case by (auto simp: those_read)
next
  case (6 operation to v dat d)
  have "read_option (json_of_option dat) = dat" by (cases dat) (simp_all add: json_of_option_def)
  with 6 show ?case by (cases d) auto
qed auto

end
