(* ===== verification/Memo.thy ===== *)
theory Memo
  imports Prelude
begin

text \<open>
  The contract of a value that is made at its first use and remembered from then on, which
  \<open>functools.cache\<close>, \<open>alru_cache\<close> without a bound and the registry of Redis clients share: the
  engine, the clients of an event loop, the explorers of a chain, the decoder of the process.
  What raises is not remembered, and asking for one key leaves the others alone.
\<close>

locale memo =
  fixes remembered :: "'k \<Rightarrow> 's \<Rightarrow> 'v option"
    and ask :: "'k \<Rightarrow> ('s, 'v) act"
  assumes hit: "remembered k s = Some v \<Longrightarrow> ask k s = (Inr v, s)"
    and made: "remembered k s = None \<Longrightarrow> ask k s = (Inr v, s') \<Longrightarrow> remembered k s' = Some v"
    and failed: "remembered k s = None \<Longrightarrow> ask k s = (Inl e, s') \<Longrightarrow> remembered k s' = None"
    and others: "ask k s = (r, s') \<Longrightarrow> k' \<noteq> k \<Longrightarrow> remembered k' s' = remembered k' s"
begin

lemma answered: "ask k s = (Inr v, s') \<Longrightarrow> remembered k s' = Some v"
  by (cases "remembered k s") (auto simp: hit dest: made)

lemma asked_again: "ask k s = (Inr v, s') \<Longrightarrow> ask k s' = (Inr v, s')"
  by (rule hit) (rule answered)

lemma kept: "remembered k s = Some v \<Longrightarrow> ask k' s = (r, s') \<Longrightarrow> remembered k s' = Some v"
  by (cases "k' = k") (auto simp: hit dest: others)

lemma kept_map: "remembered k s = Some v \<Longrightarrow> act_map ask ks s = (r, s') \<Longrightarrow> remembered k s' = Some v"
proof (induction ks arbitrary: s r s')
  case (Cons k' ks)
  obtain q s1 where q: "ask k' s = (q, s1)" by fastforce
  note kept [OF Cons.prems(1) q]
  moreover obtain p s2 where p: "act_map ask ks s1 = (p, s2)" by fastforce
  ultimately have "remembered k s2 = Some v" "remembered k s1 = Some v" using Cons.IH by blast+
  moreover have "s' = s1 \<or> s' = s2"
    using Cons.prems(2) q p by (cases q; cases p) (auto simp: act_bind_def)
  ultimately show ?case by auto
qed simp

text \<open>Whatever is asked in one run, every key has one answer, and the same run again changes nothing.\<close>

lemma map_answers:
  "act_map ask ks s = (Inr vs, s') \<Longrightarrow> map Some vs = map (\<lambda>k. remembered k s') ks"
proof (induction ks arbitrary: s vs)
  case (Cons k ks)
  then obtain v s1 ws where v: "ask k s = (Inr v, s1)" and ws: "act_map ask ks s1 = (Inr ws, s')" "vs = v # ws"
    by (auto simp: act_bind_Inr_iff)
  from kept_map [OF answered [OF v] ws(1)] Cons.IH [OF ws(1)] ws(2) show ?case by simp
qed simp

lemma map_hits: "map Some vs = map (\<lambda>k. remembered k s) ks \<Longrightarrow> act_map ask ks s = (Inr vs, s)"
proof (induction ks arbitrary: vs)
  case (Cons k ks)
  then obtain v ws where vs: "vs = v # ws" "remembered k s = Some v" "map Some ws = map (\<lambda>k. remembered k s) ks"
    by (cases vs) auto
  from Cons.IH [OF vs(3)] hit [OF vs(2)] show ?case by (simp add: vs(1) act_bind_def)
qed simp

lemma map_again: "act_map ask ks s = (Inr vs, s') \<Longrightarrow> act_map ask ks s' = (Inr vs, s')"
  by (rule map_hits) (rule map_answers)

end

end
