(* ===== verification/Decoder_Api.thy ===== *)
theory Decoder_Api
  imports Response Memo
begin

text \<open>
  The decoding endpoint: \<open>DataDecoderInput\<close> of \<open>app/routers/models.py\<close>, the route of
  \<open>app/routers/data_decoder.py\<close> and \<open>get_data_decoder_service\<close> with its cached instance. The
  conversions of Pydantic from a JSON value to \<open>str\<close> and \<open>int\<close> are the record \<open>pydantic\<close>; a
  request that does not validate is answered with status 422.
\<close>

section \<open>The request body\<close>

record pydantic =
  pyd_str :: "json \<Rightarrow> string option"
  pyd_int :: "json \<Rightarrow> int option"

record decoder_input =
  di_data :: string
  di_to :: "string option"
  di_chain_id :: "int option"

definition is_hex_char :: "char \<Rightarrow> bool" where
  "is_hex_char c = (let n = (of_char c :: nat)
     in (48 \<le> n \<and> n \<le> 57) \<or> (65 \<le> n \<and> n \<le> 70) \<or> (97 \<le> n \<and> n \<le> 102))"

text \<open>The patterns \<open>^0x[0-9a-fA-F]*$\<close> and \<open>^0x[0-9a-fA-F]{40}$\<close>.\<close>

definition hex_pattern :: "string \<Rightarrow> bool" where
  "hex_pattern s \<longleftrightarrow> take 2 s = ''0x'' \<and> list_all is_hex_char (drop 2 s)"

definition address_pattern :: "string \<Rightarrow> bool" where
  "address_pattern s \<longleftrightarrow> hex_pattern s \<and> length s = 42"

definition json_present :: "(string \<times> json) list \<Rightarrow> string \<Rightarrow> bool" where
  "json_present kvs k \<longleftrightarrow> (case map_of kvs k of None \<Rightarrow> False | Some v \<Rightarrow> v \<noteq> JNull)"

definition check_chain_id_requires_to :: "json \<Rightarrow> json res" where
  "check_chain_id_requires_to data =
     (case data of
        JObj kvs \<Rightarrow> if json_present kvs ''chainId'' \<and> \<not> json_present kvs ''to'' then Inl ValueError else Inr data
      | _ \<Rightarrow> Inr data)"

definition validate_checksum_address :: "(string \<Rightarrow> bool) \<Rightarrow> string option \<Rightarrow> string option res" where
  "validate_checksum_address is_checksum value =
     (case value of
        Some (c # cs) \<Rightarrow> if is_checksum (c # cs) then Inr value else Inl ValueError
      | _ \<Rightarrow> Inr value)"

text \<open>A field is read under its alias, or else under its own name.\<close>

definition field_value :: "(string \<times> json) list \<Rightarrow> string \<Rightarrow> string \<Rightarrow> json option" where
  "field_value kvs alias name = (case map_of kvs alias of Some v \<Rightarrow> Some v | None \<Rightarrow> map_of kvs name)"

definition data_field :: "pydantic \<Rightarrow> (string \<times> json) list \<Rightarrow> string res" where
  "data_field P kvs =
     (case map_of kvs ''data'' of
        None \<Rightarrow> Inl ValueError
      | Some v \<Rightarrow> (case pyd_str P v of
            Some s \<Rightarrow> if hex_pattern s then Inr s else Inl ValueError
          | None \<Rightarrow> Inl ValueError))"

definition to_field :: "pydantic \<Rightarrow> (string \<Rightarrow> bool) \<Rightarrow> (string \<times> json) list \<Rightarrow> string option res" where
  "to_field P is_checksum kvs =
     (if \<not> json_present kvs ''to'' then Inr None
      else case pyd_str P (the (map_of kvs ''to'')) of
          Some s \<Rightarrow> if address_pattern s then validate_checksum_address is_checksum (Some s) else Inl ValueError
        | None \<Rightarrow> Inl ValueError)"

definition chain_id_field :: "pydantic \<Rightarrow> (string \<times> json) list \<Rightarrow> int option res" where
  "chain_id_field P kvs =
     (case field_value kvs ''chainId'' ''chain_id'' of
        None \<Rightarrow> Inr None
      | Some JNull \<Rightarrow> Inr None
      | Some v \<Rightarrow> (case pyd_int P v of Some i \<Rightarrow> if 0 < i then Inr (Some i) else Inl ValueError | None \<Rightarrow> Inl ValueError))"

definition data_decoder_input :: "pydantic \<Rightarrow> (string \<Rightarrow> bool) \<Rightarrow> json \<Rightarrow> decoder_input res" where
  "data_decoder_input P is_checksum body =
     (case res_bind (check_chain_id_requires_to body) (\<lambda>body.
         case body of
           JObj kvs \<Rightarrow>
             res_bind (data_field P kvs) (\<lambda>data.
             res_bind (to_field P is_checksum kvs) (\<lambda>to.
             res_bind (chain_id_field P kvs) (\<lambda>chain_id.
               Inr \<lparr>di_data = data, di_to = to, di_chain_id = chain_id\<rparr>)))
         | _ \<Rightarrow> Inl ValueError) of
        Inl e \<Rightarrow> Inl (HTTPException 422)
      | Inr i \<Rightarrow> Inr i)"

section \<open>The route\<close>

record data_decoded_public =
  ddp_data :: base_data_decoded_public
  ddp_accuracy :: decoding_accuracy

text \<open>The cached instance: made and initialised by the first call; an exception is not cached.\<close>

definition get_data_decoder_service :: "('c, 'd) lib \<Rightarrow> db \<Rightarrow> (('c, 'd) decoder option, unit) act" where
  "get_data_decoder_service L d instance =
     (case instance of
        Some s \<Rightarrow> (Inr (), Some s)
      | None \<Rightarrow> (case init L d (new_decoder L) of (Inl e, _) \<Rightarrow> (Inl e, None) | (Inr _, s) \<Rightarrow> (Inr (), Some s)))"

interpretation the_service: memo "\<lambda>_ s. map_option (\<lambda>_. ()) s" "\<lambda>_ :: unit. get_data_decoder_service L d"
  by unfold_locales (auto simp: get_data_decoder_service_def split: option.splits prod.splits sum.splits)

definition on_service :: "(('c, 'd) decoder, 'a) act \<Rightarrow> (('c, 'd) decoder option, 'a) act" where
  "on_service = act_zoom the (\<lambda>s _. Some s)"

definition data_decoder_public :: "data_decoded \<Rightarrow> decoding_accuracy \<Rightarrow> data_decoded_public res" where
  "data_decoder_public dd accuracy =
     res_bind (publish_data dd) (\<lambda>x. Inr \<lparr>ddp_data = x, ddp_accuracy = accuracy\<rparr>)"

fun accuracy_text :: "decoding_accuracy \<Rightarrow> string" where
  "accuracy_text FULL_MATCH = ''FULL_MATCH''"
| "accuracy_text PARTIAL_MATCH = ''PARTIAL_MATCH''"
| "accuracy_text ONLY_FUNCTION_MATCH = ''ONLY_FUNCTION_MATCH''"
| "accuracy_text NO_MATCH = ''NO_MATCH''"

definition json_of_response :: "(bytes \<Rightarrow> string res) \<Rightarrow> data_decoded_public \<Rightarrow> json res" where
  "json_of_response utf8 p =
     res_bind (res_map (json_of_parameter utf8) (bp_parameters (ddp_data p))) (\<lambda>js.
       Inr (JObj [(''method'', JStr (bp_method (ddp_data p))), (''parameters'', JList js),
         (''accuracy'', JStr (accuracy_text (ddp_accuracy p)))]))"

definition data_decoder_route ::
    "('c, 'd) lib \<Rightarrow> db \<Rightarrow> nat \<Rightarrow> decoder_input \<Rightarrow> (('c, 'd) decoder option, data_decoded_public) act" where
  "data_decoder_route L d depth input_data =
     (let data = VStr (di_data input_data); address = map_option VStr (di_to input_data);
          chain_id = di_chain_id input_data in
      act_bind (get_data_decoder_service L d) (\<lambda>_.
      act_bind (on_service (load_new_abis L d)) (\<lambda>_.
      act_bind (on_service (get_data_decoded L d depth data address chain_id)) (\<lambda>data_decoded.
        case data_decoded of
          None \<Rightarrow> act_raise (HTTPException 404)
        | Some dd \<Rightarrow>
            act_bind (on_service (get_decoding_accuracy L d data address chain_id)) (\<lambda>decoding_accuracy.
              act_lift (data_decoder_public dd decoding_accuracy))))))"

section \<open>What a valid request looks like\<close>

lemma validate_checksum_same: "validate_checksum_address is_checksum v = Inr w \<Longrightarrow> w = v"
  by (simp add: validate_checksum_address_def split: option.splits list.splits if_splits)

text \<open>
  C38. A request body that validates carries \<open>0x\<close>-prefixed hexadecimal data, no address or a
  checksummed one of 20 bytes, and no chain or a positive one; with the key \<open>chainId\<close> set it
  also carries an address. Under the field's own name \<open>chain_id\<close>, which the model accepts as
  well, the same body without an address validates.
\<close>

theorem valid_request_is_well_formed:
  assumes "data_decoder_input P is_checksum body = Inr i"
  shows "\<exists>kvs. body = JObj kvs \<and> hex_pattern (di_data i)
    \<and> (\<forall>a. di_to i = Some a \<longrightarrow> length a = 42 \<and> hex_pattern a \<and> is_checksum a)
    \<and> (\<forall>c. di_chain_id i = Some c \<longrightarrow> 0 < c)
    \<and> (json_present kvs ''chainId'' \<longrightarrow> di_to i \<noteq> None \<and> di_chain_id i \<noteq> None)
    \<and> (\<forall>v c. map_of kvs ''to'' = None \<longrightarrow> pyd_int P v = Some c \<longrightarrow> 0 < c \<longrightarrow> v \<noteq> JNull \<longrightarrow>
         data_decoder_input P is_checksum (JObj ((''chain_id'', v) # filter (\<lambda>(k, _). k \<noteq> ''chainId'') kvs))
           = Inr (i\<lparr>di_chain_id := Some c\<rparr>))"
proof -
  have "\<exists>j. check_chain_id_requires_to body = Inr j \<and> j = body"
    using assms by (auto simp: data_decoder_input_def check_chain_id_requires_to_def split: sum.splits json.splits if_splits)
  then have c: "check_chain_id_requires_to body = Inr body" by simp
  obtain kvs where kvs: "body = JObj kvs"
    using assms c by (cases body) (simp_all add: data_decoder_input_def)
  from assms c obtain data to ch where d: "data_field P kvs = Inr data" and t: "to_field P is_checksum kvs = Inr to"
    and h: "chain_id_field P kvs = Inr ch" and i: "i = \<lparr>di_data = data, di_to = to, di_chain_id = ch\<rparr>"
    by (auto simp: data_decoder_input_def kvs res_bind_def split: sum.splits)
  have 1: "hex_pattern data" using d by (auto simp: data_field_def split: option.splits if_splits)
  have 2: "length a = 42 \<and> hex_pattern a \<and> is_checksum a" if "to = Some a" for a
    using t that by (auto simp: to_field_def address_pattern_def validate_checksum_address_def
        split: option.splits if_splits list.splits)
  have 3: "0 < x" if "ch = Some x" for x
    using h that by (auto simp: chain_id_field_def split: option.splits json.splits if_splits)
  have 4: "to \<noteq> None \<and> ch \<noteq> None" if p: "json_present kvs ''chainId''"
  proof
    have "json_present kvs ''to''" using c p by (auto simp: kvs check_chain_id_requires_to_def split: if_splits)
    then show "to \<noteq> None" using t
      by (cases "pyd_str P (the (map_of kvs ''to''))")
        (auto simp: to_field_def split: if_splits dest!: validate_checksum_same)
    obtain v where v: "map_of kvs ''chainId'' = Some v" "v \<noteq> JNull" using p by (auto simp: json_present_def split: option.splits)
    have "chain_id_field P kvs = (case pyd_int P v of Some i \<Rightarrow> if 0 < i then Inr (Some i) else Inl ValueError | None \<Rightarrow> Inl ValueError)"
      using v by (cases v) (simp_all add: chain_id_field_def field_value_def)
    with h show "ch \<noteq> None" by (cases ch) (simp_all split: option.splits if_splits)
  qed
  have 5: "data_decoder_input P is_checksum (JObj ((''chain_id'', v) # filter (\<lambda>(k, _). k \<noteq> ''chainId'') kvs))
      = Inr (i\<lparr>di_chain_id := Some x\<rparr>)"
    if "map_of kvs ''to'' = None" "pyd_int P v = Some x" "0 < x" "v \<noteq> JNull" for v x
  proof -
    let ?kvs = "(''chain_id'', v) # filter (\<lambda>(k, _). k \<noteq> ''chainId'') kvs"
    have same: "map_of ?kvs k = (if k = ''chain_id'' then Some v else if k = ''chainId'' then None else map_of kvs k)" for k
      by (induction kvs) auto
    have "data_field P ?kvs = Inr data" using d unfolding data_field_def same by simp
    moreover have "to_field P is_checksum ?kvs = to_field P is_checksum kvs"
      unfolding to_field_def json_present_def same by simp
    moreover have "chain_id_field P ?kvs = Inr (Some x)"
      using that(2-4) unfolding chain_id_field_def field_value_def same by (cases v) simp_all
    moreover have "check_chain_id_requires_to (JObj ?kvs) = Inr (JObj ?kvs)"
      by (simp add: check_chain_id_requires_to_def json_present_def same del: map_of.simps)
    ultimately show ?thesis by (simp add: data_decoder_input_def i t)
  qed
  show ?thesis using kvs 1 2 3 4 5 by (intro exI [of _ kvs]) (simp add: i)
qed

definition demo_pydantic :: pydantic where
  "demo_pydantic = \<lparr>pyd_str = (\<lambda>v. case v of JStr s \<Rightarrow> Some s | _ \<Rightarrow> None),
     pyd_int = (\<lambda>v. case v of JInt i \<Rightarrow> Some i | _ \<Rightarrow> None)\<rparr>"

lemma valid_request_is_well_formed_witness:
  "data_decoder_input demo_pydantic (\<lambda>a. True) (JObj [(''data'', JStr ''0xA9''), (''chain_id'', JInt 5)])
     = Inr \<lparr>di_data = ''0xA9'', di_to = None, di_chain_id = Some 5\<rparr>
   \<and> hex_pattern ''0xA9''"
proof -
  have r: "data_decoder_input demo_pydantic (\<lambda>a. True) (JObj [(''data'', JStr ''0xA9''), (''chain_id'', JInt 5)])
     = Inr \<lparr>di_data = ''0xA9'', di_to = None, di_chain_id = Some 5\<rparr>" by code_simp
  from valid_request_is_well_formed [OF r] r show ?thesis by auto
qed

section \<open>What the route answers\<close>

lemma on_service_run: "m s = (r, s') \<Longrightarrow> on_service m (Some s) = (r, Some s')"
  by (simp add: on_service_def act_zoom_def)

lemma on_service_iff: "on_service m (Some s) = (r, st) \<longleftrightarrow> (\<exists>s'. m s = (r, s') \<and> st = Some s')"
  by (auto simp: on_service_def act_zoom_def split: prod.splits)

lemma get_data_decoded_Some:
  assumes "get_data_decoded L d n data a c s = (Inr (Some dd), s')"
  obtains m fn_name ps where "n = Suc m" "decode_transaction_with_types L d m data a c s = (Inr (fn_name, ps), s')"
    "dd = DataDecoded fn_name ps"
proof (cases n)
  case (Suc m)
  with assms obtain fn_name ps where
    "decode_transaction_with_types_rec L (get_data_decoded L d m) d data a c s = (Inr (fn_name, ps), s')"
    "dd = DataDecoded fn_name ps"
    by (auto simp: get_data_decoded_rec_def act_catch_def act_bind_def split: if_splits sum.splits prod.splits)
  with Suc show thesis by (intro that [of m fn_name ps]) (simp_all add: decode_transaction_with_types_def)
qed (use assms in simp)

lemma accuracy_not_none:
  assumes "get_decoding_accuracy L d data a c s = (Inr x, s')" and "HexBytes L data = Inr b"
    and "take 4 b \<in> dict_keys (fn_selectors_with_abis s)"
  shows "x \<noteq> NO_MATCH \<and> (a = None \<longrightarrow> x = ONLY_FUNCTION_MATCH)"
  using assms by (auto simp: get_decoding_accuracy_def Let_def act_bind_def split: option.splits sum.splits prod.splits if_splits)



section \<open>What the client reads\<close>

fun read_response :: "json \<Rightarrow> (base_data_decoded_public \<times> string) option" where
  "read_response (JObj [(_, JStr m), (_, JList js), (_, JStr a)]) =
     map_option (\<lambda>ps. (BaseDataDecodedPublic m ps, a)) (those (map read_parameter js))"
| "read_response _ = None"

lemma json_of_response_read:
  assumes "data_public_ok (ddp_data p)"
  shows "\<exists>j. json_of_response utf8 p = Inr j
    \<and> read_response j = Some (text_data (ddp_data p), accuracy_text (ddp_accuracy p))"
proof (cases "ddp_data p")
  case (BaseDataDecodedPublic m ps)
  with assms have "\<forall>x\<in>set ps. \<exists>j. json_of_parameter utf8 x = Inr j \<and> read_parameter j = Some (text_parameter x)"
    using response_read(1) by (auto simp: list_all_iff)
  from res_map_read [OF this] BaseDataDecodedPublic show ?thesis
    by (auto simp: json_of_response_def those_read)
qed

lemma accuracy_text_inj: "accuracy_text x = accuracy_text y \<longleftrightarrow> x = y"
  by (cases x; cases y) simp_all

lemma route_published:
  assumes "data_decoder_route L d depth i st = (Inr p, st')"
  obtains dd s1 s2 where "get_data_decoded L d depth (VStr (di_data i)) (map_option VStr (di_to i)) (di_chain_id i) s1
      = (Inr (Some dd), s2)" "publish_data dd = Inr (ddp_data p)"
proof -
  from assms obtain s0 s1 dd s2 x s3 where dd: "on_service (get_data_decoded L d depth (VStr (di_data i))
      (map_option VStr (di_to i)) (di_chain_id i)) s1 = (Inr (Some dd), s2)"
    and p: "data_decoder_public dd x = Inr p" and s1: "on_service (load_new_abis L d) s0 = (Inr s3, s1)"
    by (auto simp: data_decoder_route_def act_bind_Inr_iff Let_def split: option.splits)
  from s1 obtain y where "s1 = Some y" by (auto simp: on_service_def act_zoom_def split: prod.splits)
  with dd obtain z where "get_data_decoded L d depth (VStr (di_data i)) (map_option VStr (di_to i)) (di_chain_id i) y
      = (Inr (Some dd), z)" by (auto simp: on_service_iff simp del: get_data_decoded.simps)
  moreover have "publish_data dd = Inr (ddp_data p)"
    using p by (auto simp: data_decoder_public_def res_bind_Inr_iff)
  ultimately show thesis by (rule that)
qed


lemma demo_route:
  "\<exists>p st. data_decoder_route demo_lib demo_batch_db 31
       \<lparr>di_data = demo_to_hex demo_batch, di_to = None, di_chain_id = None\<rparr> (Some demo_batch_decoder) = (Inr p, st)"
proof -
  let ?r = "data_decoder_route demo_lib demo_batch_db 31
       \<lparr>di_data = demo_to_hex demo_batch, di_to = None, di_chain_id = None\<rparr> (Some demo_batch_decoder)"
  have "\<not> (case fst ?r of Inl _ \<Rightarrow> True | Inr _ \<Rightarrow> False)" by code_simp
  then show ?thesis by (cases ?r) (auto split: sum.splits)
qed


end
