(* ===== verification/Session.thy ===== *)
theory Session
  imports Prelude
begin

text \<open>
  Database sessions: \<open>app/datasources/db/database.py\<close>. A session belongs to the scope named
  by the context variable \<open>_db_session_context\<close>; \<open>async_scoped_session\<close> keeps a registry
  from scope names to sessions, opens one at the first use in a scope, and \<open>remove()\<close> closes
  the session of the current scope. The state is the context variable, the registry and the
  number of identifiers drawn from \<open>uuid4\<close>; the identifiers themselves are an argument.
\<close>

record session_env =
  db_session_ctx :: "string option"
  open_sessions :: "string list"
  uuid_count :: nat

definition uuid4 :: "(nat \<Rightarrow> string) \<Rightarrow> ('z session_env_scheme, string) act" where
  "uuid4 U s = (Inr (U (uuid_count s)), s\<lparr>uuid_count := uuid_count s + 1\<rparr>)"

text \<open>\<open>_get_database_session_context\<close>: an unset context variable raises \<open>LookupError\<close>.\<close>

definition get_database_session_context :: "('z session_env_scheme, string) act" where
  "get_database_session_context s =
     (case db_session_ctx s of None \<Rightarrow> (Inl OtherError, s) | Some i \<Rightarrow> (Inr i, s))"

text \<open>
  The first use of \<open>db_session\<close> in a scope opens its session; \<open>remove()\<close> closes it if it is
  open, and asks for the scope either way.
\<close>

definition db_session_use :: "('z session_env_scheme, unit) act" where
  "db_session_use = act_bind get_database_session_context (\<lambda>i.
     act_modify (\<lambda>s. s\<lparr>open_sessions := List.insert i (open_sessions s)\<rparr>))"

definition db_session_remove :: "('z session_env_scheme, unit) act" where
  "db_session_remove = act_bind get_database_session_context (\<lambda>i.
     act_modify (\<lambda>s. s\<lparr>open_sessions := filter (\<lambda>j. j \<noteq> i) (open_sessions s)\<rparr>))"

text \<open>An empty \<open>session_id\<close> is falsy, like a missing one: a fresh identifier is drawn.\<close>

definition chosen_session_id :: "(nat \<Rightarrow> string) \<Rightarrow> string option \<Rightarrow> ('z session_env_scheme, string) act" where
  "chosen_session_id U session_id =
     (case session_id of Some (c # cs) \<Rightarrow> act_return (c # cs) | _ \<Rightarrow> uuid4 U)"

definition set_database_session_context ::
    "(nat \<Rightarrow> string) \<Rightarrow> string option \<Rightarrow> ('z session_env_scheme, 'a) act \<Rightarrow> ('z session_env_scheme, 'a) act" where
  "set_database_session_context U session_id body =
     act_bind (chosen_session_id U session_id) (\<lambda>i.
     act_bind act_get (\<lambda>s.
       let token = db_session_ctx s in
       act_finally
         (act_bind (act_modify (\<lambda>s. s\<lparr>db_session_ctx := Some i\<rparr>)) (\<lambda>_. body))
         (act_modify (\<lambda>s. s\<lparr>db_session_ctx := token\<rparr>))))"

definition with_db_session_context ::
    "(nat \<Rightarrow> string) \<Rightarrow> string option \<Rightarrow> ('z session_env_scheme, 'a) act \<Rightarrow> ('z session_env_scheme, 'a) act" where
  "with_db_session_context U session_id body =
     set_database_session_context U session_id
       (act_finally body
         (act_bind get_database_session_context (\<lambda>_. db_session_remove)))"

text \<open>The decorator \<open>db_session_context\<close>: the function runs in a scope of its own.\<close>

definition db_session_context :: "(nat \<Rightarrow> string) \<Rightarrow> ('z session_env_scheme, 'a) act \<Rightarrow> ('z session_env_scheme, 'a) act" where
  "db_session_context U func = with_db_session_context U None func"

section \<open>What a scope leaves behind\<close>

lemma chosen_Inr: "\<exists>i s'. chosen_session_id U sid s = (Inr i, s')
  \<and> db_session_ctx s' = db_session_ctx s \<and> open_sessions s' = open_sessions s
  \<and> uuid_count s \<le> uuid_count s' \<and> (sid = None \<longrightarrow> i = U (uuid_count s) \<and> uuid_count s < uuid_count s')"
  by (auto simp: chosen_session_id_def uuid4_def split: option.splits list.splits)

lemma with_db_session_context_run:
  assumes "chosen_session_id U sid s = (Inr i, s1)" and "keeps db_session_ctx body"
    and "body (s1\<lparr>db_session_ctx := Some i\<rparr>) = (r, s2)"
  shows "with_db_session_context U sid body s =
    (r, s2\<lparr>db_session_ctx := db_session_ctx s1, open_sessions := filter (\<lambda>j. j \<noteq> i) (open_sessions s2)\<rparr>)"
proof -
  have "db_session_ctx s2 = Some i" using keepsD' [OF assms(2,3)] by simp
  then show ?thesis
    using assms(1,3)
    by (simp add: with_db_session_context_def set_database_session_context_def act_bind_def act_finally_def
        db_session_remove_def get_database_session_context_def Let_def)
qed

lemma keeps_session_use [keeps_rules]: "keeps db_session_ctx db_session_use"
  by (auto simp: keeps_def db_session_use_def act_bind_def get_database_session_context_def split: option.splits)

lemma keeps_with_context [keeps_rules]:
  fixes body :: "('z session_env_scheme, 'a) act"
  assumes "keeps db_session_ctx body"
  shows "keeps db_session_ctx (with_db_session_context U sid body)"
proof (unfold keeps_def, intro allI)
  fix s :: "'z session_env_scheme"
  obtain i s1 where i: "chosen_session_id U sid s = (Inr i, s1)" "db_session_ctx s1 = db_session_ctx s"
    using chosen_Inr by blast
  obtain r s2 where "body (s1\<lparr>db_session_ctx := Some i\<rparr>) = (r, s2)" by fastforce
  from with_db_session_context_run [OF i(1) assms this] i(2)
  show "db_session_ctx (snd (with_db_session_context U sid body s)) = db_session_ctx s" by simp
qed

text \<open>
  A body is tidy when it leaves the context variable as it was and closes every session it
  opened, save that of the scope it runs in. Using the session is tidy, sequencing and
  error handling keep tidiness, and a scope is tidy whatever tidy body it holds.
\<close>

definition tidy :: "('z session_env_scheme, 'a) act \<Rightarrow> bool" where
  "tidy m \<longleftrightarrow> (\<forall>s. db_session_ctx (snd (m s)) = db_session_ctx s
     \<and> set (open_sessions (snd (m s))) \<subseteq> set (open_sessions s) \<union> set_option (db_session_ctx s))"

lemma tidyD: "tidy m \<Longrightarrow> m s = (r, s') \<Longrightarrow> db_session_ctx s' = db_session_ctx s
  \<and> set (open_sessions s') \<subseteq> set (open_sessions s) \<union> set_option (db_session_ctx s)"
  using snd_conv [of r s'] by (metis tidy_def)

lemma tidy_keeps: "tidy m \<Longrightarrow> keeps db_session_ctx m"
  by (simp add: tidy_def keeps_def)

lemma tidy_basic: "tidy (act_return a)" "tidy (act_raise e)" "tidy (act_lift r)" "tidy act_get"
  by (simp_all add: tidy_def)

lemma tidy_modify:
  "(\<And>s. db_session_ctx (u s) = db_session_ctx s \<and> open_sessions (u s) = open_sessions s) \<Longrightarrow> tidy (act_modify u)"
  by (simp add: tidy_def)

lemma tidy_zoom:
  assumes "\<And>x s. db_session_ctx (put x s) = db_session_ctx s" and "\<And>x s. open_sessions (put x s) = open_sessions s"
  shows "tidy (act_zoom part put m)"
  using assms by (simp add: tidy_def act_zoom_def split: prod.splits)

lemma tidy_use: "tidy db_session_use"
  by (auto simp: tidy_def db_session_use_def act_bind_def get_database_session_context_def split: option.splits)

lemma tidy_bind:
  assumes m: "tidy m" and f: "\<And>a. tidy (f a)"
  shows "tidy (act_bind m f)"
  unfolding tidy_def
proof
  fix s
  obtain r s1 where r: "m s = (r, s1)" by fastforce
  show "db_session_ctx (snd (act_bind m f s)) = db_session_ctx s \<and>
    set (open_sessions (snd (act_bind m f s))) \<subseteq> set (open_sessions s) \<union> set_option (db_session_ctx s)"
  proof (cases r)
    case (Inl e)
    with r tidyD [OF m r] show ?thesis by (simp add: act_bind_def)
  next
    case (Inr a)
    obtain q s2 where q: "f a s1 = (q, s2)" by fastforce
    from tidyD [OF m r] tidyD [OF f q] have "db_session_ctx s2 = db_session_ctx s"
      "set (open_sessions s2) \<subseteq> set (open_sessions s) \<union> set_option (db_session_ctx s)" by auto
    with r q Inr show ?thesis by (simp add: act_bind_def)
  qed
qed

lemma tidy_catch:
  assumes m: "tidy m" and h: "\<And>e. tidy (h e)"
  shows "tidy (act_catch m c h)"
  unfolding tidy_def
proof
  fix s
  obtain r s1 where r: "m s = (r, s1)" by fastforce
  show "db_session_ctx (snd (act_catch m c h s)) = db_session_ctx s \<and>
    set (open_sessions (snd (act_catch m c h s))) \<subseteq> set (open_sessions s) \<union> set_option (db_session_ctx s)"
  proof (cases "\<exists>e. r = Inl e \<and> c e")
    case False
    then have "act_catch m c h s = (r, s1)" by (cases r) (simp_all add: act_catch_def r)
    with tidyD [OF m r] show ?thesis by simp
  next
    case True
    then obtain e where e: "r = Inl e" "c e" by blast
    obtain q s2 where q: "h e s1 = (q, s2)" by fastforce
    from tidyD [OF m r] tidyD [OF h q] have "db_session_ctx s2 = db_session_ctx s"
      "set (open_sessions s2) \<subseteq> set (open_sessions s) \<union> set_option (db_session_ctx s)" by auto
    with r q e show ?thesis by (simp add: act_catch_def)
  qed
qed

lemma tidy_context:
  fixes body :: "('z session_env_scheme, 'a) act"
  assumes "tidy body"
  shows "tidy (with_db_session_context U sid body)"
  unfolding tidy_def
proof
  fix s :: "'z session_env_scheme"
  obtain i s1 where i: "chosen_session_id U sid s = (Inr i, s1)" "db_session_ctx s1 = db_session_ctx s"
    "open_sessions s1 = open_sessions s"
    using chosen_Inr by blast
  obtain r s2 where b: "body (s1\<lparr>db_session_ctx := Some i\<rparr>) = (r, s2)" by fastforce
  from with_db_session_context_run [OF i(1) tidy_keeps [OF assms] b] tidyD [OF assms b] i
  show "db_session_ctx (snd (with_db_session_context U sid body s)) = db_session_ctx s \<and>
    set (open_sessions (snd (with_db_session_context U sid body s)))
      \<subseteq> set (open_sessions s) \<union> set_option (db_session_ctx s)"
    by auto
qed

text \<open>
  C25. A function decorated with \<open>db_session_context\<close> leaks no session and no scope, whether
  it returns or raises: if its body is tidy, then afterwards the context variable has the
  value it had, the open sessions are among those open before, the result is the body's,
  and a session that was open in another scope than the fresh one is still open when the
  body keeps it open. Scopes nest: the decorated function is tidy again.
\<close>

theorem session_scope_leaks_nothing:
  assumes "tidy body"
  shows "db_session_ctx (snd (db_session_context U body s)) = db_session_ctx s
    \<and> set (open_sessions (snd (db_session_context U body s))) \<subseteq> set (open_sessions s) - {U (uuid_count s)}
    \<and> fst (db_session_context U body s)
        = fst (body (s\<lparr>uuid_count := uuid_count s + 1, db_session_ctx := Some (U (uuid_count s))\<rparr>))
    \<and> (\<forall>j. j \<noteq> U (uuid_count s)
        \<longrightarrow> j \<in> set (open_sessions (snd (body
              (s\<lparr>uuid_count := uuid_count s + 1, db_session_ctx := Some (U (uuid_count s))\<rparr>))))
        \<longrightarrow> j \<in> set (open_sessions (snd (db_session_context U body s))))
    \<and> tidy (db_session_context U body)"
proof -
  let ?s1 = "s\<lparr>uuid_count := uuid_count s + 1\<rparr>" and ?i = "U (uuid_count s)"
  have ch: "chosen_session_id U None s = (Inr ?i, ?s1)"
    by (simp add: chosen_session_id_def uuid4_def)
  obtain r s2 where b: "body (?s1\<lparr>db_session_ctx := Some ?i\<rparr>) = (r, s2)" by fastforce
  from with_db_session_context_run [OF ch tidy_keeps [OF assms] b] tidyD [OF assms b] b
  show ?thesis
    using tidy_context [OF assms, of U None] by (auto simp: db_session_context_def)
qed

text \<open>The body of a task: it uses its session, runs an inner scope, then fails.\<close>

definition demo_task_body :: "(session_env, unit) act" where
  "demo_task_body = act_bind db_session_use (\<lambda>_.
     act_bind (with_db_session_context (\<lambda>n. str_int (int n)) None db_session_use) (\<lambda>_. act_raise ValueError))"

lemma session_scope_leaks_nothing_witness:
  "set (open_sessions (snd (db_session_context (\<lambda>n. str_int (int n)) demo_task_body
     \<lparr>db_session_ctx = None, open_sessions = [''a''], uuid_count = 0\<rparr>))) \<subseteq> {''a''}
   \<and> fst (db_session_context (\<lambda>n. str_int (int n)) demo_task_body
     \<lparr>db_session_ctx = None, open_sessions = [''a''], uuid_count = 0\<rparr>) = Inl ValueError"
proof
  let ?U = "\<lambda>n. str_int (int n)" and ?s = "\<lparr>db_session_ctx = None, open_sessions = [''a''], uuid_count = 0\<rparr>"
  have t: "tidy demo_task_body"
    unfolding demo_task_body_def by (intro tidy_bind tidy_use tidy_context tidy_basic)
  from session_scope_leaks_nothing [OF t, of ?U ?s]
  show "set (open_sessions (snd (db_session_context ?U demo_task_body ?s))) \<subseteq> {''a''}" by auto
  show "fst (db_session_context ?U demo_task_body ?s) = Inl ValueError" by code_simp
qed

end
