(* ===== verification/Contract_Rows.thy ===== *)
theory Contract_Rows
  imports Upsert
begin

text \<open>
  What the two operations on one row of the table \<open>contract\<close> leave behind, in the form the
  services use: \<open>Contract.get_or_create\<close> always answers with the row of the address and
  the chain, and \<open>update()\<close> of such a row replaces it. Neither touches another row, and
  both keep the integrity of the database.
\<close>

section \<open>Rows of the contract table\<close>

lemma get_contract_Some: "get_contract a i d = Some c \<Longrightarrow>
  c \<in> set (db_contracts d) \<and> c_address c = a \<and> c_chain_id c = i"
  by (auto simp: get_contract_def dest: find_Some_in)

lemma get_contract_present:
  "get_contract a i d \<noteq> None \<longleftrightarrow> (\<exists>c\<in>set (db_contracts d). c_address c = a \<and> c_chain_id c = i)"
  using find_None_not [of "\<lambda>c. c_address c = a \<and> c_chain_id c = i" "db_contracts d"]
  by (simp add: get_contract_def del: not_None_eq)

lemma find_append_eq: "find P (xs @ ys) = (case find P xs of None \<Rightarrow> find P ys | Some x \<Rightarrow> Some x)"
  by (induction xs) auto

text \<open>With a contract in the table the loaded object is the row, and no row but it changes.\<close>

lemma contract_update_found:
  assumes ok: "db_ok h d" and g: "get_contract a i d = Some c"
    and same: "c_id c' = c_id c" "c_address c' = a" "c_chain_id c' = i" and fk: "foreign_keys_ok d c'"
  obtains m d' where "contract_update c' d = (Inr (c'\<lparr>c_modified := m\<rparr>), d')"
    "get_contract a i d' = Some (c'\<lparr>c_modified := m\<rparr>)" "db_ok h d'"
    "db_abis d' = db_abis d" "db_sources d' = db_sources d"
    "\<forall>b j. (b, j) \<noteq> (a, i) \<longrightarrow> get_contract b j d' = get_contract b j d"
proof -
  note c = get_contract_Some [OF g]
  have ids: "r = c" if "r \<in> set (db_contracts d)" "c_id r = c_id c" for r
    using ok c that by (auto simp: db_ok_defs distinct_map dest: inj_onD)
  have keys: "r = c" if "r \<in> set (db_contracts d)" "c_address r = a" "c_chain_id r = i" for r
    using ok c that by (auto simp: db_ok_defs distinct_map dest: inj_onD)
  have ok': "db_ok h (snd (contract_update c' d))" by (rule contract_update_ok [OF ok])
  show thesis
  proof (cases rule: contract_update_cases [of c' d])
    case missing
    then show thesis using c same by metis
  next
    case same': same
    then have "c' = c" using ids same by blast
    then show thesis using same'(1) ok g
      by (intro that [of "c_modified c" d]) auto
  next
    case clash
    then show thesis using fk keys same by metis
  next
    case (good row)
    let ?f = "\<lambda>r. if c_id r = c_id c' then row else r"
    have f: "?f r = (if r = c then row else r)" if "r \<in> set (db_contracts d)" for r
      using ids that c same by auto
    have k: "c_address (?f r) = c_address r \<and> c_chain_id (?f r) = c_chain_id r" if "r \<in> set (db_contracts d)" for r
      using f [OF that] good(2) same c by auto
    have found: "find P (map ?f (db_contracts d)) = map_option ?f (find P (db_contracts d))"
      if "P = (\<lambda>r. c_address r = b \<and> c_chain_id r = j)" for P b j
      unfolding that by (rule find_cong_map) (use k in auto)
    have gm: "get_contract b j (d\<lparr>db_contracts := map ?f (db_contracts d)\<rparr>)
        = map_option ?f (get_contract b j d)" for b j
      using found [OF refl, of b j] by (simp add: get_contract_def)
    have "get_contract b j (d\<lparr>db_contracts := map ?f (db_contracts d)\<rparr>) = get_contract b j d"
      if ne: "(b, j) \<noteq> (a, i)" for b j
    proof (cases "get_contract b j d")
      case (Some r)
      then have "r \<noteq> c" using ne c get_contract_Some by fastforce
      then show ?thesis using Some gm f [of r] get_contract_Some [OF Some] by simp
    qed (simp add: gm)
    moreover have "get_contract a i (d\<lparr>db_contracts := map ?f (db_contracts d)\<rparr>) = Some row"
      using gm [of a i] g same by simp
    ultimately show thesis
      using good(1) good(2) ok' by (intro that [of "db_now d" "d\<lparr>db_contracts := map ?f (db_contracts d)\<rparr>"]) auto
  qed
qed

lemma contract_goc_found:
  assumes ok: "db_ok h d"
  obtains c b d1 where "contract_get_or_create a i kws d = (Inr (c, b), d1)"
    "get_contract a i d1 = Some c" "db_ok h d1" "db_abis d1 = db_abis d" "db_sources d1 = db_sources d"
    "\<forall>a' j. (a', j) \<noteq> (a, i) \<longrightarrow> get_contract a' j d1 = get_contract a' j d"
    "b \<longleftrightarrow> get_contract a i d = None" "\<not> b \<longrightarrow> get_contract a i d = Some c"
    "b \<longrightarrow> (\<exists>n t. c = (fold set_kwarg kws (new_contract a i))\<lparr>c_id := n, c_created := t, c_modified := t\<rparr>)"
proof -
  let ?c = "fold set_kwarg kws (new_contract a i)"
  have fkk: "c_abi_id (fold set_kwarg kws c0) = c_abi_id c0 \<and> c_project_id (fold set_kwarg kws c0) = c_project_id c0" for c0
  proof (induction kws arbitrary: c0)
    case (Cons kw kws)
    then show ?case by (cases kw) simp_all
  qed simp
  have fk: "foreign_keys_ok d ?c" using fkk [of "new_contract a i"] by (simp add: foreign_keys_ok_def new_contract_def)
  have goc: "contract_get_or_create a i kws = contract_goc (a, i, kws)" by (simp add: contract_goc_def)
  have inv: "db_ok h (snd (contract_goc (a, i, kws) d))" by (rule contract_upsert.goc_inv [OF ok])
  show thesis
  proof (cases rule: contract_create_cases [of ?c d])
    case bad
    then obtain c where c: "get_contract a i d = Some c" using fk by auto
    have "contract_get_or_create a i kws d = (Inr (c, False), d\<lparr>db_contract_seq := db_contract_seq d + 1\<rparr>)"
      using bad(1) c by (simp add: contract_get_or_create_def act_catch_def act_bind_def Let_def get_contract_def)
    then show thesis using c inv goc
      by (intro that [of c False "d\<lparr>db_contract_seq := db_contract_seq d + 1\<rparr>"]) (auto simp: get_contract_def)
  next
    case (good row)
    have "contract_get_or_create a i kws d = (Inr (row, True),
        d\<lparr>db_contract_seq := db_contract_seq d + 1, db_contracts := db_contracts d @ [row]\<rparr>)"
      using good(1) by (simp add: contract_get_or_create_def act_catch_def act_bind_def Let_def)
    moreover have "c_address row = a" "c_chain_id row = i" using good(2) by simp_all
    ultimately show thesis using good inv goc
      by (intro that [of row True "d\<lparr>db_contract_seq := db_contract_seq d + 1, db_contracts := db_contracts d @ [row]\<rparr>"])
        (auto simp: get_contract_def find_append_eq split: option.splits)
  qed
qed


section \<open>The ABI of a contract\<close>

lemma abi_goc_found:
  assumes ok: "db_ok h d" and j: "j \<noteq> JNull" and sid: "sid \<in> s_id ` set (db_sources d)"
  obtains row b d' where "get_or_create_abi h j (Some sid) (Some rel) d = (Inr (row, b), d')"
    "row \<in> set (db_abis d')" "h (a_json row) = h j" "db_ok h d'"
    "db_contracts d' = db_contracts d" "db_projects d' = db_projects d" "db_sources d' = db_sources d"
    "set (db_abis d) \<subseteq> set (db_abis d')"
proof -
  have goc: "get_or_create_abi h j (Some sid) (Some rel) = abi_goc h (j, Some sid, Some rel)"
    by (simp add: abi_goc_def)
  have inv: "db_ok h (snd (abi_goc h (j, Some sid, Some rel) d))" by (rule abi_upsert.goc_inv [OF ok])
  show thesis
  proof (cases "h j \<in> (h \<circ> a_json) ` set (db_abis d)")
    case True
    then obtain row where row: "get_abi h j d = Some row"
      by (force simp: get_abi_def get_abi_by_hash_def find_None_not simp del: not_None_eq
          intro: option.exhaust [of "find (\<lambda>r. h (a_json r) = h j) (db_abis d)"])
    then have r: "row \<in> set (db_abis d)" "h (a_json row) = h j"
      by (auto simp: get_abi_def get_abi_by_hash_def dest: find_Some_in)
    have "get_or_create_abi h j (Some sid) (Some rel) d = (Inr (row, False), d\<lparr>db_abi_seq := db_abi_seq d + 1\<rparr>)"
      using True row by (simp add: get_or_create_abi_def act_catch_def act_bind_def abi_create_def Let_def
          get_abi_def get_abi_by_hash_def)
    with r inv goc show thesis by (intro that [of row False "d\<lparr>db_abi_seq := db_abi_seq d + 1\<rparr>"]) auto
  next
    case False
    let ?row = "\<lparr>a_id = db_abi_seq d, a_relevance = rel, a_json = j, a_source_id = sid,
      a_created = db_now d, a_modified = db_now d\<rparr>"
    let ?d = "d\<lparr>db_abi_seq := db_abi_seq d + 1, db_abis := db_abis d @ [?row]\<rparr>"
    have "get_or_create_abi h j (Some sid) (Some rel) d = (Inr (?row, True), ?d)"
      using False j sid by (simp add: get_or_create_abi_def act_catch_def act_bind_def abi_create_def Let_def)
    with inv goc show thesis by (intro that [of ?row True ?d]) auto
  qed
qed

lemma abi_of_contract_row:
  assumes ok: "db_ok h d" and g: "get_contract a i d = Some c"
    and c: "c_abi_id c = Some (a_id r)" and r: "r \<in> set (db_abis d)"
  shows "get_abi_by_contract_address a (Some i) d = (if json_truthy (a_json r) then Some (a_json r) else None)"
proof -
  let ?joined = "concat (map (\<lambda>a'. map (\<lambda>c. (c, a'))
      (filter (\<lambda>c. c_abi_id c = Some (a_id a') \<and> c_address c = a) (db_contracts d))) (db_abis d))"
  let ?rows = "filter (\<lambda>(c, a). c_chain_id c = i) ?joined"
  have ca: "c \<in> set (db_contracts d)" "c_address c = a" "c_chain_id c = i"
    using get_contract_Some [OF g] by auto
  have keys: "x = c" if "x \<in> set (db_contracts d)" "c_address x = a" "c_chain_id x = i" for x
    using ok ca that by (auto simp: db_ok_defs distinct_map dest: inj_onD)
  have ids: "x = r" if "x \<in> set (db_abis d)" "a_id x = a_id r" for x
    using ok r that by (auto simp: db_ok_defs distinct_map dest: inj_onD)
  have "(c, r) \<in> set ?rows" using ca c r by auto
  moreover have "x = (c, r)" if "x \<in> set ?rows" for x
  proof -
    obtain c' a' where x: "x = (c', a')" by (cases x)
    with that have c': "c' \<in> set (db_contracts d)" "c_address c' = a" "c_chain_id c' = i"
      and a': "a' \<in> set (db_abis d)" "c_abi_id c' = Some (a_id a')" by auto
    from keys [OF c'] have "c' = c" .
    with a'(2) c have "a_id a' = a_id r" by simp
    with ids [OF a'(1)] \<open>c' = c\<close> x show ?thesis by simp
  qed
  ultimately obtain rest where "?rows = (c, r) # rest" by (cases ?rows) auto
  then show ?thesis by (simp add: get_abi_by_contract_address_def Let_def)
qed

end
