(* ===== verification/Ethereum.thy ===== *)
theory Ethereum
  imports Prelude
begin

text \<open>
  The functions of the Ethereum packages that the services below call on addresses and
  hexadecimal data, collected in one record: \<open>HexBytes\<close>, the two checksum functions and
  \<open>to_0x_hex_str\<close>, with the constant \<open>NULL_ADDRESS\<close>. They are third-party code, so every
  definition that uses one takes the record as an argument.
\<close>

record eth_lib =
  hex_bytes :: "string \<Rightarrow> bytes res"
  hex_str :: "bytes \<Rightarrow> string"
  to_checksum_address :: "string \<Rightarrow> string res"
  is_checksum_address :: "string \<Rightarrow> bool"
  NULL_ADDRESS :: string

text \<open>
  A small instance for the witnesses: an address is \<open>0x\<close> and the letters of its bytes, one
  letter each, and every such string is its own checksum form.
\<close>

definition demo_eth :: eth_lib where
  "demo_eth = \<lparr>
     hex_bytes = (\<lambda>s. if take 2 s = ''0x'' then Inr (map (\<lambda>c. of_nat (of_char c)) (drop 2 s)) else Inl ValueError),
     hex_str = (\<lambda>b. ''0x'' @ map (\<lambda>x. char_of (unat x)) b),
     to_checksum_address = (\<lambda>s. Inr s),
     is_checksum_address = (\<lambda>s. take 2 s = ''0x''),
     NULL_ADDRESS = ''0x0''\<rparr>"

lemma demo_hex_bytes_str: "hex_bytes demo_eth (hex_str demo_eth b) = Inr b"
proof -
  have "unat x < 256" for x :: byte
    by (rule order_less_le_trans [OF unsigned_less]) simp
  then show ?thesis by (simp add: demo_eth_def comp_def map_idI)
qed

end
