(* ===== verification/Metadata.thy ===== *)
theory Metadata
  imports Contract_Rows Ethereum Memo
begin

text \<open>
  Contract metadata: \<open>app/services/contract_metadata_service.py\<close>. Three explorers are asked
  in turn for the metadata of a contract, and what one of them answers is stored: the ABI
  in the table of ABIs, its id, the name and the proxy implementation in the contract's
  row; every failure counts one retry. The explorers' clients are third-party code: the
  record \<open>explorers\<close> holds their constructors and their one request method.
\<close>

section \<open>Explorers and their answers\<close>

datatype client_class =
    AsyncEtherscanClientV2 | AsyncSourcifyClient | AsyncBlockscoutClient | OtherClient string

datatype 'cl client = Client (client_class: client_class) (client_object: 'cl)

datatype contract_source = ETHERSCAN | SOURCIFY | BLOCKSCOUT

fun source_value :: "contract_source \<Rightarrow> string" where
  "source_value ETHERSCAN = ''Etherscan''"
| "source_value SOURCIFY = ''Sourcify''"
| "source_value BLOCKSCOUT = ''Blockscout''"

fun from_client :: "'cl client \<Rightarrow> contract_source res" where
  "from_client (Client AsyncEtherscanClientV2 x) = Inr ETHERSCAN"
| "from_client (Client AsyncSourcifyClient x) = Inr SOURCIFY"
| "from_client (Client AsyncBlockscoutClient x) = Inr BLOCKSCOUT"
| "from_client (Client (OtherClient n) x) = Inl ValueError"

record contract_metadata =
  cm_name :: "string option"
  cm_abi :: json
  cm_implementation :: "string option"

record enhanced_contract_metadata =
  em_address :: string
  em_metadata :: "contract_metadata option"
  em_source :: "contract_source option"
  em_chain_id :: int

record 'cl explorers =
  new_etherscan_client :: "int \<Rightarrow> string \<Rightarrow> int \<Rightarrow> 'cl res"
  new_sourcify_client :: "int \<Rightarrow> int \<Rightarrow> 'cl res"
  new_blockscout_client :: "int \<Rightarrow> int \<Rightarrow> 'cl res"
  async_get_contract_metadata :: "'cl \<Rightarrow> string \<Rightarrow> contract_metadata option res"

record client_settings =
  ETHERSCAN_MAX_REQUESTS :: int
  SOURCIFY_MAX_REQUESTS :: int
  BLOCKSCOUT_MAX_REQUESTS :: int

record 'cl metadata_service =
  etherscan_api_key :: string
  enabled_clients_cache :: "(int, 'cl client list) dict"

definition new_metadata_service :: "string \<Rightarrow> 'cl metadata_service" where
  "new_metadata_service key = \<lparr>etherscan_api_key = key, enabled_clients_cache = []\<rparr>"

section \<open>The clients of a chain\<close>

definition get_etherscan_client ::
    "'cl explorers \<Rightarrow> client_settings \<Rightarrow> string \<Rightarrow> int \<Rightarrow> 'cl client option res" where
  "get_etherscan_client X cfg key chain_id =
     (case new_etherscan_client X chain_id key (ETHERSCAN_MAX_REQUESTS cfg) of
        Inr c \<Rightarrow> Inr (Some (Client AsyncEtherscanClientV2 c))
      | Inl e \<Rightarrow> if e = EtherscanClientConfigurationProblem then Inr None else Inl e)"

definition get_blockscout_client :: "'cl explorers \<Rightarrow> client_settings \<Rightarrow> int \<Rightarrow> 'cl client option res" where
  "get_blockscout_client X cfg chain_id =
     (case new_blockscout_client X chain_id (BLOCKSCOUT_MAX_REQUESTS cfg) of
        Inr c \<Rightarrow> Inr (Some (Client AsyncBlockscoutClient c))
      | Inl e \<Rightarrow> if e = BlockScoutConfigurationProblem then Inr None else Inl e)"

definition get_sourcify_client :: "'cl explorers \<Rightarrow> client_settings \<Rightarrow> int \<Rightarrow> 'cl client option res" where
  "get_sourcify_client X cfg chain_id =
     (case new_sourcify_client X chain_id (SOURCIFY_MAX_REQUESTS cfg) of
        Inr c \<Rightarrow> Inr (Some (Client AsyncSourcifyClient c))
      | Inl e \<Rightarrow> if e = SourcifyClientConfigurationProblem then Inr None else Inl e)"

definition build_clients ::
    "'cl explorers \<Rightarrow> client_settings \<Rightarrow> string \<Rightarrow> int \<Rightarrow> 'cl client list res" where
  "build_clients X cfg key chain_id =
     res_bind (get_etherscan_client X cfg key chain_id) (\<lambda>etherscan.
     res_bind (get_sourcify_client X cfg chain_id) (\<lambda>sourcify.
     res_bind (get_blockscout_client X cfg chain_id) (\<lambda>blockscout.
       Inr (List.map_filter (\<lambda>client. client) [etherscan, sourcify, blockscout]))))"

text \<open>\<open>@cache\<close>: a list that was built is kept for ever; an exception is not.\<close>

definition enabled_clients ::
    "'cl explorers \<Rightarrow> client_settings \<Rightarrow> int \<Rightarrow> ('cl metadata_service, 'cl client list) act" where
  "enabled_clients X cfg chain_id s =
     (case map_of (enabled_clients_cache s) chain_id of
        Some clients \<Rightarrow> (Inr clients, s)
      | None \<Rightarrow>
          (case build_clients X cfg (etherscan_api_key s) chain_id of
             Inl e \<Rightarrow> (Inl e, s)
           | Inr clients \<Rightarrow>
               (Inr clients, s\<lparr>enabled_clients_cache := AList.update chain_id clients (enabled_clients_cache s)\<rparr>)))"

interpretation chain_clients: memo "\<lambda>i s. map_of (enabled_clients_cache s) i" "enabled_clients X cfg"
  by unfold_locales (auto simp: enabled_clients_def split: option.splits sum.splits)

section \<open>Asking the explorers\<close>

text \<open>\<open>except (OSError, EtherscanRateLimitError)\<close>; \<open>TimeoutError\<close> is a subclass of \<open>OSError\<close>.\<close>

definition explorer_unavailable :: "exc \<Rightarrow> bool" where
  "explorer_unavailable e \<longleftrightarrow> e = OSError \<or> e = TimeoutError \<or> e = EtherscanRateLimitError"

fun try_clients ::
    "'cl explorers \<Rightarrow> string \<Rightarrow> int \<Rightarrow> 'cl client list \<Rightarrow> enhanced_contract_metadata res" where
  "try_clients X address chain_id [] =
     Inr \<lparr>em_address = address, em_metadata = None, em_source = None, em_chain_id = chain_id\<rparr>"
| "try_clients X address chain_id (client # clients) =
     (case async_get_contract_metadata X (client_object client) address of
        Inl e \<Rightarrow> if explorer_unavailable e then try_clients X address chain_id clients else Inl e
      | Inr None \<Rightarrow> try_clients X address chain_id clients
      | Inr (Some metadata) \<Rightarrow>
          (case from_client client of
             Inl e \<Rightarrow> if explorer_unavailable e then try_clients X address chain_id clients else Inl e
           | Inr source \<Rightarrow> Inr \<lparr>em_address = address, em_metadata = Some metadata, em_source = Some source,
                              em_chain_id = chain_id\<rparr>))"

definition get_contract_metadata ::
    "'cl explorers \<Rightarrow> client_settings \<Rightarrow> string \<Rightarrow> int \<Rightarrow>
     ('cl metadata_service, enhanced_contract_metadata) act" where
  "get_contract_metadata X cfg address chain_id =
     act_bind (enabled_clients X cfg chain_id) (\<lambda>clients. act_lift (try_clients X address chain_id clients))"

section \<open>Storing the answer\<close>

text \<open>\<open>contract.fetch_retries += 1; await contract.update(); return False\<close>\<close>

definition count_retry :: "contract \<Rightarrow> (db, bool) act" where
  "count_retry c =
     act_bind (contract_update (c\<lparr>c_fetch_retries := c_fetch_retries c + 1\<rparr>)) (\<lambda>_. act_return False)"

definition real_implementation :: "eth_lib \<Rightarrow> contract_metadata \<Rightarrow> string option" where
  "real_implementation E md =
     (case cm_implementation md of
        Some a \<Rightarrow> if a \<noteq> [] \<and> a \<noteq> NULL_ADDRESS E then Some a else None
      | None \<Rightarrow> None)"

definition store_metadata ::
    "eth_lib \<Rightarrow> (json \<Rightarrow> bytes) \<Rightarrow> contract \<Rightarrow> abi_source \<Rightarrow> contract_metadata \<Rightarrow> (db, bool) act" where
  "store_metadata E h c source md =
     act_bind (get_or_create_abi h (cm_abi md) (Some (s_id source)) (Some 0)) (\<lambda>(abi, _).
       let c = c\<lparr>c_abi_id := Some (a_id abi), c_name := cm_name md\<rparr> in
       act_bind (case real_implementation E md of
                   None \<Rightarrow> act_return c
                 | Some a \<Rightarrow> act_bind (act_lift (hex_bytes E a)) (\<lambda>b.
                     act_return (c\<lparr>c_implementation := Some b\<rparr>))) (\<lambda>c.
       act_bind (contract_update c) (\<lambda>_. act_return True)))"

definition process_contract_metadata ::
    "eth_lib \<Rightarrow> (json \<Rightarrow> bytes) \<Rightarrow> enhanced_contract_metadata \<Rightarrow> (db, bool) act" where
  "process_contract_metadata E h em =
     act_bind (act_lift (hex_bytes E (em_address em))) (\<lambda>address.
     act_bind (contract_get_or_create address (em_chain_id em) []) (\<lambda>(c, _).
       case em_metadata em of
         None \<Rightarrow> count_retry c
       | Some md \<Rightarrow>
           (case em_source em of
              None \<Rightarrow> count_retry c
            | Some source \<Rightarrow>
                act_bind act_get (\<lambda>d.
                  case get_abi_source (source_value source) d of
                    None \<Rightarrow> count_retry c
                  | Some row \<Rightarrow>
                      if \<not> json_truthy (cm_abi md) then count_retry c
                      else store_metadata E h c row md))))"

definition get_proxy_implementation_address ::
    "eth_lib \<Rightarrow> enhanced_contract_metadata \<Rightarrow> string option res" where
  "get_proxy_implementation_address E em =
     (case em_metadata em of
        None \<Rightarrow> Inr None
      | Some md \<Rightarrow>
          (case real_implementation E md of
             None \<Rightarrow> Inr None
           | Some a \<Rightarrow> res_bind (to_checksum_address E a) (\<lambda>b. Inr (Some b))))"


section \<open>Which explorer answers\<close>

text \<open>An explorer is silent on an address when it knows nothing of it or cannot be reached.\<close>

definition silent :: "'cl explorers \<Rightarrow> string \<Rightarrow> 'cl client \<Rightarrow> bool" where
  "silent X address client \<longleftrightarrow>
     (case async_get_contract_metadata X (client_object client) address of
        Inl e \<Rightarrow> explorer_unavailable e | Inr r \<Rightarrow> r = None)"

definition clients_consistent :: "'cl explorers \<Rightarrow> client_settings \<Rightarrow> 'cl metadata_service \<Rightarrow> bool" where
  "clients_consistent X cfg s \<longleftrightarrow>
     (\<forall>i clients. map_of (enabled_clients_cache s) i = Some clients
        \<longrightarrow> build_clients X cfg (etherscan_api_key s) i = Inr clients)"

lemma enabled_clients_transparent:
  assumes "clients_consistent X cfg s" and "enabled_clients X cfg i s = (r, s')"
  shows "r = build_clients X cfg (etherscan_api_key s) i \<and> clients_consistent X cfg s'"
  using assms
  by (auto simp: enabled_clients_def clients_consistent_def split: option.splits sum.splits if_splits)

lemma try_clients_Inr:
  assumes "try_clients X address i clients = Inr em"
  shows "em_address em = address \<and> em_chain_id em = i \<and>
    (case em_metadata em of
       None \<Rightarrow> em_source em = None \<and> (\<forall>cl\<in>set clients. silent X address cl)
     | Some md \<Rightarrow> \<exists>before cl after. clients = before @ cl # after \<and> (\<forall>c\<in>set before. silent X address c)
         \<and> async_get_contract_metadata X (client_object cl) address = Inr (Some md)
         \<and> (\<exists>source. em_source em = Some source \<and> from_client cl = Inr source))"
  using assms
proof (induction clients)
  case Nil
  then show ?case by auto
next
  case (Cons cl clients)
  show ?case
  proof (cases "silent X address cl")
    case True
    then have "try_clients X address i (cl # clients) = try_clients X address i clients"
      by (auto simp: silent_def split: sum.splits option.splits)
    with Cons have ih: "em_address em = address \<and> em_chain_id em = i \<and>
      (case em_metadata em of
         None \<Rightarrow> em_source em = None \<and> (\<forall>cl\<in>set clients. silent X address cl)
       | Some md \<Rightarrow> \<exists>before c after. clients = before @ c # after \<and> (\<forall>c\<in>set before. silent X address c)
           \<and> async_get_contract_metadata X (client_object c) address = Inr (Some md)
           \<and> (\<exists>source. em_source em = Some source \<and> from_client c = Inr source))" by simp
    show ?thesis
    proof (cases "em_metadata em")
      case None
      with ih True show ?thesis by simp
    next
      case (Some md)
      with ih obtain before c after where "clients = before @ c # after" "\<forall>c\<in>set before. silent X address c"
        "async_get_contract_metadata X (client_object c) address = Inr (Some md)"
        "\<exists>source. em_source em = Some source \<and> from_client c = Inr source" by auto
      then have "cl # clients = (cl # before) @ c # after" "\<forall>c\<in>set (cl # before). silent X address c"
        using True by auto
      with ih Some \<open>async_get_contract_metadata X (client_object c) address = Inr (Some md)\<close>
        \<open>\<exists>source. em_source em = Some source \<and> from_client c = Inr source\<close>
      show ?thesis by (simp only: option.case) blast
    qed
  next
    case False
    then obtain md where md: "async_get_contract_metadata X (client_object cl) address = Inr (Some md)"
      using Cons.prems by (auto simp: silent_def split: sum.splits option.splits if_splits)
    obtain source where src: "from_client cl = Inr source"
      using Cons.prems md by (cases cl rule: from_client.cases) (auto simp: explorer_unavailable_def)
    have "em = \<lparr>em_address = address, em_metadata = Some md, em_source = Some source, em_chain_id = i\<rparr>"
      using Cons.prems md src by simp
    with md src show ?thesis by (auto intro!: exI [of _ "[]"])
  qed
qed

lemma build_clients_classes:
  "build_clients X cfg key i = Inr clients \<Longrightarrow>
   subseq (map client_class clients) [AsyncEtherscanClientV2, AsyncSourcifyClient, AsyncBlockscoutClient]"
  by (auto simp: build_clients_def res_bind_Inr_iff get_etherscan_client_def get_sourcify_client_def
      get_blockscout_client_def List.map_filter_def split: sum.splits if_splits)

text \<open>
  C19. The metadata of a contract comes from the first enabled explorer, in the order
  Etherscan, Sourcify, Blockscout, that knows the contract, and is labelled with that
  explorer; the explorers before it had nothing or were unreachable. No metadata means
  that every enabled explorer was silent. The cache of the client lists changes nothing.
\<close>

theorem first_explorer_that_knows:
  assumes "clients_consistent X cfg s" and "get_contract_metadata X cfg address i s = (Inr em, s')"
  shows "\<exists>clients. build_clients X cfg (etherscan_api_key s) i = Inr clients
    \<and> clients_consistent X cfg s'
    \<and> subseq (map client_class clients) [AsyncEtherscanClientV2, AsyncSourcifyClient, AsyncBlockscoutClient]
    \<and> (case em_metadata em of
         None \<Rightarrow> em_source em = None \<and> (\<forall>cl\<in>set clients. silent X address cl)
       | Some md \<Rightarrow> \<exists>before cl after. clients = before @ cl # after \<and> (\<forall>c\<in>set before. silent X address c)
           \<and> async_get_contract_metadata X (client_object cl) address = Inr (Some md)
           \<and> (\<exists>source. em_source em = Some source \<and> from_client cl = Inr source))"
proof -
  from assms(2) obtain clients where e: "enabled_clients X cfg i s = (Inr clients, s')"
    and t: "try_clients X address i clients = Inr em"
    by (auto simp: get_contract_metadata_def act_bind_Inr_iff)
  from enabled_clients_transparent [OF assms(1) e] have b: "build_clients X cfg (etherscan_api_key s) i = Inr clients"
    and "clients_consistent X cfg s'" by auto
  with try_clients_Inr [OF t] build_clients_classes [OF b] show ?thesis by blast
qed

text \<open>Etherscan refuses the chain, Sourcify times out, Blockscout answers.\<close>

definition demo_metadata :: contract_metadata where
  "demo_metadata = \<lparr>cm_name = Some ''Token'', cm_abi = JList [JObj [(''type'', JStr ''function'')]],
     cm_implementation = Some ''0xb''\<rparr>"

definition demo_explorers :: "string explorers" where
  "demo_explorers = \<lparr>new_etherscan_client = (\<lambda>i k n. Inl EtherscanClientConfigurationProblem),
     new_sourcify_client = (\<lambda>i n. Inr ''sourcify''), new_blockscout_client = (\<lambda>i n. Inr ''blockscout''),
     async_get_contract_metadata = (\<lambda>cl a. if cl = ''sourcify'' then Inl TimeoutError else Inr (Some demo_metadata))\<rparr>"

definition demo_client_settings :: client_settings where
  "demo_client_settings = \<lparr>ETHERSCAN_MAX_REQUESTS = 1, SOURCIFY_MAX_REQUESTS = 1, BLOCKSCOUT_MAX_REQUESTS = 1\<rparr>"

definition demo_enhanced :: enhanced_contract_metadata where
  "demo_enhanced = \<lparr>em_address = ''0xa'', em_metadata = Some demo_metadata, em_source = Some BLOCKSCOUT,
     em_chain_id = 1\<rparr>"

lemma first_explorer_that_knows_witness:
  "\<exists>clients before cl after. build_clients demo_explorers demo_client_settings ''key'' 1 = Inr clients
     \<and> clients = before @ cl # after \<and> (\<forall>c\<in>set before. silent demo_explorers ''0xa'' c)
     \<and> from_client cl = Inr BLOCKSCOUT"
proof -
  let ?s = "new_metadata_service ''key'' :: string metadata_service"
  have c: "clients_consistent demo_explorers demo_client_settings ?s"
    by (simp add: clients_consistent_def new_metadata_service_def)
  obtain s' where "get_contract_metadata demo_explorers demo_client_settings ''0xa'' 1 ?s = (Inr demo_enhanced, s')"
    by (simp add: get_contract_metadata_def enabled_clients_def build_clients_def get_etherscan_client_def
        get_sourcify_client_def get_blockscout_client_def demo_explorers_def new_metadata_service_def
        act_bind_def List.map_filter_def explorer_unavailable_def demo_enhanced_def)
  from first_explorer_that_knows [OF c this] show ?thesis
    by (simp add: demo_enhanced_def new_metadata_service_def) blast
qed


section \<open>What is stored\<close>

lemma get_abi_source_in: "get_abi_source n d = Some r \<Longrightarrow> s_id r \<in> s_id ` set (db_sources d)"
  by (auto simp: get_abi_source_def dest: find_Some_in)

lemma retries_mono [simp]: "foreign_keys_ok d (c\<lparr>c_fetch_retries := n\<rparr>) = foreign_keys_ok d c"
  by simp

lemma get_contract_keys_ok: "db_ok h d \<Longrightarrow> get_contract a i d = Some c \<Longrightarrow> foreign_keys_ok d c"
  by (auto simp: db_ok_defs dest!: get_contract_Some)

lemma count_retry_run:
  assumes "db_ok h d" and "get_contract a i d = Some c"
  obtains m d' where "count_retry c d = (Inr False, d')" "db_ok h d'" "db_abis d' = db_abis d"
    "get_contract a i d' = Some (c\<lparr>c_fetch_retries := c_fetch_retries c + 1, c_modified := m\<rparr>)"
    "\<forall>b j. (b, j) \<noteq> (a, i) \<longrightarrow> get_contract b j d' = get_contract b j d"
proof -
  note c = get_contract_Some [OF assms(2)]
  let ?c = "c\<lparr>c_fetch_retries := c_fetch_retries c + 1\<rparr>"
  have same: "c_id ?c = c_id c" "c_address ?c = a" "c_chain_id ?c = i" and fk: "foreign_keys_ok d ?c"
    using c get_contract_keys_ok [OF assms] by simp_all
  obtain m d' where up: "contract_update ?c d = (Inr (?c\<lparr>c_modified := m\<rparr>), d')"
    "get_contract a i d' = Some (?c\<lparr>c_modified := m\<rparr>)"
    "db_ok h d'" "db_abis d' = db_abis d" "db_sources d' = db_sources d"
    "\<forall>b j. (b, j) \<noteq> (a, i) \<longrightarrow> get_contract b j d' = get_contract b j d"
    by (rule contract_update_found [OF assms same fk])
  have "count_retry c d = (Inr False, d')" by (simp add: count_retry_def act_bind_def up(1))
  from that [OF this up(3,4) _ up(6)] up(2) show thesis by simp
qed

text \<open>
  C18. When there is nothing to store (no explorer knew the contract, the source is missing
  or not in the database, or the ABI is empty), \<open>process_contract_metadata\<close> answers
  \<open>False\<close> and counts exactly one retry: the row of the contract, created if it was absent,
  is otherwise the row it was, no ABI is added and no other contract changes.
\<close>

theorem failed_download_counts_one_retry:
  assumes ok: "db_ok h d" and a: "hex_bytes E (em_address em) = Inr a"
    and bad: "em_metadata em = None \<or> em_source em = None
      \<or> get_abi_source (source_value (the (em_source em))) d = None
      \<or> \<not> json_truthy (cm_abi (the (em_metadata em)))"
  shows "\<exists>c m n t d'. process_contract_metadata E h em d = (Inr False, d') \<and> db_ok h d'
    \<and> db_abis d' = db_abis d
    \<and> c = (case get_contract a (em_chain_id em) d of
             Some c0 \<Rightarrow> c0
           | None \<Rightarrow> (new_contract a (em_chain_id em))\<lparr>c_id := n, c_created := t, c_modified := t\<rparr>)
    \<and> get_contract a (em_chain_id em) d' = Some (c\<lparr>c_fetch_retries := c_fetch_retries c + 1, c_modified := m\<rparr>)
    \<and> (\<forall>b j. (b, j) \<noteq> (a, em_chain_id em) \<longrightarrow> get_contract b j d' = get_contract b j d)"
proof (rule contract_goc_found [OF ok, of a "em_chain_id em" "[]"])
  fix c b d1
  assume goc: "contract_get_or_create a (em_chain_id em) [] d = (Inr (c, b), d1)"
    and g: "get_contract a (em_chain_id em) d1 = Some c" and ok1: "db_ok h d1"
    and abis: "db_abis d1 = db_abis d" and src: "db_sources d1 = db_sources d"
    and other: "\<forall>a' j. (a', j) \<noteq> (a, em_chain_id em) \<longrightarrow> get_contract a' j d1 = get_contract a' j d"
    and b: "b \<longleftrightarrow> get_contract a (em_chain_id em) d = None"
    and old: "\<not> b \<longrightarrow> get_contract a (em_chain_id em) d = Some c"
    and new: "b \<longrightarrow> (\<exists>n t. c = (fold set_kwarg [] (new_contract a (em_chain_id em)))
        \<lparr>c_id := n, c_created := t, c_modified := t\<rparr>)"
  obtain m d' where r: "count_retry c d1 = (Inr False, d')" "db_ok h d'" "db_abis d' = db_abis d1"
    "get_contract a (em_chain_id em) d' = Some (c\<lparr>c_fetch_retries := c_fetch_retries c + 1, c_modified := m\<rparr>)"
    "\<forall>b j. (b, j) \<noteq> (a, em_chain_id em) \<longrightarrow> get_contract b j d' = get_contract b j d1"
    by (rule count_retry_run [OF ok1 g])
  have "get_abi_source n d1 = get_abi_source n d" for n by (simp add: get_abi_source_def src)
  then have "process_contract_metadata E h em d = (Inr False, d')"
    using bad goc r(1) by (auto simp: process_contract_metadata_def a act_bind_def split: option.splits)
  moreover from b old new obtain n t where "c = (case get_contract a (em_chain_id em) d of
      Some c0 \<Rightarrow> c0
    | None \<Rightarrow> (new_contract a (em_chain_id em))\<lparr>c_id := n, c_created := t, c_modified := t\<rparr>)"
    by (cases b) auto
  ultimately show ?thesis using r(2-5) abis other by (intro exI [of _ c] exI [of _ m] exI [of _ n] exI [of _ t] exI [of _ d']) simp
qed

lemma failed_download_counts_one_retry_witness:
  "\<exists>c d'. process_contract_metadata demo_eth (\<lambda>j. []) (demo_enhanced\<lparr>em_metadata := None\<rparr>) empty_db = (Inr False, d')
     \<and> get_contract [97] 1 d' = Some c \<and> c_fetch_retries c = 1"
proof -
  have "hex_bytes demo_eth (em_address (demo_enhanced\<lparr>em_metadata := None\<rparr>)) = Inr [97]"
    by (simp add: demo_eth_def demo_enhanced_def)
  from failed_download_counts_one_retry [OF db_ok_empty [of "\<lambda>j. []"] this] show ?thesis
    by (auto simp: demo_enhanced_def get_contract_def empty_db_def new_contract_def)
qed

lemma implementation_step:
  assumes "\<And>s. real_implementation E md = Some s \<Longrightarrow> \<exists>b. hex_bytes E s = Inr b"
  obtains im where "(case real_implementation E md of
      None \<Rightarrow> act_return c
    | Some x \<Rightarrow> act_bind (act_lift (hex_bytes E x)) (\<lambda>y. act_return (c\<lparr>c_implementation := Some y\<rparr>))) d
      = (Inr (c\<lparr>c_implementation := im\<rparr>), d)"
    "\<forall>s. real_implementation E md = Some s \<longrightarrow> hex_bytes E s = Inr (the im)"
proof (cases "real_implementation E md")
  case None
  then show thesis by (intro that [of "c_implementation c"]) (cases c, simp_all)
next
  case (Some s)
  with assms obtain b where "hex_bytes E s = Inr b" by blast
  with Some show thesis by (intro that [of "Some b"]) simp_all
qed

lemma store_metadata_run:
  assumes ok: "db_ok h d" and g: "get_contract a i d = Some c"
    and row: "get_abi_source n d = Some row" and abi: "json_truthy (cm_abi md)"
    and impl: "\<And>s. real_implementation E md = Some s \<Longrightarrow> \<exists>b. hex_bytes E s = Inr b"
  obtains d' c' j where "store_metadata E h c row md d = (Inr True, d')" "db_ok h d'"
    "h j = h (cm_abi md)"
    "get_abi_by_contract_address a (Some i) d' = (if json_truthy j then Some j else None)"
    "get_contract a i d' = Some c'" "c_name c' = cm_name md" "c_fetch_retries c' = c_fetch_retries c"
    "\<forall>s. real_implementation E md = Some s \<longrightarrow> hex_bytes E s = Inr (the (c_implementation c'))"
    "\<forall>b k. (b, k) \<noteq> (a, i) \<longrightarrow> get_contract b k d' = get_contract b k d"
    "\<exists>n>0. c_abi_id c' = Some n"
proof -
  have nn: "cm_abi md \<noteq> JNull" using abi by auto
  obtain ab n d2 where abi_row: "get_or_create_abi h (cm_abi md) (Some (s_id row)) (Some 0) d = (Inr (ab, n), d2)"
    "ab \<in> set (db_abis d2)" "h (a_json ab) = h (cm_abi md)" "db_ok h d2" "db_contracts d2 = db_contracts d"
    "db_projects d2 = db_projects d" "set (db_abis d) \<subseteq> set (db_abis d2)"
    by (rule abi_goc_found [OF ok nn get_abi_source_in [OF row]])
  have g2: "get_contract b k d2 = get_contract b k d" for b k by (simp add: get_contract_def abi_row(5))
  let ?c0 = "c\<lparr>c_abi_id := Some (a_id ab), c_name := cm_name md\<rparr>"
  obtain im where im: "(case real_implementation E md of
      None \<Rightarrow> act_return ?c0
    | Some x \<Rightarrow> act_bind (act_lift (hex_bytes E x)) (\<lambda>y. act_return (?c0\<lparr>c_implementation := Some y\<rparr>))) d2
      = (Inr (?c0\<lparr>c_implementation := im\<rparr>), d2)"
    and im': "\<forall>s. real_implementation E md = Some s \<longrightarrow> hex_bytes E s = Inr (the im)"
    by (rule implementation_step [OF impl])
  let ?c = "?c0\<lparr>c_implementation := im\<rparr>"
  have "foreign_keys_ok d2 c" using get_contract_keys_ok [OF ok g] abi_row(6,7) by (auto intro: foreign_keys_mono)
  then have fk: "foreign_keys_ok d2 ?c" using abi_row(2) by (auto simp: foreign_keys_ok_def)
  have gc: "get_contract a i d2 = Some c" using g g2 by simp
  have same: "c_id ?c = c_id c" "c_address ?c = a" "c_chain_id ?c = i" using get_contract_Some [OF gc] by simp_all
  obtain m d3 where up: "contract_update ?c d2 = (Inr (?c\<lparr>c_modified := m\<rparr>), d3)"
    "get_contract a i d3 = Some (?c\<lparr>c_modified := m\<rparr>)" "db_ok h d3" "db_abis d3 = db_abis d2"
    "db_sources d3 = db_sources d2" "\<forall>b j. (b, j) \<noteq> (a, i) \<longrightarrow> get_contract b j d3 = get_contract b j d2"
    by (rule contract_update_found [OF abi_row(4) gc same fk])
  have "store_metadata E h c row md d = (Inr True, d3)"
    unfolding store_metadata_def using abi_row(1) im up(1) by (simp add: act_bind_def Let_def)
  moreover have "get_abi_by_contract_address a (Some i) d3 = (if json_truthy (a_json ab) then Some (a_json ab) else None)"
    by (rule abi_of_contract_row [OF up(3,2)]) (use up(4) abi_row(2) in simp_all)
  moreover have "\<forall>b k. (b, k) \<noteq> (a, i) \<longrightarrow> get_contract b k d3 = get_contract b k d" using up(6) by (simp only: g2)
  moreover have "0 < a_id ab" using abi_row(2,4) by (auto simp: db_ok_defs)
  ultimately show thesis
    using that [of d3 "a_json ab" "?c\<lparr>c_modified := m\<rparr>", OF _ up(3) abi_row(3) _ up(2)] im' by simp
qed

text \<open>Whatever the outcome, the contract's row is settled for a first attempt.\<close>

lemma process_settles:
  assumes ok: "db_ok h d" and a: "hex_bytes E (em_address em) = Inr a"
    and run: "process_contract_metadata E h em d = (Inr b, d')"
    and nonneg: "\<And>c. get_contract a (em_chain_id em) d = Some c \<Longrightarrow> 0 \<le> c_fetch_retries c"
  obtains c where "get_contract a (em_chain_id em) d' = Some c" "db_ok h d'"
    "0 < c_fetch_retries c \<or> (\<exists>n>0. c_abi_id c = Some n)"
proof (rule contract_goc_found [OF ok, of a "em_chain_id em" "[]"])
  fix c n d1
  assume goc: "contract_get_or_create a (em_chain_id em) [] d = (Inr (c, n), d1)"
    and g: "get_contract a (em_chain_id em) d1 = Some c" and ok1: "db_ok h d1"
    and old: "\<not> n \<longrightarrow> get_contract a (em_chain_id em) d = Some c"
    and new: "n \<longrightarrow> (\<exists>n t. c = (fold set_kwarg [] (new_contract a (em_chain_id em)))
        \<lparr>c_id := n, c_created := t, c_modified := t\<rparr>)"
  have nn: "0 \<le> c_fetch_retries c" using old new nonneg by (cases n) (auto simp: new_contract_def)
  consider "count_retry c d1 = (Inr b, d')"
    | md row where "store_metadata E h c row md d1 = (Inr b, d')" "json_truthy (cm_abi md)"
        "\<exists>n. get_abi_source n d1 = Some row"
    using run goc by (auto simp: process_contract_metadata_def a act_bind_Inr split: option.splits if_splits)
  then show thesis
  proof cases
    case 1
    obtain m d2 where r: "count_retry c d1 = (Inr False, d2)" "db_ok h d2" "db_abis d2 = db_abis d1"
      "get_contract a (em_chain_id em) d2 = Some (c\<lparr>c_fetch_retries := c_fetch_retries c + 1, c_modified := m\<rparr>)"
      "\<forall>b j. (b, j) \<noteq> (a, em_chain_id em) \<longrightarrow> get_contract b j d2 = get_contract b j d1"
      by (rule count_retry_run [OF ok1 g])
    with 1 have "d2 = d'" by simp
    from that [OF r(4) [unfolded this] r(2) [unfolded this]] nn show thesis by simp
  next
    case 2
    then obtain src where src: "get_abi_source src d1 = Some row" by blast
    have impl: "\<exists>b. hex_bytes E s = Inr b" if "real_implementation E md = Some s" for s
      using 2(1) that by (cases "hex_bytes E s") (auto simp: store_metadata_def Let_def act_bind_Inr_iff)
    obtain d2 c' j where st: "store_metadata E h c row md d1 = (Inr True, d2)" "db_ok h d2"
      "h j = h (cm_abi md)"
      "get_abi_by_contract_address a (Some (em_chain_id em)) d2 = (if json_truthy j then Some j else None)"
      "get_contract a (em_chain_id em) d2 = Some c'" "c_name c' = cm_name md" "c_fetch_retries c' = c_fetch_retries c"
      "\<forall>s. real_implementation E md = Some s \<longrightarrow> hex_bytes E s = Inr (the (c_implementation c'))"
      "\<forall>b k. (b, k) \<noteq> (a, em_chain_id em) \<longrightarrow> get_contract b k d2 = get_contract b k d1"
      "\<exists>n>0. c_abi_id c' = Some n"
      by (rule store_metadata_run [OF ok1 g src 2(2) impl])
    with 2(1) have "d2 = d'" by simp
    from that [OF st(5) [unfolded this] st(2) [unfolded this]] st(10) show thesis by blast
  qed
qed

text \<open>A download that found something, in full.\<close>

lemma process_stores:
  assumes ok: "db_ok h d" and a: "hex_bytes E (em_address em) = Inr a"
    and md: "em_metadata em = Some md" and src: "em_source em = Some source"
    and row: "get_abi_source (source_value source) d = Some row" and abi: "json_truthy (cm_abi md)"
    and impl: "\<And>s. real_implementation E md = Some s \<Longrightarrow> \<exists>b. hex_bytes E s = Inr b"
  shows "\<exists>d' c j. process_contract_metadata E h em d = (Inr True, d') \<and> db_ok h d'
    \<and> h j = h (cm_abi md)
    \<and> get_abi_by_contract_address a (Some (em_chain_id em)) d' = (if json_truthy j then Some j else None)
    \<and> get_contract a (em_chain_id em) d' = Some c \<and> c_name c = cm_name md
    \<and> (\<forall>s. real_implementation E md = Some s \<longrightarrow> hex_bytes E s = Inr (the (c_implementation c)))
    \<and> c_fetch_retries c = (case get_contract a (em_chain_id em) d of None \<Rightarrow> 0 | Some c0 \<Rightarrow> c_fetch_retries c0)
    \<and> (\<forall>b k. (b, k) \<noteq> (a, em_chain_id em) \<longrightarrow> get_contract b k d' = get_contract b k d)"
proof (rule contract_goc_found [OF ok, of a "em_chain_id em" "[]"])
  fix c b d1
  assume goc: "contract_get_or_create a (em_chain_id em) [] d = (Inr (c, b), d1)"
    and g: "get_contract a (em_chain_id em) d1 = Some c" and ok1: "db_ok h d1"
    and srcs: "db_sources d1 = db_sources d"
    and other: "\<forall>a' j. (a', j) \<noteq> (a, em_chain_id em) \<longrightarrow> get_contract a' j d1 = get_contract a' j d"
    and b: "b \<longleftrightarrow> get_contract a (em_chain_id em) d = None"
    and old: "\<not> b \<longrightarrow> get_contract a (em_chain_id em) d = Some c"
    and new: "b \<longrightarrow> (\<exists>n t. c = (fold set_kwarg [] (new_contract a (em_chain_id em)))
        \<lparr>c_id := n, c_created := t, c_modified := t\<rparr>)"
  have row1: "get_abi_source (source_value source) d1 = Some row" using row by (simp add: get_abi_source_def srcs)
  obtain d' c' j where st: "store_metadata E h c row md d1 = (Inr True, d')" "db_ok h d'"
    "h j = h (cm_abi md)"
    "get_abi_by_contract_address a (Some (em_chain_id em)) d' = (if json_truthy j then Some j else None)"
    "get_contract a (em_chain_id em) d' = Some c'" "c_name c' = cm_name md" "c_fetch_retries c' = c_fetch_retries c"
    "\<forall>s. real_implementation E md = Some s \<longrightarrow> hex_bytes E s = Inr (the (c_implementation c'))"
    "\<forall>b k. (b, k) \<noteq> (a, em_chain_id em) \<longrightarrow> get_contract b k d' = get_contract b k d1"
    "\<exists>n>0. c_abi_id c' = Some n"
    by (rule store_metadata_run [OF ok1 g row1 abi impl])
  have "process_contract_metadata E h em d = (Inr True, d')"
    using goc row1 abi st(1) by (simp add: process_contract_metadata_def a md src act_bind_def)
  moreover have "c_fetch_retries c = (case get_contract a (em_chain_id em) d of None \<Rightarrow> 0 | Some c0 \<Rightarrow> c_fetch_retries c0)"
    using b old new by (cases b) (auto simp: new_contract_def)
  ultimately show ?thesis using st(2-9) other by (intro exI [of _ d'] exI [of _ c'] exI [of _ j]) simp
qed

text \<open>
  C9. When an explorer answered with a non-empty ABI and its source is in the database,
  \<open>process_contract_metadata\<close> answers \<open>True\<close>, and from then on the decoder's lookup by
  address and chain finds that ABI (the stored JSON with the same hash, an earlier copy if
  there was one); the contract carries the new name and, for a proxy, the implementation,
  its retries are what they were, and no other contract changes.
\<close>

theorem downloaded_abi_is_found:
  assumes ok: "db_ok h d" and a: "hex_bytes E (em_address em) = Inr a"
    and md: "em_metadata em = Some md" and src: "em_source em = Some source"
    and row: "get_abi_source (source_value source) d = Some row" and abi: "json_truthy (cm_abi md)"
    and impl: "\<And>s. real_implementation E md = Some s \<Longrightarrow> \<exists>b. hex_bytes E s = Inr b"
  shows "\<exists>d' c j. process_contract_metadata E h em d = (Inr True, d') \<and> db_ok h d'
    \<and> h j = h (cm_abi md)
    \<and> get_abi_by_contract_address a (Some (em_chain_id em)) d' = (if json_truthy j then Some j else None)
    \<and> get_contract a (em_chain_id em) d' = Some c \<and> c_name c = cm_name md
    \<and> (\<forall>s. real_implementation E md = Some s \<longrightarrow> hex_bytes E s = Inr (the (c_implementation c)))
    \<and> c_fetch_retries c = (case get_contract a (em_chain_id em) d of None \<Rightarrow> 0 | Some c0 \<Rightarrow> c_fetch_retries c0)
    \<and> (\<forall>b k. (b, k) \<noteq> (a, em_chain_id em) \<longrightarrow> get_contract b k d' = get_contract b k d)"
  by (rule process_stores [OF assms])

definition demo_source_db :: db where
  "demo_source_db = empty_db\<lparr>db_sources := [\<lparr>s_id = 1, s_name = ''Blockscout'', s_url = ''u''\<rparr>], db_source_seq := 2\<rparr>"

lemma downloaded_abi_is_found_witness:
  "\<exists>d' j. process_contract_metadata demo_eth (\<lambda>j. []) demo_enhanced demo_source_db = (Inr True, d')
     \<and> get_abi_by_contract_address [97] (Some 1) d' = (if json_truthy j then Some j else None)"
proof -
  have ok: "db_ok (\<lambda>j. []) demo_source_db" by (simp add: demo_source_db_def db_ok_defs empty_db_def)
  have a: "hex_bytes demo_eth (em_address demo_enhanced) = Inr [97]"
    by (simp add: demo_eth_def demo_enhanced_def)
  have row: "get_abi_source (source_value BLOCKSCOUT) demo_source_db = Some \<lparr>s_id = 1, s_name = ''Blockscout'', s_url = ''u''\<rparr>"
    by (simp add: get_abi_source_def demo_source_db_def)
  have impl: "\<exists>b. hex_bytes demo_eth s = Inr b" if "real_implementation demo_eth demo_metadata = Some s" for s
    using that by (auto simp: real_implementation_def demo_metadata_def demo_eth_def)
  have md: "em_metadata demo_enhanced = Some demo_metadata" "em_source demo_enhanced = Some BLOCKSCOUT"
    "json_truthy (cm_abi demo_metadata)" "em_chain_id demo_enhanced = 1"
    by (simp_all add: demo_enhanced_def demo_metadata_def)
  from downloaded_abi_is_found [OF ok a md(1,2) row md(3) impl] md(4) show ?thesis by fastforce
qed

end
