(* ===== verification/Redis_Cache.thy ===== *)
theory Redis_Cache
  imports Json
begin

text \<open>
  Redis and the response cache: \<open>app/datasources/cache/redis.py\<close>. Redis is a service, so
  its operations are a record of functions on an abstract store, with the passing of time
  in seconds as one of them; \<open>redis_ok\<close> collects what its documentation promises and the
  cache relies on. The decorator \<open>cache_response\<close> wraps an endpoint: the endpoint is an
  argument, and so are the digest, the JSON dump of the arguments and the validation and
  rendering of the response.
\<close>

section \<open>The store\<close>

record 'r redis =
  redis_get :: "'r \<Rightarrow> string \<Rightarrow> string option"
  redis_set :: "'r \<Rightarrow> string \<Rightarrow> string \<Rightarrow> int \<Rightarrow> 'r"
  redis_set_nx :: "'r \<Rightarrow> string \<Rightarrow> string \<Rightarrow> int \<Rightarrow> bool \<times> 'r"
  redis_delete :: "'r \<Rightarrow> string \<Rightarrow> 'r"
  redis_exists :: "'r \<Rightarrow> string \<Rightarrow> bool"
  redis_hget :: "'r \<Rightarrow> string \<Rightarrow> string \<Rightarrow> string option"
  redis_hset :: "'r \<Rightarrow> string \<Rightarrow> string \<Rightarrow> string \<Rightarrow> 'r"
  redis_ttl :: "'r \<Rightarrow> string \<Rightarrow> int"
  redis_expire :: "'r \<Rightarrow> string \<Rightarrow> int \<Rightarrow> 'r"
  redis_pass :: "nat \<Rightarrow> 'r \<Rightarrow> 'r"

text \<open>
  What is documented of a hash and its time to live: \<open>TTL\<close> is -2 for a missing key and -1
  for a key that does not expire; \<open>HSET\<close> leaves the time to live of an existing key alone
  and creates a key that does not expire; \<open>EXPIRE\<close> sets it; time counts it down and drops
  the key at zero. Keys do not interfere.
\<close>

definition hash_ok :: "'r redis \<Rightarrow> bool" where
  "hash_ok R \<longleftrightarrow>
     (\<forall>s k f v k' f'. redis_hget R (redis_hset R s k f v) k' f'
        = (if k' = k \<and> f' = f then Some v else redis_hget R s k' f')) \<and>
     (\<forall>s k f v k'. redis_ttl R (redis_hset R s k f v) k'
        = (if k' = k \<and> redis_ttl R s k = -2 then -1 else redis_ttl R s k')) \<and>
     (\<forall>s k n k' f. 0 < n \<longrightarrow> redis_hget R (redis_expire R s k n) k' f = redis_hget R s k' f) \<and>
     (\<forall>s k n k'. 0 < n \<longrightarrow> redis_ttl R (redis_expire R s k n) k'
        = (if k' = k \<and> redis_ttl R s k \<noteq> -2 then n else redis_ttl R s k')) \<and>
     (\<forall>s k k' f. redis_hget R (redis_delete R s k) k' f = (if k' = k then None else redis_hget R s k' f)) \<and>
     (\<forall>s k k'. redis_ttl R (redis_delete R s k) k' = (if k' = k then -2 else redis_ttl R s k')) \<and>
     (\<forall>n s k. redis_ttl R (redis_pass R n s) k
        = (if redis_ttl R s k < 0 then redis_ttl R s k
           else if redis_ttl R s k \<le> int n then -2 else redis_ttl R s k - int n)) \<and>
     (\<forall>n s k f. redis_hget R (redis_pass R n s) k f
        = (if 0 \<le> redis_ttl R s k \<and> redis_ttl R s k \<le> int n then None else redis_hget R s k f)) \<and>
     (\<forall>s k f. redis_ttl R s k = -2 \<longrightarrow> redis_hget R s k f = None)"

text \<open>
  The same for plain values: a value set with an expiry is there until it expires or is
  deleted, \<open>SET NX\<close> sets only a missing key, and a key exists while it has a time to live.
\<close>

definition values_ok :: "'r redis \<Rightarrow> bool" where
  "values_ok R \<longleftrightarrow>
     (\<forall>s k v ex k'. 0 < ex \<longrightarrow> redis_get R (redis_set R s k v ex) k' = (if k' = k then Some v else redis_get R s k')) \<and>
     (\<forall>s k v ex k'. 0 < ex \<longrightarrow> redis_ttl R (redis_set R s k v ex) k' = (if k' = k then ex else redis_ttl R s k')) \<and>
     (\<forall>s k v ex. 0 < ex \<longrightarrow> redis_set_nx R s k v ex
        = (if redis_exists R s k then (False, s) else (True, redis_set R s k v ex))) \<and>
     (\<forall>s k k'. redis_get R (redis_delete R s k) k' = (if k' = k then None else redis_get R s k')) \<and>
     (\<forall>s k k'. redis_ttl R (redis_delete R s k) k' = (if k' = k then -2 else redis_ttl R s k')) \<and>
     (\<forall>s k. redis_exists R s k \<longleftrightarrow> redis_ttl R s k \<noteq> -2) \<and>
     (\<forall>s k. redis_ttl R s k = -2 \<longrightarrow> redis_get R s k = None) \<and>
     (\<forall>n s k. redis_get R (redis_pass R n s) k
        = (if 0 \<le> redis_ttl R s k \<and> redis_ttl R s k \<le> int n then None else redis_get R s k)) \<and>
     (\<forall>n s k. redis_ttl R (redis_pass R n s) k
        = (if redis_ttl R s k < 0 then redis_ttl R s k
           else if redis_ttl R s k \<le> int n then -2 else redis_ttl R s k - int n))"

section \<open>Keys\<close>

definition get_key_for_contract :: "string \<Rightarrow> string" where
  "get_key_for_contract address = ''contract:'' @ str_lower address"

definition del_contract_cache :: "'r redis \<Rightarrow> string \<Rightarrow> ('r, unit) act" where
  "del_contract_cache R address = act_modify (\<lambda>s. redis_delete R s (get_key_for_contract address))"

text \<open>
  The arguments of an endpoint: the request, of which only its URL behind the proxy is
  used, or a plain value. \<open>json.dumps\<close> with sorted keys and the MD5 digest are arguments.
\<close>

datatype kwarg = RequestArg string | PlainArg json

fun plain_kwargs :: "(string, kwarg) dict \<Rightarrow> (string, json) dict" where
  "plain_kwargs [] = []"
| "plain_kwargs ((k, RequestArg u) # kws) =
     (if k \<noteq> ''request'' \<and> \<not> str_contains ''request'' (str_lower k)
      then (k, JStr u) # plain_kwargs kws else plain_kwargs kws)"
| "plain_kwargs ((k, PlainArg v) # kws) =
     (if k \<noteq> ''request'' \<and> \<not> str_contains ''request'' (str_lower k)
      then (k, v) # plain_kwargs kws else plain_kwargs kws)"

definition get_field_key ::
    "(string \<Rightarrow> string) \<Rightarrow> ((string, json) dict \<Rightarrow> string) \<Rightarrow> (string, kwarg) dict \<Rightarrow> string" where
  "get_field_key md5 dumps kwargs =
     (let url_path = (case map_of kwargs ''request'' of
            Some (RequestArg u) \<Rightarrow> u
          | Some (PlainArg v) \<Rightarrow> []
          | None \<Rightarrow> []);
          payload = dict_update [(''url'', JStr url_path)] (plain_kwargs kwargs)
      in md5 (dumps payload))"

section \<open>The decorator\<close>

text \<open>
  The cached text is loaded and returned as it is; a fresh response is returned as the
  endpoint made it, and its validated rendering is what is stored.
\<close>

definition cache_response ::
    "'r redis \<Rightarrow> (string \<Rightarrow> 'a res) \<Rightarrow> ('a \<Rightarrow> string res) \<Rightarrow> int \<Rightarrow> string \<Rightarrow> string \<Rightarrow>
     ('r, 'a) act \<Rightarrow> ('r, 'a) act" where
  "cache_response R loads validate_dump expire hash_key field_key func =
     act_bind act_get (\<lambda>redis.
       case redis_hget R redis hash_key field_key of
         Some (c # cs) \<Rightarrow> act_lift (loads (c # cs))
       | _ \<Rightarrow>
           act_bind func (\<lambda>response.
           act_bind (act_lift (validate_dump response)) (\<lambda>text.
           act_bind (act_modify (\<lambda>s. redis_hset R s hash_key field_key text)) (\<lambda>_.
           act_bind act_get (\<lambda>s.
           act_bind (if redis_ttl R s hash_key = -1
                     then act_modify (\<lambda>s. redis_expire R s hash_key expire) else act_return ()) (\<lambda>_.
             act_return response))))))"

section \<open>A store that keeps the promises\<close>

text \<open>For the witnesses: a key holds its remaining seconds, its hash fields and its value.\<close>

record demo_entry =
  de_ttl :: "nat option"
  de_fields :: "string \<rightharpoonup> string"
  de_value :: "string option"

definition demo_redis :: "(string \<rightharpoonup> demo_entry) redis" where
  "demo_redis = \<lparr>
     redis_get = (\<lambda>s k. case s k of None \<Rightarrow> None | Some e \<Rightarrow> de_value e),
     redis_set = (\<lambda>s k v ex. s(k \<mapsto> \<lparr>de_ttl = Some (nat ex), de_fields = Map.empty, de_value = Some v\<rparr>)),
     redis_set_nx = (\<lambda>s k v ex. case s k of
         None \<Rightarrow> (True, s(k \<mapsto> \<lparr>de_ttl = Some (nat ex), de_fields = Map.empty, de_value = Some v\<rparr>))
       | Some e \<Rightarrow> (False, s)),
     redis_delete = (\<lambda>s k. s(k := None)),
     redis_exists = (\<lambda>s k. s k \<noteq> None),
     redis_hget = (\<lambda>s k f. case s k of None \<Rightarrow> None | Some e \<Rightarrow> de_fields e f),
     redis_hset = (\<lambda>s k f v. case s k of
         None \<Rightarrow> s(k \<mapsto> \<lparr>de_ttl = None, de_fields = [f \<mapsto> v], de_value = None\<rparr>)
       | Some e \<Rightarrow> s(k \<mapsto> e\<lparr>de_fields := (de_fields e)(f \<mapsto> v)\<rparr>)),
     redis_ttl = (\<lambda>s k. case s k of None \<Rightarrow> -2 | Some e \<Rightarrow> (case de_ttl e of None \<Rightarrow> -1 | Some n \<Rightarrow> int n)),
     redis_expire = (\<lambda>s k n. case s k of None \<Rightarrow> s | Some e \<Rightarrow> s(k \<mapsto> e\<lparr>de_ttl := Some (nat n)\<rparr>)),
     redis_pass = (\<lambda>n s k. case s k of
         None \<Rightarrow> None
       | Some e \<Rightarrow> (case de_ttl e of
           None \<Rightarrow> Some e
         | Some m \<Rightarrow> if m \<le> n then None else Some (e\<lparr>de_ttl := Some (m - n)\<rparr>)))\<rparr>"

lemma demo_hash_ok: "hash_ok demo_redis"
  by (auto simp: hash_ok_def demo_redis_def split: option.splits)

lemma demo_values_ok: "values_ok demo_redis"
  by (auto simp: values_ok_def demo_redis_def split: option.splits)


section \<open>Staleness is bounded\<close>

text \<open>
  The life of the cache: requests through the decorator, each with the response its
  endpoint would compute now, deletions, and the passing of time. The run keeps the
  clock and a log of the texts stored, each with the time it was computed.
\<close>

record 'r cache_run =
  run_redis :: 'r
  run_time :: nat
  run_log :: "(nat \<times> string \<times> string \<times> string) set"

inductive cache_step ::
    "'r redis \<Rightarrow> (string \<Rightarrow> 'a res) \<Rightarrow> ('a \<Rightarrow> string res) \<Rightarrow> int \<Rightarrow> 'r cache_run \<Rightarrow> 'r cache_run \<Rightarrow> bool"
  for R loads dump expire where
  request: "cache_response R loads dump expire k f (act_return response) (run_redis s) = (r, s') \<Longrightarrow>
     cache_step R loads dump expire s
       (s\<lparr>run_redis := s', run_log := run_log s \<union> {(run_time s, k, f, t) | t. dump response = Inr t}\<rparr>)"
| delete: "cache_step R loads dump expire s (s\<lparr>run_redis := redis_delete R (run_redis s) k\<rparr>)"
| pass: "cache_step R loads dump expire s
       (s\<lparr>run_redis := redis_pass R n (run_redis s), run_time := run_time s + n\<rparr>)"

inductive cache_reachable ::
    "'r redis \<Rightarrow> (string \<Rightarrow> 'a res) \<Rightarrow> ('a \<Rightarrow> string res) \<Rightarrow> int \<Rightarrow> 'r cache_run \<Rightarrow> bool"
  for R loads dump expire where
  start: "(\<And>k. redis_ttl R r k = -2) \<Longrightarrow>
     cache_reachable R loads dump expire \<lparr>run_redis = r, run_time = 0, run_log = {}\<rparr>"
| step: "cache_reachable R loads dump expire s \<Longrightarrow> cache_step R loads dump expire s s' \<Longrightarrow>
     cache_reachable R loads dump expire s'"

text \<open>
  The invariant: no key of the cache is without an expiry, and a stored text was logged
  early enough that the key expires before the text is older than the expiry.
\<close>

definition cache_inv :: "'r redis \<Rightarrow> int \<Rightarrow> 'r \<Rightarrow> nat \<Rightarrow> (nat \<times> string \<times> string \<times> string) set \<Rightarrow> bool" where
  "cache_inv R expire r now log \<longleftrightarrow>
     (\<forall>k. redis_ttl R r k = -2 \<or> 0 < redis_ttl R r k \<and> redis_ttl R r k \<le> expire) \<and>
     (\<forall>k f t. redis_hget R r k f = Some t \<longrightarrow>
        (\<exists>t0. (t0, k, f, t) \<in> log \<and> t0 \<le> now \<and> int now + redis_ttl R r k \<le> int t0 + expire))"

lemma hash_okD:
  assumes "hash_ok R"
  shows "redis_hget R (redis_hset R s k f v) k' f' = (if k' = k \<and> f' = f then Some v else redis_hget R s k' f')"
    and "redis_ttl R (redis_hset R s k f v) k' = (if k' = k \<and> redis_ttl R s k = -2 then -1 else redis_ttl R s k')"
    and "0 < n \<Longrightarrow> redis_hget R (redis_expire R s k n) k' f = redis_hget R s k' f"
    and "0 < n \<Longrightarrow> redis_ttl R (redis_expire R s k n) k' = (if k' = k \<and> redis_ttl R s k \<noteq> -2 then n else redis_ttl R s k')"
    and "redis_hget R (redis_delete R s k) k' f = (if k' = k then None else redis_hget R s k' f)"
    and "redis_ttl R (redis_delete R s k) k' = (if k' = k then -2 else redis_ttl R s k')"
    and "redis_ttl R (redis_pass R m s) k = (if redis_ttl R s k < 0 then redis_ttl R s k
           else if redis_ttl R s k \<le> int m then -2 else redis_ttl R s k - int m)"
    and "redis_hget R (redis_pass R m s) k f
        = (if 0 \<le> redis_ttl R s k \<and> redis_ttl R s k \<le> int m then None else redis_hget R s k f)"
    and "redis_ttl R s k = -2 \<Longrightarrow> redis_hget R s k f = None"
  using assms unfolding hash_ok_def by simp_all


text \<open>One request: a hit leaves everything alone, a miss stores the text and bounds its life.\<close>

lemma cache_response_hit:
  "redis_hget R s k f = Some t \<Longrightarrow> t \<noteq> [] \<Longrightarrow> cache_response R loads dump expire k f func s = (loads t, s)"
  by (cases t) (simp_all add: cache_response_def)

lemma cache_response_miss:
  assumes "redis_hget R s k f = None \<or> redis_hget R s k f = Some []"
  shows "cache_response R loads dump expire k f (act_return response) s =
    (case dump response of
       Inl e \<Rightarrow> (Inl e, s)
     | Inr t \<Rightarrow> (Inr response, let s1 = redis_hset R s k f t in
         if redis_ttl R s1 k = -1 then redis_expire R s1 k expire else s1))"
  using assms by (auto simp: cache_response_def act_bind_def Let_def split: sum.splits)

text \<open>A miss that stores: only the entry is new, and only the life of a new hash.\<close>

lemma cache_miss_stores:
  assumes R: "hash_ok R" and e: "0 < expire"
    and old: "\<And>k. redis_ttl R r k = -2 \<or> 0 < redis_ttl R r k"
    and miss: "redis_hget R r k f = None \<or> redis_hget R r k f = Some []" and t: "dump response = Inr t"
    and c: "cache_response R loads dump expire k f (act_return response) r = (x, r')"
  shows "redis_ttl R r' k' = (if k' = k \<and> redis_ttl R r k = -2 then expire else redis_ttl R r k')"
    and "redis_hget R r' k' f' = (if k' = k \<and> f' = f then Some t else redis_hget R r k' f')"
proof -
  let ?r1 = "redis_hset R r k f t"
  have ttl: "redis_ttl R ?r1 k' = (if k' = k \<and> redis_ttl R r k = -2 then -1 else redis_ttl R r k')" for k'
    by (rule hash_okD(2) [OF R])
  have r': "r' = (if redis_ttl R r k = -2 then redis_expire R ?r1 k expire else ?r1)"
    using cache_response_miss [OF miss, of loads dump expire response] c t ttl [of k] old [of k]
    by (auto simp: Let_def split: if_splits)
  show "redis_ttl R r' k' = (if k' = k \<and> redis_ttl R r k = -2 then expire else redis_ttl R r k')"
    using ttl [of k] ttl [of k'] hash_okD(4) [OF R e, of ?r1 k k'] by (auto simp: r')
  show "redis_hget R r' k' f' = (if k' = k \<and> f' = f then Some t else redis_hget R r k' f')"
    using hash_okD(1) [OF R] hash_okD(3) [OF R e] by (simp add: r')
qed

lemma cache_inv_request:
  assumes R: "hash_ok R" and e: "0 < expire" and inv: "cache_inv R expire r now log"
    and c: "cache_response R loads dump expire k f (act_return response) r = (x, r')"
  shows "cache_inv R expire r' now (log \<union> {(now, k, f, t) | t. dump response = Inr t})"
proof (cases "redis_hget R r k f = None \<or> redis_hget R r k f = Some []")
  case False
  then have "r' = r" using c by (cases "redis_hget R r k f") (auto simp: cache_response_hit)
  with inv show ?thesis by (auto simp: cache_inv_def) blast
next
  case True
  show ?thesis
  proof (cases "dump response")
    case (Inl err)
    with cache_response_miss [OF True, of loads dump expire response] c inv show ?thesis by (simp add: cache_inv_def)
  next
    case (Inr t)
    have old: "redis_ttl R r k' = -2 \<or> 0 < redis_ttl R r k' \<and> redis_ttl R r k' \<le> expire" for k'
      using inv by (simp add: cache_inv_def)
    then have pos: "\<And>k. redis_ttl R r k = -2 \<or> 0 < redis_ttl R r k" by blast
    note ttl' = cache_miss_stores(1) [where dump = dump, OF R e pos True Inr c]
      and get' = cache_miss_stores(2) [where dump = dump, OF R e pos True Inr c]
    have "\<exists>t0. (t0, k', f', t') \<in> log \<union> {(now, k, f, t)} \<and> t0 \<le> now
          \<and> int now + redis_ttl R r' k' \<le> int t0 + expire"
      if h: "redis_hget R r' k' f' = Some t'" for k' f' t'
    proof (cases "k' = k \<and> f' = f")
      case True
      then show ?thesis using h get' old [of k] ttl' [of k] by (intro exI [of _ now]) auto
    next
      case False
      with h have h0: "redis_hget R r k' f' = Some t'" by (auto simp: get' split: if_splits)
      then have "\<not> (k' = k \<and> redis_ttl R r k = -2)" using hash_okD(9) [OF R, of r k] by auto
      then have same: "redis_ttl R r' k' = redis_ttl R r k'" using ttl' [of k'] by (auto split: if_splits)
      from h0 inv obtain t0 where "(t0, k', f', t') \<in> log" "t0 \<le> now" "int now + redis_ttl R r k' \<le> int t0 + expire"
        unfolding cache_inv_def by blast
      then show ?thesis unfolding same by blast
    qed
    moreover have "redis_ttl R r' k' = -2 \<or> 0 < redis_ttl R r' k' \<and> redis_ttl R r' k' \<le> expire" for k'
      using old [of k'] e by (simp add: ttl')
    ultimately show ?thesis using Inr by (simp add: cache_inv_def)
  qed
qed

lemma cache_inv_delete:
  assumes R: "hash_ok R" and inv: "cache_inv R expire r now log"
  shows "cache_inv R expire (redis_delete R r k) now log"
  using inv by (simp add: cache_inv_def hash_okD(5,6) [OF R])

lemma cache_inv_pass:
  assumes R: "hash_ok R" and inv: "cache_inv R expire r now log"
  shows "cache_inv R expire (redis_pass R n r) (now + n) log"
  unfolding cache_inv_def
proof (intro conjI allI impI)
  fix k
  have old: "redis_ttl R r k = -2 \<or> 0 < redis_ttl R r k \<and> redis_ttl R r k \<le> expire"
    using inv by (simp add: cache_inv_def)
  then show "redis_ttl R (redis_pass R n r) k = -2
      \<or> 0 < redis_ttl R (redis_pass R n r) k \<and> redis_ttl R (redis_pass R n r) k \<le> expire"
    by (auto simp: hash_okD(7) [OF R])
  fix f t assume h: "redis_hget R (redis_pass R n r) k f = Some t"
  then have h0: "redis_hget R r k f = Some t" and live: "\<not> (0 \<le> redis_ttl R r k \<and> redis_ttl R r k \<le> int n)"
    by (auto simp: hash_okD(8) [OF R] split: if_splits)
  have "redis_ttl R r k \<noteq> -2" using h0 hash_okD(9) [OF R] by fastforce
  then have "redis_ttl R (redis_pass R n r) k = redis_ttl R r k - int n"
    using old live by (auto simp: hash_okD(7) [OF R])
  then show "\<exists>t0. (t0, k, f, t) \<in> log \<and> t0 \<le> now + n
      \<and> int (now + n) + redis_ttl R (redis_pass R n r) k \<le> int t0 + expire"
    using inv h0 unfolding cache_inv_def by fastforce
qed

lemma cache_reachable_inv:
  assumes R: "hash_ok R" and e: "0 < expire" and "cache_reachable R loads dump expire s"
  shows "cache_inv R expire (run_redis s) (run_time s) (run_log s)"
  using assms(3)
proof induction
  case (start r)
  then show ?case by (simp add: cache_inv_def hash_okD(9) [OF R])
next
  case (step s s')
  from step.hyps(2) step.IH show ?case
    by cases (auto simp: cache_inv_request [OF R e] cache_inv_delete [OF R] cache_inv_pass [OF R])
qed

text \<open>
  C15. A cached response is never older than the expiry: however requests, deletions and
  time interleave from an empty cache, when a request is answered from the cache, the text
  it gets was computed and stored for the same key and field less than \<open>expire\<close> seconds
  ago, and right after \<open>del_contract_cache\<close> no field of that contract is answered from it.
\<close>

theorem cached_response_is_recent:
  assumes "hash_ok R" and "0 < expire" and "cache_reachable R loads dump expire s"
    and "redis_hget R (run_redis s) k f = Some t" and "t \<noteq> []"
  shows "cache_response R loads dump expire k f func (run_redis s) = (loads t, run_redis s)
    \<and> (\<exists>t0. (t0, k, f, t) \<in> run_log s \<and> t0 \<le> run_time s \<and> int (run_time s) < int t0 + expire)
    \<and> (\<forall>a f'. redis_hget R (snd (del_contract_cache R a (run_redis s))) (get_key_for_contract a) f' = None)"
proof (intro conjI)
  show "cache_response R loads dump expire k f func (run_redis s) = (loads t, run_redis s)"
    by (rule cache_response_hit [OF assms(4,5)])
  have inv: "cache_inv R expire (run_redis s) (run_time s) (run_log s)"
    by (rule cache_reachable_inv [OF assms(1-3)])
  have "redis_ttl R (run_redis s) k \<noteq> -2" using assms(4) hash_okD(9) [OF assms(1)] by fastforce
  then have "0 < redis_ttl R (run_redis s) k" using inv by (auto simp: cache_inv_def)
  then show "\<exists>t0. (t0, k, f, t) \<in> run_log s \<and> t0 \<le> run_time s \<and> int (run_time s) < int t0 + expire"
    using inv assms(4) unfolding cache_inv_def by fastforce
  show "\<forall>a f'. redis_hget R (snd (del_contract_cache R a (run_redis s))) (get_key_for_contract a) f' = None"
    by (simp add: del_contract_cache_def hash_okD(5) [OF assms(1)])
qed

text \<open>One request fills the cache; thirty seconds later it is answered from it.\<close>

lemma cached_response_is_recent_witness:
  "\<exists>s t0. cache_reachable demo_redis Inr Inr 60 s \<and> run_time s = 30
     \<and> (t0, ''contract:0x1'', ''f'', ''ok'') \<in> run_log s \<and> int (run_time s) < int t0 + 60"
proof -
  let ?r0 = "Map.empty :: string \<rightharpoonup> demo_entry" and ?k = "''contract:0x1''"
  let ?r1 = "[?k \<mapsto> \<lparr>de_ttl = Some 60, de_fields = [''f'' \<mapsto> ''ok''], de_value = None\<rparr>]"
  let ?s0 = "\<lparr>run_redis = ?r0, run_time = 0, run_log = {}\<rparr>"
  let ?s1 = "?s0\<lparr>run_redis := ?r1, run_log := run_log ?s0 \<union> {(run_time ?s0, ?k, ''f'', t) | t. Inr ''ok'' = (Inr t :: string res)}\<rparr>"
  let ?s2 = "?s1\<lparr>run_redis := redis_pass demo_redis 30 (run_redis ?s1), run_time := run_time ?s1 + 30\<rparr>"
  have r0: "cache_reachable demo_redis Inr Inr 60 ?s0"
    by (rule cache_reachable.start) (simp add: demo_redis_def)
  have "cache_response demo_redis Inr Inr 60 ?k ''f'' (act_return ''ok'') (run_redis ?s0) = (Inr ''ok'', ?r1)"
    by (simp add: cache_response_def demo_redis_def act_bind_def)
  from cache_reachable.step [OF r0 cache_step.request [where dump = Inr, OF this]]
  have r1: "cache_reachable demo_redis Inr Inr 60 ?s1" .
  have r2: "cache_reachable demo_redis Inr Inr 60 ?s2"
    by (rule cache_reachable.step [OF r1 cache_step.pass])
  have hit: "redis_hget demo_redis (run_redis ?s2) ?k ''f'' = Some ''ok''" by (simp add: demo_redis_def)
  have "run_time ?s2 = 30" by simp
  with cached_response_is_recent [OF demo_hash_ok _ r2 hit, where func = "act_return []"] r2 show ?thesis
    by (intro exI [of _ ?s2]) auto
qed

text \<open>
  The bound rests on the key getting its expiry: a key that holds a text and no expiry
  (left behind when a request stops between \<open>HSET\<close> and \<open>EXPIRE\<close>) is answered from the
  cache however much time passes, because a hit returns before the expiry is looked at.
\<close>

theorem cached_without_expiry_stays:
  assumes "hash_ok R" and "redis_ttl R r k = -1" and "redis_hget R r k f = Some t" and "t \<noteq> []"
  shows "cache_response R loads dump expire k f func (redis_pass R n r) = (loads t, redis_pass R n r)
    \<and> redis_ttl R (redis_pass R n r) k = -1"
proof -
  have "redis_hget R (redis_pass R n r) k f = Some t"
    using assms(2,3) hash_okD(8) [OF assms(1), of n r k f] by simp
  then show ?thesis
    using cache_response_hit [OF _ assms(4)] assms(2) hash_okD(7) [OF assms(1), of n r k] by simp
qed

lemma cached_without_expiry_stays_witness:
  "cache_response demo_redis Inr Inr 60 ''k'' ''f'' (act_return ''new'')
     (redis_pass demo_redis 100000 (redis_hset demo_redis Map.empty ''k'' ''f'' ''old''))
   = (Inr ''old'', redis_pass demo_redis 100000 (redis_hset demo_redis Map.empty ''k'' ''f'' ''old''))"
proof -
  let ?r = "redis_hset demo_redis Map.empty ''k'' ''f'' ''old''"
  have "redis_ttl demo_redis ?r ''k'' = -1" "redis_hget demo_redis ?r ''k'' ''f'' = Some ''old''"
    by (simp_all add: demo_redis_def)
  then show ?thesis by (intro cached_without_expiry_stays [OF demo_hash_ok, THEN conjunct1]) simp_all
qed

end
