(* ===== verification/Safe_Contracts.thy ===== *)
theory Safe_Contracts
  imports Contract_Rows Ethereum
begin

text \<open>
  The Safe contracts: \<open>app/services/safe_contracts_service.py\<close>. The deployments that ship
  with the Safe package (per version, per contract name, the addresses) are an argument.
  The service's state is its cache of the chains known to be complete.
\<close>

type_synonym deployments = "(string \<times> (string \<times> string list) list) list"

definition get_default_deployments_by_version :: "deployments \<Rightarrow> (string \<times> string \<times> string) list" where
  "get_default_deployments_by_version D =
     concat (map (\<lambda>(version, contracts).
       concat (map (\<lambda>(contract_name, addresses).
         map (\<lambda>contract_address. (version, contract_name, contract_address)) addresses) contracts)) D)"

definition generate_safe_contract_display_name :: "string \<Rightarrow> string \<Rightarrow> string" where
  "generate_safe_contract_display_name contract_name version =
     (let contract_name = str_strip (str_replace ''Gnosis'' [] contract_name)
      in if \<not> str_contains ''safe'' (str_lower contract_name)
         then ''Safe: '' @ contract_name @ '' '' @ version
         else contract_name @ '' '' @ version)"

definition safe_contracts_exist ::
    "eth_lib \<Rightarrow> deployments \<Rightarrow> db \<Rightarrow> int \<Rightarrow> (int set, bool) act" where
  "safe_contracts_exist E D d chain_id =
     act_bind act_get (\<lambda>cache.
       if chain_id \<in> cache then act_return True
       else act_bind (act_lift (res_map (\<lambda>(_, _, address). hex_bytes E address)
                                 (get_default_deployments_by_version D))) (\<lambda>safe_addresses.
         let found = exists_safe_contracts chain_id (set safe_addresses) d in
         act_bind (if found then act_modify (insert chain_id) else act_return ()) (\<lambda>_.
           act_return found)))"

text \<open>The keyword arguments of \<open>Contract.get_or_create\<close> for one deployment.\<close>

definition deployment_kwargs :: "string set \<Rightarrow> string \<Rightarrow> string \<Rightarrow> contract_kwarg list" where
  "deployment_kwargs trusted version contract_name =
     [KwName contract_name, KwDisplayName (generate_safe_contract_display_name contract_name version),
      KwTrusted (contract_name \<in> trusted)]"

fun create_deployments ::
    "eth_lib \<Rightarrow> string set \<Rightarrow> int \<Rightarrow> (string \<times> string \<times> string) list \<Rightarrow> nat \<Rightarrow> (db, nat) act" where
  "create_deployments E trusted chain_id [] created_count = act_return created_count"
| "create_deployments E trusted chain_id ((version, contract_name, address) # ds) created_count =
     act_bind (act_lift (hex_bytes E address)) (\<lambda>a.
     act_bind (contract_get_or_create a chain_id (deployment_kwargs trusted version contract_name)) (\<lambda>(_, created).
       create_deployments E trusted chain_id ds (if created then created_count + 1 else created_count)))"

definition create_safe_contracts ::
    "eth_lib \<Rightarrow> deployments \<Rightarrow> string set \<Rightarrow> int \<Rightarrow> (db, nat) act" where
  "create_safe_contracts E D trusted chain_id =
     create_deployments E trusted chain_id (get_default_deployments_by_version D) 0"

fun update_deployments ::
    "eth_lib \<Rightarrow> string set \<Rightarrow> (string \<times> string \<times> string) list \<Rightarrow> (db, unit) act" where
  "update_deployments E trusted [] = act_return ()"
| "update_deployments E trusted ((version, contract_name, address) # ds) =
     act_bind (act_lift (hex_bytes E address)) (\<lambda>a.
     act_bind (update_contract_info a contract_name
         (generate_safe_contract_display_name contract_name version) (contract_name \<in> trusted)) (\<lambda>_.
       update_deployments E trusted ds))"

definition update_safe_contracts_info :: "eth_lib \<Rightarrow> deployments \<Rightarrow> string set \<Rightarrow> (db, unit) act" where
  "update_safe_contracts_info E D trusted =
     update_deployments E trusted (get_default_deployments_by_version D)"

section \<open>Display names\<close>

lemma str_contains_append: "str_contains p s \<Longrightarrow> str_contains p (s @ t)"
proof (induction p s rule: str_contains.induct)
  case (1 p)
  then show ?case by (cases t) auto
next
  case (2 p c cs)
  then show ?case using prefix_prefix [of p "c # cs" t] by auto
qed

lemma str_lower_append [simp]: "str_lower (s @ t) = str_lower s @ str_lower t"
  by (simp add: str_lower_def)

text \<open>
  Every display name says \<open>Safe\<close>, in some mix of cases, and ends in a space and the
  version.
\<close>

theorem display_name_says_safe:
  "str_contains ''safe'' (str_lower (generate_safe_contract_display_name contract_name version))
   \<and> suffix ('' '' @ version) (generate_safe_contract_display_name contract_name version)"
proof -
  let ?n = "str_strip (str_replace ''Gnosis'' [] contract_name)"
  have "str_contains ''safe'' (str_lower ''Safe: '')" by code_simp
  from str_contains_append [OF this, of "str_lower (?n @ '' '' @ version)"]
  have "str_contains ''safe'' (str_lower (''Safe: '' @ ?n @ '' '' @ version))" by (simp only: str_lower_append)
  moreover have "str_contains ''safe'' (str_lower ?n) \<Longrightarrow> str_contains ''safe'' (str_lower (?n @ '' '' @ version))"
    by (simp add: str_contains_append)
  ultimately show ?thesis
    unfolding generate_safe_contract_display_name_def Let_def suffix_def by (simp del: str_lower_append)
qed

section \<open>Creating the contracts of a chain\<close>

text \<open>
  The loop is \<open>Contract.get_or_create\<close> over the list of deployments, so what the contract
  of \<open>get_or_create\<close> says of lists applies to it.
\<close>

definition deployment_args ::
    "string set \<Rightarrow> int \<Rightarrow> (string \<times> string \<times> string) list \<Rightarrow> bytes list \<Rightarrow> (bytes \<times> int \<times> contract_kwarg list) list" where
  "deployment_args trusted chain_id ds as =
     map2 (\<lambda>(version, contract_name, _) a. (a, chain_id, deployment_kwargs trusted version contract_name)) ds as"

lemma create_deployments_map:
  assumes "db_ok h d" and "list_all2 (\<lambda>(_, _, address) a. hex_bytes E address = Inr a) ds as"
  shows "\<exists>rs d'. act_map contract_goc (deployment_args trusted chain_id ds as) d = (Inr rs, d') \<and> db_ok h d'
    \<and> create_deployments E trusted chain_id ds n d = (Inr (n + length (filter snd rs)), d')"
  using assms(2,1)
proof (induction ds as arbitrary: d n rule: list_all2_induct)
  case Nil
  then show ?case by (simp add: deployment_args_def)
next
  case (Cons x ds a as)
  obtain version name address where x: "x = (version, name, address)" by (cases x)
  let ?kw = "deployment_kwargs trusted version name"
  obtain c b d1 where goc: "contract_get_or_create a chain_id ?kw d = (Inr (c, b), d1)" and ok: "db_ok h d1"
    by (rule contract_goc_found [OF Cons.prems, of a chain_id ?kw])
  obtain rs d' where ih: "act_map contract_goc (deployment_args trusted chain_id ds as) d1 = (Inr rs, d')" "db_ok h d'"
    "create_deployments E trusted chain_id ds (if b then n + 1 else n) d1
      = (Inr ((if b then n + 1 else n) + length (filter snd rs)), d')"
    using Cons.IH [OF ok, of "if b then n + 1 else n"] by blast
  have "act_map contract_goc (deployment_args trusted chain_id (x # ds) (a # as)) d = (Inr ((c, b) # rs), d')"
    using goc ih(1) by (simp add: deployment_args_def x act_bind_def contract_goc_def)
  moreover have "create_deployments E trusted chain_id (x # ds) n d
      = (Inr (n + length (filter snd ((c, b) # rs))), d')"
    using Cons.hyps(1) goc ih(3) by (simp add: x act_bind_def)
  ultimately show ?case using ih(2) by blast
qed

lemma deployment_args_keys:
  "length ds = length as \<Longrightarrow>
   (\<lambda>(address, chain_id, kwargs). (address, chain_id)) ` set (deployment_args trusted chain_id ds as)
     = (\<lambda>a. (a, chain_id)) ` set as"
  by (induction ds as rule: list_induct2) (auto simp: deployment_args_def)

text \<open>With unique keys, counting the rows of a chain among the addresses is counting addresses.\<close>

lemma exists_safe_contracts_iff:
  assumes ok: "db_ok h d" and A: "finite A"
  shows "exists_safe_contracts i A d \<longleftrightarrow> A \<noteq> {} \<and> (\<forall>a\<in>A. get_contract a i d \<noteq> None)"
proof (cases "A = {}")
  case True
  then show ?thesis by (simp add: exists_safe_contracts_def)
next
  case False
  let ?rows = "filter (\<lambda>c. c_chain_id c = i \<and> c_address c \<in> A) (db_contracts d)"
  have keys: "inj_on c_address (set ?rows)"
  proof (rule inj_onI)
    fix x y assume "x \<in> set ?rows" "y \<in> set ?rows" "c_address x = c_address y"
    then show "x = y" using ok by (auto simp: db_ok_defs distinct_map dest: inj_onD)
  qed
  have "distinct (db_contracts d)" using ok by (auto simp: db_ok_defs distinct_map)
  then have "length ?rows = card (c_address ` set ?rows)"
    using card_image [OF keys] distinct_card [of ?rows] by simp
  moreover have sub: "c_address ` set ?rows \<subseteq> A" by auto
  have mem: "a \<in> c_address ` set ?rows \<longleftrightarrow> get_contract a i d \<noteq> None" if "a \<in> A" for a
    using that unfolding get_contract_present by auto
  have present: "c_address ` set ?rows = A \<longleftrightarrow> (\<forall>a\<in>A. get_contract a i d \<noteq> None)"
    by (rule subset_eq_iff_all [OF sub mem])
  ultimately show ?thesis
    using False card_subset_eq [OF A sub] by (auto simp: exists_safe_contracts_def)
qed

lemma create_deployments_run:
  assumes ok: "db_ok h d" and as: "list_all2 (\<lambda>(_, _, address) a. hex_bytes E address = Inr a) ds as"
  obtains d' where "create_deployments E trusted i ds 0 d
      = (Inr (card (set as - {a. get_contract a i d \<noteq> None})), d')" "db_ok h d'"
    "\<forall>b j. get_contract b j d' \<noteq> None \<longleftrightarrow> get_contract b j d \<noteq> None \<or> (j = i \<and> b \<in> set as)"
    "\<forall>b j c. get_contract b j d = Some c \<longrightarrow> get_contract b j d' = Some c"
proof -
  let ?args = "deployment_args trusted i ds as"
  obtain rs d' where m: "act_map contract_goc ?args d = (Inr rs, d')" and ok': "db_ok h d'"
    and run: "create_deployments E trusted i ds 0 d = (Inr (0 + length (filter snd rs)), d')"
    using create_deployments_map [OF ok as, of trusted i 0] by blast
  let ?F = "{k. (case k of (address, chain_id) \<Rightarrow> get_contract address chain_id) d \<noteq> None}"
  have keys: "(\<lambda>(address, chain_id, kwargs). (address, chain_id)) ` set ?args = (\<lambda>a. (a, i)) ` set as"
    by (rule deployment_args_keys) (rule list_all2_lengthD [OF as])
  have "length (filter snd rs) = card ((\<lambda>a. (a, i)) ` set as - ?F)"
    using contract_upsert.goc_map_count [OF ok m] by (simp only: keys)
  also have "(\<lambda>a. (a, i)) ` set as - ?F = (\<lambda>a. (a, i)) ` (set as - {a. get_contract a i d \<noteq> None})" by auto
  also have "card \<dots> = card (set as - {a. get_contract a i d \<noteq> None})"
    by (rule card_image) (simp add: inj_on_def)
  finally have n: "0 + length (filter snd rs) = card (set as - {a. get_contract a i d \<noteq> None})" by simp
  have k: "{k. (case k of (address, chain_id) \<Rightarrow> get_contract address chain_id) d' \<noteq> None}
      = (\<lambda>a. (a, i)) ` set as \<union> ?F"
    using contract_upsert.goc_map_keys [OF ok m] by (simp only: keys)
  have "get_contract b j d' \<noteq> None \<longleftrightarrow> get_contract b j d \<noteq> None \<or> (j = i \<and> b \<in> set as)" for b j
    using arg_cong [OF k, of "\<lambda>A. (b, j) \<in> A"] by auto
  moreover have "get_contract b j d' = Some c" if "get_contract b j d = Some c" for b j c
    using contract_upsert.goc_map_keeps [OF ok, of "(b, j)" c ?args] that m by simp
  ultimately show thesis using that [OF run [unfolded n] ok'] by blast
qed

text \<open>
  C17. Creating the Safe contracts of a chain returns the number of deployment addresses the
  chain had no contract for, each counted once however many versions share it. Afterwards
  the chain is complete by \<open>exists_safe_contracts\<close>, every contract that was there is as it
  was, contracts of other chains are neither added nor changed, and a second run creates
  nothing.
\<close>

theorem create_safe_contracts_completes_chain:
  assumes ok: "db_ok h d"
    and as: "list_all2 (\<lambda>(_, _, address) a. hex_bytes E address = Inr a) (get_default_deployments_by_version D) as"
    and ne: "as \<noteq> []"
  shows "\<exists>d'. create_safe_contracts E D trusted i d = (Inr (card (set as - {a. get_contract a i d \<noteq> None})), d')
    \<and> db_ok h d' \<and> exists_safe_contracts i (set as) d'
    \<and> (\<forall>b j c. get_contract b j d = Some c \<longrightarrow> get_contract b j d' = Some c)
    \<and> (\<forall>b j. j \<noteq> i \<longrightarrow> get_contract b j d' = get_contract b j d)
    \<and> fst (create_safe_contracts E D trusted i d') = Inr 0"
proof -
  obtain d' where run: "create_deployments E trusted i (get_default_deployments_by_version D) 0 d
      = (Inr (card (set as - {a. get_contract a i d \<noteq> None})), d')" and ok': "db_ok h d'"
    and keys: "\<forall>b j. get_contract b j d' \<noteq> None \<longleftrightarrow> get_contract b j d \<noteq> None \<or> (j = i \<and> b \<in> set as)"
    and keep: "\<forall>b j c. get_contract b j d = Some c \<longrightarrow> get_contract b j d' = Some c"
    by (rule create_deployments_run [OF ok as])
  obtain d'' where again: "create_deployments E trusted i (get_default_deployments_by_version D) 0 d'
      = (Inr (card (set as - {a. get_contract a i d' \<noteq> None})), d'')"
    by (rule create_deployments_run [OF ok' as])
  have "set as - {a. get_contract a i d' \<noteq> None} = {}" using keys by blast
  then have "fst (create_safe_contracts E D trusted i d') = Inr 0"
    using again by (simp add: create_safe_contracts_def)
  moreover have "exists_safe_contracts i (set as) d'"
    using exists_safe_contracts_iff [OF ok', of "set as" i] ne keys by auto
  moreover have "get_contract b j d' = get_contract b j d" if "j \<noteq> i" for b j
    using keys keep that by (cases "get_contract b j d") (metis, metis)
  ultimately show ?thesis using run ok' keep by (auto simp: create_safe_contracts_def)
qed

text \<open>Two versions that share an address, and a third contract; one of them is there.\<close>

definition demo_deployments :: deployments where
  "demo_deployments = [(''1.3.0'', [(''GnosisSafe'', [''0xa'', ''0xb'']), (''MultiSendCallOnly'', [''0xc''])]),
     (''1.4.1'', [(''Safe'', [''0xa''])])]"

definition demo_chain_db :: db where
  "demo_chain_db = empty_db\<lparr>db_contracts := [(new_contract [98] 1)\<lparr>c_id := 1\<rparr>, (new_contract [98] 5)\<lparr>c_id := 2\<rparr>],
     db_contract_seq := 3\<rparr>"

lemma demo_chain_db_ok: "db_ok (\<lambda>j. []) demo_chain_db"
  by (simp add: demo_chain_db_def db_ok_defs empty_db_def foreign_keys_ok_def new_contract_def)

lemma demo_deployments_parse: "list_all2 (\<lambda>(_, _, address) a. hex_bytes demo_eth address = Inr a)
    (get_default_deployments_by_version demo_deployments) [[97], [98], [99], [97]]"
  by (simp add: demo_deployments_def get_default_deployments_by_version_def demo_eth_def)

lemma create_safe_contracts_completes_chain_witness:
  "\<exists>d'. create_safe_contracts demo_eth demo_deployments {''MultiSendCallOnly''} 1 demo_chain_db = (Inr 2, d')
     \<and> exists_safe_contracts 1 {[97], [98], [99]} d'"
proof -
  have "{a. get_contract a 1 demo_chain_db \<noteq> None} = {[98]}"
    by (auto simp: get_contract_present demo_chain_db_def empty_db_def simp del: not_None_eq)
  moreover have "set [[97], [98], [99], [97]] - {[98]} = {[97], [99 :: byte]}" by auto
  moreover have "set [[97], [98], [99], [97]] = {[97], [98], [99 :: byte]}" by auto
  ultimately show ?thesis
    using create_safe_contracts_completes_chain [OF demo_chain_db_ok demo_deployments_parse, of "{''MultiSendCallOnly''}" 1]
    by (simp only: list.distinct) auto
qed

section \<open>Refreshing names and trust\<close>

text \<open>The row of a contract after the refresh: the last deployment of its address decides.\<close>

definition refresh_row ::
    "string set \<Rightarrow> int \<Rightarrow> (bytes \<times> string \<times> string \<times> string) list \<Rightarrow> contract \<Rightarrow> contract" where
  "refresh_row trusted now items c =
     (case find (\<lambda>(a, _). a = c_address c) (rev items) of
        None \<Rightarrow> c
      | Some (_, version, contract_name, _) \<Rightarrow>
          c\<lparr>c_name := Some contract_name,
            c_display_name := Some (generate_safe_contract_display_name contract_name version),
            c_trusted_for_delegate_call := (contract_name \<in> trusted), c_modified := now\<rparr>)"

lemma update_deployments_run:
  assumes "list_all2 (\<lambda>(_, _, address) a. hex_bytes E address = Inr a) ds as"
  shows "update_deployments E trusted ds d
    = (Inr (), d\<lparr>db_contracts := map (refresh_row trusted (db_now d) (zip as ds)) (db_contracts d)\<rparr>)"
  using assms
proof (induction ds as arbitrary: d rule: list_all2_induct)
  case Nil
  then show ?case by (simp add: refresh_row_def [abs_def] map_idI)
next
  case (Cons x ds a as)
  obtain version name address where x: "x = (version, name, address)" by (cases x)
  let ?first = "\<lambda>c. if c_address c = a
      then c\<lparr>c_name := Some name, c_display_name := Some (generate_safe_contract_display_name name version),
             c_trusted_for_delegate_call := (name \<in> trusted), c_modified := db_now d\<rparr> else c"
  have "refresh_row trusted (db_now d) (zip as ds) (?first c)
      = refresh_row trusted (db_now d) (zip (a # as) (x # ds)) c" for c
    by (auto simp: refresh_row_def find_append_eq x split: option.splits)
  then show ?case
    using Cons by (simp add: x act_bind_def update_contract_info_def comp_def)
qed

text \<open>
  C33. The hourly refresh rewrites, on every chain, exactly the contracts whose address is a
  deployment address: each gets the name, the display name and the trust flag of the last
  deployment that lists its address. Nothing else in the database changes, and its
  integrity is kept.
\<close>

theorem refresh_last_deployment_wins:
  assumes "list_all2 (\<lambda>(_, _, address) a. hex_bytes E address = Inr a) (get_default_deployments_by_version D) as"
    and "db_ok h d"
  shows "update_safe_contracts_info E D trusted d
      = (Inr (), d\<lparr>db_contracts := map (refresh_row trusted (db_now d)
           (zip as (get_default_deployments_by_version D))) (db_contracts d)\<rparr>)
    \<and> db_ok h (snd (update_safe_contracts_info E D trusted d))"
proof
  show "update_safe_contracts_info E D trusted d
      = (Inr (), d\<lparr>db_contracts := map (refresh_row trusted (db_now d)
           (zip as (get_default_deployments_by_version D))) (db_contracts d)\<rparr>)"
    by (simp add: update_safe_contracts_info_def update_deployments_run [OF assms(1)])
  have "db_ok h (snd (update_deployments E trusted ds d))"
    if "list_all2 (\<lambda>(_, _, address) a. hex_bytes E address = Inr a) ds as" "db_ok h d" for ds as d
    using that
  proof (induction ds as arbitrary: d rule: list_all2_induct)
    case (Cons x ds a as)
    obtain version name address where x: "x = (version, name, address)" by (cases x)
    show ?case
      using Cons.IH [OF update_contract_info_ok [OF Cons.prems]] Cons.hyps(1)
      by (simp add: x act_bind_def update_contract_info_def)
  qed simp
  from this [OF assms] show "db_ok h (snd (update_safe_contracts_info E D trusted d))"
    by (simp add: update_safe_contracts_info_def)
qed

lemma refresh_last_deployment_wins_witness:
  "map c_display_name (db_contracts (snd (update_safe_contracts_info demo_eth demo_deployments {} demo_chain_db)))
     = [Some ''Safe 1.3.0'', Some ''Safe 1.3.0'']"
proof -
  let ?items = "zip [[97], [98], [99], [97]] (get_default_deployments_by_version demo_deployments)"
  have "map (c_display_name \<circ> refresh_row {} (db_now demo_chain_db) ?items) (db_contracts demo_chain_db)
      = [Some ''Safe 1.3.0'', Some ''Safe 1.3.0'']" by code_simp
  then show ?thesis
    using refresh_last_deployment_wins [OF demo_deployments_parse demo_chain_db_ok, of "{}"] by simp
qed

section \<open>The cache of complete chains\<close>

text \<open>
  C34. The cache of complete chains is sound for as long as no contract disappears: if every
  cached chain is complete in the database, \<open>safe_contracts_exist\<close> answers exactly whether
  the chain is complete, caches only complete chains, and stays right after any change of
  the database that keeps the contracts it has.
\<close>

theorem complete_chain_cache_sound:
  assumes as: "list_all2 (\<lambda>(_, _, address) a. hex_bytes E address = Inr a) (get_default_deployments_by_version D) as"
    and ok: "db_ok h d" and sound: "\<forall>j\<in>cache. exists_safe_contracts j (set as) d"
  shows "\<exists>cache'. safe_contracts_exist E D d i cache = (Inr (exists_safe_contracts i (set as) d), cache')
    \<and> (\<forall>j\<in>cache'. exists_safe_contracts j (set as) d)
    \<and> (\<forall>d'. db_ok h d' \<longrightarrow> (\<forall>b j. get_contract b j d \<noteq> None \<longrightarrow> get_contract b j d' \<noteq> None)
         \<longrightarrow> (\<forall>j\<in>cache'. exists_safe_contracts j (set as) d'))"
proof -
  have "res_map (\<lambda>(_, _, address). hex_bytes E address) (get_default_deployments_by_version D) = Inr as"
    using as by (simp add: res_map_Inr_iff case_prod_unfold)
  then have run: "safe_contracts_exist E D d i cache = (Inr (exists_safe_contracts i (set as) d),
      if exists_safe_contracts i (set as) d then insert i cache else cache)"
    using sound by (auto simp: safe_contracts_exist_def act_bind_def Let_def)
  then show ?thesis
    using sound exists_safe_contracts_iff [OF ok, of "set as"] exists_safe_contracts_iff [of h _ "set as"] by auto
qed

lemma complete_chain_cache_sound_witness:
  "fst (safe_contracts_exist demo_eth demo_deployments demo_chain_db 1 {}) = Inr False"
proof -
  have "\<not> exists_safe_contracts 1 (set [[97], [98], [99], [97]]) demo_chain_db" by code_simp
  then show ?thesis
    using complete_chain_cache_sound [OF demo_deployments_parse demo_chain_db_ok, of "{}" 1] by fastforce
qed

end
