(* ===== verification/Abi_Catalog.thy ===== *)
theory Abi_Catalog
  imports Contract_Rows
begin

text \<open>
  The catalogue of local ABIs and its loading at startup: \<open>app/services/abis.py\<close>. The
  ABIs that come with the Safe package are the record \<open>package_abis\<close>; the tables of
  \<open>app/datasources/abis\<close> are the record \<open>abi_tables\<close>, one field per imported name (their
  values are in \<open>Abi_Tables\<close> and its siblings, put together in \<open>Abi_Served\<close>).
\<close>

section \<open>The catalogue\<close>

record package_abis =
  safe_V0_0_1 :: json
  safe_V1_0_0 :: json
  safe_V1_1_1 :: json
  safe_V1_3_0 :: json
  safe_V1_4_1 :: json
  multi_send :: json
  safe_to_l2_migration :: json
  erc721 :: json
  erc20 :: json
  uniswap_exchange :: json
  kyber_network_proxy :: json

record abi_tables =
  aave_a_token :: json
  aave_lending_pool :: json
  aave_lending_pool_addresses_provider :: json
  aave_lending_pool_core :: json
  balancer_bactions :: json
  balancer_exchange_proxy :: json
  chainlink_token_abi :: json
  ctoken_abi :: json
  comptroller_abi :: json
  gnosis_protocol_abi :: json
  fleet_factory_deterministic_abi :: json
  fleet_factory_abi :: json
  cowswap_settlement_v2_abi :: json
  idle_token_v3 :: json
  initializable_admin_upgradeability_proxy_abi :: json
  maker_dao_abis :: "json list"
  open_zeppelin_admin_upgradeability_proxy :: json
  open_zeppelin_proxy_admin :: json
  request_erc20_proxy :: json
  request_erc20_swap_to_pay :: json
  request_ethereum_proxy :: json
  sablier_ctoken_manager :: json
  sablier_payroll :: json
  sablier_abi :: json
  safe_allowance_module_abi :: json
  conditional_token_abi :: json
  market_maker_abi :: json
  market_maker_factory_abi :: json
  snapshot_delegate_registry_abi :: json
  timelock_abi :: json

definition get_safe_contracts_abis :: "package_abis \<Rightarrow> json list" where
  "get_safe_contracts_abis P =
     [safe_V0_0_1 P, safe_V1_0_0 P, safe_V1_1_1 P, safe_V1_3_0 P, safe_V1_4_1 P]"

definition get_safe_abis :: "package_abis \<Rightarrow> abi_tables \<Rightarrow> json list" where
  "get_safe_abis P T = [multi_send P, safe_to_l2_migration P, safe_allowance_module_abi T]"

definition get_erc_abis :: "package_abis \<Rightarrow> json list" where
  "get_erc_abis P = [erc721 P, erc20 P]"

definition get_third_parties_abis :: "package_abis \<Rightarrow> abi_tables \<Rightarrow> json list" where
  "get_third_parties_abis P T =
     [aave_a_token T, aave_lending_pool T, aave_lending_pool_addresses_provider T, aave_lending_pool_core T]
     @ [balancer_bactions T, balancer_exchange_proxy T]
     @ [chainlink_token_abi T]
     @ [ctoken_abi T, comptroller_abi T]
     @ [uniswap_exchange P, kyber_network_proxy P]
     @ [gnosis_protocol_abi T, fleet_factory_deterministic_abi T, fleet_factory_abi T, cowswap_settlement_v2_abi T]
     @ [idle_token_v3 T]
     @ [initializable_admin_upgradeability_proxy_abi T]
     @ maker_dao_abis T
     @ [open_zeppelin_admin_upgradeability_proxy T, open_zeppelin_proxy_admin T]
     @ [request_erc20_proxy T, request_erc20_swap_to_pay T, request_ethereum_proxy T]
     @ [sablier_ctoken_manager T, sablier_payroll T, sablier_abi T]
     @ [conditional_token_abi T, market_maker_abi T, market_maker_factory_abi T]
     @ [snapshot_delegate_registry_abi T]
     @ [timelock_abi T]"

section \<open>Loading it\<close>

fun store_abis_in_database ::
    "(json \<Rightarrow> bytes) \<Rightarrow> json list \<Rightarrow> int \<Rightarrow> abi_source \<Rightarrow> (db, unit) act" where
  "store_abis_in_database h [] relevance source = act_return ()"
| "store_abis_in_database h (abi_json # abi_jsons) relevance source =
     act_bind act_get (\<lambda>d.
     act_bind (case get_abi h abi_json d of
                 Some _ \<Rightarrow> act_return ()
               | None \<Rightarrow> act_bind (abi_create h abi_json (Some (s_id source)) (Some relevance)) (\<lambda>_. act_return ()))
       (\<lambda>_. store_abis_in_database h abi_jsons relevance source))"

definition load_local_abis_in_database ::
    "(json \<Rightarrow> bytes) \<Rightarrow> package_abis \<Rightarrow> abi_tables \<Rightarrow> (db, unit) act" where
  "load_local_abis_in_database h P T =
     act_bind (source_get_or_create (''localstorage'', ''decoder-service'')) (\<lambda>(abi_source, _).
     act_bind (store_abis_in_database h (get_safe_contracts_abis P) 100 abi_source) (\<lambda>_.
     act_bind (store_abis_in_database h (get_erc_abis P @ get_safe_abis P T) 90 abi_source) (\<lambda>_.
       store_abis_in_database h (get_third_parties_abis P T) 50 abi_source)))"

section \<open>What loading does\<close>

lemma get_abi_none: "get_abi h j d = None \<longleftrightarrow> h j \<notin> (h \<circ> a_json) ` set (db_abis d)"
  by (force simp: get_abi_def get_abi_by_hash_def find_None_not)

lemma store_abis_run:
  assumes "db_ok h d" and "s_id source \<in> s_id ` set (db_sources d)" and "JNull \<notin> set js"
  shows "\<exists>new d'. store_abis_in_database h js rel source d = (Inr (), d') \<and> db_ok h d'
    \<and> db_abis d' = db_abis d @ new \<and> db_sources d' = db_sources d \<and> db_contracts d' = db_contracts d
    \<and> (\<forall>r\<in>set new. a_relevance r = rel \<and> a_source_id r = s_id source \<and> a_json r \<in> set js \<and> get_abi h (a_json r) d = None)
    \<and> (\<forall>j\<in>set js. get_abi h j d' \<noteq> None)"
  using assms
proof (induction js arbitrary: d)
  case Nil
  then show ?case by simp
next
  case (Cons j js)
  show ?case
  proof (cases "get_abi h j d")
    case (Some r)
    then have step: "store_abis_in_database h (j # js) rel source d = store_abis_in_database h js rel source d"
      by (simp add: act_bind_def)
    obtain new d' where ih: "store_abis_in_database h js rel source d = (Inr (), d')" "db_ok h d'"
      "db_abis d' = db_abis d @ new" "db_sources d' = db_sources d" "db_contracts d' = db_contracts d"
      "\<forall>r\<in>set new. a_relevance r = rel \<and> a_source_id r = s_id source \<and> a_json r \<in> set js \<and> get_abi h (a_json r) d = None"
      "\<forall>j\<in>set js. get_abi h j d' \<noteq> None"
      using Cons.IH [OF Cons.prems(1,2)] Cons.prems(3) by auto
    have "get_abi h j d' \<noteq> None" using Some ih(3) get_abi_none [of h j d] get_abi_none [of h j d'] by auto
    with ih show ?thesis unfolding step by (intro exI [of _ new] exI [of _ d']) auto
  next
    case None
    let ?row = "\<lparr>a_id = db_abi_seq d, a_relevance = rel, a_json = j, a_source_id = s_id source,
      a_created = db_now d, a_modified = db_now d\<rparr>"
    let ?d = "d\<lparr>db_abi_seq := db_abi_seq d + 1, db_abis := db_abis d @ [?row]\<rparr>"
    have cr: "abi_create h j (Some (s_id source)) (Some rel) d = (Inr ?row, ?d)"
    proof -
      have "j \<noteq> JNull" using Cons.prems(3) by auto
      then show ?thesis using None Cons.prems(2) by (simp add: abi_create_def Let_def get_abi_none)
    qed
    have ok: "db_ok h ?d" using abi_create_ok [OF Cons.prems(1), of j "Some (s_id source)" "Some rel"] cr by simp
    have step: "store_abis_in_database h (j # js) rel source d = store_abis_in_database h js rel source ?d"
      using None cr by (simp add: act_bind_def)
    obtain new d' where ih: "store_abis_in_database h js rel source ?d = (Inr (), d')" "db_ok h d'"
      "db_abis d' = db_abis ?d @ new" "db_sources d' = db_sources d" "db_contracts d' = db_contracts d"
      "\<forall>r\<in>set new. a_relevance r = rel \<and> a_source_id r = s_id source \<and> a_json r \<in> set js \<and> get_abi h (a_json r) ?d = None"
      "\<forall>j\<in>set js. get_abi h j d' \<noteq> None"
      using Cons.IH [OF ok] Cons.prems by auto
    have "get_abi h j d' \<noteq> None" using ih(3) by (simp add: get_abi_none)
    moreover have "\<forall>r\<in>set new. get_abi h (a_json r) d = None" using ih(6) by (auto simp: get_abi_none)
    ultimately show ?thesis unfolding step using ih None
      by (intro exI [of _ "?row # new"] exI [of _ d']) auto
  qed
qed

lemma store_abis_present:
  "\<forall>j\<in>set js. get_abi h j d \<noteq> None \<Longrightarrow> store_abis_in_database h js rel source d = (Inr (), d)"
  by (induction js) (auto simp: act_bind_def)

lemma get_abi_mono: "get_abi h j d \<noteq> None \<Longrightarrow> db_abis d' = db_abis d @ new \<Longrightarrow> get_abi h j d' \<noteq> None"
  using get_abi_none [of h j d] get_abi_none [of h j d'] by auto

definition catalogue :: "package_abis \<Rightarrow> abi_tables \<Rightarrow> json list" where
  "catalogue P T = get_safe_contracts_abis P @ (get_erc_abis P @ get_safe_abis P T) @ get_third_parties_abis P T"

text \<open>The relevance an ABI is loaded with: that of the first group with an ABI of its hash.\<close>

definition catalogue_relevance :: "(json \<Rightarrow> bytes) \<Rightarrow> package_abis \<Rightarrow> abi_tables \<Rightarrow> json \<Rightarrow> int" where
  "catalogue_relevance h P T j =
     (if h j \<in> h ` set (get_safe_contracts_abis P) then 100
      else if h j \<in> h ` set (get_erc_abis P @ get_safe_abis P T) then 90 else 50)"

lemma get_abi_hash: "get_abi h j d \<noteq> None \<Longrightarrow> h k = h j \<Longrightarrow> get_abi h k d \<noteq> None"
  by (simp add: get_abi_def)

lemma load_local_present:
  assumes "source_find (''localstorage'', ''decoder-service'') d = Some src"
    and "\<forall>j\<in>set (catalogue P T). get_abi h j d \<noteq> None"
  shows "load_local_abis_in_database h P T d = (Inr (), d)"
proof -
  have "store_abis_in_database h js rel src d = (Inr (), d)" if "set js \<subseteq> set (catalogue P T)" for js rel
    by (rule store_abis_present) (use that assms(2) in \<open>blast\<close>)
  from this [of "get_safe_contracts_abis P" 100] this [of "get_erc_abis P @ get_safe_abis P T" 90]
    this [of "get_third_parties_abis P T" 50]
  have "store_abis_in_database h (get_safe_contracts_abis P) 100 src d = (Inr (), d)"
    "store_abis_in_database h (get_erc_abis P @ get_safe_abis P T) 90 src d = (Inr (), d)"
    "store_abis_in_database h (get_third_parties_abis P T) 50 src d = (Inr (), d)" by (auto simp: catalogue_def)
  then show ?thesis
    using assms(1) by (simp add: load_local_abis_in_database_def source_get_or_create_def act_bind_def)
qed

text \<open>One group loaded: its ABIs are there, and the new rows hold those that were missing.\<close>

definition group_loaded :: "(json \<Rightarrow> bytes) \<Rightarrow> json list \<Rightarrow> int \<Rightarrow> db \<Rightarrow> abi_row list \<Rightarrow> db \<Rightarrow> bool" where
  "group_loaded h js rel d new d' \<longleftrightarrow> db_ok h d' \<and> db_abis d' = db_abis d @ new
     \<and> db_sources d' = db_sources d \<and> db_contracts d' = db_contracts d
     \<and> (\<forall>r\<in>set new. a_relevance r = rel \<and> a_json r \<in> set js \<and> get_abi h (a_json r) d = None)
     \<and> (\<forall>j\<in>set js. get_abi h j d' \<noteq> None)"

lemma store_group:
  assumes "db_ok h d" and "s_id source \<in> s_id ` set (db_sources d)" and "JNull \<notin> set js"
  obtains new d' where "store_abis_in_database h js rel source d = (Inr (), d')" "group_loaded h js rel d new d'"
  using store_abis_run [OF assms, of rel] unfolding group_loaded_def by blast

lemma group_loaded_kept: "group_loaded h js rel d new d' \<Longrightarrow> get_abi h j d \<noteq> None \<Longrightarrow> get_abi h j d' \<noteq> None"
  using get_abi_mono [of h j d d' new] by (simp add: group_loaded_def del: not_None_eq)

lemma group_loaded_hash:
  "group_loaded h js rel d new d' \<Longrightarrow> get_abi h k d' = None \<Longrightarrow> h k \<notin> h ` set js"
  using get_abi_hash unfolding group_loaded_def by (metis (no_types, lifting) imageE)

lemma groups_relevance:
  assumes A: "group_loaded h A ra d0 n1 d1" and B: "group_loaded h B rb d1 n2 d2" and C: "group_loaded h C rc d2 n3 d3"
    and r: "r \<in> set (n1 @ n2 @ n3)"
  shows "a_json r \<in> set (A @ B @ C) \<and> get_abi h (a_json r) d0 = None
    \<and> a_relevance r = (if h (a_json r) \<in> h ` set A then ra else if h (a_json r) \<in> h ` set B then rb else rc)"
proof -
  have absent: "get_abi h j d1 = None \<Longrightarrow> get_abi h j d0 = None" "get_abi h j d2 = None \<Longrightarrow> get_abi h j d1 = None" for j
    using group_loaded_kept [OF A] group_loaded_kept [OF B] by blast+
  consider "r \<in> set n1" | "r \<in> set n2" | "r \<in> set n3" using r by auto
  then show ?thesis
  proof cases
    case 1
    with A have "a_relevance r = ra" "a_json r \<in> set A" "get_abi h (a_json r) d0 = None" by (auto simp: group_loaded_def)
    then show ?thesis by simp
  next
    case 2
    with B have 2: "a_relevance r = rb" "a_json r \<in> set B" "get_abi h (a_json r) d1 = None" by (auto simp: group_loaded_def)
    with group_loaded_hash [OF A 2(3)] absent(1) [OF 2(3)] show ?thesis by simp
  next
    case 3
    with C have 3: "a_relevance r = rc" "a_json r \<in> set C" "get_abi h (a_json r) d2 = None" by (auto simp: group_loaded_def)
    from group_loaded_hash [OF B 3(3)] group_loaded_hash [OF A absent(2) [OF 3(3)]] absent(1) [OF absent(2) [OF 3(3)]] 3(1,2)
    show ?thesis by simp
  qed
qed

lemma local_source_run:
  assumes "db_ok h d"
  obtains src b d0 where "source_get_or_create (''localstorage'', ''decoder-service'') d = (Inr (src, b), d0)"
    "db_ok h d0" "db_abis d0 = db_abis d" "db_contracts d0 = db_contracts d"
    "source_find (''localstorage'', ''decoder-service'') d0 = Some src" "s_id src \<in> s_id ` set (db_sources d0)"
proof -
  let ?k = "(''localstorage'', ''decoder-service'')"
  obtain src b d0 where g: "source_get_or_create ?k d = (Inr (src, b), d0)"
    by (cases "source_find ?k d") (auto simp: source_get_or_create_def source_create_def act_bind_def Let_def)
  have same: "db_abis d0 = db_abis d" "db_contracts d0 = db_contracts d"
    using g by (auto simp: source_get_or_create_def source_create_def act_bind_def Let_def split: option.splits)
  have found: "source_find ?k d0 = Some src" using source_upsert.goc_found [OF assms g] by simp
  then have "s_id src \<in> s_id ` set (db_sources d0)" by (auto simp: source_find_def dest: find_Some_in)
  with that [OF g _ same found] source_upsert.goc_inv [OF assms, of ?k] g show thesis by simp
qed

lemma load_local_run:
  assumes ok: "db_ok h d" and nn: "JNull \<notin> set (catalogue P T)"
  shows "\<exists>new d'. load_local_abis_in_database h P T d = (Inr (), d') \<and> db_ok h d'
    \<and> db_abis d' = db_abis d @ new \<and> db_contracts d' = db_contracts d
    \<and> (\<forall>j\<in>set (catalogue P T). get_abi h j d' \<noteq> None)
    \<and> (\<forall>r\<in>set new. a_json r \<in> set (catalogue P T) \<and> get_abi h (a_json r) d = None
         \<and> a_relevance r = catalogue_relevance h P T (a_json r))
    \<and> load_local_abis_in_database h P T d' = (Inr (), d')"
proof -
  let ?k = "(''localstorage'', ''decoder-service'')"
  let ?A = "get_safe_contracts_abis P" and ?B = "get_erc_abis P @ get_safe_abis P T" and ?C = "get_third_parties_abis P T"
  obtain src b d0 where g: "source_get_or_create ?k d = (Inr (src, b), d0)" and ok0: "db_ok h d0"
    and same: "db_abis d0 = db_abis d" "db_contracts d0 = db_contracts d"
    and found: "source_find ?k d0 = Some src" and sid: "s_id src \<in> s_id ` set (db_sources d0)"
    by (rule local_source_run [OF ok])
  have n: "JNull \<notin> set ?A" "JNull \<notin> set ?B" "JNull \<notin> set ?C" using nn by (auto simp: catalogue_def)
  obtain n1 d1 where r1: "store_abis_in_database h ?A 100 src d0 = (Inr (), d1)" and g1: "group_loaded h ?A 100 d0 n1 d1"
    by (rule store_group [OF ok0 sid n(1)])
  then have s1: "db_ok h d1" "s_id src \<in> s_id ` set (db_sources d1)" using sid by (simp_all add: group_loaded_def)
  obtain n2 d2 where r2: "store_abis_in_database h ?B 90 src d1 = (Inr (), d2)" and g2: "group_loaded h ?B 90 d1 n2 d2"
    by (rule store_group [OF s1 n(2)])
  then have s2: "db_ok h d2" "s_id src \<in> s_id ` set (db_sources d2)" using s1(2) by (simp_all add: group_loaded_def)
  obtain n3 d3 where r3: "store_abis_in_database h ?C 50 src d2 = (Inr (), d3)" and g3: "group_loaded h ?C 50 d2 n3 d3"
    by (rule store_group [OF s2 n(3)])
  note loaded = g1 [unfolded group_loaded_def] g2 [unfolded group_loaded_def] g3 [unfolded group_loaded_def]
  have run: "load_local_abis_in_database h P T d = (Inr (), d3)"
    using g r1 r2 r3 by (simp add: load_local_abis_in_database_def act_bind_def)
  have all: "get_abi h j d3 \<noteq> None" if "j \<in> set (catalogue P T)" for j
    using that loaded group_loaded_kept [OF g2, of j] group_loaded_kept [OF g3, of j] by (auto simp: catalogue_def)
  have "source_find ?k d3 = Some src" using found loaded by (simp add: source_find_def)
  then have again: "load_local_abis_in_database h P T d3 = (Inr (), d3)"
    by (rule load_local_present) (use all in \<open>blast\<close>)
  have "get_abi h j d0 = get_abi h j d" for j by (simp add: get_abi_def get_abi_by_hash_def same)
  then have new: "a_json r \<in> set (catalogue P T) \<and> get_abi h (a_json r) d = None
      \<and> a_relevance r = catalogue_relevance h P T (a_json r)" if "r \<in> set (n1 @ n2 @ n3)" for r
    using groups_relevance [OF g1 g2 g3 that] by (simp add: catalogue_def catalogue_relevance_def)
  show ?thesis
    using run loaded same all new again by (intro exI [of _ "n1 @ n2 @ n3"] exI [of _ d3]) simp
qed

text \<open>
  C12. Loading the local ABIs at startup succeeds and completes the catalogue: afterwards
  every ABI of it is in the table, the rows that were there are untouched, each row that
  was added holds an ABI of the catalogue that was missing, with the relevance of the first
  group (100, 90, 50) that has it, and a further start changes nothing in the database.
\<close>

theorem loading_completes_catalogue:
  assumes ok: "db_ok h d" and nn: "JNull \<notin> set (catalogue P T)"
  shows "\<exists>new d'. load_local_abis_in_database h P T d = (Inr (), d') \<and> db_ok h d'
    \<and> db_abis d' = db_abis d @ new \<and> db_contracts d' = db_contracts d
    \<and> (\<forall>j\<in>set (catalogue P T). get_abi h j d' \<noteq> None)
    \<and> (\<forall>r\<in>set new. a_json r \<in> set (catalogue P T) \<and> get_abi h (a_json r) d = None
         \<and> a_relevance r = catalogue_relevance h P T (a_json r))
    \<and> load_local_abis_in_database h P T d' = (Inr (), d')"
  by (rule load_local_run [OF ok nn])

definition demo_package :: package_abis where
  "demo_package = \<lparr>safe_V0_0_1 = JInt 1, safe_V1_0_0 = JInt 2, safe_V1_1_1 = JInt 3, safe_V1_3_0 = JInt 4,
     safe_V1_4_1 = JInt 5, multi_send = JInt 6, safe_to_l2_migration = JInt 7, erc721 = JInt 8, erc20 = JInt 9,
     uniswap_exchange = JInt 10, kyber_network_proxy = JInt 1\<rparr>"

definition demo_tables :: "json \<Rightarrow> abi_tables" where
  "demo_tables j = \<lparr>aave_a_token = j, aave_lending_pool = j, aave_lending_pool_addresses_provider = j,
     aave_lending_pool_core = j, balancer_bactions = j, balancer_exchange_proxy = j, chainlink_token_abi = j,
     ctoken_abi = j, comptroller_abi = j, gnosis_protocol_abi = j, fleet_factory_deterministic_abi = j,
     fleet_factory_abi = j, cowswap_settlement_v2_abi = j, idle_token_v3 = j,
     initializable_admin_upgradeability_proxy_abi = j, maker_dao_abis = [j, j],
     open_zeppelin_admin_upgradeability_proxy = j, open_zeppelin_proxy_admin = j, request_erc20_proxy = j,
     request_erc20_swap_to_pay = j, request_ethereum_proxy = j, sablier_ctoken_manager = j, sablier_payroll = j,
     sablier_abi = j, safe_allowance_module_abi = j, conditional_token_abi = j, market_maker_abi = j,
     market_maker_factory_abi = j, snapshot_delegate_registry_abi = j, timelock_abi = j\<rparr>"

definition demo_json_hash :: "json \<Rightarrow> bytes" where
  "demo_json_hash j = (case j of JInt i \<Rightarrow> [of_int i] | _ \<Rightarrow> [])"

lemma loading_completes_catalogue_witness:
  "\<exists>d'. load_local_abis_in_database demo_json_hash demo_package (demo_tables (JInt 3)) empty_db = (Inr (), d')
     \<and> get_abi demo_json_hash (JInt 10) d' \<noteq> None
     \<and> load_local_abis_in_database demo_json_hash demo_package (demo_tables (JInt 3)) d' = (Inr (), d')"
proof -
  have m: "JInt 10 \<in> set (catalogue demo_package (demo_tables (JInt 3)))"
    by (simp add: catalogue_def get_third_parties_abis_def demo_package_def)
  have "JNull \<notin> set (catalogue demo_package (demo_tables (JInt 3)))"
    by (simp add: catalogue_def get_third_parties_abis_def get_safe_contracts_abis_def get_erc_abis_def
        get_safe_abis_def demo_package_def demo_tables_def)
  from loading_completes_catalogue [OF db_ok_empty [of demo_json_hash] this] m show ?thesis by blast
qed

text \<open>
  The loading checks for an ABI and then creates it, and the check is not repeated: when
  two processes start on an empty table and both have found an ABI of the catalogue missing,
  the one that creates it second fails with \<open>IntegrityError\<close>, which nothing in the startup
  catches, while \<open>get_or_create_abi\<close> at the same moment returns the other's row.
\<close>

theorem concurrent_start_clashes:
  assumes "db_ok h d" and "s_id source \<in> s_id ` set (db_sources d)" and "JNull \<notin> set js"
    and "j \<in> set js" and "get_abi h j d = None"
    and "store_abis_in_database h js rel source d = (Inr (), d1)"
  shows "fst (abi_create h j (Some (s_id source)) (Some rel) d1) = Inl IntegrityError
    \<and> (\<exists>r d2. get_or_create_abi h j (Some (s_id source)) (Some rel) d1 = (Inr (r, False), d2) \<and> get_abi h j d1 = Some r)"
proof -
  have there: "get_abi h j d1 \<noteq> None" and ok1: "db_ok h d1"
    using store_abis_run [OF assms(1-3), of rel] assms(4,6) by auto
  then obtain r where r: "get_abi h j d1 = Some r" by blast
  have "h j \<in> (h \<circ> a_json) ` set (db_abis d1)" using there by (simp only: get_abi_none not_not)
  then have "fst (abi_create h j (Some (s_id source)) (Some rel) d1) = Inl IntegrityError"
    by (simp add: abi_create_def Let_def)
  moreover have "fst (abi_goc h (j, Some (s_id source), Some rel) d1) = Inr (r, False)"
    by (rule abi_upsert.goc_existing [OF ok1]) (use r in \<open>simp add: get_abi_def\<close>)
  ultimately show ?thesis using r
    by (cases "get_or_create_abi h j (Some (s_id source)) (Some rel) d1") (simp add: abi_goc_def)
qed

lemma concurrent_start_clashes_witness:
  "\<exists>d1. store_abis_in_database demo_json_hash [JInt 3] 100 \<lparr>s_id = 1, s_name = [], s_url = []\<rparr>
       (snd (source_create [] [] empty_db)) = (Inr (), d1)
     \<and> fst (abi_create demo_json_hash (JInt 3) (Some 1) (Some 100) d1) = Inl IntegrityError"
proof -
  let ?d = "snd (source_create [] [] empty_db)" and ?s = "\<lparr>s_id = 1, s_name = [], s_url = []\<rparr>"
  have ok: "db_ok demo_json_hash ?d" by (rule source_create_ok [OF db_ok_empty])
  have s: "s_id ?s \<in> s_id ` set (db_sources ?d)" by (simp add: source_create_def empty_db_def Let_def)
  have n: "get_abi demo_json_hash (JInt 3) ?d = None" by code_simp
  have nn: "JNull \<notin> set [JInt 3]" by simp
  obtain d1 where r: "store_abis_in_database demo_json_hash [JInt 3] 100 ?s ?d = (Inr (), d1)"
    using store_abis_run [OF ok s nn, of 100] by blast
  from concurrent_start_clashes [OF ok s nn _ n r] r show ?thesis by auto
qed

end
