(* ===== verification/Abi_Shape.thy ===== *)
theory Abi_Shape
  imports Json
begin

text \<open>
  The shape of the ABI tables: the entries that recur in them, and what makes a table well
  formed. An entry that is a function has a name and a list of inputs that have a name and a
  type; every entry, function or not, has a type.
\<close>

text \<open>
  The entries that recur in the tables, with their keys in the order of the source: parameters
  of functions and of events, functions with and without the older keys, and events.
\<close>

definition typed :: "string \<Rightarrow> string \<Rightarrow> string \<Rightarrow> json" where
  "typed i n t = JObj [(''internalType'', JStr i), (''name'', JStr n), (''type'', JStr t)]"

definition plain :: "string \<Rightarrow> string \<Rightarrow> json" where
  "plain n t = JObj [(''name'', JStr n), (''type'', JStr t)]"

definition indexed :: "bool \<Rightarrow> string \<Rightarrow> string \<Rightarrow> string \<Rightarrow> json" where
  "indexed b i n t = JObj [(''indexed'', JBool b), (''internalType'', JStr i), (''name'', JStr n), (''type'', JStr t)]"

definition indexed_plain :: "bool \<Rightarrow> string \<Rightarrow> string \<Rightarrow> json" where
  "indexed_plain b n t = JObj [(''indexed'', JBool b), (''name'', JStr n), (''type'', JStr t)]"

definition abi_method :: "bool \<Rightarrow> json list \<Rightarrow> string \<Rightarrow> json list \<Rightarrow> bool \<Rightarrow> string \<Rightarrow> json" where
  "abi_method constant inputs name outputs payable mutability =
     JObj [(''constant'', JBool constant), (''inputs'', JList inputs), (''name'', JStr name), (''outputs'', JList outputs),
       (''payable'', JBool payable), (''stateMutability'', JStr mutability), (''type'', JStr ''function'')]"

definition signed_method ::
    "bool \<Rightarrow> json list \<Rightarrow> string \<Rightarrow> json list \<Rightarrow> bool \<Rightarrow> string \<Rightarrow> string \<Rightarrow> json" where
  "signed_method constant inputs name outputs payable mutability signature =
     JObj [(''constant'', JBool constant), (''inputs'', JList inputs), (''name'', JStr name), (''outputs'', JList outputs),
       (''payable'', JBool payable), (''stateMutability'', JStr mutability), (''type'', JStr ''function''),
       (''signature'', JStr signature)]"

definition short_method :: "json list \<Rightarrow> string \<Rightarrow> json list \<Rightarrow> string \<Rightarrow> json" where
  "short_method inputs name outputs mutability =
     JObj [(''inputs'', JList inputs), (''name'', JStr name), (''outputs'', JList outputs),
       (''stateMutability'', JStr mutability), (''type'', JStr ''function'')]"

definition event :: "bool \<Rightarrow> json list \<Rightarrow> string \<Rightarrow> json" where
  "event anonymous inputs name =
     JObj [(''anonymous'', JBool anonymous), (''inputs'', JList inputs), (''name'', JStr name), (''type'', JStr ''event'')]"

definition signed_event :: "bool \<Rightarrow> json list \<Rightarrow> string \<Rightarrow> string \<Rightarrow> json" where
  "signed_event anonymous inputs name signature =
     JObj [(''anonymous'', JBool anonymous), (''inputs'', JList inputs), (''name'', JStr name), (''type'', JStr ''event''),
       (''signature'', JStr signature)]"

definition has_str :: "string \<Rightarrow> json \<Rightarrow> bool" where
  "has_str k j = (case json_item j k of Inr (JStr s) \<Rightarrow> True | _ \<Rightarrow> False)"

definition abi_input_ok :: "json \<Rightarrow> bool" where
  "abi_input_ok i \<longleftrightarrow> has_str ''name'' i \<and> has_str ''type'' i"

definition abi_function_ok :: "json \<Rightarrow> bool" where
  "abi_function_ok fn \<longleftrightarrow> json_item fn ''type'' = Inr (JStr ''function'') \<and> has_str ''name'' fn
     \<and> (case json_item fn ''inputs'' of Inr (JList is) \<Rightarrow> list_all abi_input_ok is | _ \<Rightarrow> False)"

definition abi_entry_ok :: "json \<Rightarrow> bool" where
  "abi_entry_ok e \<longleftrightarrow> has_str ''type'' e \<and> (json_item e ''type'' = Inr (JStr ''function'') \<longrightarrow> abi_function_ok e)"

fun abi_table_ok :: "json \<Rightarrow> bool" where
  "abi_table_ok (JList es) = list_all abi_entry_ok es"
| "abi_table_ok _ = False"

named_theorems abi_rules

lemma abi_input_ok_entries [abi_rules]:
  "abi_input_ok (typed i n t)" "abi_input_ok (plain n t)" "abi_input_ok (indexed b i n t)" "abi_input_ok (indexed_plain b n t)"
  by (simp_all add: abi_input_ok_def has_str_def typed_def plain_def indexed_def indexed_plain_def)

lemma abi_entry_ok_methods [abi_rules]:
  "abi_entry_ok (abi_method c is n os p m) \<longleftrightarrow> list_all abi_input_ok is"
  "abi_entry_ok (signed_method c is n os p m g) \<longleftrightarrow> list_all abi_input_ok is"
  "abi_entry_ok (short_method is n os m) \<longleftrightarrow> list_all abi_input_ok is"
  by (simp_all add: abi_entry_ok_def abi_function_ok_def has_str_def abi_method_def signed_method_def short_method_def)

lemma abi_entry_ok_events [abi_rules]: "abi_entry_ok (event a is n)" "abi_entry_ok (signed_event a is n g)"
  by (simp_all add: abi_entry_ok_def has_str_def event_def signed_event_def)

text \<open>Constructors and fallbacks, which have no name, are written out in the tables.\<close>

lemma abi_object_ok [abi_rules]:
  "map_of kvs ''type'' = Some (JStr t) \<Longrightarrow> t \<noteq> ''function'' \<Longrightarrow> abi_entry_ok (JObj kvs)"
  "map_of kvs ''name'' = Some (JStr n) \<Longrightarrow> map_of kvs ''type'' = Some (JStr t) \<Longrightarrow> abi_input_ok (JObj kvs)"
  by (simp_all add: abi_entry_ok_def abi_input_ok_def has_str_def)

end
