(* ===== verification/Abi_Tables.thy ===== *)
theory Abi_Tables
  imports Abi_Shape
begin

text \<open>
  ABI tables that come with the service: \<open>app/datasources/abis\<close>, the modules
  \<open>snapshot\<close>, \<open>admin_upgradeability_proxy\<close>, \<open>open_zeppelin\<close>,
  \<open>request\<close>, \<open>balancer\<close>, \<open>sablier\<close>.
  A table is the JSON value of the Python literal, or of the text that \<open>json.loads\<close> reads;
  a long one is written in parts of consecutive entries. Every table here is well formed.
\<close>

definition snapshot_delegate_registry_abi_json :: json where
  "snapshot_delegate_registry_abi_json = JList [
   event False [indexed True ''address'' ''delegator'' ''address'', indexed True ''bytes32'' ''id'' ''bytes32'',
     indexed True ''address'' ''delegate'' ''address''] ''ClearDelegate'',
   event False [indexed True ''address'' ''delegator'' ''address'', indexed True ''bytes32'' ''id'' ''bytes32'',
     indexed True ''address'' ''delegate'' ''address''] ''SetDelegate'',
   short_method [typed ''address'' '''' ''address'', typed ''bytes32'' '''' ''bytes32''] ''delegation'' [typed
     ''address'' '''' ''address''] ''view'',
   short_method [typed ''bytes32'' ''id'' ''bytes32'', typed ''address'' ''delegate'' ''address''] ''setDelegate''
     [] ''nonpayable'',
   short_method [typed ''bytes32'' ''id'' ''bytes32''] ''clearDelegate'' [] ''nonpayable'']"

definition initializable_admin_upgradeability_proxy_abi_json :: json where
  "initializable_admin_upgradeability_proxy_abi_json = JList [
   event False [indexed False ''address'' ''previousAdmin'' ''address'', indexed False ''address'' ''newAdmin''
     ''address''] ''AdminChanged'',
   event False [indexed True ''address'' ''implementation'' ''address''] ''Upgraded'',
   JObj [(''payable'', JBool True), (''stateMutability'', JStr ''payable''), (''type'', JStr ''fallback'')],
   abi_method False [] ''admin'' [typed ''address'' '''' ''address''] False ''nonpayable'',
   abi_method False [typed ''address'' ''newAdmin'' ''address''] ''changeAdmin'' [] False ''nonpayable'',
   abi_method False [] ''implementation'' [typed ''address'' '''' ''address''] False ''nonpayable'',
   abi_method False [typed ''address'' ''_logic'' ''address'', typed ''address'' ''_admin'' ''address'', typed
     ''bytes'' ''_data'' ''bytes''] ''initialize'' [] True ''payable'',
   abi_method False [typed ''address'' ''_logic'' ''address'', typed ''bytes'' ''_data'' ''bytes''] ''initialize''
     [] True ''payable'',
   abi_method False [typed ''address'' ''newImplementation'' ''address''] ''upgradeTo'' [] False ''nonpayable'',
   abi_method False [typed ''address'' ''newImplementation'' ''address'', typed ''bytes'' ''data'' ''bytes'']
     ''upgradeToAndCall'' [] True ''payable'']"

definition open_zeppelin_admin_upgradeability_proxy_json :: json where
  "open_zeppelin_admin_upgradeability_proxy_json = JList [
   JObj [(''inputs'', JList [typed ''address'' ''_logic'' ''address'', typed ''address'' ''_admin'' ''address'',
     typed ''bytes'' ''_data'' ''bytes'']), (''payable'', JBool True), (''stateMutability'', JStr ''payable''),
     (''type'', JStr ''constructor'')],
   event False [indexed False ''address'' ''previousAdmin'' ''address'', indexed False ''address'' ''newAdmin''
     ''address''] ''AdminChanged'',
   event False [indexed True ''address'' ''implementation'' ''address''] ''Upgraded'',
   JObj [(''payable'', JBool True), (''stateMutability'', JStr ''payable''), (''type'', JStr ''fallback'')],
   abi_method False [] ''admin'' [typed ''address'' '''' ''address''] False ''nonpayable'',
   abi_method False [typed ''address'' ''newAdmin'' ''address''] ''changeAdmin'' [] False ''nonpayable'',
   abi_method False [] ''implementation'' [typed ''address'' '''' ''address''] False ''nonpayable'',
   abi_method False [typed ''address'' ''newImplementation'' ''address''] ''upgradeTo'' [] False ''nonpayable'',
   abi_method False [typed ''address'' ''newImplementation'' ''address'', typed ''bytes'' ''data'' ''bytes'']
     ''upgradeToAndCall'' [] True ''payable'']"

definition open_zeppelin_proxy_admin_json :: json where
  "open_zeppelin_proxy_admin_json = JList [
   event False [indexed True ''address'' ''previousOwner'' ''address'', indexed True ''address'' ''newOwner''
     ''address''] ''OwnershipTransferred'',
   abi_method False [typed ''contract AdminUpgradeabilityProxy'' ''proxy'' ''address'', typed ''address''
     ''newAdmin'' ''address''] ''changeProxyAdmin'' [] False ''nonpayable'',
   abi_method True [typed ''contract AdminUpgradeabilityProxy'' ''proxy'' ''address''] ''getProxyAdmin'' [typed
     ''address'' '''' ''address''] False ''view'',
   abi_method True [typed ''contract AdminUpgradeabilityProxy'' ''proxy'' ''address''] ''getProxyImplementation''
     [typed ''address'' '''' ''address''] False ''view'',
   abi_method True [] ''isOwner'' [typed ''bool'' '''' ''bool''] False ''view'',
   abi_method True [] ''owner'' [typed ''address'' '''' ''address''] False ''view'',
   abi_method False [] ''renounceOwnership'' [] False ''nonpayable'',
   abi_method False [typed ''address'' ''newOwner'' ''address''] ''transferOwnership'' [] False ''nonpayable'',
   abi_method False [typed ''contract AdminUpgradeabilityProxy'' ''proxy'' ''address'', typed ''address''
     ''implementation'' ''address''] ''upgrade'' [] False ''nonpayable'',
   abi_method False [typed ''contract AdminUpgradeabilityProxy'' ''proxy'' ''address'', typed ''address''
     ''implementation'' ''address'', typed ''bytes'' ''data'' ''bytes''] ''upgradeAndCall'' [] True ''payable'']"

definition request_erc20_proxy_json :: json where
  "request_erc20_proxy_json = JList [
   event False [indexed False ''address'' ''tokenAddress'' ''address'', indexed False ''address'' ''to''
     ''address'', indexed False ''uint256'' ''amount'' ''uint256'', indexed True ''bytes'' ''paymentReference''
     ''bytes''] ''TransferWithReference'',
   JObj [(''payable'', JBool True), (''stateMutability'', JStr ''payable''), (''type'', JStr ''fallback'')],
   abi_method False [typed ''address'' ''_tokenAddress'' ''address'', typed ''address'' ''_to'' ''address'', typed
     ''uint256'' ''_amount'' ''uint256'', typed ''bytes'' ''_paymentReference'' ''bytes'']
     ''transferFromWithReference'' [] False ''nonpayable'']"

definition request_erc20_swap_to_pay_json_part1 :: "json list" where
  "request_erc20_swap_to_pay_json_part1 = [
   JObj [(''inputs'', JList [typed ''address'' ''_swapRouterAddress'' ''address'', typed ''address''
     ''_paymentProxyAddress'' ''address'']), (''payable'', JBool False), (''stateMutability'', JStr ''nonpayable''),
     (''type'', JStr ''constructor'')],
   event False [indexed True ''address'' ''previousOwner'' ''address'', indexed True ''address'' ''newOwner''
     ''address''] ''OwnershipTransferred'',
   abi_method False [typed ''address'' ''_erc20Address'' ''address''] ''approvePaymentProxyToSpend'' [] False
     ''nonpayable'',
   abi_method False [typed ''address'' ''_erc20Address'' ''address''] ''approveRouterToSpend'' [] False
     ''nonpayable'',
   abi_method True [] ''owner'' [typed ''address'' '''' ''address''] False ''view'',
   abi_method True [] ''paymentProxy'' [typed ''contract IERC20FeeProxy'' '''' ''address''] False ''view'',
   abi_method False [] ''renounceOwnership'' [] False ''nonpayable'',
   abi_method False [typed ''address'' ''_paymentProxyAddress'' ''address''] ''setPaymentProxy'' [] False
     ''nonpayable'',
   abi_method False [typed ''address'' ''_newSwapRouterAddress'' ''address''] ''setRouter'' [] False ''nonpayable'',
   abi_method True [] ''swapRouter'' [typed ''contract IUniswapV2Router02'' '''' ''address''] False ''view'']"

definition request_erc20_swap_to_pay_json_part2 :: "json list" where
  "request_erc20_swap_to_pay_json_part2 = [
   abi_method False [typed ''address'' ''_to'' ''address'', typed ''uint256'' ''_amount'' ''uint256'', typed
     ''uint256'' ''_amountInMax'' ''uint256'', typed ''address[]'' ''_path'' ''address[]'', typed ''bytes''
     ''_paymentReference'' ''bytes'', typed ''uint256'' ''_feeAmount'' ''uint256'', typed ''address''
     ''_feeAddress'' ''address'', typed ''uint256'' ''_deadline'' ''uint256''] ''swapTransferWithReference'' []
     False ''nonpayable'',
   abi_method False [typed ''address'' ''newOwner'' ''address''] ''transferOwnership'' [] False ''nonpayable'']"

definition request_erc20_swap_to_pay_json :: json where
  "request_erc20_swap_to_pay_json = JList (request_erc20_swap_to_pay_json_part1 @ request_erc20_swap_to_pay_json_part2)"

definition request_ethereum_proxy_json :: json where
  "request_ethereum_proxy_json = JList [
   event False [indexed False ''address'' ''to'' ''address'', indexed False ''uint256'' ''amount'' ''uint256'',
     indexed True ''bytes'' ''paymentReference'' ''bytes''] ''TransferWithReference'',
   JObj [(''payable'', JBool True), (''stateMutability'', JStr ''payable''), (''type'', JStr ''fallback'')],
   abi_method False [typed ''address payable'' ''_to'' ''address'', typed ''bytes'' ''_paymentReference''
     ''bytes''] ''transferWithReference'' [] True ''payable'']"

definition balancer_bactions_json :: json where
  "balancer_bactions_json = JList [
   abi_method False [typed ''contract BFactory'' ''factory'' ''address'', typed ''address[]'' ''tokens''
     ''address[]'', typed ''uint256[]'' ''balances'' ''uint256[]'', typed ''uint256[]'' ''denorms'' ''uint256[]'',
     typed ''uint256'' ''swapFee'' ''uint256'', typed ''bool'' ''finalize'' ''bool''] ''create'' [typed
     ''contract BPool'' ''pool'' ''address''] False ''nonpayable'',
   abi_method False [typed ''contract BPool'' ''pool'' ''address''] ''finalize'' [] False ''nonpayable'',
   abi_method False [typed ''contract BPool'' ''pool'' ''address'', typed ''uint256'' ''poolAmountOut''
     ''uint256'', typed ''uint256[]'' ''maxAmountsIn'' ''uint256[]''] ''joinPool'' [] False ''nonpayable'',
   abi_method False [typed ''contract BPool'' ''pool'' ''address'', typed ''address'' ''tokenIn'' ''address'',
     typed ''uint256'' ''tokenAmountIn'' ''uint256'', typed ''uint256'' ''minPoolAmountOut'' ''uint256'']
     ''joinswapExternAmountIn'' [] False ''nonpayable'',
   abi_method False [typed ''contract BPool'' ''pool'' ''address'', typed ''address'' ''newController''
     ''address''] ''setController'' [] False ''nonpayable'',
   abi_method False [typed ''contract BPool'' ''pool'' ''address'', typed ''bool'' ''publicSwap'' ''bool'']
     ''setPublicSwap'' [] False ''nonpayable'',
   abi_method False [typed ''contract BPool'' ''pool'' ''address'', typed ''uint256'' ''newFee'' ''uint256'']
     ''setSwapFee'' [] False ''nonpayable'',
   abi_method False [typed ''contract BPool'' ''pool'' ''address'', typed ''address[]'' ''tokens'' ''address[]'',
     typed ''uint256[]'' ''balances'' ''uint256[]'', typed ''uint256[]'' ''denorms'' ''uint256[]''] ''setTokens'' []
     False ''nonpayable'']"

definition balancer_exchange_proxy_json_part1 :: "json list" where
  "balancer_exchange_proxy_json_part1 = [
   JObj [(''inputs'', JList [typed ''address'' ''_weth'' ''address'']), (''payable'', JBool False),
     (''stateMutability'', JStr ''nonpayable''), (''type'', JStr ''constructor'')],
   event True [indexed True ''bytes4'' ''sig'' ''bytes4'', indexed True ''address'' ''caller'' ''address'',
     indexed False ''bytes'' ''data'' ''bytes''] ''LOG_CALL'',
   JObj [(''payable'', JBool True), (''stateMutability'', JStr ''payable''), (''type'', JStr ''fallback'')],
   abi_method False [JObj [(''components'', JList [typed ''address'' ''pool'' ''address'', typed ''uint256''
     ''tokenInParam'' ''uint256'', typed ''uint256'' ''tokenOutParam'' ''uint256'', typed ''uint256'' ''maxPrice''
     ''uint256'']), (''internalType'', JStr ''struct ExchangeProxy.Swap[]''), (''name'', JStr ''swaps''), (''type'',
     JStr ''tuple[]'')], typed ''address'' ''tokenOut'' ''address'', typed ''uint256'' ''minTotalAmountOut''
     ''uint256''] ''batchEthInSwapExactIn'' [typed ''uint256'' ''totalAmountOut'' ''uint256''] True ''payable'',
   abi_method False [JObj [(''components'', JList [typed ''address'' ''pool'' ''address'', typed ''uint256''
     ''tokenInParam'' ''uint256'', typed ''uint256'' ''tokenOutParam'' ''uint256'', typed ''uint256'' ''maxPrice''
     ''uint256'']), (''internalType'', JStr ''struct ExchangeProxy.Swap[]''), (''name'', JStr ''swaps''), (''type'',
     JStr ''tuple[]'')], typed ''address'' ''tokenOut'' ''address''] ''batchEthInSwapExactOut'' [typed ''uint256''
     ''totalAmountIn'' ''uint256''] True ''payable'',
   abi_method False [JObj [(''components'', JList [typed ''address'' ''pool'' ''address'', typed ''uint256''
     ''tokenInParam'' ''uint256'', typed ''uint256'' ''tokenOutParam'' ''uint256'', typed ''uint256'' ''maxPrice''
     ''uint256'']), (''internalType'', JStr ''struct ExchangeProxy.Swap[]''), (''name'', JStr ''swaps''), (''type'',
     JStr ''tuple[]'')], typed ''address'' ''tokenIn'' ''address'', typed ''uint256'' ''totalAmountIn'' ''uint256'',
     typed ''uint256'' ''minTotalAmountOut'' ''uint256''] ''batchEthOutSwapExactIn'' [typed ''uint256''
     ''totalAmountOut'' ''uint256''] False ''nonpayable'']"

definition balancer_exchange_proxy_json_part2 :: "json list" where
  "balancer_exchange_proxy_json_part2 = [
   abi_method False [JObj [(''components'', JList [typed ''address'' ''pool'' ''address'', typed ''uint256''
     ''tokenInParam'' ''uint256'', typed ''uint256'' ''tokenOutParam'' ''uint256'', typed ''uint256'' ''maxPrice''
     ''uint256'']), (''internalType'', JStr ''struct ExchangeProxy.Swap[]''), (''name'', JStr ''swaps''), (''type'',
     JStr ''tuple[]'')], typed ''address'' ''tokenIn'' ''address'', typed ''uint256'' ''maxTotalAmountIn''
     ''uint256''] ''batchEthOutSwapExactOut'' [typed ''uint256'' ''totalAmountIn'' ''uint256''] False ''nonpayable'',
   abi_method False [JObj [(''components'', JList [typed ''address'' ''pool'' ''address'', typed ''uint256''
     ''tokenInParam'' ''uint256'', typed ''uint256'' ''tokenOutParam'' ''uint256'', typed ''uint256'' ''maxPrice''
     ''uint256'']), (''internalType'', JStr ''struct ExchangeProxy.Swap[]''), (''name'', JStr ''swaps''), (''type'',
     JStr ''tuple[]'')], typed ''address'' ''tokenIn'' ''address'', typed ''address'' ''tokenOut'' ''address'',
     typed ''uint256'' ''totalAmountIn'' ''uint256'', typed ''uint256'' ''minTotalAmountOut'' ''uint256'']
     ''batchSwapExactIn'' [typed ''uint256'' ''totalAmountOut'' ''uint256''] False ''nonpayable'',
   abi_method False [JObj [(''components'', JList [typed ''address'' ''pool'' ''address'', typed ''uint256''
     ''tokenInParam'' ''uint256'', typed ''uint256'' ''tokenOutParam'' ''uint256'', typed ''uint256'' ''maxPrice''
     ''uint256'']), (''internalType'', JStr ''struct ExchangeProxy.Swap[]''), (''name'', JStr ''swaps''), (''type'',
     JStr ''tuple[]'')], typed ''address'' ''tokenIn'' ''address'', typed ''address'' ''tokenOut'' ''address'',
     typed ''uint256'' ''maxTotalAmountIn'' ''uint256''] ''batchSwapExactOut'' [typed ''uint256'' ''totalAmountIn''
     ''uint256''] False ''nonpayable'']"

definition balancer_exchange_proxy_json :: json where
  "balancer_exchange_proxy_json = JList (balancer_exchange_proxy_json_part1 @ balancer_exchange_proxy_json_part2)"

definition sablier_ctoken_manager_json :: json where
  "sablier_ctoken_manager_json = JList [
   abi_method True [] ''owner'' [typed ''address'' '''' ''address''] False ''view'',
   abi_method True [] ''isOwner'' [typed ''bool'' '''' ''bool''] False ''view'',
   abi_method False [typed ''address'' ''sender'' ''address''] ''initialize'' [] False ''nonpayable'',
   abi_method False [typed ''address'' ''newOwner'' ''address''] ''transferOwnership'' [] False ''nonpayable'',
   JObj [(''inputs'', JList []), (''payable'', JBool False), (''stateMutability'', JStr ''nonpayable''),
     (''type'', JStr ''constructor'')],
   event False [indexed True ''address'' ''previousOwner'' ''address'', indexed True ''address'' ''newOwner''
     ''address''] ''OwnershipTransferred'',
   event False [indexed True ''address'' ''tokenAddress'' ''address''] ''DiscardCToken'',
   event False [indexed True ''address'' ''tokenAddress'' ''address''] ''WhitelistCToken'',
   abi_method False [typed ''address'' ''tokenAddress'' ''address''] ''whitelistCToken'' [] False ''nonpayable'',
   abi_method False [typed ''address'' ''tokenAddress'' ''address''] ''discardCToken'' [] False ''nonpayable'',
   abi_method True [typed ''address'' ''tokenAddress'' ''address''] ''isCToken'' [typed ''bool'' '''' ''bool'']
     False ''view'']"

definition sablier_payroll_json_part1 :: "json list" where
  "sablier_payroll_json_part1 = [
   abi_method True [typed ''address'' '''' ''address'', typed ''uint256'' '''' ''uint256''] ''relayers'' [typed
     ''bool'' '''' ''bool''] False ''view'',
   abi_method True [] ''sablier'' [typed ''contract Sablier'' '''' ''address''] False ''view'',
   abi_method True [] ''getHubAddr'' [typed ''address'' '''' ''address''] False ''view'',
   abi_method False [typed ''bytes'' ''context'' ''bytes''] ''preRelayedCall'' [typed ''bytes32'' ''''
     ''bytes32''] False ''nonpayable'',
   abi_method True [] ''owner'' [typed ''address'' '''' ''address''] False ''view'',
   abi_method True [] ''isOwner'' [typed ''bool'' '''' ''bool''] False ''view'',
   abi_method True [] ''relayHubVersion'' [typed ''string'' '''' ''string''] False ''view'',
   abi_method True [] ''nextSalaryId'' [typed ''uint256'' '''' ''uint256''] False ''view'',
   abi_method False [typed ''bytes'' ''context'' ''bytes'', typed ''bool'' ''success'' ''bool'', typed ''uint256''
     ''actualCharge'' ''uint256'', typed ''bytes32'' ''preRetVal'' ''bytes32''] ''postRelayedCall'' [] False
     ''nonpayable'',
   abi_method False [typed ''address'' ''newOwner'' ''address''] ''transferOwnership'' [] False ''nonpayable'',
   event False [indexed True ''uint256'' ''salaryId'' ''uint256'', indexed True ''uint256'' ''streamId''
     ''uint256'', indexed True ''address'' ''company'' ''address''] ''CreateSalary'']"

definition sablier_payroll_json_part2 :: "json list" where
  "sablier_payroll_json_part2 = [
   event False [indexed True ''uint256'' ''salaryId'' ''uint256'', indexed True ''uint256'' ''streamId''
     ''uint256'', indexed True ''address'' ''company'' ''address''] ''WithdrawFromSalary'',
   event False [indexed True ''uint256'' ''salaryId'' ''uint256'', indexed True ''uint256'' ''streamId''
     ''uint256'', indexed True ''address'' ''company'' ''address''] ''CancelSalary'',
   event False [indexed True ''address'' ''oldRelayHub'' ''address'', indexed True ''address'' ''newRelayHub''
     ''address''] ''RelayHubChanged'',
   event False [indexed True ''address'' ''previousOwner'' ''address'', indexed True ''address'' ''newOwner''
     ''address''] ''OwnershipTransferred'',
   abi_method False [typed ''address'' ''trustedSigner'' ''address''] ''initialize'' [] False ''nonpayable'',
   abi_method False [typed ''address'' ''ownerAddress'' ''address'', typed ''address'' ''signerAddress''
     ''address'', typed ''address'' ''sablierAddress'' ''address''] ''initialize'' [] False ''nonpayable'',
   abi_method False [] ''initialize'' [] False ''nonpayable'',
   abi_method False [typed ''address'' ''relayer'' ''address'', typed ''uint256'' ''salaryId'' ''uint256'']
     ''whitelistRelayer'' [] False ''nonpayable'',
   abi_method False [typed ''address'' ''relayer'' ''address'', typed ''uint256'' ''salaryId'' ''uint256'']
     ''discardRelayer'' [] False ''nonpayable'']"

definition sablier_payroll_json_part3 :: "json list" where
  "sablier_payroll_json_part3 = [
   abi_method True [typed ''address'' ''relay'' ''address'', typed ''address'' ''from'' ''address'', typed
     ''bytes'' ''encodedFunction'' ''bytes'', typed ''uint256'' ''transactionFee'' ''uint256'', typed ''uint256''
     ''gasPrice'' ''uint256'', typed ''uint256'' ''gasLimit'' ''uint256'', typed ''uint256'' ''nonce'' ''uint256'',
     typed ''bytes'' ''approvalData'' ''bytes'', typed ''uint256'' '''' ''uint256''] ''acceptRelayedCall'' [typed
     ''uint256'' '''' ''uint256'', typed ''bytes'' '''' ''bytes''] False ''view'',
   abi_method True [typed ''uint256'' ''salaryId'' ''uint256''] ''getSalary'' [typed ''address'' ''company''
     ''address'', typed ''address'' ''employee'' ''address'', typed ''uint256'' ''salary'' ''uint256'', typed
     ''address'' ''tokenAddress'' ''address'', typed ''uint256'' ''startTime'' ''uint256'', typed ''uint256''
     ''stopTime'' ''uint256'', typed ''uint256'' ''remainingBalance'' ''uint256'', typed ''uint256'' ''rate''
     ''uint256''] False ''view'',
   abi_method False [typed ''address'' ''employee'' ''address'', typed ''uint256'' ''salary'' ''uint256'', typed
     ''address'' ''tokenAddress'' ''address'', typed ''uint256'' ''startTime'' ''uint256'', typed ''uint256''
     ''stopTime'' ''uint256''] ''createSalary'' [typed ''uint256'' ''salaryId'' ''uint256''] False ''nonpayable'',
   abi_method False [typed ''address'' ''employee'' ''address'', typed ''uint256'' ''salary'' ''uint256'', typed
     ''address'' ''tokenAddress'' ''address'', typed ''uint256'' ''startTime'' ''uint256'', typed ''uint256''
     ''stopTime'' ''uint256'', typed ''uint256'' ''senderSharePercentage'' ''uint256'', typed ''uint256''
     ''recipientSharePercentage'' ''uint256''] ''createCompoundingSalary'' [typed ''uint256'' ''salaryId''
     ''uint256''] False ''nonpayable'',
   abi_method False [typed ''uint256'' ''salaryId'' ''uint256'', typed ''uint256'' ''amount'' ''uint256'']
     ''withdrawFromSalary'' [typed ''bool'' ''success'' ''bool''] False ''nonpayable'',
   abi_method False [typed ''uint256'' ''salaryId'' ''uint256''] ''cancelSalary'' [typed ''bool'' ''success''
     ''bool''] False ''nonpayable'']"

definition sablier_payroll_json :: json where
  "sablier_payroll_json = JList (sablier_payroll_json_part1 @ sablier_payroll_json_part2 @ sablier_payroll_json_part3)"

definition sablier_abi_json_part1 :: "json list" where
  "sablier_abi_json_part1 = [
   abi_method True [] ''nextStreamId'' [typed ''uint256'' '''' ''uint256''] False ''view'',
   abi_method False [] ''unpause'' [] False ''nonpayable'',
   abi_method True [typed ''address'' ''account'' ''address''] ''isPauser'' [typed ''bool'' '''' ''bool''] False
     ''view'',
   abi_method True [] ''paused'' [typed ''bool'' '''' ''bool''] False ''view'',
   abi_method False [] ''initialize'' [] False ''nonpayable'',
   abi_method False [typed ''address'' ''account'' ''address''] ''addPauser'' [] False ''nonpayable'',
   abi_method False [] ''pause'' [] False ''nonpayable'',
   abi_method True [] ''owner'' [typed ''address'' '''' ''address''] False ''view'',
   abi_method True [] ''isOwner'' [typed ''bool'' '''' ''bool''] False ''view'',
   abi_method False [typed ''address'' ''sender'' ''address''] ''initialize'' [] False ''nonpayable'',
   abi_method True [] ''cTokenManager'' [typed ''contract ICTokenManager'' '''' ''address''] False ''view'',
   abi_method True [] ''fee'' [typed ''uint256'' ''mantissa'' ''uint256''] False ''view'',
   abi_method False [typed ''address'' ''newOwner'' ''address''] ''transferOwnership'' [] False ''nonpayable'',
   JObj [(''inputs'', JList [typed ''address'' ''cTokenManagerAddress'' ''address'']), (''payable'', JBool False),
     (''stateMutability'', JStr ''nonpayable''), (''type'', JStr ''constructor'')]]"

definition sablier_abi_json_part2 :: "json list" where
  "sablier_abi_json_part2 = [
   event False [indexed True ''uint256'' ''streamId'' ''uint256'', indexed False ''uint256'' ''exchangeRate''
     ''uint256'', indexed False ''uint256'' ''senderSharePercentage'' ''uint256'', indexed False ''uint256''
     ''recipientSharePercentage'' ''uint256''] ''CreateCompoundingStream'',
   event False [indexed True ''uint256'' ''streamId'' ''uint256'', indexed False ''uint256'' ''senderInterest''
     ''uint256'', indexed False ''uint256'' ''recipientInterest'' ''uint256'', indexed False ''uint256''
     ''sablierInterest'' ''uint256''] ''PayInterest'',
   event False [indexed True ''address'' ''tokenAddress'' ''address'', indexed True ''uint256'' ''amount''
     ''uint256''] ''TakeEarnings'',
   event False [indexed True ''uint256'' ''fee'' ''uint256''] ''UpdateFee'',
   event False [indexed False ''address'' ''account'' ''address''] ''Paused'',
   event False [indexed False ''address'' ''account'' ''address''] ''Unpaused'',
   event False [indexed True ''address'' ''account'' ''address''] ''PauserAdded'',
   event False [indexed True ''address'' ''account'' ''address''] ''PauserRemoved'']"

definition sablier_abi_json_part3 :: "json list" where
  "sablier_abi_json_part3 = [
   event False [indexed True ''address'' ''previousOwner'' ''address'', indexed True ''address'' ''newOwner''
     ''address''] ''OwnershipTransferred'',
   event False [indexed True ''uint256'' ''streamId'' ''uint256'', indexed True ''address'' ''sender''
     ''address'', indexed True ''address'' ''recipient'' ''address'', indexed False ''uint256'' ''deposit''
     ''uint256'', indexed False ''address'' ''tokenAddress'' ''address'', indexed False ''uint256'' ''startTime''
     ''uint256'', indexed False ''uint256'' ''stopTime'' ''uint256''] ''CreateStream'',
   event False [indexed True ''uint256'' ''streamId'' ''uint256'', indexed True ''address'' ''recipient''
     ''address'', indexed False ''uint256'' ''amount'' ''uint256''] ''WithdrawFromStream'',
   event False [indexed True ''uint256'' ''streamId'' ''uint256'', indexed True ''address'' ''sender''
     ''address'', indexed True ''address'' ''recipient'' ''address'', indexed False ''uint256'' ''senderBalance''
     ''uint256'', indexed False ''uint256'' ''recipientBalance'' ''uint256''] ''CancelStream'',
   abi_method False [typed ''uint256'' ''feePercentage'' ''uint256''] ''updateFee'' [] False ''nonpayable'']"

definition sablier_abi_json_part4 :: "json list" where
  "sablier_abi_json_part4 = [
   abi_method False [typed ''address'' ''tokenAddress'' ''address'', typed ''uint256'' ''amount'' ''uint256'']
     ''takeEarnings'' [] False ''nonpayable'',
   abi_method True [typed ''uint256'' ''streamId'' ''uint256''] ''getStream'' [typed ''address'' ''sender''
     ''address'', typed ''address'' ''recipient'' ''address'', typed ''uint256'' ''deposit'' ''uint256'', typed
     ''address'' ''tokenAddress'' ''address'', typed ''uint256'' ''startTime'' ''uint256'', typed ''uint256''
     ''stopTime'' ''uint256'', typed ''uint256'' ''remainingBalance'' ''uint256'', typed ''uint256''
     ''ratePerSecond'' ''uint256''] False ''view'',
   abi_method True [typed ''uint256'' ''streamId'' ''uint256''] ''deltaOf'' [typed ''uint256'' ''delta''
     ''uint256''] False ''view'',
   abi_method True [typed ''uint256'' ''streamId'' ''uint256'', typed ''address'' ''who'' ''address'']
     ''balanceOf'' [typed ''uint256'' ''balance'' ''uint256''] False ''view'',
   abi_method True [typed ''uint256'' ''streamId'' ''uint256''] ''isCompoundingStream'' [typed ''bool'' ''''
     ''bool''] False ''view'',
   abi_method True [typed ''uint256'' ''streamId'' ''uint256''] ''getCompoundingStream'' [typed ''address''
     ''sender'' ''address'', typed ''address'' ''recipient'' ''address'', typed ''uint256'' ''deposit'' ''uint256'',
     typed ''address'' ''tokenAddress'' ''address'', typed ''uint256'' ''startTime'' ''uint256'', typed ''uint256''
     ''stopTime'' ''uint256'', typed ''uint256'' ''remainingBalance'' ''uint256'', typed ''uint256''
     ''ratePerSecond'' ''uint256'', typed ''uint256'' ''exchangeRateInitial'' ''uint256'', typed ''uint256''
     ''senderSharePercentage'' ''uint256'', typed ''uint256'' ''recipientSharePercentage'' ''uint256''] False
     ''view'',
   abi_method False [typed ''uint256'' ''streamId'' ''uint256'', typed ''uint256'' ''amount'' ''uint256'']
     ''interestOf'' [typed ''uint256'' ''senderInterest'' ''uint256'', typed ''uint256'' ''recipientInterest''
     ''uint256'', typed ''uint256'' ''sablierInterest'' ''uint256''] False ''nonpayable'',
   abi_method True [typed ''address'' ''tokenAddress'' ''address''] ''getEarnings'' [typed ''uint256'' ''''
     ''uint256''] False ''view'',
   abi_method False [typed ''address'' ''recipient'' ''address'', typed ''uint256'' ''deposit'' ''uint256'', typed
     ''address'' ''tokenAddress'' ''address'', typed ''uint256'' ''startTime'' ''uint256'', typed ''uint256''
     ''stopTime'' ''uint256''] ''createStream'' [typed ''uint256'' '''' ''uint256''] False ''nonpayable'']"

definition sablier_abi_json_part5 :: "json list" where
  "sablier_abi_json_part5 = [
   abi_method False [typed ''address'' ''recipient'' ''address'', typed ''uint256'' ''deposit'' ''uint256'', typed
     ''address'' ''tokenAddress'' ''address'', typed ''uint256'' ''startTime'' ''uint256'', typed ''uint256''
     ''stopTime'' ''uint256'', typed ''uint256'' ''senderSharePercentage'' ''uint256'', typed ''uint256''
     ''recipientSharePercentage'' ''uint256''] ''createCompoundingStream'' [typed ''uint256'' '''' ''uint256'']
     False ''nonpayable'',
   abi_method False [typed ''uint256'' ''streamId'' ''uint256'', typed ''uint256'' ''amount'' ''uint256'']
     ''withdrawFromStream'' [typed ''bool'' '''' ''bool''] False ''nonpayable'',
   abi_method False [typed ''uint256'' ''streamId'' ''uint256''] ''cancelStream'' [typed ''bool'' '''' ''bool'']
     False ''nonpayable'']"

definition sablier_abi_json :: json where
  "sablier_abi_json = JList (
     sablier_abi_json_part1 @ sablier_abi_json_part2 @ sablier_abi_json_part3 @ sablier_abi_json_part4 @ sablier_abi_json_part5)"

definition abi_tables :: "json list" where
  "abi_tables =
    [snapshot_delegate_registry_abi_json,
     initializable_admin_upgradeability_proxy_abi_json,
     open_zeppelin_admin_upgradeability_proxy_json,
     open_zeppelin_proxy_admin_json,
     request_erc20_proxy_json,
     request_erc20_swap_to_pay_json,
     request_ethereum_proxy_json,
     balancer_bactions_json,
     balancer_exchange_proxy_json,
     sablier_ctoken_manager_json,
     sablier_payroll_json,
     sablier_abi_json]"

lemma snapshot_delegate_registry_abi_json_ok: "abi_table_ok snapshot_delegate_registry_abi_json"
  by (simp add: abi_rules snapshot_delegate_registry_abi_json_def)

lemma initializable_admin_upgradeability_proxy_abi_json_ok: "abi_table_ok initializable_admin_upgradeability_proxy_abi_json"
  by (simp add: abi_rules initializable_admin_upgradeability_proxy_abi_json_def)

lemma open_zeppelin_admin_upgradeability_proxy_json_ok: "abi_table_ok open_zeppelin_admin_upgradeability_proxy_json"
  by (simp add: abi_rules open_zeppelin_admin_upgradeability_proxy_json_def)

lemma open_zeppelin_proxy_admin_json_ok: "abi_table_ok open_zeppelin_proxy_admin_json"
  by (simp add: abi_rules open_zeppelin_proxy_admin_json_def)

lemma request_erc20_proxy_json_ok: "abi_table_ok request_erc20_proxy_json"
  by (simp add: abi_rules request_erc20_proxy_json_def)

lemma request_erc20_swap_to_pay_json_ok: "abi_table_ok request_erc20_swap_to_pay_json"
  by (simp add: abi_rules 
      request_erc20_swap_to_pay_json_def request_erc20_swap_to_pay_json_part1_def request_erc20_swap_to_pay_json_part2_def)

lemma request_ethereum_proxy_json_ok: "abi_table_ok request_ethereum_proxy_json"
  by (simp add: abi_rules request_ethereum_proxy_json_def)

lemma balancer_bactions_json_ok: "abi_table_ok balancer_bactions_json"
  by (simp add: abi_rules balancer_bactions_json_def)

lemma balancer_exchange_proxy_json_ok: "abi_table_ok balancer_exchange_proxy_json"
  by (simp add: abi_rules balancer_exchange_proxy_json_def balancer_exchange_proxy_json_part1_def balancer_exchange_proxy_json_part2_def)

lemma sablier_ctoken_manager_json_ok: "abi_table_ok sablier_ctoken_manager_json"
  by (simp add: abi_rules sablier_ctoken_manager_json_def)

lemma sablier_payroll_json_ok: "abi_table_ok sablier_payroll_json"
  by (simp add: abi_rules 
      sablier_payroll_json_def sablier_payroll_json_part1_def sablier_payroll_json_part2_def sablier_payroll_json_part3_def)

lemma sablier_abi_json_ok: "abi_table_ok sablier_abi_json"
  by (simp add: abi_rules 
      sablier_abi_json_def sablier_abi_json_part1_def sablier_abi_json_part2_def sablier_abi_json_part3_def sablier_abi_json_part4_def sablier_abi_json_part5_def)

lemma abi_tables_ok: "list_all abi_table_ok abi_tables"
  by (simp add: abi_tables_def snapshot_delegate_registry_abi_json_ok
      initializable_admin_upgradeability_proxy_abi_json_ok
      open_zeppelin_admin_upgradeability_proxy_json_ok
      open_zeppelin_proxy_admin_json_ok
      request_erc20_proxy_json_ok
      request_erc20_swap_to_pay_json_ok
      request_ethereum_proxy_json_ok
      balancer_bactions_json_ok
      balancer_exchange_proxy_json_ok
      sablier_ctoken_manager_json_ok
      sablier_payroll_json_ok
      sablier_abi_json_ok)

end
