(* ===== verification/Abi_Tables_Aave.thy ===== *)
theory Abi_Tables_Aave
  imports Abi_Shape
begin

text \<open>
  ABI tables that come with the service: \<open>app/datasources/abis\<close>, the modules
  \<open>aave\<close>.
  A table is the JSON value of the Python literal, or of the text that \<open>json.loads\<close> reads;
  a long one is written in parts of consecutive entries. Every table here is well formed.
\<close>

definition aave_a_token_json_part1 :: "json list" where
  "aave_a_token_json_part1 = [
   JObj [(''inputs'', JList [typed ''contract LendingPoolAddressesProvider'' ''_addressesProvider'' ''address'',
     typed ''address'' ''_underlyingAsset'' ''address'', typed ''uint8'' ''_underlyingAssetDecimals'' ''uint8'',
     typed ''string'' ''_name'' ''string'', typed ''string'' ''_symbol'' ''string'']), (''payable'', JBool False),
     (''stateMutability'', JStr ''nonpayable''), (''type'', JStr ''constructor'')],
   event False [indexed True ''address'' ''owner'' ''address'', indexed True ''address'' ''spender'' ''address'',
     indexed False ''uint256'' ''value'' ''uint256''] ''Approval'',
   event False [indexed True ''address'' ''_from'' ''address'', indexed True ''address'' ''_to'' ''address'',
     indexed False ''uint256'' ''_value'' ''uint256'', indexed False ''uint256'' ''_fromBalanceIncrease''
     ''uint256'', indexed False ''uint256'' ''_toBalanceIncrease'' ''uint256'', indexed False ''uint256''
     ''_fromIndex'' ''uint256'', indexed False ''uint256'' ''_toIndex'' ''uint256''] ''BalanceTransfer'',
   event False [indexed True ''address'' ''_from'' ''address'', indexed False ''uint256'' ''_value'' ''uint256'',
     indexed False ''uint256'' ''_fromBalanceIncrease'' ''uint256'', indexed False ''uint256'' ''_fromIndex''
     ''uint256''] ''BurnOnLiquidation'',
   event False [indexed True ''address'' ''_from'' ''address'', indexed True ''address'' ''_to'' ''address'']
     ''InterestRedirectionAllowanceChanged'']"

definition aave_a_token_json_part2 :: "json list" where
  "aave_a_token_json_part2 = [
   event False [indexed True ''address'' ''_from'' ''address'', indexed True ''address'' ''_to'' ''address'',
     indexed False ''uint256'' ''_redirectedBalance'' ''uint256'', indexed False ''uint256''
     ''_fromBalanceIncrease'' ''uint256'', indexed False ''uint256'' ''_fromIndex'' ''uint256'']
     ''InterestStreamRedirected'',
   event False [indexed True ''address'' ''_from'' ''address'', indexed False ''uint256'' ''_value'' ''uint256'',
     indexed False ''uint256'' ''_fromBalanceIncrease'' ''uint256'', indexed False ''uint256'' ''_fromIndex''
     ''uint256''] ''MintOnDeposit'',
   event False [indexed True ''address'' ''_from'' ''address'', indexed False ''uint256'' ''_value'' ''uint256'',
     indexed False ''uint256'' ''_fromBalanceIncrease'' ''uint256'', indexed False ''uint256'' ''_fromIndex''
     ''uint256''] ''Redeem'',
   event False [indexed True ''address'' ''_targetAddress'' ''address'', indexed False ''uint256''
     ''_targetBalanceIncrease'' ''uint256'', indexed False ''uint256'' ''_targetIndex'' ''uint256'', indexed False
     ''uint256'' ''_redirectedBalanceAdded'' ''uint256'', indexed False ''uint256'' ''_redirectedBalanceRemoved''
     ''uint256''] ''RedirectedBalanceUpdated'']"

definition aave_a_token_json_part3 :: "json list" where
  "aave_a_token_json_part3 = [
   event False [indexed True ''address'' ''from'' ''address'', indexed True ''address'' ''to'' ''address'',
     indexed False ''uint256'' ''value'' ''uint256''] ''Transfer'',
   abi_method True [] ''UINT_MAX_VALUE'' [typed ''uint256'' '''' ''uint256''] False ''view'',
   abi_method True [typed ''address'' ''owner'' ''address'', typed ''address'' ''spender'' ''address'']
     ''allowance'' [typed ''uint256'' '''' ''uint256''] False ''view'',
   abi_method False [typed ''address'' ''spender'' ''address'', typed ''uint256'' ''value'' ''uint256'']
     ''approve'' [typed ''bool'' '''' ''bool''] False ''nonpayable'',
   abi_method True [] ''decimals'' [typed ''uint8'' '''' ''uint8''] False ''view'',
   abi_method False [typed ''address'' ''spender'' ''address'', typed ''uint256'' ''subtractedValue'' ''uint256'']
     ''decreaseAllowance'' [typed ''bool'' '''' ''bool''] False ''nonpayable'',
   abi_method False [typed ''address'' ''spender'' ''address'', typed ''uint256'' ''addedValue'' ''uint256'']
     ''increaseAllowance'' [typed ''bool'' '''' ''bool''] False ''nonpayable'',
   abi_method True [] ''name'' [typed ''string'' '''' ''string''] False ''view'',
   abi_method True [] ''symbol'' [typed ''string'' '''' ''string''] False ''view'',
   abi_method False [typed ''address'' ''recipient'' ''address'', typed ''uint256'' ''amount'' ''uint256'']
     ''transfer'' [typed ''bool'' '''' ''bool''] False ''nonpayable'',
   abi_method False [typed ''address'' ''sender'' ''address'', typed ''address'' ''recipient'' ''address'', typed
     ''uint256'' ''amount'' ''uint256''] ''transferFrom'' [typed ''bool'' '''' ''bool''] False ''nonpayable'',
   abi_method True [] ''underlyingAssetAddress'' [typed ''address'' '''' ''address''] False ''view'']"

definition aave_a_token_json_part4 :: "json list" where
  "aave_a_token_json_part4 = [
   abi_method False [typed ''address'' ''_to'' ''address''] ''redirectInterestStream'' [] False ''nonpayable'',
   abi_method False [typed ''address'' ''_from'' ''address'', typed ''address'' ''_to'' ''address'']
     ''redirectInterestStreamOf'' [] False ''nonpayable'',
   abi_method False [typed ''address'' ''_to'' ''address''] ''allowInterestRedirectionTo'' [] False ''nonpayable'',
   abi_method False [typed ''uint256'' ''_amount'' ''uint256''] ''redeem'' [] False ''nonpayable'',
   abi_method False [typed ''address'' ''_account'' ''address'', typed ''uint256'' ''_amount'' ''uint256'']
     ''mintOnDeposit'' [] False ''nonpayable'',
   abi_method False [typed ''address'' ''_account'' ''address'', typed ''uint256'' ''_value'' ''uint256'']
     ''burnOnLiquidation'' [] False ''nonpayable'',
   abi_method False [typed ''address'' ''_from'' ''address'', typed ''address'' ''_to'' ''address'', typed
     ''uint256'' ''_value'' ''uint256''] ''transferOnLiquidation'' [] False ''nonpayable'',
   abi_method True [typed ''address'' ''_user'' ''address''] ''balanceOf'' [typed ''uint256'' '''' ''uint256'']
     False ''view'',
   abi_method True [typed ''address'' ''_user'' ''address''] ''principalBalanceOf'' [typed ''uint256'' ''''
     ''uint256''] False ''view'',
   abi_method True [] ''totalSupply'' [typed ''uint256'' '''' ''uint256''] False ''view'',
   abi_method True [typed ''address'' ''_user'' ''address'', typed ''uint256'' ''_amount'' ''uint256'']
     ''isTransferAllowed'' [typed ''bool'' '''' ''bool''] False ''view'',
   abi_method True [typed ''address'' ''_user'' ''address''] ''getUserIndex'' [typed ''uint256'' '''' ''uint256'']
     False ''view'',
   abi_method True [typed ''address'' ''_user'' ''address''] ''getInterestRedirectionAddress'' [typed ''address''
     '''' ''address''] False ''view'',
   abi_method True [typed ''address'' ''_user'' ''address''] ''getRedirectedBalance'' [typed ''uint256'' ''''
     ''uint256''] False ''view'']"

definition aave_a_token_json :: json where
  "aave_a_token_json = JList (aave_a_token_json_part1 @ aave_a_token_json_part2 @ aave_a_token_json_part3 @ aave_a_token_json_part4)"

definition aave_lending_pool_json_part1 :: "json list" where
  "aave_lending_pool_json_part1 = [
   event False [indexed True ''address'' ''_reserve'' ''address'', indexed True ''address'' ''_user'' ''address'',
     indexed False ''uint256'' ''_amount'' ''uint256'', indexed False ''uint256'' ''_borrowRateMode'' ''uint256'',
     indexed False ''uint256'' ''_borrowRate'' ''uint256'', indexed False ''uint256'' ''_originationFee''
     ''uint256'', indexed False ''uint256'' ''_borrowBalanceIncrease'' ''uint256'', indexed True ''uint16''
     ''_referral'' ''uint16'', indexed False ''uint256'' ''_timestamp'' ''uint256''] ''Borrow'',
   event False [indexed True ''address'' ''_reserve'' ''address'', indexed True ''address'' ''_user'' ''address'',
     indexed False ''uint256'' ''_amount'' ''uint256'', indexed True ''uint16'' ''_referral'' ''uint16'', indexed
     False ''uint256'' ''_timestamp'' ''uint256''] ''Deposit'',
   event False [indexed True ''address'' ''_target'' ''address'', indexed True ''address'' ''_reserve''
     ''address'', indexed False ''uint256'' ''_amount'' ''uint256'', indexed False ''uint256'' ''_totalFee''
     ''uint256'', indexed False ''uint256'' ''_protocolFee'' ''uint256'', indexed False ''uint256'' ''_timestamp''
     ''uint256''] ''FlashLoan'']"

definition aave_lending_pool_json_part2 :: "json list" where
  "aave_lending_pool_json_part2 = [
   event False [indexed True ''address'' ''_collateral'' ''address'', indexed True ''address'' ''_reserve''
     ''address'', indexed True ''address'' ''_user'' ''address'', indexed False ''uint256'' ''_purchaseAmount''
     ''uint256'', indexed False ''uint256'' ''_liquidatedCollateralAmount'' ''uint256'', indexed False ''uint256''
     ''_accruedBorrowInterest'' ''uint256'', indexed False ''address'' ''_liquidator'' ''address'', indexed False
     ''bool'' ''_receiveAToken'' ''bool'', indexed False ''uint256'' ''_timestamp'' ''uint256''] ''LiquidationCall'',
   event False [indexed True ''address'' ''_collateral'' ''address'', indexed True ''address'' ''_reserve''
     ''address'', indexed True ''address'' ''_user'' ''address'', indexed False ''uint256'' ''_feeLiquidated''
     ''uint256'', indexed False ''uint256'' ''_liquidatedCollateralForFee'' ''uint256'', indexed False ''uint256''
     ''_timestamp'' ''uint256''] ''OriginationFeeLiquidated'',
   event False [indexed True ''address'' ''_reserve'' ''address'', indexed True ''address'' ''_user'' ''address'',
     indexed False ''uint256'' ''_newStableRate'' ''uint256'', indexed False ''uint256'' ''_borrowBalanceIncrease''
     ''uint256'', indexed False ''uint256'' ''_timestamp'' ''uint256''] ''RebalanceStableBorrowRate'']"

definition aave_lending_pool_json_part3 :: "json list" where
  "aave_lending_pool_json_part3 = [
   event False [indexed True ''address'' ''_reserve'' ''address'', indexed True ''address'' ''_user'' ''address'',
     indexed False ''uint256'' ''_amount'' ''uint256'', indexed False ''uint256'' ''_timestamp'' ''uint256'']
     ''RedeemUnderlying'',
   event False [indexed True ''address'' ''_reserve'' ''address'', indexed True ''address'' ''_user'' ''address'',
     indexed True ''address'' ''_repayer'' ''address'', indexed False ''uint256'' ''_amountMinusFees'' ''uint256'',
     indexed False ''uint256'' ''_fees'' ''uint256'', indexed False ''uint256'' ''_borrowBalanceIncrease''
     ''uint256'', indexed False ''uint256'' ''_timestamp'' ''uint256''] ''Repay'',
   event False [indexed True ''address'' ''_reserve'' ''address'', indexed True ''address'' ''_user'' ''address'']
     ''ReserveUsedAsCollateralDisabled'',
   event False [indexed True ''address'' ''_reserve'' ''address'', indexed True ''address'' ''_user'' ''address'']
     ''ReserveUsedAsCollateralEnabled'']"

definition aave_lending_pool_json_part4 :: "json list" where
  "aave_lending_pool_json_part4 = [
   event False [indexed True ''address'' ''_reserve'' ''address'', indexed True ''address'' ''_user'' ''address'',
     indexed False ''uint256'' ''_newRateMode'' ''uint256'', indexed False ''uint256'' ''_newRate'' ''uint256'',
     indexed False ''uint256'' ''_borrowBalanceIncrease'' ''uint256'', indexed False ''uint256'' ''_timestamp''
     ''uint256''] ''Swap'',
   abi_method True [] ''LENDINGPOOL_REVISION'' [typed ''uint256'' '''' ''uint256''] False ''view'',
   abi_method True [] ''UINT_MAX_VALUE'' [typed ''uint256'' '''' ''uint256''] False ''view'',
   abi_method True [] ''addressesProvider'' [typed ''contract LendingPoolAddressesProvider'' '''' ''address'']
     False ''view'',
   abi_method True [] ''core'' [typed ''contract LendingPoolCore'' '''' ''address''] False ''view'',
   abi_method True [] ''dataProvider'' [typed ''contract LendingPoolDataProvider'' '''' ''address''] False ''view'',
   abi_method True [] ''parametersProvider'' [typed ''contract LendingPoolParametersProvider'' '''' ''address'']
     False ''view'',
   abi_method False [typed ''contract LendingPoolAddressesProvider'' ''_addressesProvider'' ''address'']
     ''initialize'' [] False ''nonpayable'',
   abi_method False [typed ''address'' ''_reserve'' ''address'', typed ''uint256'' ''_amount'' ''uint256'', typed
     ''uint16'' ''_referralCode'' ''uint16''] ''deposit'' [] True ''payable'']"

definition aave_lending_pool_json_part5 :: "json list" where
  "aave_lending_pool_json_part5 = [
   abi_method False [typed ''address'' ''_reserve'' ''address'', typed ''address payable'' ''_user'' ''address'',
     typed ''uint256'' ''_amount'' ''uint256'', typed ''uint256'' ''_aTokenBalanceAfterRedeem'' ''uint256'']
     ''redeemUnderlying'' [] False ''nonpayable'',
   abi_method False [typed ''address'' ''_reserve'' ''address'', typed ''uint256'' ''_amount'' ''uint256'', typed
     ''uint256'' ''_interestRateMode'' ''uint256'', typed ''uint16'' ''_referralCode'' ''uint16''] ''borrow'' []
     False ''nonpayable'',
   abi_method False [typed ''address'' ''_reserve'' ''address'', typed ''uint256'' ''_amount'' ''uint256'', typed
     ''address payable'' ''_onBehalfOf'' ''address''] ''repay'' [] True ''payable'',
   abi_method False [typed ''address'' ''_reserve'' ''address''] ''swapBorrowRateMode'' [] False ''nonpayable'',
   abi_method False [typed ''address'' ''_reserve'' ''address'', typed ''address'' ''_user'' ''address'']
     ''rebalanceStableBorrowRate'' [] False ''nonpayable'',
   abi_method False [typed ''address'' ''_reserve'' ''address'', typed ''bool'' ''_useAsCollateral'' ''bool'']
     ''setUserUseReserveAsCollateral'' [] False ''nonpayable'',
   abi_method False [typed ''address'' ''_collateral'' ''address'', typed ''address'' ''_reserve'' ''address'',
     typed ''address'' ''_user'' ''address'', typed ''uint256'' ''_purchaseAmount'' ''uint256'', typed ''bool''
     ''_receiveAToken'' ''bool''] ''liquidationCall'' [] True ''payable'',
   abi_method False [typed ''address'' ''_receiver'' ''address'', typed ''address'' ''_reserve'' ''address'',
     typed ''uint256'' ''_amount'' ''uint256'', typed ''bytes'' ''_params'' ''bytes''] ''flashLoan'' [] False
     ''nonpayable'',
   abi_method True [typed ''address'' ''_reserve'' ''address''] ''getReserveConfigurationData'' [typed ''uint256''
     ''ltv'' ''uint256'', typed ''uint256'' ''liquidationThreshold'' ''uint256'', typed ''uint256''
     ''liquidationBonus'' ''uint256'', typed ''address'' ''interestRateStrategyAddress'' ''address'', typed ''bool''
     ''usageAsCollateralEnabled'' ''bool'', typed ''bool'' ''borrowingEnabled'' ''bool'', typed ''bool''
     ''stableBorrowRateEnabled'' ''bool'', typed ''bool'' ''isActive'' ''bool''] False ''view'']"

definition aave_lending_pool_json_part6 :: "json list" where
  "aave_lending_pool_json_part6 = [
   abi_method True [typed ''address'' ''_reserve'' ''address''] ''getReserveData'' [typed ''uint256''
     ''totalLiquidity'' ''uint256'', typed ''uint256'' ''availableLiquidity'' ''uint256'', typed ''uint256''
     ''totalBorrowsStable'' ''uint256'', typed ''uint256'' ''totalBorrowsVariable'' ''uint256'', typed ''uint256''
     ''liquidityRate'' ''uint256'', typed ''uint256'' ''variableBorrowRate'' ''uint256'', typed ''uint256''
     ''stableBorrowRate'' ''uint256'', typed ''uint256'' ''averageStableBorrowRate'' ''uint256'', typed ''uint256''
     ''utilizationRate'' ''uint256'', typed ''uint256'' ''liquidityIndex'' ''uint256'', typed ''uint256''
     ''variableBorrowIndex'' ''uint256'', typed ''address'' ''aTokenAddress'' ''address'', typed ''uint40''
     ''lastUpdateTimestamp'' ''uint40''] False ''view'',
   abi_method True [typed ''address'' ''_user'' ''address''] ''getUserAccountData'' [typed ''uint256''
     ''totalLiquidityETH'' ''uint256'', typed ''uint256'' ''totalCollateralETH'' ''uint256'', typed ''uint256''
     ''totalBorrowsETH'' ''uint256'', typed ''uint256'' ''totalFeesETH'' ''uint256'', typed ''uint256''
     ''availableBorrowsETH'' ''uint256'', typed ''uint256'' ''currentLiquidationThreshold'' ''uint256'', typed
     ''uint256'' ''ltv'' ''uint256'', typed ''uint256'' ''healthFactor'' ''uint256''] False ''view'',
   abi_method True [typed ''address'' ''_reserve'' ''address'', typed ''address'' ''_user'' ''address'']
     ''getUserReserveData'' [typed ''uint256'' ''currentATokenBalance'' ''uint256'', typed ''uint256''
     ''currentBorrowBalance'' ''uint256'', typed ''uint256'' ''principalBorrowBalance'' ''uint256'', typed
     ''uint256'' ''borrowRateMode'' ''uint256'', typed ''uint256'' ''borrowRate'' ''uint256'', typed ''uint256''
     ''liquidityRate'' ''uint256'', typed ''uint256'' ''originationFee'' ''uint256'', typed ''uint256''
     ''variableBorrowIndex'' ''uint256'', typed ''uint256'' ''lastUpdateTimestamp'' ''uint256'', typed ''bool''
     ''usageAsCollateralEnabled'' ''bool''] False ''view'',
   abi_method True [] ''getReserves'' [typed ''address[]'' '''' ''address[]''] False ''view'']"

definition aave_lending_pool_json :: json where
  "aave_lending_pool_json = JList (
     aave_lending_pool_json_part1 @ aave_lending_pool_json_part2 @ aave_lending_pool_json_part3 @ aave_lending_pool_json_part4 @ aave_lending_pool_json_part5 @ aave_lending_pool_json_part6)"

definition aave_lending_pool_addresses_provider_json_part1 :: "json list" where
  "aave_lending_pool_addresses_provider_json_part1 = [
   event False [indexed True ''address'' ''newAddress'' ''address''] ''EthereumAddressUpdated'',
   event False [indexed True ''address'' ''newAddress'' ''address''] ''FeeProviderUpdated'',
   event False [indexed True ''address'' ''newAddress'' ''address''] ''LendingPoolConfiguratorUpdated'',
   event False [indexed True ''address'' ''newAddress'' ''address''] ''LendingPoolCoreUpdated'',
   event False [indexed True ''address'' ''newAddress'' ''address''] ''LendingPoolDataProviderUpdated'',
   event False [indexed True ''address'' ''newAddress'' ''address''] ''LendingPoolLiquidationManagerUpdated'',
   event False [indexed True ''address'' ''newAddress'' ''address''] ''LendingPoolManagerUpdated'',
   event False [indexed True ''address'' ''newAddress'' ''address''] ''LendingPoolParametersProviderUpdated'',
   event False [indexed True ''address'' ''newAddress'' ''address''] ''LendingPoolUpdated'',
   event False [indexed True ''address'' ''newAddress'' ''address''] ''LendingRateOracleUpdated'']"

definition aave_lending_pool_addresses_provider_json_part2 :: "json list" where
  "aave_lending_pool_addresses_provider_json_part2 = [
   event False [indexed True ''address'' ''previousOwner'' ''address'', indexed True ''address'' ''newOwner''
     ''address''] ''OwnershipTransferred'',
   event False [indexed True ''address'' ''newAddress'' ''address''] ''PriceOracleUpdated'',
   event False [indexed False ''bytes32'' ''id'' ''bytes32'', indexed True ''address'' ''newAddress'' ''address'']
     ''ProxyCreated'',
   event False [indexed True ''address'' ''newAddress'' ''address''] ''TokenDistributorUpdated'',
   abi_method True [typed ''bytes32'' ''_key'' ''bytes32''] ''getAddress'' [typed ''address'' '''' ''address'']
     False ''view'',
   abi_method True [] ''isOwner'' [typed ''bool'' '''' ''bool''] False ''view'',
   abi_method True [] ''owner'' [typed ''address'' '''' ''address''] False ''view'',
   abi_method False [] ''renounceOwnership'' [] False ''nonpayable'',
   abi_method False [typed ''address'' ''newOwner'' ''address''] ''transferOwnership'' [] False ''nonpayable'',
   abi_method True [] ''getLendingPool'' [typed ''address'' '''' ''address''] False ''view'',
   abi_method False [typed ''address'' ''_pool'' ''address''] ''setLendingPoolImpl'' [] False ''nonpayable'',
   abi_method True [] ''getLendingPoolCore'' [typed ''address payable'' '''' ''address''] False ''view'',
   abi_method False [typed ''address'' ''_lendingPoolCore'' ''address''] ''setLendingPoolCoreImpl'' [] False
     ''nonpayable'']"

definition aave_lending_pool_addresses_provider_json_part3 :: "json list" where
  "aave_lending_pool_addresses_provider_json_part3 = [
   abi_method True [] ''getLendingPoolConfigurator'' [typed ''address'' '''' ''address''] False ''view'',
   abi_method False [typed ''address'' ''_configurator'' ''address''] ''setLendingPoolConfiguratorImpl'' [] False
     ''nonpayable'',
   abi_method True [] ''getLendingPoolDataProvider'' [typed ''address'' '''' ''address''] False ''view'',
   abi_method False [typed ''address'' ''_provider'' ''address''] ''setLendingPoolDataProviderImpl'' [] False
     ''nonpayable'',
   abi_method True [] ''getLendingPoolParametersProvider'' [typed ''address'' '''' ''address''] False ''view'',
   abi_method False [typed ''address'' ''_parametersProvider'' ''address'']
     ''setLendingPoolParametersProviderImpl'' [] False ''nonpayable'',
   abi_method True [] ''getFeeProvider'' [typed ''address'' '''' ''address''] False ''view'',
   abi_method False [typed ''address'' ''_feeProvider'' ''address''] ''setFeeProviderImpl'' [] False ''nonpayable'',
   abi_method True [] ''getLendingPoolLiquidationManager'' [typed ''address'' '''' ''address''] False ''view'',
   abi_method False [typed ''address'' ''_manager'' ''address''] ''setLendingPoolLiquidationManager'' [] False
     ''nonpayable'',
   abi_method True [] ''getLendingPoolManager'' [typed ''address'' '''' ''address''] False ''view'',
   abi_method False [typed ''address'' ''_lendingPoolManager'' ''address''] ''setLendingPoolManager'' [] False
     ''nonpayable'',
   abi_method True [] ''getPriceOracle'' [typed ''address'' '''' ''address''] False ''view'',
   abi_method False [typed ''address'' ''_priceOracle'' ''address''] ''setPriceOracle'' [] False ''nonpayable'']"

definition aave_lending_pool_addresses_provider_json_part4 :: "json list" where
  "aave_lending_pool_addresses_provider_json_part4 = [
   abi_method True [] ''getLendingRateOracle'' [typed ''address'' '''' ''address''] False ''view'',
   abi_method False [typed ''address'' ''_lendingRateOracle'' ''address''] ''setLendingRateOracle'' [] False
     ''nonpayable'',
   abi_method True [] ''getTokenDistributor'' [typed ''address'' '''' ''address''] False ''view'',
   abi_method False [typed ''address'' ''_tokenDistributor'' ''address''] ''setTokenDistributor'' [] False
     ''nonpayable'']"

definition aave_lending_pool_addresses_provider_json :: json where
  "aave_lending_pool_addresses_provider_json = JList (
     aave_lending_pool_addresses_provider_json_part1 @ aave_lending_pool_addresses_provider_json_part2 @ aave_lending_pool_addresses_provider_json_part3 @ aave_lending_pool_addresses_provider_json_part4)"

definition aave_lending_pool_core_json_part1 :: "json list" where
  "aave_lending_pool_core_json_part1 = [
   event False [indexed True ''address'' ''reserve'' ''address'', indexed False ''uint256'' ''liquidityRate''
     ''uint256'', indexed False ''uint256'' ''stableBorrowRate'' ''uint256'', indexed False ''uint256''
     ''variableBorrowRate'' ''uint256'', indexed False ''uint256'' ''liquidityIndex'' ''uint256'', indexed False
     ''uint256'' ''variableBorrowIndex'' ''uint256''] ''ReserveUpdated'',
   JObj [(''payable'', JBool True), (''stateMutability'', JStr ''payable''), (''type'', JStr ''fallback'')],
   abi_method True [] ''CORE_REVISION'' [typed ''uint256'' '''' ''uint256''] False ''view'',
   abi_method True [] ''addressesProvider'' [typed ''contract LendingPoolAddressesProvider'' '''' ''address'']
     False ''view'',
   abi_method True [] ''lendingPoolAddress'' [typed ''address'' '''' ''address''] False ''view'',
   abi_method True [typed ''uint256'' '''' ''uint256''] ''reservesList'' [typed ''address'' '''' ''address'']
     False ''view'',
   abi_method False [typed ''contract LendingPoolAddressesProvider'' ''_addressesProvider'' ''address'']
     ''initialize'' [] False ''nonpayable'',
   abi_method False [typed ''address'' ''_reserve'' ''address'', typed ''address'' ''_user'' ''address'', typed
     ''uint256'' ''_amount'' ''uint256'', typed ''bool'' ''_isFirstDeposit'' ''bool''] ''updateStateOnDeposit'' []
     False ''nonpayable'',
   abi_method False [typed ''address'' ''_reserve'' ''address'', typed ''address'' ''_user'' ''address'', typed
     ''uint256'' ''_amountRedeemed'' ''uint256'', typed ''bool'' ''_userRedeemedEverything'' ''bool'']
     ''updateStateOnRedeem'' [] False ''nonpayable'',
   abi_method False [typed ''address'' ''_reserve'' ''address'', typed ''uint256'' ''_availableLiquidityBefore''
     ''uint256'', typed ''uint256'' ''_income'' ''uint256'', typed ''uint256'' ''_protocolFee'' ''uint256'']
     ''updateStateOnFlashLoan'' [] False ''nonpayable'']"

definition aave_lending_pool_core_json_part2 :: "json list" where
  "aave_lending_pool_core_json_part2 = [
   abi_method False [typed ''address'' ''_reserve'' ''address'', typed ''address'' ''_user'' ''address'', typed
     ''uint256'' ''_amountBorrowed'' ''uint256'', typed ''uint256'' ''_borrowFee'' ''uint256'', typed
     ''enum CoreLibrary.InterestRateMode'' ''_rateMode'' ''uint8''] ''updateStateOnBorrow'' [typed ''uint256'' ''''
     ''uint256'', typed ''uint256'' '''' ''uint256''] False ''nonpayable'',
   abi_method False [typed ''address'' ''_reserve'' ''address'', typed ''address'' ''_user'' ''address'', typed
     ''uint256'' ''_paybackAmountMinusFees'' ''uint256'', typed ''uint256'' ''_originationFeeRepaid'' ''uint256'',
     typed ''uint256'' ''_balanceIncrease'' ''uint256'', typed ''bool'' ''_repaidWholeLoan'' ''bool'']
     ''updateStateOnRepay'' [] False ''nonpayable'',
   abi_method False [typed ''address'' ''_reserve'' ''address'', typed ''address'' ''_user'' ''address'', typed
     ''uint256'' ''_principalBorrowBalance'' ''uint256'', typed ''uint256'' ''_compoundedBorrowBalance''
     ''uint256'', typed ''uint256'' ''_balanceIncrease'' ''uint256'', typed ''enum CoreLibrary.InterestRateMode''
     ''_currentRateMode'' ''uint8''] ''updateStateOnSwapRate'' [typed ''enum CoreLibrary.InterestRateMode'' ''''
     ''uint8'', typed ''uint256'' '''' ''uint256''] False ''nonpayable'',
   abi_method False [typed ''address'' ''_principalReserve'' ''address'', typed ''address'' ''_collateralReserve''
     ''address'', typed ''address'' ''_user'' ''address'', typed ''uint256'' ''_amountToLiquidate'' ''uint256'',
     typed ''uint256'' ''_collateralToLiquidate'' ''uint256'', typed ''uint256'' ''_feeLiquidated'' ''uint256'',
     typed ''uint256'' ''_liquidatedCollateralForFee'' ''uint256'', typed ''uint256'' ''_balanceIncrease''
     ''uint256'', typed ''bool'' ''_liquidatorReceivesAToken'' ''bool''] ''updateStateOnLiquidation'' [] False
     ''nonpayable'',
   abi_method False [typed ''address'' ''_reserve'' ''address'', typed ''address'' ''_user'' ''address'', typed
     ''uint256'' ''_balanceIncrease'' ''uint256''] ''updateStateOnRebalance'' [typed ''uint256'' '''' ''uint256'']
     False ''nonpayable'',
   abi_method False [typed ''address'' ''_reserve'' ''address'', typed ''address'' ''_user'' ''address'', typed
     ''bool'' ''_useAsCollateral'' ''bool''] ''setUserUseReserveAsCollateral'' [] False ''nonpayable'']"

definition aave_lending_pool_core_json_part3 :: "json list" where
  "aave_lending_pool_core_json_part3 = [
   abi_method False [typed ''address'' ''_reserve'' ''address'', typed ''address payable'' ''_user'' ''address'',
     typed ''uint256'' ''_amount'' ''uint256''] ''transferToUser'' [] False ''nonpayable'',
   abi_method False [typed ''address'' ''_token'' ''address'', typed ''address'' ''_user'' ''address'', typed
     ''uint256'' ''_amount'' ''uint256'', typed ''address'' ''_destination'' ''address'']
     ''transferToFeeCollectionAddress'' [] True ''payable'',
   abi_method False [typed ''address'' ''_token'' ''address'', typed ''uint256'' ''_amount'' ''uint256'', typed
     ''address'' ''_destination'' ''address''] ''liquidateFee'' [] True ''payable'',
   abi_method False [typed ''address'' ''_reserve'' ''address'', typed ''address payable'' ''_user'' ''address'',
     typed ''uint256'' ''_amount'' ''uint256''] ''transferToReserve'' [] True ''payable'',
   abi_method True [typed ''address'' ''_reserve'' ''address'', typed ''address'' ''_user'' ''address'']
     ''getUserBasicReserveData'' [typed ''uint256'' '''' ''uint256'', typed ''uint256'' '''' ''uint256'', typed
     ''uint256'' '''' ''uint256'', typed ''bool'' '''' ''bool''] False ''view'',
   abi_method True [typed ''address'' ''_reserve'' ''address'', typed ''address'' ''_user'' ''address'', typed
     ''uint256'' ''_amount'' ''uint256''] ''isUserAllowedToBorrowAtStable'' [typed ''bool'' '''' ''bool''] False
     ''view'',
   abi_method True [typed ''address'' ''_reserve'' ''address'', typed ''address'' ''_user'' ''address'']
     ''getUserUnderlyingAssetBalance'' [typed ''uint256'' '''' ''uint256''] False ''view'',
   abi_method True [typed ''address'' ''_reserve'' ''address''] ''getReserveInterestRateStrategyAddress'' [typed
     ''address'' '''' ''address''] False ''view'',
   abi_method True [typed ''address'' ''_reserve'' ''address''] ''getReserveATokenAddress'' [typed ''address''
     '''' ''address''] False ''view'',
   abi_method True [typed ''address'' ''_reserve'' ''address''] ''getReserveAvailableLiquidity'' [typed
     ''uint256'' '''' ''uint256''] False ''view'',
   abi_method True [typed ''address'' ''_reserve'' ''address''] ''getReserveTotalLiquidity'' [typed ''uint256''
     '''' ''uint256''] False ''view'',
   abi_method True [typed ''address'' ''_reserve'' ''address''] ''getReserveNormalizedIncome'' [typed ''uint256''
     '''' ''uint256''] False ''view'']"

definition aave_lending_pool_core_json_part4 :: "json list" where
  "aave_lending_pool_core_json_part4 = [
   abi_method True [typed ''address'' ''_reserve'' ''address''] ''getReserveTotalBorrows'' [typed ''uint256'' ''''
     ''uint256''] False ''view'',
   abi_method True [typed ''address'' ''_reserve'' ''address''] ''getReserveTotalBorrowsStable'' [typed
     ''uint256'' '''' ''uint256''] False ''view'',
   abi_method True [typed ''address'' ''_reserve'' ''address''] ''getReserveTotalBorrowsVariable'' [typed
     ''uint256'' '''' ''uint256''] False ''view'',
   abi_method True [typed ''address'' ''_reserve'' ''address''] ''getReserveLiquidationThreshold'' [typed
     ''uint256'' '''' ''uint256''] False ''view'',
   abi_method True [typed ''address'' ''_reserve'' ''address''] ''getReserveLiquidationBonus'' [typed ''uint256''
     '''' ''uint256''] False ''view'',
   abi_method True [typed ''address'' ''_reserve'' ''address''] ''getReserveCurrentVariableBorrowRate'' [typed
     ''uint256'' '''' ''uint256''] False ''view'',
   abi_method True [typed ''address'' ''_reserve'' ''address''] ''getReserveCurrentStableBorrowRate'' [typed
     ''uint256'' '''' ''uint256''] False ''view'',
   abi_method True [typed ''address'' ''_reserve'' ''address''] ''getReserveCurrentAverageStableBorrowRate''
     [typed ''uint256'' '''' ''uint256''] False ''view'',
   abi_method True [typed ''address'' ''_reserve'' ''address''] ''getReserveCurrentLiquidityRate'' [typed
     ''uint256'' '''' ''uint256''] False ''view'',
   abi_method True [typed ''address'' ''_reserve'' ''address''] ''getReserveLiquidityCumulativeIndex'' [typed
     ''uint256'' '''' ''uint256''] False ''view'',
   abi_method True [typed ''address'' ''_reserve'' ''address''] ''getReserveVariableBorrowsCumulativeIndex''
     [typed ''uint256'' '''' ''uint256''] False ''view'',
   abi_method True [typed ''address'' ''_reserve'' ''address''] ''getReserveConfiguration'' [typed ''uint256''
     '''' ''uint256'', typed ''uint256'' '''' ''uint256'', typed ''uint256'' '''' ''uint256'', typed ''bool'' ''''
     ''bool''] False ''view'',
   abi_method True [typed ''address'' ''_reserve'' ''address''] ''getReserveDecimals'' [typed ''uint256'' ''''
     ''uint256''] False ''view'',
   abi_method True [typed ''address'' ''_reserve'' ''address''] ''isReserveBorrowingEnabled'' [typed ''bool'' ''''
     ''bool''] False ''view'',
   abi_method True [typed ''address'' ''_reserve'' ''address''] ''isReserveUsageAsCollateralEnabled'' [typed
     ''bool'' '''' ''bool''] False ''view'']"

definition aave_lending_pool_core_json_part5 :: "json list" where
  "aave_lending_pool_core_json_part5 = [
   abi_method True [typed ''address'' ''_reserve'' ''address''] ''getReserveIsStableBorrowRateEnabled'' [typed
     ''bool'' '''' ''bool''] False ''view'',
   abi_method True [typed ''address'' ''_reserve'' ''address''] ''getReserveIsActive'' [typed ''bool'' ''''
     ''bool''] False ''view'',
   abi_method True [typed ''address'' ''_reserve'' ''address''] ''getReserveIsFreezed'' [typed ''bool'' ''''
     ''bool''] False ''view'',
   abi_method True [typed ''address'' ''_reserve'' ''address''] ''getReserveLastUpdate'' [typed ''uint40''
     ''timestamp'' ''uint40''] False ''view'',
   abi_method True [typed ''address'' ''_reserve'' ''address''] ''getReserveUtilizationRate'' [typed ''uint256''
     '''' ''uint256''] False ''view'',
   abi_method True [] ''getReserves'' [typed ''address[]'' '''' ''address[]''] False ''view'',
   abi_method True [typed ''address'' ''_reserve'' ''address'', typed ''address'' ''_user'' ''address'']
     ''isUserUseReserveAsCollateralEnabled'' [typed ''bool'' '''' ''bool''] False ''view'',
   abi_method True [typed ''address'' ''_reserve'' ''address'', typed ''address'' ''_user'' ''address'']
     ''getUserOriginationFee'' [typed ''uint256'' '''' ''uint256''] False ''view'',
   abi_method True [typed ''address'' ''_reserve'' ''address'', typed ''address'' ''_user'' ''address'']
     ''getUserCurrentBorrowRateMode'' [typed ''enum CoreLibrary.InterestRateMode'' '''' ''uint8''] False ''view'',
   abi_method True [typed ''address'' ''_reserve'' ''address'', typed ''address'' ''_user'' ''address'']
     ''getUserCurrentStableBorrowRate'' [typed ''uint256'' '''' ''uint256''] False ''view'',
   abi_method True [typed ''address'' ''_reserve'' ''address'', typed ''address'' ''_user'' ''address'']
     ''getUserBorrowBalances'' [typed ''uint256'' '''' ''uint256'', typed ''uint256'' '''' ''uint256'', typed
     ''uint256'' '''' ''uint256''] False ''view'',
   abi_method True [typed ''address'' ''_reserve'' ''address'', typed ''address'' ''_user'' ''address'']
     ''getUserVariableBorrowCumulativeIndex'' [typed ''uint256'' '''' ''uint256''] False ''view'']"

definition aave_lending_pool_core_json_part6 :: "json list" where
  "aave_lending_pool_core_json_part6 = [
   abi_method True [typed ''address'' ''_reserve'' ''address'', typed ''address'' ''_user'' ''address'']
     ''getUserLastUpdate'' [typed ''uint256'' ''timestamp'' ''uint256''] False ''view'',
   abi_method False [] ''refreshConfiguration'' [] False ''nonpayable'',
   abi_method False [typed ''address'' ''_reserve'' ''address'', typed ''address'' ''_aTokenAddress'' ''address'',
     typed ''uint256'' ''_decimals'' ''uint256'', typed ''address'' ''_interestRateStrategyAddress'' ''address'']
     ''initReserve'' [] False ''nonpayable'',
   abi_method False [typed ''address'' ''_reserve'' ''address'', typed ''address'' ''_rateStrategyAddress''
     ''address''] ''setReserveInterestRateStrategyAddress'' [] False ''nonpayable'',
   abi_method False [typed ''address'' ''_reserve'' ''address'', typed ''bool'' ''_stableBorrowRateEnabled''
     ''bool''] ''enableBorrowingOnReserve'' [] False ''nonpayable'',
   abi_method False [typed ''address'' ''_reserve'' ''address''] ''disableBorrowingOnReserve'' [] False
     ''nonpayable'',
   abi_method False [typed ''address'' ''_reserve'' ''address'', typed ''uint256'' ''_baseLTVasCollateral''
     ''uint256'', typed ''uint256'' ''_liquidationThreshold'' ''uint256'', typed ''uint256'' ''_liquidationBonus''
     ''uint256''] ''enableReserveAsCollateral'' [] False ''nonpayable'',
   abi_method False [typed ''address'' ''_reserve'' ''address''] ''disableReserveAsCollateral'' [] False
     ''nonpayable'',
   abi_method False [typed ''address'' ''_reserve'' ''address''] ''enableReserveStableBorrowRate'' [] False
     ''nonpayable'',
   abi_method False [typed ''address'' ''_reserve'' ''address''] ''disableReserveStableBorrowRate'' [] False
     ''nonpayable'',
   abi_method False [typed ''address'' ''_reserve'' ''address''] ''activateReserve'' [] False ''nonpayable'']"

definition aave_lending_pool_core_json_part7 :: "json list" where
  "aave_lending_pool_core_json_part7 = [
   abi_method False [typed ''address'' ''_reserve'' ''address''] ''deactivateReserve'' [] False ''nonpayable'',
   abi_method False [typed ''address'' ''_reserve'' ''address''] ''freezeReserve'' [] False ''nonpayable'',
   abi_method False [typed ''address'' ''_reserve'' ''address''] ''unfreezeReserve'' [] False ''nonpayable'',
   abi_method False [typed ''address'' ''_reserve'' ''address'', typed ''uint256'' ''_ltv'' ''uint256'']
     ''setReserveBaseLTVasCollateral'' [] False ''nonpayable'',
   abi_method False [typed ''address'' ''_reserve'' ''address'', typed ''uint256'' ''_threshold'' ''uint256'']
     ''setReserveLiquidationThreshold'' [] False ''nonpayable'',
   abi_method False [typed ''address'' ''_reserve'' ''address'', typed ''uint256'' ''_bonus'' ''uint256'']
     ''setReserveLiquidationBonus'' [] False ''nonpayable'',
   abi_method False [typed ''address'' ''_reserve'' ''address'', typed ''uint256'' ''_decimals'' ''uint256'']
     ''setReserveDecimals'' [] False ''nonpayable'']"

definition aave_lending_pool_core_json :: json where
  "aave_lending_pool_core_json = JList (
     aave_lending_pool_core_json_part1 @ aave_lending_pool_core_json_part2 @ aave_lending_pool_core_json_part3 @ aave_lending_pool_core_json_part4 @ aave_lending_pool_core_json_part5 @ aave_lending_pool_core_json_part6 @ aave_lending_pool_core_json_part7)"

definition abi_tables_aave :: "json list" where
  "abi_tables_aave =
    [aave_a_token_json,
     aave_lending_pool_json,
     aave_lending_pool_addresses_provider_json,
     aave_lending_pool_core_json]"

lemma aave_a_token_json_ok: "abi_table_ok aave_a_token_json"
  by (simp add: abi_rules 
      aave_a_token_json_def aave_a_token_json_part1_def aave_a_token_json_part2_def aave_a_token_json_part3_def aave_a_token_json_part4_def)

lemma aave_lending_pool_json_ok: "abi_table_ok aave_lending_pool_json"
  by (simp add: abi_rules 
      aave_lending_pool_json_def aave_lending_pool_json_part1_def aave_lending_pool_json_part2_def aave_lending_pool_json_part3_def aave_lending_pool_json_part4_def aave_lending_pool_json_part5_def aave_lending_pool_json_part6_def)

lemma aave_lending_pool_addresses_provider_json_ok: "abi_table_ok aave_lending_pool_addresses_provider_json"
  by (simp add: abi_rules 
      aave_lending_pool_addresses_provider_json_def aave_lending_pool_addresses_provider_json_part1_def aave_lending_pool_addresses_provider_json_part2_def aave_lending_pool_addresses_provider_json_part3_def aave_lending_pool_addresses_provider_json_part4_def)

lemma aave_lending_pool_core_json_ok: "abi_table_ok aave_lending_pool_core_json"
  by (simp add: abi_rules 
      aave_lending_pool_core_json_def aave_lending_pool_core_json_part1_def aave_lending_pool_core_json_part2_def aave_lending_pool_core_json_part3_def aave_lending_pool_core_json_part4_def aave_lending_pool_core_json_part5_def aave_lending_pool_core_json_part6_def aave_lending_pool_core_json_part7_def)

lemma abi_tables_aave_ok: "list_all abi_table_ok abi_tables_aave"
  by (simp add: abi_tables_aave_def aave_a_token_json_ok
      aave_lending_pool_json_ok
      aave_lending_pool_addresses_provider_json_ok
      aave_lending_pool_core_json_ok)

end
