(* ===== verification/Abi_Tables_Compound.thy ===== *)
theory Abi_Tables_Compound
  imports Abi_Shape
begin

text \<open>
  ABI tables that come with the service: \<open>app/datasources/abis\<close>, the modules
  \<open>compound\<close>.
  A table is the JSON value of the Python literal, or of the text that \<open>json.loads\<close> reads;
  a long one is written in parts of consecutive entries. Every table here is well formed.
\<close>

definition ctoken_abi_json_part1 :: "json list" where
  "ctoken_abi_json_part1 = [
   JObj [(''inputs'', JList [typed ''address'' ''underlying_'' ''address'', typed
     ''contract ComptrollerInterface'' ''comptroller_'' ''address'', typed ''contract InterestRateModel''
     ''interestRateModel_'' ''address'', typed ''uint256'' ''initialExchangeRateMantissa_'' ''uint256'', typed
     ''string'' ''name_'' ''string'', typed ''string'' ''symbol_'' ''string'', typed ''uint8'' ''decimals_''
     ''uint8'', typed ''address payable'' ''admin_'' ''address'', typed ''address'' ''implementation_'' ''address'',
     typed ''bytes'' ''becomeImplementationData'' ''bytes'']), (''payable'', JBool False), (''stateMutability'',
     JStr ''nonpayable''), (''type'', JStr ''constructor''), (''signature'', JStr ''constructor'')],
   signed_event False [indexed False ''uint256'' ''cashPrior'' ''uint256'', indexed False ''uint256''
     ''interestAccumulated'' ''uint256'', indexed False ''uint256'' ''borrowIndex'' ''uint256'', indexed False
     ''uint256'' ''totalBorrows'' ''uint256''] ''AccrueInterest''
     ''0x4dec04e750ca11537cabcd8a9eab06494de08da3735bc8871cd41250e190bc04'',
   signed_event False [indexed True ''address'' ''owner'' ''address'', indexed True ''address'' ''spender''
     ''address'', indexed False ''uint256'' ''amount'' ''uint256''] ''Approval''
     ''0x8c5be1e5ebec7d5bd14f71427d1e84f3dd0314c0f7b2291e5b200ac8c7c3b925'',
   signed_event False [indexed False ''address'' ''borrower'' ''address'', indexed False ''uint256''
     ''borrowAmount'' ''uint256'', indexed False ''uint256'' ''accountBorrows'' ''uint256'', indexed False
     ''uint256'' ''totalBorrows'' ''uint256''] ''Borrow''
     ''0x13ed6866d4e1ee6da46f845c46d7e54120883d75c5ea9a2dacc1c4ca8984ab80'']"

definition ctoken_abi_json_part2 :: "json list" where
  "ctoken_abi_json_part2 = [
   signed_event False [indexed False ''uint256'' ''error'' ''uint256'', indexed False ''uint256'' ''info''
     ''uint256'', indexed False ''uint256'' ''detail'' ''uint256''] ''Failure''
     ''0x45b96fe442630264581b197e84bbada861235052c5a1aadfff9ea4e40a969aa0'',
   signed_event False [indexed False ''address'' ''liquidator'' ''address'', indexed False ''address''
     ''borrower'' ''address'', indexed False ''uint256'' ''repayAmount'' ''uint256'', indexed False ''address''
     ''cTokenCollateral'' ''address'', indexed False ''uint256'' ''seizeTokens'' ''uint256''] ''LiquidateBorrow''
     ''0x298637f684da70674f26509b10f07ec2fbc77a335ab1e7d6215a4b2484d8bb52'',
   signed_event False [indexed False ''address'' ''minter'' ''address'', indexed False ''uint256'' ''mintAmount''
     ''uint256'', indexed False ''uint256'' ''mintTokens'' ''uint256''] ''Mint''
     ''0x4c209b5fc8ad50758f13e2e1088ba56a560dff690a1c6fef26394f4c03821c4f'',
   signed_event False [indexed False ''address'' ''oldAdmin'' ''address'', indexed False ''address'' ''newAdmin''
     ''address''] ''NewAdmin'' ''0xf9ffabca9c8276e99321725bcb43fb076a6c66a54b7f21c4e8146d8519b417dc'',
   signed_event False [indexed False ''contract ComptrollerInterface'' ''oldComptroller'' ''address'', indexed
     False ''contract ComptrollerInterface'' ''newComptroller'' ''address''] ''NewComptroller''
     ''0x7ac369dbd14fa5ea3f473ed67cc9d598964a77501540ba6751eb0b3decf5870d'']"

definition ctoken_abi_json_part3 :: "json list" where
  "ctoken_abi_json_part3 = [
   signed_event False [indexed False ''address'' ''oldImplementation'' ''address'', indexed False ''address''
     ''newImplementation'' ''address''] ''NewImplementation''
     ''0xd604de94d45953f9138079ec1b82d533cb2160c906d1076d1f7ed54befbca97a'',
   signed_event False [indexed False ''contract InterestRateModel'' ''oldInterestRateModel'' ''address'', indexed
     False ''contract InterestRateModel'' ''newInterestRateModel'' ''address''] ''NewMarketInterestRateModel''
     ''0xedffc32e068c7c95dfd4bdfd5c4d939a084d6b11c4199eac8436ed234d72f926'',
   signed_event False [indexed False ''address'' ''oldPendingAdmin'' ''address'', indexed False ''address''
     ''newPendingAdmin'' ''address''] ''NewPendingAdmin''
     ''0xca4f2f25d0898edd99413412fb94012f9e54ec8142f9b093e7720646a95b16a9'',
   signed_event False [indexed False ''uint256'' ''oldReserveFactorMantissa'' ''uint256'', indexed False
     ''uint256'' ''newReserveFactorMantissa'' ''uint256''] ''NewReserveFactor''
     ''0xaaa68312e2ea9d50e16af5068410ab56e1a1fd06037b1a35664812c30f821460'',
   signed_event False [indexed False ''address'' ''redeemer'' ''address'', indexed False ''uint256''
     ''redeemAmount'' ''uint256'', indexed False ''uint256'' ''redeemTokens'' ''uint256''] ''Redeem''
     ''0xe5b754fb1abb7f01b499791d0b820ae3b6af3424ac1c59768edb53f4ec31a929'',
   signed_event False [indexed False ''address'' ''payer'' ''address'', indexed False ''address'' ''borrower''
     ''address'', indexed False ''uint256'' ''repayAmount'' ''uint256'', indexed False ''uint256''
     ''accountBorrows'' ''uint256'', indexed False ''uint256'' ''totalBorrows'' ''uint256''] ''RepayBorrow''
     ''0x1a2a22cb034d26d1854bdc6666a5b91fe25efbbb5dcad3b0355478d6f5c362a1'']"

definition ctoken_abi_json_part4 :: "json list" where
  "ctoken_abi_json_part4 = [
   signed_event False [indexed False ''address'' ''benefactor'' ''address'', indexed False ''uint256''
     ''addAmount'' ''uint256'', indexed False ''uint256'' ''newTotalReserves'' ''uint256''] ''ReservesAdded''
     ''0xa91e67c5ea634cd43a12c5a482724b03de01e85ca68702a53d0c2f45cb7c1dc5'',
   signed_event False [indexed False ''address'' ''admin'' ''address'', indexed False ''uint256'' ''reduceAmount''
     ''uint256'', indexed False ''uint256'' ''newTotalReserves'' ''uint256''] ''ReservesReduced''
     ''0x3bad0c59cf2f06e7314077049f48a93578cd16f5ef92329f1dab1420a99c177e'',
   signed_event False [indexed True ''address'' ''from'' ''address'', indexed True ''address'' ''to'' ''address'',
     indexed False ''uint256'' ''amount'' ''uint256''] ''Transfer''
     ''0xddf252ad1be2c89b69c2b068fc378daa952ba7f163c4a11628f55a4df523b3ef'',
   JObj [(''payable'', JBool True), (''stateMutability'', JStr ''payable''), (''type'', JStr ''fallback'')],
   signed_method False [] ''_acceptAdmin'' [typed ''uint256'' '''' ''uint256''] False ''nonpayable'' ''0xe9c714f2'',
   signed_method False [typed ''uint256'' ''addAmount'' ''uint256''] ''_addReserves'' [typed ''uint256'' ''''
     ''uint256''] False ''nonpayable'' ''0x3e941010'',
   signed_method False [typed ''uint256'' ''reduceAmount'' ''uint256''] ''_reduceReserves'' [typed ''uint256''
     '''' ''uint256''] False ''nonpayable'' ''0x601a0bf1'',
   signed_method False [typed ''contract ComptrollerInterface'' ''newComptroller'' ''address'']
     ''_setComptroller'' [typed ''uint256'' '''' ''uint256''] False ''nonpayable'' ''0x4576b5db'',
   signed_method False [typed ''address'' ''implementation_'' ''address'', typed ''bool'' ''allowResign''
     ''bool'', typed ''bytes'' ''becomeImplementationData'' ''bytes''] ''_setImplementation'' [] False
     ''nonpayable'' ''0x555bcc40'']"

definition ctoken_abi_json_part5 :: "json list" where
  "ctoken_abi_json_part5 = [
   signed_method False [typed ''contract InterestRateModel'' ''newInterestRateModel'' ''address'']
     ''_setInterestRateModel'' [typed ''uint256'' '''' ''uint256''] False ''nonpayable'' ''0xf2b3abbd'',
   signed_method False [typed ''address payable'' ''newPendingAdmin'' ''address''] ''_setPendingAdmin'' [typed
     ''uint256'' '''' ''uint256''] False ''nonpayable'' ''0xb71d1a0c'',
   signed_method False [typed ''uint256'' ''newReserveFactorMantissa'' ''uint256''] ''_setReserveFactor'' [typed
     ''uint256'' '''' ''uint256''] False ''nonpayable'' ''0xfca7820b'',
   signed_method True [] ''accrualBlockNumber'' [typed ''uint256'' '''' ''uint256''] False ''view'' ''0x6c540baf'',
   signed_method False [] ''accrueInterest'' [typed ''uint256'' '''' ''uint256''] False ''nonpayable''
     ''0xa6afed95'',
   signed_method True [] ''admin'' [typed ''address payable'' '''' ''address''] False ''view'' ''0xf851a440'',
   signed_method True [typed ''address'' ''owner'' ''address'', typed ''address'' ''spender'' ''address'']
     ''allowance'' [typed ''uint256'' '''' ''uint256''] False ''view'' ''0xdd62ed3e'',
   signed_method False [typed ''address'' ''spender'' ''address'', typed ''uint256'' ''amount'' ''uint256'']
     ''approve'' [typed ''bool'' '''' ''bool''] False ''nonpayable'' ''0x095ea7b3'',
   signed_method True [typed ''address'' ''owner'' ''address''] ''balanceOf'' [typed ''uint256'' '''' ''uint256'']
     False ''view'' ''0x70a08231'',
   signed_method False [typed ''address'' ''owner'' ''address''] ''balanceOfUnderlying'' [typed ''uint256'' ''''
     ''uint256''] False ''nonpayable'' ''0x3af9e669'',
   signed_method False [typed ''uint256'' ''borrowAmount'' ''uint256''] ''borrow'' [typed ''uint256'' ''''
     ''uint256''] False ''nonpayable'' ''0xc5ebeaec'',
   signed_method False [typed ''address'' ''account'' ''address''] ''borrowBalanceCurrent'' [typed ''uint256''
     '''' ''uint256''] False ''nonpayable'' ''0x17bfdfbc'']"

definition ctoken_abi_json_part6 :: "json list" where
  "ctoken_abi_json_part6 = [
   signed_method True [typed ''address'' ''account'' ''address''] ''borrowBalanceStored'' [typed ''uint256'' ''''
     ''uint256''] False ''view'' ''0x95dd9193'',
   signed_method True [] ''borrowIndex'' [typed ''uint256'' '''' ''uint256''] False ''view'' ''0xaa5af0fd'',
   signed_method True [] ''borrowRatePerBlock'' [typed ''uint256'' '''' ''uint256''] False ''view'' ''0xf8f9da28'',
   signed_method True [] ''comptroller'' [typed ''contract ComptrollerInterface'' '''' ''address''] False ''view''
     ''0x5fe3b567'',
   signed_method True [] ''decimals'' [typed ''uint8'' '''' ''uint8''] False ''view'' ''0x313ce567'',
   signed_method False [typed ''bytes'' ''data'' ''bytes''] ''delegateToImplementation'' [typed ''bytes'' ''''
     ''bytes''] False ''nonpayable'' ''0x0933c1ed'',
   signed_method True [typed ''bytes'' ''data'' ''bytes''] ''delegateToViewImplementation'' [typed ''bytes'' ''''
     ''bytes''] False ''view'' ''0x4487152f'',
   signed_method False [] ''exchangeRateCurrent'' [typed ''uint256'' '''' ''uint256''] False ''nonpayable''
     ''0xbd6d894d'',
   signed_method True [] ''exchangeRateStored'' [typed ''uint256'' '''' ''uint256''] False ''view'' ''0x182df0f5'',
   signed_method True [typed ''address'' ''account'' ''address''] ''getAccountSnapshot'' [typed ''uint256'' ''''
     ''uint256'', typed ''uint256'' '''' ''uint256'', typed ''uint256'' '''' ''uint256'', typed ''uint256'' ''''
     ''uint256''] False ''view'' ''0xc37f68e2'',
   signed_method True [] ''getCash'' [typed ''uint256'' '''' ''uint256''] False ''view'' ''0x3b1d21a2'',
   signed_method True [] ''implementation'' [typed ''address'' '''' ''address''] False ''view'' ''0x5c60da1b'',
   signed_method True [] ''interestRateModel'' [typed ''contract InterestRateModel'' '''' ''address''] False
     ''view'' ''0xf3fdb15a'']"

definition ctoken_abi_json_part7 :: "json list" where
  "ctoken_abi_json_part7 = [
   signed_method True [] ''isCToken'' [typed ''bool'' '''' ''bool''] False ''view'' ''0xfe9c44ae'',
   signed_method False [typed ''address'' ''borrower'' ''address'', typed ''uint256'' ''repayAmount'' ''uint256'',
     typed ''contract CTokenInterface'' ''cTokenCollateral'' ''address''] ''liquidateBorrow'' [typed ''uint256''
     '''' ''uint256''] False ''nonpayable'' ''0xf5e3c462'',
   signed_method False [typed ''uint256'' ''mintAmount'' ''uint256''] ''mint'' [typed ''uint256'' ''''
     ''uint256''] False ''nonpayable'' ''0xa0712d68'',
   signed_method True [] ''name'' [typed ''string'' '''' ''string''] False ''view'' ''0x06fdde03'',
   signed_method True [] ''pendingAdmin'' [typed ''address payable'' '''' ''address''] False ''view''
     ''0x26782247'',
   signed_method False [typed ''uint256'' ''redeemTokens'' ''uint256''] ''redeem'' [typed ''uint256'' ''''
     ''uint256''] False ''nonpayable'' ''0xdb006a75'',
   signed_method False [typed ''uint256'' ''redeemAmount'' ''uint256''] ''redeemUnderlying'' [typed ''uint256''
     '''' ''uint256''] False ''nonpayable'' ''0x852a12e3'',
   signed_method False [typed ''uint256'' ''repayAmount'' ''uint256''] ''repayBorrow'' [typed ''uint256'' ''''
     ''uint256''] False ''nonpayable'' ''0x0e752702'',
   signed_method False [typed ''address'' ''borrower'' ''address'', typed ''uint256'' ''repayAmount'' ''uint256'']
     ''repayBorrowBehalf'' [typed ''uint256'' '''' ''uint256''] False ''nonpayable'' ''0x2608f818'',
   signed_method True [] ''reserveFactorMantissa'' [typed ''uint256'' '''' ''uint256''] False ''view''
     ''0x173b9904'',
   signed_method False [typed ''address'' ''liquidator'' ''address'', typed ''address'' ''borrower'' ''address'',
     typed ''uint256'' ''seizeTokens'' ''uint256''] ''seize'' [typed ''uint256'' '''' ''uint256''] False
     ''nonpayable'' ''0xb2a02ff1'',
   signed_method True [] ''supplyRatePerBlock'' [typed ''uint256'' '''' ''uint256''] False ''view'' ''0xae9d70b0'']"

definition ctoken_abi_json_part8 :: "json list" where
  "ctoken_abi_json_part8 = [
   signed_method True [] ''symbol'' [typed ''string'' '''' ''string''] False ''view'' ''0x95d89b41'',
   signed_method True [] ''totalBorrows'' [typed ''uint256'' '''' ''uint256''] False ''view'' ''0x47bd3718'',
   signed_method False [] ''totalBorrowsCurrent'' [typed ''uint256'' '''' ''uint256''] False ''nonpayable''
     ''0x73acee98'',
   signed_method True [] ''totalReserves'' [typed ''uint256'' '''' ''uint256''] False ''view'' ''0x8f840ddd'',
   signed_method True [] ''totalSupply'' [typed ''uint256'' '''' ''uint256''] False ''view'' ''0x18160ddd'',
   signed_method False [typed ''address'' ''dst'' ''address'', typed ''uint256'' ''amount'' ''uint256'']
     ''transfer'' [typed ''bool'' '''' ''bool''] False ''nonpayable'' ''0xa9059cbb'',
   signed_method False [typed ''address'' ''src'' ''address'', typed ''address'' ''dst'' ''address'', typed
     ''uint256'' ''amount'' ''uint256''] ''transferFrom'' [typed ''bool'' '''' ''bool''] False ''nonpayable''
     ''0x23b872dd'',
   signed_method True [] ''underlying'' [typed ''address'' '''' ''address''] False ''view'' ''0x6f307dc3'']"

definition ctoken_abi_json :: json where
  "ctoken_abi_json = JList (
     ctoken_abi_json_part1 @ ctoken_abi_json_part2 @ ctoken_abi_json_part3 @ ctoken_abi_json_part4 @ ctoken_abi_json_part5 @ ctoken_abi_json_part6 @ ctoken_abi_json_part7 @ ctoken_abi_json_part8)"

definition comptroller_abi_json_part1 :: "json list" where
  "comptroller_abi_json_part1 = [
   signed_method True [] ''pendingAdmin'' [typed ''address'' '''' ''address''] False ''view'' ''0x26782247'',
   signed_method False [plain ''newPendingAdmin'' ''address''] ''_setPendingAdmin'' [plain '''' ''uint256''] False
     ''nonpayable'' ''0xb71d1a0c'',
   signed_method True [] ''comptrollerImplementation'' [typed ''address'' '''' ''address''] False ''view''
     ''0xbb82aa5e'',
   signed_method False [] ''_acceptImplementation'' [plain '''' ''uint256''] False ''nonpayable'' ''0xc1e80334'',
   signed_method True [] ''pendingComptrollerImplementation'' [typed ''address'' '''' ''address''] False ''view''
     ''0xdcfbc0c7'',
   signed_method False [plain ''newPendingImplementation'' ''address''] ''_setPendingImplementation'' [plain ''''
     ''uint256''] False ''nonpayable'' ''0xe992a041'',
   signed_method False [] ''_acceptAdmin'' [plain '''' ''uint256''] False ''nonpayable'' ''0xe9c714f2'',
   signed_method True [] ''admin'' [typed ''address'' '''' ''address''] False ''view'' ''0xf851a440'',
   JObj [(''inputs'', JList []), (''payable'', JBool False), (''stateMutability'', JStr ''nonpayable''),
     (''type'', JStr ''constructor''), (''signature'', JStr ''constructor'')],
   JObj [(''payable'', JBool True), (''stateMutability'', JStr ''payable''), (''type'', JStr ''fallback'')],
   signed_event False [indexed_plain False ''oldPendingImplementation'' ''address'', indexed_plain False
     ''newPendingImplementation'' ''address''] ''NewPendingImplementation''
     ''0xe945ccee5d701fc83f9b8aa8ca94ea4219ec1fcbd4f4cab4f0ea57c5c3e1d815'',
   signed_event False [indexed_plain False ''oldImplementation'' ''address'', indexed_plain False
     ''newImplementation'' ''address''] ''NewImplementation''
     ''0xd604de94d45953f9138079ec1b82d533cb2160c906d1076d1f7ed54befbca97a'',
   signed_event False [indexed_plain False ''oldPendingAdmin'' ''address'', indexed_plain False
     ''newPendingAdmin'' ''address''] ''NewPendingAdmin''
     ''0xca4f2f25d0898edd99413412fb94012f9e54ec8142f9b093e7720646a95b16a9'',
   signed_event False [indexed_plain False ''oldAdmin'' ''address'', indexed_plain False ''newAdmin'' ''address'']
     ''NewAdmin'' ''0xf9ffabca9c8276e99321725bcb43fb076a6c66a54b7f21c4e8146d8519b417dc'']"

definition comptroller_abi_json_part2 :: "json list" where
  "comptroller_abi_json_part2 = [
   signed_event False [indexed False ''uint256'' ''error'' ''uint256'', indexed False ''uint256'' ''info''
     ''uint256'', indexed False ''uint256'' ''detail'' ''uint256''] ''Failure''
     ''0x45b96fe442630264581b197e84bbada861235052c5a1aadfff9ea4e40a969aa0'',
   signed_method True [] ''isComptroller'' [typed ''bool'' '''' ''bool''] False ''view'' ''0x007e3dd2'',
   signed_method False [typed ''address'' ''cToken'' ''address'', typed ''address'' ''payer'' ''address'', typed
     ''address'' ''borrower'' ''address'', typed ''uint256'' ''actualRepayAmount'' ''uint256'', typed ''uint256''
     ''borrowerIndex'' ''uint256''] ''repayBorrowVerify'' [] False ''nonpayable'' ''0x1ededc91'',
   signed_method False [typed ''address'' ''cToken'' ''address'', typed ''address'' ''payer'' ''address'', typed
     ''address'' ''borrower'' ''address'', typed ''uint256'' ''repayAmount'' ''uint256''] ''repayBorrowAllowed''
     [typed ''uint256'' '''' ''uint256''] False ''nonpayable'' ''0x24008a62'',
   signed_method False [typed ''uint256'' ''newCloseFactorMantissa'' ''uint256''] ''_setCloseFactor'' [typed
     ''uint256'' '''' ''uint256''] False ''nonpayable'' ''0x317b0b77'',
   signed_method False [typed ''address'' ''cToken'' ''address'', typed ''address'' ''minter'' ''address'', typed
     ''uint256'' ''actualMintAmount'' ''uint256'', typed ''uint256'' ''mintTokens'' ''uint256''] ''mintVerify'' []
     False ''nonpayable'' ''0x41c728b9'',
   signed_method False [typed ''address'' ''cTokenBorrowed'' ''address'', typed ''address'' ''cTokenCollateral''
     ''address'', typed ''address'' ''liquidator'' ''address'', typed ''address'' ''borrower'' ''address'', typed
     ''uint256'' ''actualRepayAmount'' ''uint256'', typed ''uint256'' ''seizeTokens'' ''uint256'']
     ''liquidateBorrowVerify'' [] False ''nonpayable'' ''0x47ef3b3b'',
   signed_method True [] ''liquidationIncentiveMantissa'' [typed ''uint256'' '''' ''uint256''] False ''view''
     ''0x4ada90af'',
   signed_method False [typed ''address'' ''cToken'' ''address'', typed ''address'' ''minter'' ''address'', typed
     ''uint256'' ''mintAmount'' ''uint256''] ''mintAllowed'' [typed ''uint256'' '''' ''uint256''] False
     ''nonpayable'' ''0x4ef4c3e1'']"

definition comptroller_abi_json_part3 :: "json list" where
  "comptroller_abi_json_part3 = [
   signed_method False [typed ''uint256'' ''newLiquidationIncentiveMantissa'' ''uint256'']
     ''_setLiquidationIncentive'' [typed ''uint256'' '''' ''uint256''] False ''nonpayable'' ''0x4fd42e17'',
   signed_method False [typed ''address'' ''cToken'' ''address'', typed ''address'' ''redeemer'' ''address'',
     typed ''uint256'' ''redeemAmount'' ''uint256'', typed ''uint256'' ''redeemTokens'' ''uint256'']
     ''redeemVerify'' [] False ''nonpayable'' ''0x51dff989'',
   signed_method False [typed ''contract PriceOracle'' ''newOracle'' ''address''] ''_setPriceOracle'' [typed
     ''uint256'' '''' ''uint256''] False ''nonpayable'' ''0x55ee1fe1'',
   signed_method False [typed ''address'' ''cToken'' ''address'', typed ''address'' ''borrower'' ''address'',
     typed ''uint256'' ''borrowAmount'' ''uint256''] ''borrowVerify'' [] False ''nonpayable'' ''0x5c778605'',
   signed_method True [typed ''address'' ''account'' ''address''] ''getAccountLiquidity'' [typed ''uint256'' ''''
     ''uint256'', typed ''uint256'' '''' ''uint256'', typed ''uint256'' '''' ''uint256''] False ''view''
     ''0x5ec88c79'',
   signed_method False [typed ''address'' ''cTokenBorrowed'' ''address'', typed ''address'' ''cTokenCollateral''
     ''address'', typed ''address'' ''liquidator'' ''address'', typed ''address'' ''borrower'' ''address'', typed
     ''uint256'' ''repayAmount'' ''uint256''] ''liquidateBorrowAllowed'' [typed ''uint256'' '''' ''uint256''] False
     ''nonpayable'' ''0x5fc7e71e'',
   signed_method False [typed ''address'' ''cToken'' ''address'', typed ''address'' ''src'' ''address'', typed
     ''address'' ''dst'' ''address'', typed ''uint256'' ''transferTokens'' ''uint256''] ''transferVerify'' [] False
     ''nonpayable'' ''0x6a56947e'',
   signed_method False [typed ''address'' ''cTokenCollateral'' ''address'', typed ''address'' ''cTokenBorrowed''
     ''address'', typed ''address'' ''liquidator'' ''address'', typed ''address'' ''borrower'' ''address'', typed
     ''uint256'' ''seizeTokens'' ''uint256''] ''seizeVerify'' [] False ''nonpayable'' ''0x6d35bf91'',
   signed_method True [] ''oracle'' [typed ''contract PriceOracle'' '''' ''address''] False ''view'' ''0x7dc0d1d0'']"

definition comptroller_abi_json_part4 :: "json list" where
  "comptroller_abi_json_part4 = [
   signed_method True [typed ''address'' '''' ''address''] ''markets'' [typed ''bool'' ''isListed'' ''bool'',
     typed ''uint256'' ''collateralFactorMantissa'' ''uint256'', typed ''bool'' ''isComped'' ''bool''] False
     ''view'' ''0x8e8f294b'',
   signed_method True [typed ''address'' ''account'' ''address'', typed ''contract CToken'' ''cToken''
     ''address''] ''checkMembership'' [typed ''bool'' '''' ''bool''] False ''view'' ''0x929fe9a1'',
   signed_method True [] ''maxAssets'' [typed ''uint256'' '''' ''uint256''] False ''view'' ''0x94b2294b'',
   signed_method False [typed ''contract CToken'' ''cToken'' ''address''] ''_supportMarket'' [typed ''uint256''
     '''' ''uint256''] False ''nonpayable'' ''0xa76b3fda'',
   signed_method True [typed ''address'' ''account'' ''address''] ''getAssetsIn'' [typed ''contract CToken[]''
     '''' ''address[]''] False ''view'' ''0xabfceffc'',
   signed_method False [typed ''address'' ''cToken'' ''address'', typed ''address'' ''src'' ''address'', typed
     ''address'' ''dst'' ''address'', typed ''uint256'' ''transferTokens'' ''uint256''] ''transferAllowed'' [typed
     ''uint256'' '''' ''uint256''] False ''nonpayable'' ''0xbdcdc258'',
   signed_method False [typed ''address[]'' ''cTokens'' ''address[]''] ''enterMarkets'' [typed ''uint256[]'' ''''
     ''uint256[]''] False ''nonpayable'' ''0xc2998238'',
   signed_method True [typed ''address'' ''cTokenBorrowed'' ''address'', typed ''address'' ''cTokenCollateral''
     ''address'', typed ''uint256'' ''actualRepayAmount'' ''uint256''] ''liquidateCalculateSeizeTokens'' [typed
     ''uint256'' '''' ''uint256'', typed ''uint256'' '''' ''uint256''] False ''view'' ''0xc488847b'',
   signed_method False [typed ''address'' ''cTokenCollateral'' ''address'', typed ''address'' ''cTokenBorrowed''
     ''address'', typed ''address'' ''liquidator'' ''address'', typed ''address'' ''borrower'' ''address'', typed
     ''uint256'' ''seizeTokens'' ''uint256''] ''seizeAllowed'' [typed ''uint256'' '''' ''uint256''] False
     ''nonpayable'' ''0xd02f7351'',
   signed_method False [typed ''uint256'' ''newMaxAssets'' ''uint256''] ''_setMaxAssets'' [typed ''uint256'' ''''
     ''uint256''] False ''nonpayable'' ''0xd9226ced'']"

definition comptroller_abi_json_part5 :: "json list" where
  "comptroller_abi_json_part5 = [
   signed_method False [typed ''address'' ''cToken'' ''address'', typed ''address'' ''borrower'' ''address'',
     typed ''uint256'' ''borrowAmount'' ''uint256''] ''borrowAllowed'' [typed ''uint256'' '''' ''uint256''] False
     ''nonpayable'' ''0xda3d454c'',
   signed_method True [typed ''address'' '''' ''address'', typed ''uint256'' '''' ''uint256''] ''accountAssets''
     [typed ''contract CToken'' '''' ''address''] False ''view'' ''0xdce15449'',
   signed_method False [typed ''contract CToken'' ''cToken'' ''address'', typed ''uint256''
     ''newCollateralFactorMantissa'' ''uint256''] ''_setCollateralFactor'' [typed ''uint256'' '''' ''uint256'']
     False ''nonpayable'' ''0xe4028eee'',
   signed_method True [] ''closeFactorMantissa'' [typed ''uint256'' '''' ''uint256''] False ''view'' ''0xe8755446'',
   signed_method False [typed ''address'' ''cToken'' ''address'', typed ''address'' ''redeemer'' ''address'',
     typed ''uint256'' ''redeemTokens'' ''uint256''] ''redeemAllowed'' [typed ''uint256'' '''' ''uint256''] False
     ''nonpayable'' ''0xeabe7d91'',
   signed_method False [typed ''address'' ''cTokenAddress'' ''address''] ''exitMarket'' [typed ''uint256'' ''''
     ''uint256''] False ''nonpayable'' ''0xede4edd0'',
   signed_event False [indexed False ''contract CToken'' ''cToken'' ''address''] ''MarketListed''
     ''0xcf583bb0c569eb967f806b11601c4cb93c10310485c67add5f8362c2f212321f'',
   signed_event False [indexed False ''contract CToken'' ''cToken'' ''address'', indexed False ''address''
     ''account'' ''address''] ''MarketEntered''
     ''0x3ab23ab0d51cccc0c3085aec51f99228625aa1a922b3a8ca89a26b0f2027a1a5'',
   signed_event False [indexed False ''contract CToken'' ''cToken'' ''address'', indexed False ''address''
     ''account'' ''address''] ''MarketExited'' ''0xe699a64c18b07ac5b7301aa273f36a2287239eb9501d81950672794afba29a0d'']"

definition comptroller_abi_json_part6 :: "json list" where
  "comptroller_abi_json_part6 = [
   signed_event False [indexed False ''uint256'' ''oldCloseFactorMantissa'' ''uint256'', indexed False ''uint256''
     ''newCloseFactorMantissa'' ''uint256''] ''NewCloseFactor''
     ''0x3b9670cf975d26958e754b57098eaa2ac914d8d2a31b83257997b9f346110fd9'',
   signed_event False [indexed False ''contract CToken'' ''cToken'' ''address'', indexed False ''uint256''
     ''oldCollateralFactorMantissa'' ''uint256'', indexed False ''uint256'' ''newCollateralFactorMantissa''
     ''uint256''] ''NewCollateralFactor'' ''0x70483e6592cd5182d45ac970e05bc62cdcc90e9d8ef2c2dbe686cf383bcd7fc5'',
   signed_event False [indexed False ''uint256'' ''oldLiquidationIncentiveMantissa'' ''uint256'', indexed False
     ''uint256'' ''newLiquidationIncentiveMantissa'' ''uint256''] ''NewLiquidationIncentive''
     ''0xaeba5a6c40a8ac138134bff1aaa65debf25971188a58804bad717f82f0ec1316'',
   signed_event False [indexed False ''uint256'' ''oldMaxAssets'' ''uint256'', indexed False ''uint256''
     ''newMaxAssets'' ''uint256''] ''NewMaxAssets''
     ''0x7093cf1eb653f749c3ff531d6df7f92764536a7fa0d13530cd26e070780c32ea'',
   signed_event False [indexed False ''contract PriceOracle'' ''oldPriceOracle'' ''address'', indexed False
     ''contract PriceOracle'' ''newPriceOracle'' ''address''] ''NewPriceOracle''
     ''0xd52b2b9b7e9ee655fcb95d2e5b9e0c9f69e7ef2b8e9d2d0ea78402d576d22e22'',
   signed_event False [indexed False ''string'' ''action'' ''string'', indexed False ''bool'' ''pauseState''
     ''bool''] ''ActionPaused'' ''0xef159d9a32b2472e32b098f954f3ce62d232939f1c207070b584df1814de2de0'']"

definition comptroller_abi_json_part7 :: "json list" where
  "comptroller_abi_json_part7 = [
   signed_event False [indexed False ''contract CToken'' ''cToken'' ''address'', indexed False ''string''
     ''action'' ''string'', indexed False ''bool'' ''pauseState'' ''bool''] ''ActionPaused''
     ''0x71aec636243f9709bb0007ae15e9afb8150ab01716d75fd7573be5cc096e03b0'',
   signed_event False [indexed False ''address'' ''oldPauseGuardian'' ''address'', indexed False ''address''
     ''newPauseGuardian'' ''address''] ''NewPauseGuardian''
     ''0x0613b6ee6a04f0d09f390e4d9318894b9f6ac7fd83897cd8d18896ba579c401e'',
   signed_method False [typed ''contract Unitroller'' ''unitroller'' ''address''] ''_become'' [] False
     ''nonpayable'' ''0x1d504dc6'',
   signed_method True [] ''_borrowGuardianPaused'' [typed ''bool'' '''' ''bool''] False ''view'' ''0xe6653f3d'',
   signed_method True [] ''_mintGuardianPaused'' [typed ''bool'' '''' ''bool''] False ''view'' ''0x3c94786f'',
   signed_method False [typed ''contract CToken'' ''cToken'' ''address'', typed ''bool'' ''state'' ''bool'']
     ''_setBorrowPaused'' [typed ''bool'' '''' ''bool''] False ''nonpayable'' ''0x18c882a5'',
   signed_method False [typed ''contract CToken'' ''cToken'' ''address'', typed ''bool'' ''state'' ''bool'']
     ''_setMintPaused'' [typed ''bool'' '''' ''bool''] False ''nonpayable'' ''0x3bcf7ec1'',
   signed_method False [typed ''address'' ''newPauseGuardian'' ''address''] ''_setPauseGuardian'' [typed
     ''uint256'' '''' ''uint256''] False ''nonpayable'' ''0x5f5af1aa'',
   signed_method False [typed ''bool'' ''state'' ''bool''] ''_setSeizePaused'' [typed ''bool'' '''' ''bool'']
     False ''nonpayable'' ''0x2d70db78'',
   signed_method False [typed ''bool'' ''state'' ''bool''] ''_setTransferPaused'' [typed ''bool'' '''' ''bool'']
     False ''nonpayable'' ''0x8ebf6364'']"

definition comptroller_abi_json_part8 :: "json list" where
  "comptroller_abi_json_part8 = [
   signed_method True [typed ''address'' '''' ''address''] ''borrowGuardianPaused'' [typed ''bool'' '''' ''bool'']
     False ''view'' ''0x6d154ea5'',
   signed_method True [typed ''address'' '''' ''address''] ''mintGuardianPaused'' [typed ''bool'' '''' ''bool'']
     False ''view'' ''0x731f0c2b'',
   signed_method True [] ''pauseGuardian'' [typed ''address'' '''' ''address''] False ''view'' ''0x24a3d622'',
   signed_method True [] ''seizeGuardianPaused'' [typed ''bool'' '''' ''bool''] False ''view'' ''0xac0b0bb7'',
   signed_method True [] ''transferGuardianPaused'' [typed ''bool'' '''' ''bool''] False ''view'' ''0x87f76303'',
   signed_event False [indexed True ''contract CToken'' ''cToken'' ''address'', indexed False ''uint256''
     ''newSpeed'' ''uint256''] ''CompSpeedUpdated''
     ''0x2ab93f65628379309f36cb125e90d7c902454a545c4f8b8cb0794af75c24b807'',
   signed_event False [indexed True ''contract CToken'' ''cToken'' ''address'', indexed True ''address''
     ''borrower'' ''address'', indexed False ''uint256'' ''compDelta'' ''uint256'', indexed False ''uint256''
     ''compBorrowIndex'' ''uint256''] ''DistributedBorrowerComp''
     ''0x1fc3ecc087d8d2d15e23d0032af5a47059c3892d003d8e139fdcb6bb327c99a6'',
   signed_event False [indexed True ''contract CToken'' ''cToken'' ''address'', indexed True ''address''
     ''supplier'' ''address'', indexed False ''uint256'' ''compDelta'' ''uint256'', indexed False ''uint256''
     ''compSupplyIndex'' ''uint256''] ''DistributedSupplierComp''
     ''0x2caecd17d02f56fa897705dcc740da2d237c373f70686f4e0d9bd3bf0400ea7a'']"

definition comptroller_abi_json_part9 :: "json list" where
  "comptroller_abi_json_part9 = [
   signed_event False [indexed False ''contract CToken'' ''cToken'' ''address'', indexed False ''bool''
     ''isComped'' ''bool''] ''MarketComped'' ''0x93c1f3e36ed71139f466a4ce8c9751790e2e33f5afb2df0dcfb3aeabe55d5aa2'',
   signed_event False [indexed False ''uint256'' ''oldCompRate'' ''uint256'', indexed False ''uint256''
     ''newCompRate'' ''uint256''] ''NewCompRate''
     ''0xc227c9272633c3a307d9845bf2bc2509cefb20d655b5f3c1002d8e1e3f22c8b0'',
   signed_method False [typed ''address[]'' ''cTokens'' ''address[]''] ''_addCompMarkets'' [] False ''nonpayable''
     ''0xce485c5e'',
   signed_method False [typed ''contract Unitroller'' ''unitroller'' ''address'', typed ''uint256'' ''compRate_''
     ''uint256'', typed ''address[]'' ''compMarketsToAdd'' ''address[]'', typed ''address[]'' ''otherMarketsToAdd''
     ''address[]''] ''_become'' [] False ''nonpayable'' ''0x992c5294'',
   signed_method False [typed ''uint256'' ''compRate_'' ''uint256'', typed ''address[]'' ''compMarketsToAdd''
     ''address[]'', typed ''address[]'' ''otherMarketsToAdd'' ''address[]''] ''_becomeG3'' [] False ''nonpayable''
     ''0x2327c7df'',
   signed_method False [typed ''address'' ''cToken'' ''address''] ''_dropCompMarket'' [] False ''nonpayable''
     ''0x3aa729b4'',
   signed_method False [typed ''uint256'' ''compRate_'' ''uint256''] ''_setCompRate'' [] False ''nonpayable''
     ''0x6a491112'',
   signed_method True [typed ''uint256'' '''' ''uint256''] ''allMarkets'' [typed ''contract CToken'' ''''
     ''address''] False ''view'' ''0x52d84d1e'',
   signed_method False [typed ''address'' ''holder'' ''address'', typed ''contract CToken[]'' ''cTokens''
     ''address[]''] ''claimComp'' [] False ''nonpayable'' ''0x1c3db2e0'']"

definition comptroller_abi_json_part10 :: "json list" where
  "comptroller_abi_json_part10 = [
   signed_method False [typed ''address[]'' ''holders'' ''address[]'', typed ''contract CToken[]'' ''cTokens''
     ''address[]'', typed ''bool'' ''borrowers'' ''bool'', typed ''bool'' ''suppliers'' ''bool''] ''claimComp'' []
     False ''nonpayable'' ''0x6810dfa6'',
   signed_method False [typed ''address'' ''holder'' ''address''] ''claimComp'' [] False ''nonpayable''
     ''0xe9af0292'',
   signed_method True [typed ''address'' '''' ''address''] ''compAccrued'' [typed ''uint256'' '''' ''uint256'']
     False ''view'' ''0xcc7ebdc4'',
   signed_method True [typed ''address'' '''' ''address''] ''compBorrowState'' [typed ''uint224'' ''index''
     ''uint224'', typed ''uint32'' ''block'' ''uint32''] False ''view'' ''0x8c57804e'',
   signed_method True [typed ''address'' '''' ''address'', typed ''address'' '''' ''address'']
     ''compBorrowerIndex'' [typed ''uint256'' '''' ''uint256''] False ''view'' ''0xca0af043'',
   signed_method True [] ''compClaimThreshold'' [typed ''uint256'' '''' ''uint256''] False ''view'' ''0x747026c9'',
   signed_method True [] ''compInitialIndex'' [typed ''uint224'' '''' ''uint224''] False ''view'' ''0xa7f0e231'',
   signed_method True [] ''compRate'' [typed ''uint256'' '''' ''uint256''] False ''view'' ''0xaa900754'',
   signed_method True [typed ''address'' '''' ''address''] ''compSpeeds'' [typed ''uint256'' '''' ''uint256'']
     False ''view'' ''0x1d7b33d7'',
   signed_method True [typed ''address'' '''' ''address'', typed ''address'' '''' ''address'']
     ''compSupplierIndex'' [typed ''uint256'' '''' ''uint256''] False ''view'' ''0xb21be7fd'',
   signed_method True [typed ''address'' '''' ''address''] ''compSupplyState'' [typed ''uint224'' ''index''
     ''uint224'', typed ''uint32'' ''block'' ''uint32''] False ''view'' ''0x6b79c38d'',
   signed_method True [] ''getAllMarkets'' [typed ''contract CToken[]'' '''' ''address[]''] False ''view''
     ''0xb0772d0b'']"

definition comptroller_abi_json_part11 :: "json list" where
  "comptroller_abi_json_part11 = [
   signed_method True [] ''getBlockNumber'' [typed ''uint256'' '''' ''uint256''] False ''view'' ''0x42cbb15c'',
   signed_method True [] ''getCompAddress'' [typed ''address'' '''' ''address''] False ''view'' ''0x9d1b5a0a'',
   signed_method True [typed ''address'' ''account'' ''address'', typed ''address'' ''cTokenModify'' ''address'',
     typed ''uint256'' ''redeemTokens'' ''uint256'', typed ''uint256'' ''borrowAmount'' ''uint256'']
     ''getHypotheticalAccountLiquidity'' [typed ''uint256'' '''' ''uint256'', typed ''uint256'' '''' ''uint256'',
     typed ''uint256'' '''' ''uint256''] False ''view'' ''0x4e79238f'',
   signed_method False [] ''refreshCompSpeeds'' [] False ''nonpayable'' ''0x4d8e5037'']"

definition comptroller_abi_json :: json where
  "comptroller_abi_json = JList (
     comptroller_abi_json_part1 @ comptroller_abi_json_part2 @ comptroller_abi_json_part3 @ comptroller_abi_json_part4 @ comptroller_abi_json_part5 @ comptroller_abi_json_part6 @ comptroller_abi_json_part7 @ comptroller_abi_json_part8 @ comptroller_abi_json_part9 @ comptroller_abi_json_part10 @ comptroller_abi_json_part11)"

definition abi_tables_compound :: "json list" where
  "abi_tables_compound =
    [ctoken_abi_json,
     comptroller_abi_json]"

lemma ctoken_abi_json_ok: "abi_table_ok ctoken_abi_json"
  by (simp add: abi_rules 
      ctoken_abi_json_def ctoken_abi_json_part1_def ctoken_abi_json_part2_def ctoken_abi_json_part3_def ctoken_abi_json_part4_def ctoken_abi_json_part5_def ctoken_abi_json_part6_def ctoken_abi_json_part7_def ctoken_abi_json_part8_def)

lemma comptroller_abi_json_ok: "abi_table_ok comptroller_abi_json"
  by (simp add: abi_rules 
      comptroller_abi_json_def comptroller_abi_json_part1_def comptroller_abi_json_part2_def comptroller_abi_json_part3_def comptroller_abi_json_part4_def comptroller_abi_json_part5_def comptroller_abi_json_part6_def comptroller_abi_json_part7_def comptroller_abi_json_part8_def comptroller_abi_json_part9_def comptroller_abi_json_part10_def comptroller_abi_json_part11_def)

lemma abi_tables_compound_ok: "list_all abi_table_ok abi_tables_compound"
  by (simp add: abi_tables_compound_def ctoken_abi_json_ok
      comptroller_abi_json_ok)

end
