(* ===== verification/Abi_Tables_Maker.thy ===== *)
theory Abi_Tables_Maker
  imports Abi_Shape
begin

text \<open>
  ABI tables that come with the service: \<open>app/datasources/abis\<close>, the modules
  \<open>maker_dao\<close>.
  A table is the JSON value of the Python literal, or of the text that \<open>json.loads\<close> reads;
  a long one is written in parts of consecutive entries. Every table here is well formed.
\<close>

definition maker_dao_abi_1_json :: json where
  "maker_dao_abi_1_json = JList [
   event False [indexed False ''address'' ''tokenAddress'' ''address'', indexed False ''address'' ''to''
     ''address'', indexed False ''uint256'' ''amount'' ''uint256'', indexed True ''bytes'' ''paymentReference''
     ''bytes'', indexed False ''uint256'' ''feeAmount'' ''uint256'', indexed False ''address'' ''feeAddress''
     ''address''] ''TransferWithReferenceAndFee'',
   JObj [(''payable'', JBool True), (''stateMutability'', JStr ''payable''), (''type'', JStr ''fallback'')],
   abi_method False [typed ''address'' ''_tokenAddress'' ''address'', typed ''address'' ''_to'' ''address'', typed
     ''uint256'' ''_amount'' ''uint256'', typed ''bytes'' ''_paymentReference'' ''bytes'', typed ''uint256''
     ''_feeAmount'' ''uint256'', typed ''address'' ''_feeAddress'' ''address''] ''transferFromWithReferenceAndFee''
     [] False ''nonpayable'']"

definition maker_dao_abi_2_json :: json where
  "maker_dao_abi_2_json = JList [
   abi_method False [typed ''address'' ''vat'' ''address'', typed ''address'' ''dai'' ''address''] ''newDaiJoin''
     [typed ''contract DaiJoin'' ''daiJoin'' ''address''] False ''nonpayable'']"

definition maker_dao_abi_3_json :: json where
  "maker_dao_abi_3_json = JList [
   JObj [(''inputs'', JList [typed ''uint256'' ''supply'' ''uint256'']), (''payable'', JBool False),
     (''stateMutability'', JStr ''nonpayable''), (''type'', JStr ''constructor'')],
   event False [indexed True ''address'' ''src'' ''address'', indexed True ''address'' ''guy'' ''address'',
     indexed False ''uint256'' ''wad'' ''uint256''] ''Approval'',
   event False [indexed True ''address'' ''src'' ''address'', indexed True ''address'' ''dst'' ''address'',
     indexed False ''uint256'' ''wad'' ''uint256''] ''Transfer'',
   abi_method True [typed ''address'' ''src'' ''address'', typed ''address'' ''guy'' ''address''] ''allowance''
     [typed ''uint256'' '''' ''uint256''] False ''view'',
   abi_method False [typed ''address'' ''guy'' ''address'', typed ''uint256'' ''wad'' ''uint256''] ''approve''
     [typed ''bool'' '''' ''bool''] False ''nonpayable'',
   abi_method True [typed ''address'' ''src'' ''address''] ''balanceOf'' [typed ''uint256'' '''' ''uint256'']
     False ''view'',
   abi_method True [] ''decimals'' [typed ''uint256'' '''' ''uint256''] False ''view'',
   abi_method True [] ''name'' [typed ''string'' '''' ''string''] False ''view'',
   abi_method True [] ''symbol'' [typed ''string'' '''' ''string''] False ''view'',
   abi_method True [] ''totalSupply'' [typed ''uint256'' '''' ''uint256''] False ''view'',
   abi_method False [typed ''address'' ''dst'' ''address'', typed ''uint256'' ''wad'' ''uint256''] ''transfer''
     [typed ''bool'' '''' ''bool''] False ''nonpayable'',
   abi_method False [typed ''address'' ''src'' ''address'', typed ''address'' ''dst'' ''address'', typed
     ''uint256'' ''wad'' ''uint256''] ''transferFrom'' [typed ''bool'' '''' ''bool''] False ''nonpayable'']"

definition maker_dao_abi_4_json :: json where
  "maker_dao_abi_4_json = JList [
   abi_method False [typed ''contract DSValue'' ''value'' ''address'', typed ''bytes32'' ''wut'' ''bytes32'']
     ''doPoke'' [] False ''nonpayable'',
   abi_method False [typed ''contract DSValue'' ''value'' ''address''] ''doVoid'' [] False ''nonpayable'']"

definition maker_dao_abi_5_json :: json where
  "maker_dao_abi_5_json = JList [
   JObj [(''inputs'', JList [typed ''address'' ''vat_'' ''address'']), (''payable'', JBool False),
     (''stateMutability'', JStr ''nonpayable''), (''type'', JStr ''constructor'')],
   event True [indexed True ''bytes4'' ''sig'' ''bytes4'', indexed True ''address'' ''usr'' ''address'', indexed
     True ''bytes32'' ''arg1'' ''bytes32'', indexed True ''bytes32'' ''arg2'' ''bytes32'', indexed False ''bytes''
     ''data'' ''bytes''] ''LogNote'',
   abi_method True [] ''base'' [typed ''uint256'' '''' ''uint256''] False ''view'',
   abi_method False [typed ''address'' ''usr'' ''address''] ''deny'' [] False ''nonpayable'',
   abi_method False [typed ''bytes32'' ''ilk'' ''bytes32''] ''drip'' [typed ''uint256'' ''rate'' ''uint256'']
     False ''nonpayable'',
   abi_method False [typed ''bytes32'' ''ilk'' ''bytes32'', typed ''bytes32'' ''what'' ''bytes32'', typed
     ''uint256'' ''data'' ''uint256''] ''file'' [] False ''nonpayable'',
   abi_method False [typed ''bytes32'' ''what'' ''bytes32'', typed ''uint256'' ''data'' ''uint256''] ''file'' []
     False ''nonpayable'',
   abi_method False [typed ''bytes32'' ''what'' ''bytes32'', typed ''address'' ''data'' ''address''] ''file'' []
     False ''nonpayable'',
   abi_method True [typed ''bytes32'' '''' ''bytes32''] ''ilks'' [typed ''uint256'' ''duty'' ''uint256'', typed
     ''uint256'' ''rho'' ''uint256''] False ''view'',
   abi_method False [typed ''bytes32'' ''ilk'' ''bytes32''] ''init'' [] False ''nonpayable'',
   abi_method False [typed ''address'' ''usr'' ''address''] ''rely'' [] False ''nonpayable'',
   abi_method True [] ''vat'' [typed ''contract VatLike'' '''' ''address''] False ''view'',
   abi_method True [] ''vow'' [typed ''address'' '''' ''address''] False ''view'',
   abi_method True [typed ''address'' '''' ''address''] ''wards'' [typed ''uint256'' '''' ''uint256''] False
     ''view'']"

definition maker_dao_abi_6_json :: json where
  "maker_dao_abi_6_json = JList [
   abi_method False [typed ''address'' ''end'' ''address''] ''cage'' [] False ''nonpayable'',
   abi_method False [typed ''address'' ''who'' ''address'', typed ''address'' ''to'' ''address''] ''deny'' []
     False ''nonpayable'',
   abi_method False [typed ''address'' ''who'' ''address'', typed ''bytes32'' ''ilk'' ''bytes32'', typed
     ''bytes32'' ''what'' ''bytes32'', typed ''uint256'' ''data'' ''uint256''] ''dripAndFile'' [] False
     ''nonpayable'',
   abi_method False [typed ''address'' ''who'' ''address'', typed ''bytes32'' ''what'' ''bytes32'', typed
     ''uint256'' ''data'' ''uint256''] ''dripAndFile'' [] False ''nonpayable'',
   abi_method False [typed ''address'' ''who'' ''address'', typed ''bytes32'' ''ilk'' ''bytes32'', typed
     ''bytes32'' ''what'' ''bytes32'', typed ''address'' ''data'' ''address''] ''file'' [] False ''nonpayable'',
   abi_method False [typed ''address'' ''who'' ''address'', typed ''bytes32'' ''what'' ''bytes32'', typed
     ''uint256'' ''data'' ''uint256''] ''file'' [] False ''nonpayable'',
   abi_method False [typed ''address'' ''who'' ''address'', typed ''bytes32'' ''what'' ''bytes32'', typed
     ''address'' ''data'' ''address''] ''file'' [] False ''nonpayable'',
   abi_method False [typed ''address'' ''who'' ''address'', typed ''bytes32'' ''ilk'' ''bytes32'', typed
     ''bytes32'' ''what'' ''bytes32'', typed ''uint256'' ''data'' ''uint256''] ''file'' [] False ''nonpayable'',
   abi_method False [typed ''address'' ''who'' ''address'', typed ''bytes32'' ''ilk'' ''bytes32''] ''init'' []
     False ''nonpayable'',
   abi_method False [typed ''address'' ''who'' ''address'', typed ''address'' ''to'' ''address''] ''rely'' []
     False ''nonpayable'',
   abi_method False [typed ''address'' ''pause'' ''address'', typed ''address'' ''newAuthority'' ''address'']
     ''setAuthority'' [] False ''nonpayable'',
   abi_method False [typed ''address'' ''pause'' ''address'', typed ''address'' ''newAuthority'' ''address'',
     typed ''uint256'' ''newDelay'' ''uint256''] ''setAuthorityAndDelay'' [] False ''nonpayable'',
   abi_method False [typed ''address'' ''pause'' ''address'', typed ''uint256'' ''newDelay'' ''uint256'']
     ''setDelay'' [] False ''nonpayable'']"

definition maker_dao_abi_7_json :: json where
  "maker_dao_abi_7_json = JList [
   JObj [(''inputs'', JList [typed ''address'' ''cat_'' ''address'']), (''payable'', JBool False),
     (''stateMutability'', JStr ''nonpayable''), (''type'', JStr ''constructor'')],
   event False [indexed False ''address'' ''flip'' ''address'', indexed False ''address'' ''cat'' ''address'']
     ''Deny'',
   event False [indexed False ''address'' ''flip'' ''address'', indexed False ''address'' ''usr'' ''address'']
     ''Rely'',
   event False [indexed False ''address'' ''oldAuthority'' ''address'', indexed False ''address'' ''newAuthority''
     ''address''] ''SetAuthority'',
   event False [indexed False ''address'' ''oldOwner'' ''address'', indexed False ''address'' ''newOwner''
     ''address''] ''SetOwner'',
   abi_method True [] ''authority'' [typed ''address'' '''' ''address''] False ''view'',
   abi_method True [] ''cat'' [typed ''address'' '''' ''address''] False ''view'',
   abi_method False [typed ''address'' ''flip'' ''address''] ''deny'' [] False ''nonpayable'',
   abi_method True [] ''owner'' [typed ''address'' '''' ''address''] False ''view'',
   abi_method False [typed ''address'' ''flip'' ''address''] ''rely'' [] False ''nonpayable'',
   abi_method False [typed ''address'' ''authority_'' ''address''] ''setAuthority'' [] False ''nonpayable'',
   abi_method False [typed ''address'' ''owner_'' ''address''] ''setOwner'' [] False ''nonpayable'']"

definition maker_dao_abi_8_json :: json where
  "maker_dao_abi_8_json = JList [
   JObj [(''inputs'', JList [typed ''address'' ''vat_'' ''address'', typed ''address'' ''dai_'' ''address'']),
     (''payable'', JBool False), (''stateMutability'', JStr ''nonpayable''), (''type'', JStr ''constructor'')],
   event True [indexed True ''bytes4'' ''sig'' ''bytes4'', indexed True ''address'' ''usr'' ''address'', indexed
     True ''bytes32'' ''arg1'' ''bytes32'', indexed True ''bytes32'' ''arg2'' ''bytes32'', indexed False ''bytes''
     ''data'' ''bytes''] ''LogNote'',
   abi_method False [] ''cage'' [] False ''nonpayable'',
   abi_method True [] ''dai'' [typed ''contract DSTokenLike'' '''' ''address''] False ''view'',
   abi_method False [typed ''address'' ''usr'' ''address''] ''deny'' [] False ''nonpayable'',
   abi_method False [typed ''address'' ''usr'' ''address'', typed ''uint256'' ''wad'' ''uint256''] ''exit'' []
     False ''nonpayable'',
   abi_method False [typed ''address'' ''usr'' ''address'', typed ''uint256'' ''wad'' ''uint256''] ''join'' []
     False ''nonpayable'',
   abi_method True [] ''live'' [typed ''uint256'' '''' ''uint256''] False ''view'',
   abi_method False [typed ''address'' ''usr'' ''address''] ''rely'' [] False ''nonpayable'',
   abi_method True [] ''vat'' [typed ''contract VatLike'' '''' ''address''] False ''view'',
   abi_method True [typed ''address'' '''' ''address''] ''wards'' [typed ''uint256'' '''' ''uint256''] False
     ''view'']"

definition maker_dao_abi_9_json :: json where
  "maker_dao_abi_9_json = JList [
   JObj [(''inputs'', JList [typed ''uint256'' ''supply'' ''uint256'']), (''payable'', JBool False),
     (''stateMutability'', JStr ''nonpayable''), (''type'', JStr ''constructor'')],
   event False [indexed True ''address'' ''src'' ''address'', indexed True ''address'' ''guy'' ''address'',
     indexed False ''uint256'' ''wad'' ''uint256''] ''Approval'',
   event False [indexed True ''address'' ''src'' ''address'', indexed True ''address'' ''dst'' ''address'',
     indexed False ''uint256'' ''wad'' ''uint256''] ''Transfer'',
   abi_method True [typed ''address'' ''src'' ''address'', typed ''address'' ''guy'' ''address''] ''allowance''
     [typed ''uint256'' '''' ''uint256''] False ''view'',
   abi_method False [typed ''address'' ''guy'' ''address'', typed ''uint256'' ''wad'' ''uint256''] ''approve''
     [typed ''bool'' '''' ''bool''] False ''nonpayable'',
   abi_method True [typed ''address'' ''src'' ''address''] ''balanceOf'' [typed ''uint256'' '''' ''uint256'']
     False ''view'',
   abi_method True [] ''name'' [typed ''string'' '''' ''string''] False ''view'',
   abi_method True [] ''symbol'' [typed ''string'' '''' ''string''] False ''view'',
   abi_method True [] ''totalSupply'' [typed ''uint256'' '''' ''uint256''] False ''view'',
   abi_method False [typed ''address'' ''dst'' ''address'', typed ''uint256'' ''wad'' ''uint256''] ''transfer''
     [typed ''bool'' '''' ''bool''] False ''nonpayable'',
   abi_method False [typed ''address'' ''src'' ''address'', typed ''address'' ''dst'' ''address'', typed
     ''uint256'' ''wad'' ''uint256''] ''transferFrom'' [typed ''bool'' '''' ''bool''] False ''nonpayable'']"

definition maker_dao_abi_10_json_part1 :: "json list" where
  "maker_dao_abi_10_json_part1 = [
   JObj [(''inputs'', JList [typed ''address'' ''vat_'' ''address'', typed ''address'' ''flapper_'' ''address'',
     typed ''address'' ''flopper_'' ''address'']), (''payable'', JBool False), (''stateMutability'', JStr
     ''nonpayable''), (''type'', JStr ''constructor'')],
   event True [indexed True ''bytes4'' ''sig'' ''bytes4'', indexed True ''address'' ''usr'' ''address'', indexed
     True ''bytes32'' ''arg1'' ''bytes32'', indexed True ''bytes32'' ''arg2'' ''bytes32'', indexed False ''bytes''
     ''data'' ''bytes''] ''LogNote'',
   abi_method True [] ''Ash'' [typed ''uint256'' '''' ''uint256''] False ''view'',
   abi_method True [] ''Sin'' [typed ''uint256'' '''' ''uint256''] False ''view'',
   abi_method True [] ''bump'' [typed ''uint256'' '''' ''uint256''] False ''view'',
   abi_method False [] ''cage'' [] False ''nonpayable'',
   abi_method False [typed ''address'' ''usr'' ''address''] ''deny'' [] False ''nonpayable'',
   abi_method True [] ''dump'' [typed ''uint256'' '''' ''uint256''] False ''view'',
   abi_method False [typed ''uint256'' ''tab'' ''uint256''] ''fess'' [] False ''nonpayable'',
   abi_method False [typed ''bytes32'' ''what'' ''bytes32'', typed ''uint256'' ''data'' ''uint256''] ''file'' []
     False ''nonpayable'',
   abi_method False [typed ''bytes32'' ''what'' ''bytes32'', typed ''address'' ''data'' ''address''] ''file'' []
     False ''nonpayable'',
   abi_method False [] ''flap'' [typed ''uint256'' ''id'' ''uint256''] False ''nonpayable'',
   abi_method True [] ''flapper'' [typed ''contract FlapLike'' '''' ''address''] False ''view'',
   abi_method False [typed ''uint256'' ''era'' ''uint256''] ''flog'' [] False ''nonpayable'',
   abi_method False [] ''flop'' [typed ''uint256'' ''id'' ''uint256''] False ''nonpayable'',
   abi_method True [] ''flopper'' [typed ''contract FlopLike'' '''' ''address''] False ''view'',
   abi_method False [typed ''uint256'' ''rad'' ''uint256''] ''heal'' [] False ''nonpayable'',
   abi_method True [] ''hump'' [typed ''uint256'' '''' ''uint256''] False ''view'',
   abi_method False [typed ''uint256'' ''rad'' ''uint256''] ''kiss'' [] False ''nonpayable'',
   abi_method True [] ''live'' [typed ''uint256'' '''' ''uint256''] False ''view'',
   abi_method False [typed ''address'' ''usr'' ''address''] ''rely'' [] False ''nonpayable'',
   abi_method True [typed ''uint256'' '''' ''uint256''] ''sin'' [typed ''uint256'' '''' ''uint256''] False ''view'',
   abi_method True [] ''sump'' [typed ''uint256'' '''' ''uint256''] False ''view'',
   abi_method True [] ''vat'' [typed ''contract VatLike'' '''' ''address''] False ''view'',
   abi_method True [] ''wait'' [typed ''uint256'' '''' ''uint256''] False ''view'']"

definition maker_dao_abi_10_json_part2 :: "json list" where
  "maker_dao_abi_10_json_part2 = [
   abi_method True [typed ''address'' '''' ''address''] ''wards'' [typed ''uint256'' '''' ''uint256''] False
     ''view'']"

definition maker_dao_abi_10_json :: json where
  "maker_dao_abi_10_json = JList (maker_dao_abi_10_json_part1 @ maker_dao_abi_10_json_part2)"

definition maker_dao_abi_11_json :: json where
  "maker_dao_abi_11_json = JList [
   event True [indexed True ''bytes4'' ''sig'' ''bytes4'', indexed True ''address'' ''usr'' ''address'', indexed
     True ''bytes32'' ''arg1'' ''bytes32'', indexed True ''bytes32'' ''arg2'' ''bytes32'', indexed False ''bytes''
     ''data'' ''bytes''] ''LogNote'']"

definition maker_dao_abi_12_json :: json where
  "maker_dao_abi_12_json = JList [
   JObj [(''inputs'', JList [typed ''address'' ''vat_'' ''address'', typed ''bytes32'' ''ilk_'' ''bytes32'', typed
     ''address'' ''gem_'' ''address'']), (''payable'', JBool False), (''stateMutability'', JStr ''nonpayable''),
     (''type'', JStr ''constructor'')],
   event True [indexed True ''bytes4'' ''sig'' ''bytes4'', indexed True ''address'' ''usr'' ''address'', indexed
     True ''bytes32'' ''arg1'' ''bytes32'', indexed True ''bytes32'' ''arg2'' ''bytes32'', indexed False ''bytes''
     ''data'' ''bytes''] ''LogNote'',
   abi_method False [] ''cage'' [] False ''nonpayable'',
   abi_method True [] ''dec'' [typed ''uint256'' '''' ''uint256''] False ''view'',
   abi_method False [typed ''address'' ''usr'' ''address''] ''deny'' [] False ''nonpayable'',
   abi_method False [typed ''address'' ''usr'' ''address'', typed ''uint256'' ''wad'' ''uint256''] ''exit'' []
     False ''nonpayable'',
   abi_method True [] ''gem'' [typed ''contract GemLike'' '''' ''address''] False ''view'',
   abi_method True [] ''ilk'' [typed ''bytes32'' '''' ''bytes32''] False ''view'',
   abi_method False [typed ''address'' ''usr'' ''address'', typed ''uint256'' ''wad'' ''uint256''] ''join'' []
     False ''nonpayable'',
   abi_method True [] ''live'' [typed ''uint256'' '''' ''uint256''] False ''view'',
   abi_method False [typed ''address'' ''usr'' ''address''] ''rely'' [] False ''nonpayable'',
   abi_method True [] ''vat'' [typed ''contract VatLike'' '''' ''address''] False ''view'',
   abi_method True [typed ''address'' '''' ''address''] ''wards'' [typed ''uint256'' '''' ''uint256''] False
     ''view'']"

definition maker_dao_abi_13_json :: json where
  "maker_dao_abi_13_json = JList [
   JObj [(''inputs'', JList [typed ''uint256'' ''supply'' ''uint256'']), (''payable'', JBool False),
     (''stateMutability'', JStr ''nonpayable''), (''type'', JStr ''constructor'')],
   event False [indexed True ''address'' ''src'' ''address'', indexed True ''address'' ''guy'' ''address'',
     indexed False ''uint256'' ''wad'' ''uint256''] ''Approval'',
   event False [indexed True ''address'' ''src'' ''address'', indexed True ''address'' ''dst'' ''address'',
     indexed False ''uint256'' ''wad'' ''uint256''] ''Transfer'',
   abi_method True [typed ''address'' ''src'' ''address'', typed ''address'' ''guy'' ''address''] ''allowance''
     [typed ''uint256'' '''' ''uint256''] False ''view'',
   abi_method False [typed ''address'' ''guy'' ''address'', typed ''uint256'' ''wad'' ''uint256''] ''approve''
     [typed ''bool'' '''' ''bool''] False ''nonpayable'',
   abi_method True [typed ''address'' ''src'' ''address''] ''balanceOf'' [typed ''uint256'' '''' ''uint256'']
     False ''view'',
   abi_method True [] ''decimals'' [typed ''uint8'' '''' ''uint8''] False ''view'',
   abi_method True [] ''name'' [typed ''string'' '''' ''string''] False ''view'',
   abi_method True [] ''symbol'' [typed ''string'' '''' ''string''] False ''view'',
   abi_method True [] ''totalSupply'' [typed ''uint256'' '''' ''uint256''] False ''view'',
   abi_method False [typed ''address'' ''dst'' ''address'', typed ''uint256'' ''wad'' ''uint256''] ''transfer''
     [typed ''bool'' '''' ''bool''] False ''nonpayable'',
   abi_method False [typed ''address'' ''src'' ''address'', typed ''address'' ''dst'' ''address'', typed
     ''uint256'' ''wad'' ''uint256''] ''transferFrom'' [typed ''bool'' '''' ''bool''] False ''nonpayable'']"

definition maker_dao_abi_14_json :: json where
  "maker_dao_abi_14_json = JList [
   JObj [(''inputs'', JList []), (''payable'', JBool False), (''stateMutability'', JStr ''nonpayable''),
     (''type'', JStr ''constructor'')],
   event False [indexed True ''address'' ''usr'' ''address''] ''LogDeny'',
   event False [indexed True ''address'' ''usr'' ''address''] ''LogRely'',
   event False [indexed True ''address'' ''newRoot'' ''address''] ''LogSetRoot'',
   abi_method True [typed ''address'' ''src'' ''address'', typed ''address'' '''' ''address'', typed ''bytes4''
     ''sig'' ''bytes4''] ''canCall'' [typed ''bool'' '''' ''bool''] False ''view'',
   abi_method False [typed ''address'' ''usr'' ''address''] ''deny'' [] False ''nonpayable'',
   abi_method False [typed ''address'' ''usr'' ''address''] ''rely'' [] False ''nonpayable'',
   abi_method True [] ''root'' [typed ''address'' '''' ''address''] False ''view'',
   abi_method False [typed ''address'' ''usr'' ''address''] ''setRoot'' [] False ''nonpayable'',
   abi_method True [typed ''address'' '''' ''address''] ''wards'' [typed ''uint256'' '''' ''uint256''] False
     ''view'']"

definition maker_dao_abi_15_json :: json where
  "maker_dao_abi_15_json = JList [
   abi_method False [typed ''address'' '''' ''address'', typed ''address'' '''' ''address'', typed ''address''
     '''' ''address'', typed ''bytes32'' '''' ''bytes32'', typed ''bytes32'' '''' ''bytes32'', typed ''uint256''
     '''' ''uint256''] ''file'' [] False ''nonpayable'',
   abi_method False [typed ''address'' '''' ''address'', typed ''address'' '''' ''address'', typed ''address''
     '''' ''address'', typed ''bytes32'' '''' ''bytes32'', typed ''uint256'' '''' ''uint256''] ''file'' [] False
     ''nonpayable'',
   abi_method False [typed ''address'' '''' ''address'', typed ''address'' '''' ''address'', typed ''address''
     '''' ''address'', typed ''bytes32'' '''' ''bytes32'', typed ''bytes32'' '''' ''bytes32'', typed ''address''
     '''' ''address''] ''file'' [] False ''nonpayable'',
   abi_method False [typed ''address'' '''' ''address'', typed ''address'' '''' ''address'', typed ''address''
     '''' ''address'', typed ''address'' '''' ''address''] ''rely'' [] False ''nonpayable'',
   abi_method False [typed ''address'' '''' ''address'', typed ''address'' '''' ''address'', typed ''address''
     '''' ''address'', typed ''uint256'' '''' ''uint256''] ''setAuthorityAndDelay'' [] False ''nonpayable'']"

definition maker_dao_abi_16_json :: json where
  "maker_dao_abi_16_json = JList [
   JObj [(''inputs'', JList [typed ''address'' ''vat_'' ''address'', typed ''address'' ''gem_'' ''address'']),
     (''payable'', JBool False), (''stateMutability'', JStr ''nonpayable''), (''type'', JStr ''constructor'')],
   event False [indexed False ''uint256'' ''id'' ''uint256'', indexed False ''uint256'' ''lot'' ''uint256'',
     indexed False ''uint256'' ''bid'' ''uint256''] ''Kick'',
   event True [indexed True ''bytes4'' ''sig'' ''bytes4'', indexed True ''address'' ''usr'' ''address'', indexed
     True ''bytes32'' ''arg1'' ''bytes32'', indexed True ''bytes32'' ''arg2'' ''bytes32'', indexed False ''bytes''
     ''data'' ''bytes''] ''LogNote'',
   abi_method True [] ''beg'' [typed ''uint256'' '''' ''uint256''] False ''view'',
   abi_method True [typed ''uint256'' '''' ''uint256''] ''bids'' [typed ''uint256'' ''bid'' ''uint256'', typed
     ''uint256'' ''lot'' ''uint256'', typed ''address'' ''guy'' ''address'', typed ''uint48'' ''tic'' ''uint48'',
     typed ''uint48'' ''end'' ''uint48''] False ''view'',
   abi_method False [typed ''uint256'' ''rad'' ''uint256''] ''cage'' [] False ''nonpayable'',
   abi_method False [typed ''uint256'' ''id'' ''uint256''] ''deal'' [] False ''nonpayable'',
   abi_method False [typed ''address'' ''usr'' ''address''] ''deny'' [] False ''nonpayable'',
   abi_method False [typed ''bytes32'' ''what'' ''bytes32'', typed ''uint256'' ''data'' ''uint256''] ''file'' []
     False ''nonpayable'',
   abi_method True [] ''gem'' [typed ''contract GemLike'' '''' ''address''] False ''view'',
   abi_method False [typed ''uint256'' ''lot'' ''uint256'', typed ''uint256'' ''bid'' ''uint256''] ''kick'' [typed
     ''uint256'' ''id'' ''uint256''] False ''nonpayable'',
   abi_method True [] ''kicks'' [typed ''uint256'' '''' ''uint256''] False ''view'',
   abi_method True [] ''live'' [typed ''uint256'' '''' ''uint256''] False ''view'',
   abi_method False [typed ''address'' ''usr'' ''address''] ''rely'' [] False ''nonpayable'',
   abi_method True [] ''tau'' [typed ''uint48'' '''' ''uint48''] False ''view'',
   abi_method False [typed ''uint256'' ''id'' ''uint256'', typed ''uint256'' ''lot'' ''uint256'', typed
     ''uint256'' ''bid'' ''uint256''] ''tend'' [] False ''nonpayable'',
   abi_method False [typed ''uint256'' ''id'' ''uint256''] ''tick'' [] False ''nonpayable'',
   abi_method True [] ''ttl'' [typed ''uint48'' '''' ''uint48''] False ''view'',
   abi_method True [] ''vat'' [typed ''contract VatLike'' '''' ''address''] False ''view'',
   abi_method True [typed ''address'' '''' ''address''] ''wards'' [typed ''uint256'' '''' ''uint256''] False
     ''view'',
   abi_method False [typed ''uint256'' ''id'' ''uint256''] ''yank'' [] False ''nonpayable'']"

definition maker_dao_abi_17_json :: json where
  "maker_dao_abi_17_json = JList [
   JObj [(''inputs'', JList [typed ''address'' ''vat_'' ''address'', typed ''bytes32'' ''ilk_'' ''bytes32'', typed
     ''address'' ''gem_'' ''address'']), (''payable'', JBool False), (''stateMutability'', JStr ''nonpayable''),
     (''type'', JStr ''constructor'')],
   event True [indexed True ''bytes4'' ''sig'' ''bytes4'', indexed True ''address'' ''usr'' ''address'', indexed
     True ''bytes32'' ''arg1'' ''bytes32'', indexed True ''bytes32'' ''arg2'' ''bytes32'', indexed False ''bytes''
     ''data'' ''bytes''] ''LogNote'',
   abi_method False [] ''cage'' [] False ''nonpayable'',
   abi_method True [] ''dec'' [typed ''uint256'' '''' ''uint256''] False ''view'',
   abi_method False [typed ''address'' ''usr'' ''address''] ''deny'' [] False ''nonpayable'',
   abi_method False [typed ''address'' ''guy'' ''address'', typed ''uint256'' ''wad'' ''uint256''] ''exit'' []
     False ''nonpayable'',
   abi_method True [] ''gem'' [typed ''contract GemLike'' '''' ''address''] False ''view'',
   abi_method True [] ''ilk'' [typed ''bytes32'' '''' ''bytes32''] False ''view'',
   abi_method True [typed ''address'' '''' ''address''] ''implementations'' [typed ''uint256'' '''' ''uint256'']
     False ''view'',
   abi_method False [typed ''address'' ''urn'' ''address'', typed ''uint256'' ''wad'' ''uint256''] ''join'' []
     False ''nonpayable'',
   abi_method True [] ''live'' [typed ''uint256'' '''' ''uint256''] False ''view'',
   abi_method False [typed ''address'' ''usr'' ''address''] ''rely'' [] False ''nonpayable'',
   abi_method False [typed ''address'' ''implementation'' ''address'', typed ''uint256'' ''permitted''
     ''uint256''] ''setImplementation'' [] False ''nonpayable'',
   abi_method True [] ''vat'' [typed ''contract VatLike'' '''' ''address''] False ''view'',
   abi_method True [typed ''address'' '''' ''address''] ''wards'' [typed ''uint256'' '''' ''uint256''] False
     ''view'']"

definition maker_dao_abi_18_json :: json where
  "maker_dao_abi_18_json = JList [
   abi_method False [typed ''address'' ''vat'' ''address''] ''newSpotter'' [typed ''contract Spotter'' ''spotter''
     ''address''] False ''nonpayable'']"

definition maker_dao_abi_19_json :: json where
  "maker_dao_abi_19_json = JList [
   JObj [(''inputs'', JList [typed ''contract DSChief'' ''chief_'' ''address'', typed ''contract DSToken''
     ''gov_'' ''address'', typed ''contract DSToken'' ''iou_'' ''address'']), (''payable'', JBool False),
     (''stateMutability'', JStr ''nonpayable''), (''type'', JStr ''constructor'')],
   abi_method False [typed ''address'' ''guy'' ''address''] ''approveGov'' [] False ''nonpayable'',
   abi_method False [typed ''address'' ''guy'' ''address''] ''approveIou'' [] False ''nonpayable'',
   abi_method False [typed ''uint256'' ''amt'' ''uint256''] ''doChiefFree'' [] False ''nonpayable'',
   abi_method False [typed ''uint256'' ''amt'' ''uint256''] ''doChiefLock'' [] False ''nonpayable'',
   abi_method False [typed ''uint256'' ''amt'' ''uint256''] ''doProxyFree'' [] False ''nonpayable'',
   abi_method False [] ''doProxyFreeAll'' [] False ''nonpayable'',
   abi_method False [typed ''uint256'' ''amt'' ''uint256''] ''doProxyLock'' [] False ''nonpayable'',
   abi_method False [typed ''address[]'' ''yays'' ''address[]''] ''doProxyVote'' [typed ''bytes32'' ''slate''
     ''bytes32''] False ''nonpayable'',
   abi_method False [typed ''bytes32'' ''slate'' ''bytes32''] ''doProxyVote'' [] False ''nonpayable'',
   abi_method False [typed ''address'' ''guy'' ''address'', typed ''uint256'' ''amt'' ''uint256''] ''doTransfer''
     [] False ''nonpayable'',
   abi_method True [] ''proxy'' [typed ''contract VoteProxy'' '''' ''address''] False ''view'',
   abi_method False [typed ''contract VoteProxy'' ''proxy_'' ''address''] ''setProxy'' [] False ''nonpayable'']"

definition maker_dao_abi_20_json_part1 :: "json list" where
  "maker_dao_abi_20_json_part1 = [
   JObj [(''inputs'', JList [typed ''contract VatFab'' ''vatFab_'' ''address'', typed ''contract JugFab''
     ''jugFab_'' ''address'', typed ''contract VowFab'' ''vowFab_'' ''address'', typed ''contract CatFab''
     ''catFab_'' ''address'', typed ''contract DaiFab'' ''daiFab_'' ''address'', typed ''contract DaiJoinFab''
     ''daiJoinFab_'' ''address'', typed ''contract FlapFab'' ''flapFab_'' ''address'', typed ''contract FlopFab''
     ''flopFab_'' ''address'', typed ''contract FlipFab'' ''flipFab_'' ''address'', typed ''contract SpotFab''
     ''spotFab_'' ''address'', typed ''contract PotFab'' ''potFab_'' ''address'', typed ''contract EndFab''
     ''endFab_'' ''address'', typed ''contract ESMFab'' ''esmFab_'' ''address'', typed ''contract PauseFab''
     ''pauseFab_'' ''address'']), (''payable'', JBool False), (''stateMutability'', JStr ''nonpayable''), (''type'',
     JStr ''constructor'')],
   event False [indexed True ''address'' ''authority'' ''address''] ''LogSetAuthority'',
   event False [indexed True ''address'' ''owner'' ''address''] ''LogSetOwner'',
   abi_method True [] ''authority'' [typed ''contract DSAuthority'' '''' ''address''] False ''view'',
   abi_method True [] ''cat'' [typed ''contract Cat'' '''' ''address''] False ''view'',
   abi_method True [] ''catFab'' [typed ''contract CatFab'' '''' ''address''] False ''view'',
   abi_method True [] ''dai'' [typed ''contract Dai'' '''' ''address''] False ''view'',
   abi_method True [] ''daiFab'' [typed ''contract DaiFab'' '''' ''address''] False ''view'',
   abi_method True [] ''daiJoin'' [typed ''contract DaiJoin'' '''' ''address''] False ''view'',
   abi_method True [] ''daiJoinFab'' [typed ''contract DaiJoinFab'' '''' ''address''] False ''view'',
   abi_method False [typed ''address'' ''gov'' ''address''] ''deployAuctions'' [] False ''nonpayable'',
   abi_method False [typed ''bytes32'' ''ilk'' ''bytes32'', typed ''address'' ''join'' ''address'', typed
     ''address'' ''pip'' ''address''] ''deployCollateral'' [] False ''nonpayable'',
   abi_method False [typed ''uint256'' ''chainId'' ''uint256''] ''deployDai'' [] False ''nonpayable'',
   abi_method False [] ''deployLiquidator'' [] False ''nonpayable'',
   abi_method False [typed ''uint256'' ''delay'' ''uint256'', typed ''address'' ''authority'' ''address'']
     ''deployPause'' [] False ''nonpayable'',
   abi_method False [typed ''address'' ''gov'' ''address'', typed ''address'' ''pit'' ''address'', typed
     ''uint256'' ''min'' ''uint256''] ''deployShutdown'' [] False ''nonpayable'',
   abi_method False [] ''deployTaxation'' [] False ''nonpayable'',
   abi_method False [] ''deployVat'' [] False ''nonpayable'',
   abi_method True [] ''end'' [typed ''contract End'' '''' ''address''] False ''view'',
   abi_method True [] ''endFab'' [typed ''contract EndFab'' '''' ''address''] False ''view'',
   abi_method True [] ''esm'' [typed ''contract ESM'' '''' ''address''] False ''view'',
   abi_method True [] ''esmFab'' [typed ''contract ESMFab'' '''' ''address''] False ''view'',
   abi_method True [] ''flap'' [typed ''contract Flapper'' '''' ''address''] False ''view'',
   abi_method True [] ''flapFab'' [typed ''contract FlapFab'' '''' ''address''] False ''view'',
   abi_method True [] ''flipFab'' [typed ''contract FlipFab'' '''' ''address''] False ''view'']"

definition maker_dao_abi_20_json_part2 :: "json list" where
  "maker_dao_abi_20_json_part2 = [
   abi_method True [] ''flop'' [typed ''contract Flopper'' '''' ''address''] False ''view'',
   abi_method True [] ''flopFab'' [typed ''contract FlopFab'' '''' ''address''] False ''view'',
   abi_method True [typed ''bytes32'' '''' ''bytes32''] ''ilks'' [typed ''contract Flipper'' ''flip'' ''address'',
     typed ''address'' ''join'' ''address''] False ''view'',
   abi_method True [] ''jug'' [typed ''contract Jug'' '''' ''address''] False ''view'',
   abi_method True [] ''jugFab'' [typed ''contract JugFab'' '''' ''address''] False ''view'',
   abi_method True [] ''owner'' [typed ''address'' '''' ''address''] False ''view'',
   abi_method True [] ''pause'' [typed ''contract DSPause'' '''' ''address''] False ''view'',
   abi_method True [] ''pauseFab'' [typed ''contract PauseFab'' '''' ''address''] False ''view'',
   abi_method True [] ''pot'' [typed ''contract Pot'' '''' ''address''] False ''view'',
   abi_method True [] ''potFab'' [typed ''contract PotFab'' '''' ''address''] False ''view'',
   abi_method False [] ''releaseAuth'' [] False ''nonpayable'',
   abi_method False [typed ''bytes32'' ''ilk'' ''bytes32''] ''releaseAuthFlip'' [] False ''nonpayable'',
   abi_method False [typed ''contract DSAuthority'' ''authority_'' ''address''] ''setAuthority'' [] False
     ''nonpayable'',
   abi_method False [typed ''address'' ''owner_'' ''address''] ''setOwner'' [] False ''nonpayable'',
   abi_method True [] ''spotFab'' [typed ''contract SpotFab'' '''' ''address''] False ''view'',
   abi_method True [] ''spotter'' [typed ''contract Spotter'' '''' ''address''] False ''view'',
   abi_method True [] ''step'' [typed ''uint8'' '''' ''uint8''] False ''view'',
   abi_method True [] ''vat'' [typed ''contract Vat'' '''' ''address''] False ''view'',
   abi_method True [] ''vatFab'' [typed ''contract VatFab'' '''' ''address''] False ''view'',
   abi_method True [] ''vow'' [typed ''contract Vow'' '''' ''address''] False ''view'',
   abi_method True [] ''vowFab'' [typed ''contract VowFab'' '''' ''address''] False ''view'']"

definition maker_dao_abi_20_json :: json where
  "maker_dao_abi_20_json = JList (maker_dao_abi_20_json_part1 @ maker_dao_abi_20_json_part2)"

definition maker_dao_abi_21_json :: json where
  "maker_dao_abi_21_json = JList [
   JObj [(''inputs'', JList [typed ''contract DSChief'' ''chief_'' ''address'']), (''payable'', JBool False),
     (''stateMutability'', JStr ''nonpayable''), (''type'', JStr ''constructor'')],
   event False [indexed True ''address'' ''cold'' ''address'', indexed True ''address'' ''hot'' ''address'',
     indexed True ''address'' ''voteProxy'' ''address''] ''LinkConfirmed'',
   event False [indexed True ''address'' ''cold'' ''address'', indexed True ''address'' ''hot'' ''address'']
     ''LinkRequested'',
   abi_method False [typed ''address'' ''cold'' ''address''] ''approveLink'' [typed ''contract VoteProxy''
     ''voteProxy'' ''address''] False ''nonpayable'',
   abi_method False [] ''breakLink'' [] False ''nonpayable'',
   abi_method True [] ''chief'' [typed ''contract DSChief'' '''' ''address''] False ''view'',
   abi_method True [typed ''address'' '''' ''address''] ''coldMap'' [typed ''contract VoteProxy'' ''''
     ''address''] False ''view'',
   abi_method True [typed ''address'' ''guy'' ''address''] ''hasProxy'' [typed ''bool'' '''' ''bool''] False
     ''view'',
   abi_method True [typed ''address'' '''' ''address''] ''hotMap'' [typed ''contract VoteProxy'' '''' ''address'']
     False ''view'',
   abi_method False [typed ''address'' ''hot'' ''address''] ''initiateLink'' [] False ''nonpayable'',
   abi_method True [typed ''address'' '''' ''address''] ''linkRequests'' [typed ''address'' '''' ''address'']
     False ''view'',
   abi_method False [] ''linkSelf'' [typed ''contract VoteProxy'' ''voteProxy'' ''address''] False ''nonpayable'']"

definition maker_dao_abi_22_json :: json where
  "maker_dao_abi_22_json = JList [
   JObj [(''inputs'', JList [typed ''uint256'' ''supply'' ''uint256'']), (''payable'', JBool False),
     (''stateMutability'', JStr ''nonpayable''), (''type'', JStr ''constructor'')],
   event False [indexed True ''address'' ''src'' ''address'', indexed True ''address'' ''guy'' ''address'',
     indexed False ''uint256'' ''wad'' ''uint256''] ''Approval'',
   event False [indexed True ''address'' ''src'' ''address'', indexed True ''address'' ''dst'' ''address'',
     indexed False ''uint256'' ''wad'' ''uint256''] ''Transfer'',
   abi_method True [typed ''address'' ''src'' ''address'', typed ''address'' ''guy'' ''address''] ''allowance''
     [typed ''uint256'' '''' ''uint256''] False ''view'',
   abi_method False [typed ''address'' ''guy'' ''address'', typed ''uint256'' ''wad'' ''uint256''] ''approve''
     [typed ''bool'' '''' ''bool''] False ''nonpayable'',
   abi_method True [typed ''address'' ''src'' ''address''] ''balanceOf'' [typed ''uint256'' '''' ''uint256'']
     False ''view'',
   abi_method True [] ''decimals'' [typed ''uint8'' '''' ''uint8''] False ''view'',
   abi_method True [] ''implementation'' [typed ''address'' '''' ''address''] False ''view'',
   abi_method True [] ''name'' [typed ''string'' '''' ''string''] False ''view'',
   abi_method False [typed ''address'' ''newImplementation'' ''address''] ''setImplementation'' [] False
     ''nonpayable'',
   abi_method True [] ''symbol'' [typed ''string'' '''' ''string''] False ''view'',
   abi_method True [] ''totalSupply'' [typed ''uint256'' '''' ''uint256''] False ''view'',
   abi_method False [typed ''address'' ''dst'' ''address'', typed ''uint256'' ''wad'' ''uint256''] ''transfer''
     [typed ''bool'' '''' ''bool''] False ''nonpayable'',
   abi_method False [typed ''address'' ''src'' ''address'', typed ''address'' ''dst'' ''address'', typed
     ''uint256'' ''wad'' ''uint256''] ''transferFrom'' [typed ''bool'' '''' ''bool''] False ''nonpayable'']"

definition maker_dao_abi_23_json :: json where
  "maker_dao_abi_23_json = JList [
   abi_method False [JObj [(''components'', JList [typed ''address'' ''target'' ''address'', typed ''bytes''
     ''callData'' ''bytes'']), (''internalType'', JStr ''struct Multicall.Call[]''), (''name'', JStr ''calls''),
     (''type'', JStr ''tuple[]'')]] ''aggregate'' [typed ''uint256'' ''blockNumber'' ''uint256'', typed ''bytes[]''
     ''returnData'' ''bytes[]''] False ''nonpayable'',
   abi_method True [typed ''uint256'' ''blockNumber'' ''uint256''] ''getBlockHash'' [typed ''bytes32''
     ''blockHash'' ''bytes32''] False ''view'',
   abi_method True [] ''getCurrentBlockCoinbase'' [typed ''address'' ''coinbase'' ''address''] False ''view'',
   abi_method True [] ''getCurrentBlockDifficulty'' [typed ''uint256'' ''difficulty'' ''uint256''] False ''view'',
   abi_method True [] ''getCurrentBlockGasLimit'' [typed ''uint256'' ''gaslimit'' ''uint256''] False ''view'',
   abi_method True [] ''getCurrentBlockTimestamp'' [typed ''uint256'' ''timestamp'' ''uint256''] False ''view'',
   abi_method True [typed ''address'' ''addr'' ''address''] ''getEthBalance'' [typed ''uint256'' ''balance''
     ''uint256''] False ''view'',
   abi_method True [] ''getLastBlockHash'' [typed ''bytes32'' ''blockHash'' ''bytes32''] False ''view'']"

definition maker_dao_abi_24_json :: json where
  "maker_dao_abi_24_json = JList [
   abi_method False [typed ''address'' ''vat'' ''address'', typed ''address'' ''gov'' ''address''] ''newFlop''
     [typed ''contract Flopper'' ''flop'' ''address''] False ''nonpayable'']"

definition maker_dao_abi_25_json :: json where
  "maker_dao_abi_25_json = JList [
   JObj [(''inputs'', JList [typed ''address'' ''factory_'' ''address'']), (''payable'', JBool False),
     (''stateMutability'', JStr ''nonpayable''), (''type'', JStr ''constructor'')],
   abi_method False [] ''build'' [typed ''address payable'' ''proxy'' ''address''] False ''nonpayable'',
   abi_method False [typed ''address'' ''owner'' ''address''] ''build'' [typed ''address payable'' ''proxy''
     ''address''] False ''nonpayable'',
   abi_method True [typed ''address'' '''' ''address''] ''proxies'' [typed ''contract DSProxy'' '''' ''address'']
     False ''view'']"

definition maker_dao_abi_26_json :: json where
  "maker_dao_abi_26_json = JList [
   abi_method False [typed ''address'' ''apt'' ''address'', typed ''address'' ''urn'' ''address'', typed
     ''uint256'' ''wad'' ''uint256''] ''daiJoin_join'' [] False ''nonpayable'']"

definition maker_dao_abi_27_json :: json where
  "maker_dao_abi_27_json = JList [
   event False [indexed True ''address'' ''src'' ''address'', indexed True ''address'' ''guy'' ''address'',
     indexed False ''uint256'' ''wad'' ''uint256''] ''Approval'',
   event False [indexed True ''address'' ''dst'' ''address'', indexed False ''uint256'' ''wad'' ''uint256'']
     ''Deposit'',
   event False [indexed True ''address'' ''src'' ''address'', indexed True ''address'' ''dst'' ''address'',
     indexed False ''uint256'' ''wad'' ''uint256''] ''Transfer'',
   event False [indexed True ''address'' ''src'' ''address'', indexed False ''uint256'' ''wad'' ''uint256'']
     ''Withdrawal'',
   JObj [(''payable'', JBool True), (''stateMutability'', JStr ''payable''), (''type'', JStr ''fallback'')],
   abi_method True [typed ''address'' '''' ''address'', typed ''address'' '''' ''address''] ''allowance'' [typed
     ''uint256'' '''' ''uint256''] False ''view'',
   abi_method False [typed ''address'' ''guy'' ''address'', typed ''uint256'' ''wad'' ''uint256''] ''approve''
     [typed ''bool'' '''' ''bool''] False ''nonpayable'',
   abi_method True [typed ''address'' '''' ''address''] ''balanceOf'' [typed ''uint256'' '''' ''uint256''] False
     ''view'',
   abi_method True [] ''decimals'' [typed ''uint8'' '''' ''uint8''] False ''view'',
   abi_method False [] ''deposit'' [] True ''payable'',
   abi_method True [] ''name'' [typed ''string'' '''' ''string''] False ''view'',
   abi_method True [] ''symbol'' [typed ''string'' '''' ''string''] False ''view'',
   abi_method True [] ''totalSupply'' [typed ''uint256'' '''' ''uint256''] False ''view'',
   abi_method False [typed ''address'' ''dst'' ''address'', typed ''uint256'' ''wad'' ''uint256''] ''transfer''
     [typed ''bool'' '''' ''bool''] False ''nonpayable'',
   abi_method False [typed ''address'' ''src'' ''address'', typed ''address'' ''dst'' ''address'', typed
     ''uint256'' ''wad'' ''uint256''] ''transferFrom'' [typed ''bool'' '''' ''bool''] False ''nonpayable'',
   abi_method False [typed ''uint256'' ''wad'' ''uint256''] ''withdraw'' [] False ''nonpayable'']"

definition maker_dao_abi_28_json :: json where
  "maker_dao_abi_28_json = JList [
   abi_method False [typed ''address'' ''vat'' ''address''] ''newCat'' [typed ''contract Cat'' ''cat''
     ''address''] False ''nonpayable'']"

definition maker_dao_abi_29_json :: json where
  "maker_dao_abi_29_json = JList [
   JObj [(''inputs'', JList []), (''payable'', JBool False), (''stateMutability'', JStr ''nonpayable''),
     (''type'', JStr ''constructor'')],
   event False [indexed True ''address'' ''sender'' ''address'', indexed True ''address'' ''owner'' ''address'',
     indexed False ''address'' ''proxy'' ''address'', indexed False ''address'' ''cache'' ''address''] ''Created'',
   abi_method False [] ''build'' [typed ''address payable'' ''proxy'' ''address''] False ''nonpayable'',
   abi_method False [typed ''address'' ''owner'' ''address''] ''build'' [typed ''address payable'' ''proxy''
     ''address''] False ''nonpayable'',
   abi_method True [] ''cache'' [typed ''contract DSProxyCache'' '''' ''address''] False ''view'',
   abi_method True [typed ''address'' '''' ''address''] ''isProxy'' [typed ''bool'' '''' ''bool''] False ''view'']"

definition maker_dao_abi_30_json_part1 :: "json list" where
  "maker_dao_abi_30_json_part1 = [
   JObj [(''inputs'', JList [typed ''uint256'' ''chainId_'' ''uint256'']), (''payable'', JBool False),
     (''stateMutability'', JStr ''nonpayable''), (''type'', JStr ''constructor'')],
   event False [indexed True ''address'' ''src'' ''address'', indexed True ''address'' ''guy'' ''address'',
     indexed False ''uint256'' ''wad'' ''uint256''] ''Approval'',
   event True [indexed True ''bytes4'' ''sig'' ''bytes4'', indexed True ''address'' ''usr'' ''address'', indexed
     True ''bytes32'' ''arg1'' ''bytes32'', indexed True ''bytes32'' ''arg2'' ''bytes32'', indexed False ''bytes''
     ''data'' ''bytes''] ''LogNote'',
   event False [indexed True ''address'' ''src'' ''address'', indexed True ''address'' ''dst'' ''address'',
     indexed False ''uint256'' ''wad'' ''uint256''] ''Transfer'',
   abi_method True [] ''DOMAIN_SEPARATOR'' [typed ''bytes32'' '''' ''bytes32''] False ''view'',
   abi_method True [] ''PERMIT_TYPEHASH'' [typed ''bytes32'' '''' ''bytes32''] False ''view'',
   abi_method True [typed ''address'' '''' ''address'', typed ''address'' '''' ''address''] ''allowance'' [typed
     ''uint256'' '''' ''uint256''] False ''view'',
   abi_method False [typed ''address'' ''usr'' ''address'', typed ''uint256'' ''wad'' ''uint256''] ''approve''
     [typed ''bool'' '''' ''bool''] False ''nonpayable'',
   abi_method True [typed ''address'' '''' ''address''] ''balanceOf'' [typed ''uint256'' '''' ''uint256''] False
     ''view'',
   abi_method False [typed ''address'' ''usr'' ''address'', typed ''uint256'' ''wad'' ''uint256''] ''burn'' []
     False ''nonpayable'',
   abi_method True [] ''decimals'' [typed ''uint8'' '''' ''uint8''] False ''view'',
   abi_method False [typed ''address'' ''guy'' ''address''] ''deny'' [] False ''nonpayable'',
   abi_method False [typed ''address'' ''usr'' ''address'', typed ''uint256'' ''wad'' ''uint256''] ''mint'' []
     False ''nonpayable'',
   abi_method False [typed ''address'' ''src'' ''address'', typed ''address'' ''dst'' ''address'', typed
     ''uint256'' ''wad'' ''uint256''] ''move'' [] False ''nonpayable'',
   abi_method True [] ''name'' [typed ''string'' '''' ''string''] False ''view'',
   abi_method True [typed ''address'' '''' ''address''] ''nonces'' [typed ''uint256'' '''' ''uint256''] False
     ''view'',
   abi_method False [typed ''address'' ''holder'' ''address'', typed ''address'' ''spender'' ''address'', typed
     ''uint256'' ''nonce'' ''uint256'', typed ''uint256'' ''expiry'' ''uint256'', typed ''bool'' ''allowed''
     ''bool'', typed ''uint8'' ''v'' ''uint8'', typed ''bytes32'' ''r'' ''bytes32'', typed ''bytes32'' ''s''
     ''bytes32''] ''permit'' [] False ''nonpayable'',
   abi_method False [typed ''address'' ''usr'' ''address'', typed ''uint256'' ''wad'' ''uint256''] ''pull'' []
     False ''nonpayable'',
   abi_method False [typed ''address'' ''usr'' ''address'', typed ''uint256'' ''wad'' ''uint256''] ''push'' []
     False ''nonpayable'',
   abi_method False [typed ''address'' ''guy'' ''address''] ''rely'' [] False ''nonpayable'',
   abi_method True [] ''symbol'' [typed ''string'' '''' ''string''] False ''view'',
   abi_method True [] ''totalSupply'' [typed ''uint256'' '''' ''uint256''] False ''view'',
   abi_method False [typed ''address'' ''dst'' ''address'', typed ''uint256'' ''wad'' ''uint256''] ''transfer''
     [typed ''bool'' '''' ''bool''] False ''nonpayable'',
   abi_method False [typed ''address'' ''src'' ''address'', typed ''address'' ''dst'' ''address'', typed
     ''uint256'' ''wad'' ''uint256''] ''transferFrom'' [typed ''bool'' '''' ''bool''] False ''nonpayable'',
   abi_method True [] ''version'' [typed ''string'' '''' ''string''] False ''view'']"

definition maker_dao_abi_30_json_part2 :: "json list" where
  "maker_dao_abi_30_json_part2 = [
   abi_method True [typed ''address'' '''' ''address''] ''wards'' [typed ''uint256'' '''' ''uint256''] False
     ''view'']"

definition maker_dao_abi_30_json :: json where
  "maker_dao_abi_30_json = JList (maker_dao_abi_30_json_part1 @ maker_dao_abi_30_json_part2)"

definition maker_dao_abi_31_json :: json where
  "maker_dao_abi_31_json = JList [
   abi_method True [typed ''uint256'' ''id'' ''uint256''] ''bids'' [typed ''uint256'' ''bid'' ''uint256'', typed
     ''uint256'' ''lot'' ''uint256'', typed ''address'' ''guy'' ''address'', typed ''uint48'' ''tic'' ''uint48'',
     typed ''uint48'' ''end'' ''uint48'', typed ''address'' ''usr'' ''address'', typed ''address'' ''gal''
     ''address'', typed ''uint256'' ''tab'' ''uint256''] False ''view'',
   abi_method False [typed ''uint256'' ''id'' ''uint256''] ''yank'' [] False ''nonpayable'']"

definition maker_dao_abi_32_json :: json where
  "maker_dao_abi_32_json = JList [
   abi_method False [typed ''address'' ''urn'' ''address'', typed ''address'' ''gal'' ''address'', typed
     ''uint256'' ''tab'' ''uint256'', typed ''uint256'' ''lot'' ''uint256'', typed ''uint256'' ''bid'' ''uint256'']
     ''kick'' [typed ''uint256'' '''' ''uint256''] False ''nonpayable'']"

definition maker_dao_abi_33_json :: json where
  "maker_dao_abi_33_json = JList [
   abi_method True [typed ''bytes'' ''_code'' ''bytes''] ''read'' [typed ''address'' '''' ''address''] False
     ''view'',
   abi_method False [typed ''bytes'' ''_code'' ''bytes''] ''write'' [typed ''address'' ''target'' ''address'']
     False ''nonpayable'']"

definition maker_dao_abi_34_json :: json where
  "maker_dao_abi_34_json = JList [
   abi_method True [typed ''address'' ''manager'' ''address'', typed ''address'' ''guy'' ''address'']
     ''getCdpsAsc'' [typed ''uint256[]'' ''ids'' ''uint256[]'', typed ''address[]'' ''urns'' ''address[]'', typed
     ''bytes32[]'' ''ilks'' ''bytes32[]''] False ''view'',
   abi_method True [typed ''address'' ''manager'' ''address'', typed ''address'' ''guy'' ''address'']
     ''getCdpsDesc'' [typed ''uint256[]'' ''ids'' ''uint256[]'', typed ''address[]'' ''urns'' ''address[]'', typed
     ''bytes32[]'' ''ilks'' ''bytes32[]''] False ''view'']"

definition maker_dao_abi_35_json :: json where
  "maker_dao_abi_35_json = JList [
   JObj [(''payable'', JBool False), (''stateMutability'', JStr ''nonpayable''), (''type'', JStr ''fallback'')]]"

definition maker_dao_abi_36_json :: json where
  "maker_dao_abi_36_json = JList [
   abi_method False [typed ''address'' ''vat'' ''address''] ''newJug'' [typed ''contract Jug'' ''jug''
     ''address''] False ''nonpayable'']"

definition maker_dao_abi_37_json :: json where
  "maker_dao_abi_37_json = JList [
   abi_method True [] ''get'' [typed ''uint256'' '''' ''uint256''] False ''view'',
   abi_method True [typed ''uint256'' ''_val'' ''uint256''] ''getAdd'' [typed ''uint256'' '''' ''uint256''] False
     ''view'',
   abi_method True [] ''getAnd10'' [typed ''uint256'' '''' ''uint256'', typed ''uint256'' '''' ''uint256''] False
     ''view'',
   abi_method False [typed ''uint256'' ''_val'' ''uint256''] ''set'' [] False ''nonpayable'']"

definition maker_dao_abi_38_json :: json where
  "maker_dao_abi_38_json = JList [
   event False [indexed True ''address'' ''src'' ''address'', indexed True ''address'' ''guy'' ''address'',
     indexed False ''uint256'' ''wad'' ''uint256''] ''Approval'',
   event False [indexed True ''address'' ''dst'' ''address'', indexed False ''uint256'' ''wad'' ''uint256'']
     ''Deposit'',
   event False [indexed True ''address'' ''src'' ''address'', indexed True ''address'' ''dst'' ''address'',
     indexed False ''uint256'' ''wad'' ''uint256''] ''Transfer'',
   event False [indexed True ''address'' ''src'' ''address'', indexed False ''uint256'' ''wad'' ''uint256'']
     ''Withdrawal'',
   JObj [(''payable'', JBool True), (''stateMutability'', JStr ''payable''), (''type'', JStr ''fallback'')],
   abi_method True [typed ''address'' '''' ''address'', typed ''address'' '''' ''address''] ''allowance'' [typed
     ''uint256'' '''' ''uint256''] False ''view'',
   abi_method False [typed ''address'' ''guy'' ''address'', typed ''uint256'' ''wad'' ''uint256''] ''approve''
     [typed ''bool'' '''' ''bool''] False ''nonpayable'',
   abi_method True [typed ''address'' '''' ''address''] ''balanceOf'' [typed ''uint256'' '''' ''uint256''] False
     ''view'',
   abi_method True [] ''decimals'' [typed ''uint8'' '''' ''uint8''] False ''view'',
   abi_method False [] ''deposit'' [] True ''payable'',
   abi_method False [typed ''uint256'' ''wad'' ''uint256''] ''exit'' [] False ''nonpayable'',
   abi_method False [] ''join'' [] True ''payable'',
   abi_method True [] ''name'' [typed ''string'' '''' ''string''] False ''view'',
   abi_method True [] ''symbol'' [typed ''string'' '''' ''string''] False ''view'',
   abi_method True [] ''totalSupply'' [typed ''uint256'' '''' ''uint256''] False ''view'',
   abi_method False [typed ''address'' ''dst'' ''address'', typed ''uint256'' ''wad'' ''uint256''] ''transfer''
     [typed ''bool'' '''' ''bool''] False ''nonpayable'',
   abi_method False [typed ''address'' ''src'' ''address'', typed ''address'' ''dst'' ''address'', typed
     ''uint256'' ''wad'' ''uint256''] ''transferFrom'' [typed ''bool'' '''' ''bool''] False ''nonpayable'',
   abi_method False [typed ''uint256'' ''wad'' ''uint256''] ''withdraw'' [] False ''nonpayable'']"

definition maker_dao_abi_39_json :: json where
  "maker_dao_abi_39_json = JList [
   event True [indexed True ''bytes4'' ''sig'' ''bytes4'', indexed True ''address'' ''guy'' ''address'', indexed
     True ''bytes32'' ''foo'' ''bytes32'', indexed True ''bytes32'' ''bar'' ''bytes32'', indexed False ''uint256''
     ''wad'' ''uint256'', indexed False ''bytes'' ''fax'' ''bytes''] ''LogNote'',
   event False [indexed True ''address'' ''authority'' ''address''] ''LogSetAuthority'',
   event False [indexed True ''address'' ''owner'' ''address''] ''LogSetOwner'',
   abi_method True [] ''authority'' [typed ''contract DSAuthority'' '''' ''address''] False ''view'',
   abi_method True [] ''owner'' [typed ''address'' '''' ''address''] False ''view'',
   abi_method True [] ''peek'' [typed ''bytes32'' '''' ''bytes32'', typed ''bool'' '''' ''bool''] False ''view'',
   abi_method False [typed ''bytes32'' ''wut'' ''bytes32''] ''poke'' [] False ''nonpayable'',
   abi_method True [] ''read'' [typed ''bytes32'' '''' ''bytes32''] False ''view'',
   abi_method False [typed ''contract DSAuthority'' ''authority_'' ''address''] ''setAuthority'' [] False
     ''nonpayable'',
   abi_method False [typed ''address'' ''owner_'' ''address''] ''setOwner'' [] False ''nonpayable'',
   abi_method False [] ''void'' [] False ''nonpayable'']"

definition maker_dao_abi_40_json :: json where
  "maker_dao_abi_40_json = JList [
   event False [indexed True ''address'' ''authority'' ''address''] ''LogSetAuthority'',
   event False [indexed True ''address'' ''owner'' ''address''] ''LogSetOwner'',
   abi_method True [] ''authority'' [typed ''contract DSAuthority'' '''' ''address''] False ''view'',
   abi_method False [] ''cap1'' [] False ''nonpayable'',
   abi_method False [] ''cap2'' [] False ''nonpayable'',
   abi_method True [] ''flag1'' [typed ''bool'' '''' ''bool''] False ''view'',
   abi_method True [] ''flag2'' [typed ''bool'' '''' ''bool''] False ''view'',
   abi_method True [] ''owner'' [typed ''address'' '''' ''address''] False ''view'',
   abi_method False [typed ''contract DSAuthority'' ''authority_'' ''address''] ''setAuthority'' [] False
     ''nonpayable'',
   abi_method False [typed ''address'' ''owner_'' ''address''] ''setOwner'' [] False ''nonpayable'']"

definition maker_dao_abi_41_json :: json where
  "maker_dao_abi_41_json = JList [
   JObj [(''inputs'', JList [typed ''address'' ''vat_'' ''address'', typed ''address'' ''gem_'' ''address'']),
     (''payable'', JBool False), (''stateMutability'', JStr ''nonpayable''), (''type'', JStr ''constructor'')],
   event False [indexed False ''uint256'' ''id'' ''uint256'', indexed False ''uint256'' ''lot'' ''uint256'',
     indexed False ''uint256'' ''bid'' ''uint256'', indexed True ''address'' ''gal'' ''address''] ''Kick'',
   event True [indexed True ''bytes4'' ''sig'' ''bytes4'', indexed True ''address'' ''usr'' ''address'', indexed
     True ''bytes32'' ''arg1'' ''bytes32'', indexed True ''bytes32'' ''arg2'' ''bytes32'', indexed False ''bytes''
     ''data'' ''bytes''] ''LogNote'',
   abi_method True [] ''beg'' [typed ''uint256'' '''' ''uint256''] False ''view'',
   abi_method True [typed ''uint256'' '''' ''uint256''] ''bids'' [typed ''uint256'' ''bid'' ''uint256'', typed
     ''uint256'' ''lot'' ''uint256'', typed ''address'' ''guy'' ''address'', typed ''uint48'' ''tic'' ''uint48'',
     typed ''uint48'' ''end'' ''uint48''] False ''view'',
   abi_method False [] ''cage'' [] False ''nonpayable'',
   abi_method False [typed ''uint256'' ''id'' ''uint256''] ''deal'' [] False ''nonpayable'',
   abi_method False [typed ''uint256'' ''id'' ''uint256'', typed ''uint256'' ''lot'' ''uint256'', typed
     ''uint256'' ''bid'' ''uint256''] ''dent'' [] False ''nonpayable'',
   abi_method False [typed ''address'' ''usr'' ''address''] ''deny'' [] False ''nonpayable'',
   abi_method False [typed ''bytes32'' ''what'' ''bytes32'', typed ''uint256'' ''data'' ''uint256''] ''file'' []
     False ''nonpayable'',
   abi_method True [] ''gem'' [typed ''contract GemLike'' '''' ''address''] False ''view'',
   abi_method False [typed ''address'' ''gal'' ''address'', typed ''uint256'' ''lot'' ''uint256'', typed
     ''uint256'' ''bid'' ''uint256''] ''kick'' [typed ''uint256'' ''id'' ''uint256''] False ''nonpayable'',
   abi_method True [] ''kicks'' [typed ''uint256'' '''' ''uint256''] False ''view'',
   abi_method True [] ''live'' [typed ''uint256'' '''' ''uint256''] False ''view'',
   abi_method True [] ''pad'' [typed ''uint256'' '''' ''uint256''] False ''view'',
   abi_method False [typed ''address'' ''usr'' ''address''] ''rely'' [] False ''nonpayable'',
   abi_method True [] ''tau'' [typed ''uint48'' '''' ''uint48''] False ''view'',
   abi_method False [typed ''uint256'' ''id'' ''uint256''] ''tick'' [] False ''nonpayable'',
   abi_method True [] ''ttl'' [typed ''uint48'' '''' ''uint48''] False ''view'',
   abi_method True [] ''vat'' [typed ''contract VatLike'' '''' ''address''] False ''view'',
   abi_method True [] ''vow'' [typed ''address'' '''' ''address''] False ''view'',
   abi_method True [typed ''address'' '''' ''address''] ''wards'' [typed ''uint256'' '''' ''uint256''] False
     ''view'',
   abi_method False [typed ''uint256'' ''id'' ''uint256''] ''yank'' [] False ''nonpayable'']"

definition maker_dao_abi_42_json :: json where
  "maker_dao_abi_42_json = JList [
   event False [indexed True ''address'' ''src'' ''address'', indexed True ''address'' ''guy'' ''address'',
     indexed False ''uint256'' ''wad'' ''uint256''] ''Approval'',
   event False [indexed True ''address'' ''src'' ''address'', indexed True ''address'' ''dst'' ''address'',
     indexed False ''uint256'' ''wad'' ''uint256''] ''Transfer'',
   abi_method True [typed ''address'' ''src'' ''address'', typed ''address'' ''guy'' ''address''] ''allowance''
     [typed ''uint256'' '''' ''uint256''] False ''view'',
   abi_method False [typed ''address'' ''guy'' ''address'', typed ''uint256'' ''wad'' ''uint256''] ''approve''
     [typed ''bool'' '''' ''bool''] False ''nonpayable'',
   abi_method True [typed ''address'' ''guy'' ''address''] ''balanceOf'' [typed ''uint256'' '''' ''uint256'']
     False ''view'',
   abi_method True [] ''totalSupply'' [typed ''uint256'' '''' ''uint256''] False ''view'',
   abi_method False [typed ''address'' ''dst'' ''address'', typed ''uint256'' ''wad'' ''uint256''] ''transfer''
     [typed ''bool'' '''' ''bool''] False ''nonpayable'',
   abi_method False [typed ''address'' ''src'' ''address'', typed ''address'' ''dst'' ''address'', typed
     ''uint256'' ''wad'' ''uint256''] ''transferFrom'' [typed ''bool'' '''' ''bool''] False ''nonpayable'']"

definition maker_dao_abi_43_json :: json where
  "maker_dao_abi_43_json = JList [
   JObj [(''inputs'', JList [typed ''contract DSChief'' ''_chief'' ''address'', typed ''address'' ''_cold''
     ''address'', typed ''address'' ''_hot'' ''address'']), (''payable'', JBool False), (''stateMutability'', JStr
     ''nonpayable''), (''type'', JStr ''constructor'')],
   abi_method True [] ''chief'' [typed ''contract DSChief'' '''' ''address''] False ''view'',
   abi_method True [] ''cold'' [typed ''address'' '''' ''address''] False ''view'',
   abi_method False [typed ''uint256'' ''wad'' ''uint256''] ''free'' [] False ''nonpayable'',
   abi_method False [] ''freeAll'' [] False ''nonpayable'',
   abi_method True [] ''gov'' [typed ''contract DSToken'' '''' ''address''] False ''view'',
   abi_method True [] ''hot'' [typed ''address'' '''' ''address''] False ''view'',
   abi_method True [] ''iou'' [typed ''contract DSToken'' '''' ''address''] False ''view'',
   abi_method False [typed ''uint256'' ''wad'' ''uint256''] ''lock'' [] False ''nonpayable'',
   abi_method False [typed ''bytes32'' ''slate'' ''bytes32''] ''vote'' [] False ''nonpayable'',
   abi_method False [typed ''address[]'' ''yays'' ''address[]''] ''vote'' [typed ''bytes32'' '''' ''bytes32'']
     False ''nonpayable'']"

definition maker_dao_abi_44_json :: json where
  "maker_dao_abi_44_json = JList [
   abi_method False [typed ''address'' ''vat'' ''address'', typed ''address'' ''gov'' ''address''] ''newFlap''
     [typed ''contract Flapper'' ''flap'' ''address''] False ''nonpayable'']"

definition maker_dao_abi_45_json :: json where
  "maker_dao_abi_45_json = JList [
   JObj [(''inputs'', JList [typed ''contract DSToken'' ''token_'' ''address'']), (''payable'', JBool False),
     (''stateMutability'', JStr ''nonpayable''), (''type'', JStr ''constructor'')],
   abi_method True [typed ''address'' ''owner'' ''address'', typed ''address'' ''spender'' ''address'']
     ''doAllowance'' [typed ''uint256'' '''' ''uint256''] False ''view'',
   abi_method False [typed ''address'' ''guy'' ''address''] ''doApprove'' [typed ''bool'' '''' ''bool''] False
     ''nonpayable'',
   abi_method False [typed ''address'' ''recipient'' ''address'', typed ''uint256'' ''amount'' ''uint256'']
     ''doApprove'' [typed ''bool'' '''' ''bool''] False ''nonpayable'',
   abi_method True [typed ''address'' ''who'' ''address''] ''doBalanceOf'' [typed ''uint256'' '''' ''uint256'']
     False ''view'',
   abi_method False [typed ''uint256'' ''wad'' ''uint256''] ''doBurn'' [] False ''nonpayable'',
   abi_method False [typed ''address'' ''guy'' ''address'', typed ''uint256'' ''wad'' ''uint256''] ''doBurn'' []
     False ''nonpayable'',
   abi_method False [typed ''address'' ''guy'' ''address'', typed ''uint256'' ''wad'' ''uint256''] ''doMint'' []
     False ''nonpayable'',
   abi_method False [typed ''uint256'' ''wad'' ''uint256''] ''doMint'' [] False ''nonpayable'',
   abi_method False [typed ''address'' ''src'' ''address'', typed ''address'' ''dst'' ''address'', typed
     ''uint256'' ''amount'' ''uint256''] ''doMove'' [] False ''nonpayable'',
   abi_method False [typed ''address'' ''who'' ''address'', typed ''uint256'' ''amount'' ''uint256''] ''doPull''
     [] False ''nonpayable'',
   abi_method False [typed ''address'' ''who'' ''address'', typed ''uint256'' ''amount'' ''uint256''] ''doPush''
     [] False ''nonpayable'',
   abi_method False [typed ''bytes32'' ''name'' ''bytes32''] ''doSetName'' [] False ''nonpayable'',
   abi_method False [typed ''address'' ''to'' ''address'', typed ''uint256'' ''amount'' ''uint256'']
     ''doTransfer'' [typed ''bool'' '''' ''bool''] False ''nonpayable'',
   abi_method False [typed ''address'' ''from'' ''address'', typed ''address'' ''to'' ''address'', typed
     ''uint256'' ''amount'' ''uint256''] ''doTransferFrom'' [typed ''bool'' '''' ''bool''] False ''nonpayable'']"

definition maker_dao_abi_46_json :: json where
  "maker_dao_abi_46_json = JList [
   JObj [(''inputs'', JList [typed ''contract FlipperMom'' ''mom_'' ''address'']), (''payable'', JBool False),
     (''stateMutability'', JStr ''nonpayable''), (''type'', JStr ''constructor'')],
   abi_method False [typed ''address'' ''flip'' ''address''] ''deny'' [] False ''nonpayable'',
   abi_method False [typed ''address'' ''flip'' ''address''] ''rely'' [] False ''nonpayable'',
   abi_method False [typed ''address'' ''newAuthority'' ''address''] ''setAuthority'' [] False ''nonpayable'',
   abi_method False [typed ''address'' ''newOwner'' ''address''] ''setOwner'' [] False ''nonpayable'']"

definition maker_dao_abi_47_json_part1 :: "json list" where
  "maker_dao_abi_47_json_part1 = [
   JObj [(''inputs'', JList [typed ''bytes32'' ''symbol_'' ''bytes32'']), (''payable'', JBool False),
     (''stateMutability'', JStr ''nonpayable''), (''type'', JStr ''constructor'')],
   event False [indexed True ''address'' ''src'' ''address'', indexed True ''address'' ''guy'' ''address'',
     indexed False ''uint256'' ''wad'' ''uint256''] ''Approval'',
   event False [indexed True ''address'' ''guy'' ''address'', indexed False ''uint256'' ''wad'' ''uint256'']
     ''Burn'',
   event False [indexed True ''address'' ''authority'' ''address''] ''LogSetAuthority'',
   event False [indexed True ''address'' ''owner'' ''address''] ''LogSetOwner'',
   event False [indexed True ''address'' ''guy'' ''address'', indexed False ''uint256'' ''wad'' ''uint256'']
     ''Mint'',
   event False [] ''Start'',
   event False [] ''Stop'',
   event False [indexed True ''address'' ''src'' ''address'', indexed True ''address'' ''dst'' ''address'',
     indexed False ''uint256'' ''wad'' ''uint256''] ''Transfer'',
   abi_method True [typed ''address'' '''' ''address'', typed ''address'' '''' ''address''] ''allowance'' [typed
     ''uint256'' '''' ''uint256''] False ''view'',
   abi_method False [typed ''address'' ''guy'' ''address'', typed ''uint256'' ''wad'' ''uint256''] ''approve''
     [typed ''bool'' '''' ''bool''] False ''nonpayable'',
   abi_method False [typed ''address'' ''guy'' ''address''] ''approve'' [typed ''bool'' '''' ''bool''] False
     ''nonpayable'',
   abi_method True [] ''authority'' [typed ''contract DSAuthority'' '''' ''address''] False ''view'',
   abi_method True [typed ''address'' '''' ''address''] ''balanceOf'' [typed ''uint256'' '''' ''uint256''] False
     ''view'',
   abi_method False [typed ''uint256'' ''wad'' ''uint256''] ''burn'' [] False ''nonpayable'',
   abi_method False [typed ''address'' ''guy'' ''address'', typed ''uint256'' ''wad'' ''uint256''] ''burn'' []
     False ''nonpayable'',
   abi_method True [] ''decimals'' [typed ''uint256'' '''' ''uint256''] False ''view'',
   abi_method False [typed ''address'' ''guy'' ''address'', typed ''uint256'' ''wad'' ''uint256''] ''mint'' []
     False ''nonpayable'',
   abi_method False [typed ''uint256'' ''wad'' ''uint256''] ''mint'' [] False ''nonpayable'',
   abi_method False [typed ''address'' ''src'' ''address'', typed ''address'' ''dst'' ''address'', typed
     ''uint256'' ''wad'' ''uint256''] ''move'' [] False ''nonpayable'',
   abi_method True [] ''name'' [typed ''bytes32'' '''' ''bytes32''] False ''view'',
   abi_method True [] ''owner'' [typed ''address'' '''' ''address''] False ''view'',
   abi_method False [typed ''address'' ''src'' ''address'', typed ''uint256'' ''wad'' ''uint256''] ''pull'' []
     False ''nonpayable'',
   abi_method False [typed ''address'' ''dst'' ''address'', typed ''uint256'' ''wad'' ''uint256''] ''push'' []
     False ''nonpayable'',
   abi_method False [typed ''contract DSAuthority'' ''authority_'' ''address''] ''setAuthority'' [] False
     ''nonpayable'']"

definition maker_dao_abi_47_json_part2 :: "json list" where
  "maker_dao_abi_47_json_part2 = [
   abi_method False [typed ''bytes32'' ''name_'' ''bytes32''] ''setName'' [] False ''nonpayable'',
   abi_method False [typed ''address'' ''owner_'' ''address''] ''setOwner'' [] False ''nonpayable'',
   abi_method False [] ''start'' [] False ''nonpayable'',
   abi_method False [] ''stop'' [] False ''nonpayable'',
   abi_method True [] ''stopped'' [typed ''bool'' '''' ''bool''] False ''view'',
   abi_method True [] ''symbol'' [typed ''bytes32'' '''' ''bytes32''] False ''view'',
   abi_method True [] ''totalSupply'' [typed ''uint256'' '''' ''uint256''] False ''view'',
   abi_method False [typed ''address'' ''dst'' ''address'', typed ''uint256'' ''wad'' ''uint256''] ''transfer''
     [typed ''bool'' '''' ''bool''] False ''nonpayable'',
   abi_method False [typed ''address'' ''src'' ''address'', typed ''address'' ''dst'' ''address'', typed
     ''uint256'' ''wad'' ''uint256''] ''transferFrom'' [typed ''bool'' '''' ''bool''] False ''nonpayable'']"

definition maker_dao_abi_47_json :: json where
  "maker_dao_abi_47_json = JList (maker_dao_abi_47_json_part1 @ maker_dao_abi_47_json_part2)"

definition maker_dao_abi_48_json :: json where
  "maker_dao_abi_48_json = JList [
   JObj [(''inputs'', JList [typed ''contract MkrAuthority'' ''authority_'' ''address'']), (''payable'', JBool
     False), (''stateMutability'', JStr ''nonpayable''), (''type'', JStr ''constructor'')],
   abi_method False [typed ''uint256'' ''wad'' ''uint256''] ''burn'' [] False ''nonpayable'',
   abi_method False [typed ''address'' ''usr'' ''address'', typed ''uint256'' ''wad'' ''uint256''] ''burn'' []
     False ''nonpayable'',
   abi_method False [typed ''address'' ''usr'' ''address''] ''deny'' [] False ''nonpayable'',
   abi_method False [typed ''address'' ''usr'' ''address'', typed ''uint256'' ''wad'' ''uint256''] ''mint'' []
     False ''nonpayable'',
   abi_method False [] ''notMintOrBurn'' [] False ''nonpayable'',
   abi_method False [typed ''address'' ''usr'' ''address''] ''rely'' [] False ''nonpayable'',
   abi_method False [typed ''address'' ''usr'' ''address''] ''setRoot'' [] False ''nonpayable'']"

definition maker_dao_abi_49_json_part1 :: "json list" where
  "maker_dao_abi_49_json_part1 = [
   JObj [(''inputs'', JList [typed ''address'' ''vat_'' ''address'', typed ''address'' ''cat_'' ''address'', typed
     ''address'' ''spot_'' ''address'']), (''stateMutability'', JStr ''nonpayable''), (''type'', JStr
     ''constructor'')],
   event False [indexed False ''bytes32'' ''ilk'' ''bytes32''] ''AddIlk'',
   event False [indexed False ''address'' ''usr'' ''address''] ''Deny'',
   event False [indexed False ''bytes32'' ''ilk'' ''bytes32''] ''NameError'',
   event False [indexed False ''address'' ''usr'' ''address''] ''Rely'',
   event False [indexed False ''bytes32'' ''ilk'' ''bytes32''] ''RemoveIlk'',
   event False [indexed False ''bytes32'' ''ilk'' ''bytes32''] ''SymbolError'',
   event False [indexed False ''bytes32'' ''ilk'' ''bytes32''] ''UpdateIlk'',
   short_method [typed ''address'' ''adapter'' ''address''] ''add'' [] ''nonpayable'',
   short_method [] ''cat'' [typed ''contract CatLike'' '''' ''address''] ''view'',
   short_method [] ''count'' [typed ''uint256'' '''' ''uint256''] ''view'',
   short_method [typed ''bytes32'' ''ilk'' ''bytes32''] ''dec'' [typed ''uint256'' '''' ''uint256''] ''view'',
   short_method [typed ''address'' ''usr'' ''address''] ''deny'' [] ''nonpayable'',
   short_method [typed ''bytes32'' ''ilk'' ''bytes32'', typed ''bytes32'' ''what'' ''bytes32'', typed ''uint256''
     ''data'' ''uint256''] ''file'' [] ''nonpayable'',
   short_method [typed ''bytes32'' ''ilk'' ''bytes32'', typed ''bytes32'' ''what'' ''bytes32'', typed ''string''
     ''data'' ''string''] ''file'' [] ''nonpayable'',
   short_method [typed ''bytes32'' ''what'' ''bytes32'', typed ''address'' ''data'' ''address''] ''file'' []
     ''nonpayable'',
   short_method [typed ''bytes32'' ''ilk'' ''bytes32'', typed ''bytes32'' ''what'' ''bytes32'', typed ''address''
     ''data'' ''address''] ''file'' [] ''nonpayable'',
   short_method [typed ''bytes32'' ''ilk'' ''bytes32''] ''flip'' [typed ''address'' '''' ''address''] ''view'',
   short_method [typed ''bytes32'' ''ilk'' ''bytes32''] ''gem'' [typed ''address'' '''' ''address''] ''view'',
   short_method [typed ''uint256'' ''pos'' ''uint256''] ''get'' [typed ''bytes32'' '''' ''bytes32''] ''view'',
   short_method [typed ''bytes32'' '''' ''bytes32''] ''ilkData'' [typed ''uint256'' ''pos'' ''uint256'', typed
     ''address'' ''gem'' ''address'', typed ''address'' ''pip'' ''address'', typed ''address'' ''join'' ''address'',
     typed ''address'' ''flip'' ''address'', typed ''uint256'' ''dec'' ''uint256'', typed ''string'' ''name''
     ''string'', typed ''string'' ''symbol'' ''string''] ''view'',
   short_method [typed ''bytes32'' ''ilk'' ''bytes32''] ''info'' [typed ''string'' ''name'' ''string'', typed
     ''string'' ''symbol'' ''string'', typed ''uint256'' ''dec'' ''uint256'', typed ''address'' ''gem'' ''address'',
     typed ''address'' ''pip'' ''address'', typed ''address'' ''join'' ''address'', typed ''address'' ''flip''
     ''address''] ''view'',
   short_method [typed ''bytes32'' ''ilk'' ''bytes32''] ''join'' [typed ''address'' '''' ''address''] ''view'',
   short_method [] ''list'' [typed ''bytes32[]'' '''' ''bytes32[]''] ''view'',
   short_method [typed ''uint256'' ''start'' ''uint256'', typed ''uint256'' ''end'' ''uint256''] ''list'' [typed
     ''bytes32[]'' '''' ''bytes32[]''] ''view'']"

definition maker_dao_abi_49_json_part2 :: "json list" where
  "maker_dao_abi_49_json_part2 = [
   short_method [typed ''bytes32'' ''ilk'' ''bytes32''] ''name'' [typed ''string'' '''' ''string''] ''view'',
   short_method [typed ''bytes32'' ''ilk'' ''bytes32''] ''pip'' [typed ''address'' '''' ''address''] ''view'',
   short_method [typed ''bytes32'' ''ilk'' ''bytes32''] ''pos'' [typed ''uint256'' '''' ''uint256''] ''view'',
   short_method [typed ''address'' ''usr'' ''address''] ''rely'' [] ''nonpayable'',
   short_method [typed ''bytes32'' ''ilk'' ''bytes32''] ''remove'' [] ''nonpayable'',
   short_method [typed ''bytes32'' ''ilk'' ''bytes32''] ''removeAuth'' [] ''nonpayable'',
   short_method [] ''spot'' [typed ''contract SpotLike'' '''' ''address''] ''view'',
   short_method [typed ''bytes32'' ''ilk'' ''bytes32''] ''symbol'' [typed ''string'' '''' ''string''] ''view'',
   short_method [typed ''bytes32'' ''ilk'' ''bytes32''] ''update'' [] ''nonpayable'',
   short_method [] ''vat'' [typed ''contract VatLike'' '''' ''address''] ''view'',
   short_method [typed ''address'' '''' ''address''] ''wards'' [typed ''uint256'' '''' ''uint256''] ''view'']"

definition maker_dao_abi_49_json :: json where
  "maker_dao_abi_49_json = JList (maker_dao_abi_49_json_part1 @ maker_dao_abi_49_json_part2)"

definition maker_dao_abi_50_json :: json where
  "maker_dao_abi_50_json = JList [
   JObj [(''inputs'', JList [typed ''uint256'' ''supply'' ''uint256'']), (''payable'', JBool False),
     (''stateMutability'', JStr ''nonpayable''), (''type'', JStr ''constructor'')],
   event False [indexed True ''address'' ''src'' ''address'', indexed True ''address'' ''dst'' ''address'',
     indexed False ''uint256'' ''wad'' ''uint256''] ''Transfer'',
   abi_method True [typed ''address'' ''src'' ''address''] ''balanceOf'' [typed ''uint256'' '''' ''uint256'']
     False ''view'',
   abi_method True [] ''decimals'' [typed ''uint256'' '''' ''uint256''] False ''view'',
   abi_method True [] ''name'' [typed ''string'' '''' ''string''] False ''view'',
   abi_method True [] ''symbol'' [typed ''string'' '''' ''string''] False ''view'',
   abi_method True [] ''totalSupply'' [typed ''uint256'' '''' ''uint256''] False ''view'',
   abi_method False [typed ''address'' ''dst'' ''address'', typed ''uint256'' ''wad'' ''uint256''] ''transfer''
     [typed ''bool'' '''' ''bool''] False ''nonpayable'']"

definition maker_dao_abi_51_json :: json where
  "maker_dao_abi_51_json = JList [
   JObj [(''inputs'', JList [typed ''address'' ''authorized_caller_'' ''address'']), (''payable'', JBool False),
     (''stateMutability'', JStr ''nonpayable''), (''type'', JStr ''constructor'')],
   abi_method True [] ''authorized_caller'' [typed ''address'' '''' ''address''] False ''view'',
   abi_method True [typed ''address'' ''src'' ''address'', typed ''address'' '''' ''address'', typed ''bytes4''
     '''' ''bytes4''] ''canCall'' [typed ''bool'' '''' ''bool''] False ''view'']"

definition maker_dao_abi_52_json :: json where
  "maker_dao_abi_52_json = JList [
   event False [indexed False ''address'' ''target'' ''address'', indexed False ''bool'' ''exact'' ''bool'']
     ''eventListener'',
   event False [indexed False ''bytes32'' '''' ''bytes32''] ''log_bytes32'',
   event False [indexed False ''bytes32'' ''key'' ''bytes32'', indexed False ''address'' ''val'' ''address'']
     ''log_named_address'',
   event False [indexed False ''bytes32'' ''key'' ''bytes32'', indexed False ''bytes32'' ''val'' ''bytes32'']
     ''log_named_bytes32'',
   event False [indexed False ''bytes32'' ''key'' ''bytes32'', indexed False ''int256'' ''val'' ''int256'',
     indexed False ''uint256'' ''decimals'' ''uint256''] ''log_named_decimal_int'',
   event False [indexed False ''bytes32'' ''key'' ''bytes32'', indexed False ''uint256'' ''val'' ''uint256'',
     indexed False ''uint256'' ''decimals'' ''uint256''] ''log_named_decimal_uint'',
   event False [indexed False ''bytes32'' ''key'' ''bytes32'', indexed False ''int256'' ''val'' ''int256'']
     ''log_named_int'',
   event False [indexed False ''bytes32'' ''key'' ''bytes32'', indexed False ''string'' ''val'' ''string'']
     ''log_named_string'',
   event False [indexed False ''bytes32'' ''key'' ''bytes32'', indexed False ''uint256'' ''val'' ''uint256'']
     ''log_named_uint'',
   event False [indexed False ''bytes'' '''' ''bytes''] ''logs'',
   abi_method True [] ''IS_TEST'' [typed ''bool'' '''' ''bool''] False ''view'',
   abi_method False [typed ''address'' ''end'' ''address''] ''cage'' [] False ''nonpayable'',
   abi_method False [typed ''address'' ''from'' ''address'', typed ''address'' ''to'' ''address''] ''deny'' []
     False ''nonpayable'',
   abi_method False [] ''deploy'' [] False ''nonpayable'',
   abi_method False [] ''deployKeepAuth'' [] False ''nonpayable'',
   abi_method False [typed ''address'' ''who'' ''address'', typed ''bytes32'' ''ilk'' ''bytes32'', typed
     ''bytes32'' ''what'' ''bytes32'', typed ''uint256'' ''data'' ''uint256''] ''dripAndFile'' [] False
     ''nonpayable'',
   abi_method False [typed ''address'' ''who'' ''address'', typed ''bytes32'' ''what'' ''bytes32'', typed
     ''uint256'' ''data'' ''uint256''] ''dripAndFile'' [] False ''nonpayable'',
   abi_method True [] ''failed'' [typed ''bool'' '''' ''bool''] False ''view'',
   abi_method False [typed ''address'' ''who'' ''address'', typed ''bytes32'' ''what'' ''bytes32'', typed
     ''uint256'' ''data'' ''uint256''] ''file'' [] False ''nonpayable'',
   abi_method False [typed ''address'' ''who'' ''address'', typed ''bytes32'' ''ilk'' ''bytes32'', typed
     ''bytes32'' ''what'' ''bytes32'', typed ''uint256'' ''data'' ''uint256''] ''file'' [] False ''nonpayable'',
   abi_method False [typed ''address'' ''from'' ''address'', typed ''address'' ''to'' ''address''] ''rely'' []
     False ''nonpayable'',
   abi_method False [typed ''address'' ''newAuthority'' ''address''] ''setAuthority'' [] False ''nonpayable'',
   abi_method False [typed ''address'' ''newAuthority'' ''address'', typed ''uint256'' ''newDelay'' ''uint256'']
     ''setAuthorityAndDelay'' [] False ''nonpayable'',
   abi_method False [typed ''uint256'' ''newDelay'' ''uint256''] ''setDelay'' [] False ''nonpayable'',
   abi_method False [] ''setUp'' [] False ''nonpayable'']"

definition maker_dao_abi_53_json :: json where
  "maker_dao_abi_53_json = JList [
   abi_method False [typed ''address'' ''gov'' ''address'', typed ''address'' ''end'' ''address'', typed
     ''address'' ''pit'' ''address'', typed ''uint256'' ''min'' ''uint256''] ''newESM'' [typed ''contract ESM''
     ''esm'' ''address''] False ''nonpayable'']"

definition maker_dao_abi_54_json :: json where
  "maker_dao_abi_54_json = JList [
   abi_method False [typed ''address'' ''vat'' ''address'', typed ''address'' ''cat'' ''address'', typed
     ''bytes32'' ''ilk'' ''bytes32''] ''newFlip'' [typed ''contract Flipper'' ''flip'' ''address''] False
     ''nonpayable'']"

definition maker_dao_abi_55_json_part1 :: "json list" where
  "maker_dao_abi_55_json_part1 = [
   JObj [(''inputs'', JList [typed ''contract DSToken'' ''GOV'' ''address'', typed ''contract DSToken'' ''IOU''
     ''address'', typed ''uint256'' ''MAX_YAYS'' ''uint256'']), (''payable'', JBool False), (''stateMutability'',
     JStr ''nonpayable''), (''type'', JStr ''constructor'')],
   event False [indexed True ''bytes32'' ''slate'' ''bytes32''] ''Etch'',
   event True [indexed True ''bytes4'' ''sig'' ''bytes4'', indexed True ''address'' ''guy'' ''address'', indexed
     True ''bytes32'' ''foo'' ''bytes32'', indexed True ''bytes32'' ''bar'' ''bytes32'', indexed False ''uint256''
     ''wad'' ''uint256'', indexed False ''bytes'' ''fax'' ''bytes''] ''LogNote'',
   event False [indexed True ''address'' ''authority'' ''address''] ''LogSetAuthority'',
   event False [indexed True ''address'' ''owner'' ''address''] ''LogSetOwner'',
   abi_method True [] ''GOV'' [typed ''contract DSToken'' '''' ''address''] False ''view'',
   abi_method True [] ''IOU'' [typed ''contract DSToken'' '''' ''address''] False ''view'',
   abi_method True [] ''MAX_YAYS'' [typed ''uint256'' '''' ''uint256''] False ''view'',
   abi_method True [typed ''address'' '''' ''address''] ''approvals'' [typed ''uint256'' '''' ''uint256''] False
     ''view'',
   abi_method True [] ''authority'' [typed ''contract DSAuthority'' '''' ''address''] False ''view'',
   abi_method True [typed ''address'' ''caller'' ''address'', typed ''address'' ''code'' ''address'', typed
     ''bytes4'' ''sig'' ''bytes4''] ''canCall'' [typed ''bool'' '''' ''bool''] False ''view'',
   abi_method True [typed ''address'' '''' ''address''] ''deposits'' [typed ''uint256'' '''' ''uint256''] False
     ''view'',
   abi_method False [typed ''address[]'' ''yays'' ''address[]''] ''etch'' [typed ''bytes32'' ''slate''
     ''bytes32''] False ''nonpayable'',
   abi_method False [typed ''uint256'' ''wad'' ''uint256''] ''free'' [] False ''nonpayable'',
   abi_method True [typed ''address'' ''code'' ''address'', typed ''bytes4'' ''sig'' ''bytes4'']
     ''getCapabilityRoles'' [typed ''bytes32'' '''' ''bytes32''] False ''view'',
   abi_method True [typed ''address'' ''who'' ''address''] ''getUserRoles'' [typed ''bytes32'' '''' ''bytes32'']
     False ''view'',
   abi_method True [typed ''address'' ''who'' ''address'', typed ''uint8'' ''role'' ''uint8''] ''hasUserRole''
     [typed ''bool'' '''' ''bool''] False ''view'',
   abi_method True [] ''hat'' [typed ''address'' '''' ''address''] False ''view'',
   abi_method True [typed ''address'' ''code'' ''address'', typed ''bytes4'' ''sig'' ''bytes4'']
     ''isCapabilityPublic'' [typed ''bool'' '''' ''bool''] False ''view'',
   abi_method True [typed ''address'' ''who'' ''address''] ''isUserRoot'' [typed ''bool'' '''' ''bool''] False
     ''view'',
   abi_method False [typed ''address'' ''whom'' ''address''] ''lift'' [] False ''nonpayable'',
   abi_method False [typed ''uint256'' ''wad'' ''uint256''] ''lock'' [] False ''nonpayable'',
   abi_method True [] ''owner'' [typed ''address'' '''' ''address''] False ''view'',
   abi_method False [typed ''contract DSAuthority'' ''authority_'' ''address''] ''setAuthority'' [] False
     ''nonpayable'',
   abi_method False [typed ''address'' ''owner_'' ''address''] ''setOwner'' [] False ''nonpayable'']"

definition maker_dao_abi_55_json_part2 :: "json list" where
  "maker_dao_abi_55_json_part2 = [
   abi_method False [typed ''address'' ''code'' ''address'', typed ''bytes4'' ''sig'' ''bytes4'', typed ''bool''
     ''enabled'' ''bool''] ''setPublicCapability'' [] False ''nonpayable'',
   abi_method False [typed ''uint8'' ''role'' ''uint8'', typed ''address'' ''code'' ''address'', typed ''bytes4''
     ''sig'' ''bytes4'', typed ''bool'' ''enabled'' ''bool''] ''setRoleCapability'' [] False ''nonpayable'',
   abi_method False [typed ''address'' ''who'' ''address'', typed ''bool'' ''enabled'' ''bool''] ''setRootUser''
     [] False ''nonpayable'',
   abi_method False [typed ''address'' ''who'' ''address'', typed ''uint8'' ''role'' ''uint8'', typed ''bool''
     ''enabled'' ''bool''] ''setUserRole'' [] False ''nonpayable'',
   abi_method True [typed ''bytes32'' '''' ''bytes32'', typed ''uint256'' '''' ''uint256''] ''slates'' [typed
     ''address'' '''' ''address''] False ''view'',
   abi_method False [typed ''bytes32'' ''slate'' ''bytes32''] ''vote'' [] False ''nonpayable'',
   abi_method False [typed ''address[]'' ''yays'' ''address[]''] ''vote'' [typed ''bytes32'' '''' ''bytes32'']
     False ''nonpayable'',
   abi_method True [typed ''address'' '''' ''address''] ''votes'' [typed ''bytes32'' '''' ''bytes32''] False
     ''view'']"

definition maker_dao_abi_55_json :: json where
  "maker_dao_abi_55_json = JList (maker_dao_abi_55_json_part1 @ maker_dao_abi_55_json_part2)"

definition maker_dao_abi_56_json :: json where
  "maker_dao_abi_56_json = JList [
   abi_method False [typed ''address'' ''end'' ''address''] ''cage'' [] False ''nonpayable'',
   abi_method False [typed ''address'' ''from'' ''address'', typed ''address'' ''to'' ''address''] ''deny'' []
     False ''nonpayable'',
   abi_method False [typed ''address'' ''who'' ''address'', typed ''bytes32'' ''ilk'' ''bytes32'', typed
     ''bytes32'' ''what'' ''bytes32'', typed ''uint256'' ''data'' ''uint256''] ''dripAndFile'' [] False
     ''nonpayable'',
   abi_method False [typed ''address'' ''who'' ''address'', typed ''bytes32'' ''what'' ''bytes32'', typed
     ''uint256'' ''data'' ''uint256''] ''dripAndFile'' [] False ''nonpayable'',
   abi_method False [typed ''address'' ''who'' ''address'', typed ''bytes32'' ''what'' ''bytes32'', typed
     ''uint256'' ''data'' ''uint256''] ''file'' [] False ''nonpayable'',
   abi_method False [typed ''address'' ''who'' ''address'', typed ''bytes32'' ''ilk'' ''bytes32'', typed
     ''bytes32'' ''what'' ''bytes32'', typed ''uint256'' ''data'' ''uint256''] ''file'' [] False ''nonpayable'',
   abi_method False [typed ''address'' ''from'' ''address'', typed ''address'' ''to'' ''address''] ''rely'' []
     False ''nonpayable'',
   abi_method False [typed ''address'' ''newAuthority'' ''address''] ''setAuthority'' [] False ''nonpayable'',
   abi_method False [typed ''address'' ''newAuthority'' ''address'', typed ''uint256'' ''newDelay'' ''uint256'']
     ''setAuthorityAndDelay'' [] False ''nonpayable'',
   abi_method False [typed ''uint256'' ''newDelay'' ''uint256''] ''setDelay'' [] False ''nonpayable'']"

definition maker_dao_abi_57_json :: json where
  "maker_dao_abi_57_json = JList [
   event False [indexed True ''address'' ''authority'' ''address''] ''LogSetAuthority'',
   event False [indexed True ''address'' ''owner'' ''address''] ''LogSetOwner'',
   abi_method True [] ''authority'' [typed ''contract DSAuthority'' '''' ''address''] False ''view'',
   abi_method True [typed ''address'' ''caller'' ''address'', typed ''address'' ''code'' ''address'', typed
     ''bytes4'' ''sig'' ''bytes4''] ''canCall'' [typed ''bool'' '''' ''bool''] False ''view'',
   abi_method True [typed ''address'' ''code'' ''address'', typed ''bytes4'' ''sig'' ''bytes4'']
     ''getCapabilityRoles'' [typed ''bytes32'' '''' ''bytes32''] False ''view'',
   abi_method True [typed ''address'' ''who'' ''address''] ''getUserRoles'' [typed ''bytes32'' '''' ''bytes32'']
     False ''view'',
   abi_method True [typed ''address'' ''who'' ''address'', typed ''uint8'' ''role'' ''uint8''] ''hasUserRole''
     [typed ''bool'' '''' ''bool''] False ''view'',
   abi_method True [typed ''address'' ''code'' ''address'', typed ''bytes4'' ''sig'' ''bytes4'']
     ''isCapabilityPublic'' [typed ''bool'' '''' ''bool''] False ''view'',
   abi_method True [typed ''address'' ''who'' ''address''] ''isUserRoot'' [typed ''bool'' '''' ''bool''] False
     ''view'',
   abi_method True [] ''owner'' [typed ''address'' '''' ''address''] False ''view'',
   abi_method False [typed ''contract DSAuthority'' ''authority_'' ''address''] ''setAuthority'' [] False
     ''nonpayable'',
   abi_method False [typed ''address'' ''owner_'' ''address''] ''setOwner'' [] False ''nonpayable'',
   abi_method False [typed ''address'' ''code'' ''address'', typed ''bytes4'' ''sig'' ''bytes4'', typed ''bool''
     ''enabled'' ''bool''] ''setPublicCapability'' [] False ''nonpayable'',
   abi_method False [typed ''uint8'' ''role'' ''uint8'', typed ''address'' ''code'' ''address'', typed ''bytes4''
     ''sig'' ''bytes4'', typed ''bool'' ''enabled'' ''bool''] ''setRoleCapability'' [] False ''nonpayable'',
   abi_method False [typed ''address'' ''who'' ''address'', typed ''bool'' ''enabled'' ''bool''] ''setRootUser''
     [] False ''nonpayable'',
   abi_method False [typed ''address'' ''who'' ''address'', typed ''uint8'' ''role'' ''uint8'', typed ''bool''
     ''enabled'' ''bool''] ''setUserRole'' [] False ''nonpayable'']"

definition maker_dao_abi_58_json :: json where
  "maker_dao_abi_58_json = JList [
   JObj [(''inputs'', JList []), (''payable'', JBool False), (''stateMutability'', JStr ''nonpayable''),
     (''type'', JStr ''constructor'')],
   event True [indexed True ''bytes4'' ''sig'' ''bytes4'', indexed True ''address'' ''usr'' ''address'', indexed
     True ''bytes32'' ''arg1'' ''bytes32'', indexed True ''bytes32'' ''arg2'' ''bytes32'', indexed False ''bytes''
     ''data'' ''bytes''] ''LogNote'',
   abi_method True [] ''authority'' [typed ''address'' '''' ''address''] False ''view'',
   abi_method True [typed ''bytes32'' '''' ''bytes32''] ''osms'' [typed ''address'' '''' ''address''] False
     ''view'',
   abi_method True [] ''owner'' [typed ''address'' '''' ''address''] False ''view'',
   abi_method False [typed ''address'' ''authority_'' ''address''] ''setAuthority'' [] False ''nonpayable'',
   abi_method False [typed ''bytes32'' ''ilk'' ''bytes32'', typed ''address'' ''osm'' ''address''] ''setOsm'' []
     False ''nonpayable'',
   abi_method False [typed ''address'' ''owner_'' ''address''] ''setOwner'' [] False ''nonpayable'',
   abi_method False [typed ''bytes32'' ''ilk'' ''bytes32''] ''stop'' [] False ''nonpayable'']"

definition maker_dao_abi_59_json :: json where
  "maker_dao_abi_59_json = JList [
   event False [indexed True ''address'' ''src'' ''address'', indexed True ''address'' ''guy'' ''address'',
     indexed False ''uint256'' ''wad'' ''uint256''] ''Approval'',
   event False [indexed True ''address'' ''src'' ''address'', indexed False ''uint256'' ''wad'' ''uint256'']
     ''Exit'',
   event False [indexed True ''address'' ''dst'' ''address'', indexed False ''uint256'' ''wad'' ''uint256'']
     ''Join'',
   event False [indexed True ''address'' ''src'' ''address'', indexed True ''address'' ''dst'' ''address'',
     indexed False ''uint256'' ''wad'' ''uint256''] ''Transfer'']"

definition maker_dao_abi_60_json :: json where
  "maker_dao_abi_60_json = JList [
   abi_method False [typed ''address'' ''ethJoin'' ''address'', typed ''address'' ''end'' ''address'', typed
     ''bytes32'' ''ilk'' ''bytes32'', typed ''uint256'' ''wad'' ''uint256''] ''cashETH'' [] False ''nonpayable'',
   abi_method False [typed ''address'' ''gemJoin'' ''address'', typed ''address'' ''end'' ''address'', typed
     ''bytes32'' ''ilk'' ''bytes32'', typed ''uint256'' ''wad'' ''uint256''] ''cashGem'' [] False ''nonpayable'',
   abi_method False [typed ''address'' ''apt'' ''address'', typed ''address'' ''urn'' ''address'', typed
     ''uint256'' ''wad'' ''uint256''] ''daiJoin_join'' [] False ''nonpayable'',
   abi_method False [typed ''address'' ''manager'' ''address'', typed ''address'' ''ethJoin'' ''address'', typed
     ''address'' ''end'' ''address'', typed ''uint256'' ''cdp'' ''uint256''] ''freeETH'' [] False ''nonpayable'',
   abi_method False [typed ''address'' ''manager'' ''address'', typed ''address'' ''gemJoin'' ''address'', typed
     ''address'' ''end'' ''address'', typed ''uint256'' ''cdp'' ''uint256''] ''freeGem'' [] False ''nonpayable'',
   abi_method False [typed ''address'' ''daiJoin'' ''address'', typed ''address'' ''end'' ''address'', typed
     ''uint256'' ''wad'' ''uint256''] ''pack'' [] False ''nonpayable'']"

definition maker_dao_abi_61_json :: json where
  "maker_dao_abi_61_json = JList [
   JObj [(''inputs'', JList [typed ''uint256'' ''delay_'' ''uint256'', typed ''address'' ''owner_'' ''address'',
     typed ''address'' ''authority_'' ''address'']), (''payable'', JBool False), (''stateMutability'', JStr
     ''nonpayable''), (''type'', JStr ''constructor'')],
   event True [indexed True ''bytes4'' ''sig'' ''bytes4'', indexed True ''address'' ''guy'' ''address'', indexed
     True ''bytes32'' ''foo'' ''bytes32'', indexed True ''bytes32'' ''bar'' ''bytes32'', indexed False ''uint256''
     ''wad'' ''uint256'', indexed False ''bytes'' ''fax'' ''bytes''] ''LogNote'',
   event False [indexed True ''address'' ''authority'' ''address''] ''LogSetAuthority'',
   event False [indexed True ''address'' ''owner'' ''address''] ''LogSetOwner'',
   abi_method True [] ''authority'' [typed ''address'' '''' ''address''] False ''view'',
   abi_method True [] ''delay'' [typed ''uint256'' '''' ''uint256''] False ''view'',
   abi_method False [typed ''address'' ''usr'' ''address'', typed ''bytes32'' ''tag'' ''bytes32'', typed ''bytes''
     ''fax'' ''bytes'', typed ''uint256'' ''eta'' ''uint256''] ''drop'' [] False ''nonpayable'',
   abi_method False [typed ''address'' ''usr'' ''address'', typed ''bytes32'' ''tag'' ''bytes32'', typed ''bytes''
     ''fax'' ''bytes'', typed ''uint256'' ''eta'' ''uint256''] ''exec'' [typed ''bytes'' ''out'' ''bytes''] False
     ''nonpayable'',
   abi_method True [] ''owner'' [typed ''address'' '''' ''address''] False ''view'',
   abi_method True [typed ''bytes32'' '''' ''bytes32''] ''plans'' [typed ''bool'' '''' ''bool''] False ''view'',
   abi_method False [typed ''address'' ''usr'' ''address'', typed ''bytes32'' ''tag'' ''bytes32'', typed ''bytes''
     ''fax'' ''bytes'', typed ''uint256'' ''eta'' ''uint256''] ''plot'' [] False ''nonpayable'',
   abi_method True [] ''proxy'' [typed ''contract DSPauseProxy'' '''' ''address''] False ''view'',
   abi_method False [typed ''address'' ''authority_'' ''address''] ''setAuthority'' [] False ''nonpayable'',
   abi_method False [typed ''uint256'' ''delay_'' ''uint256''] ''setDelay'' [] False ''nonpayable'',
   abi_method False [typed ''address'' ''owner_'' ''address''] ''setOwner'' [] False ''nonpayable'']"

definition maker_dao_abi_62_json :: json where
  "maker_dao_abi_62_json = JList [
   abi_method True [typed ''address'' ''src'' ''address'', typed ''address'' ''dst'' ''address'', typed ''bytes4''
     ''sig'' ''bytes4''] ''canCall'' [typed ''bool'' '''' ''bool''] False ''view'']"

definition maker_dao_abi_63_json :: json where
  "maker_dao_abi_63_json = JList [
   abi_method True [typed ''address'' ''src'' ''address'', typed ''address'' ''dst'' ''address'', typed ''bytes4''
     ''sig'' ''bytes4''] ''canCall'' [typed ''bool'' '''' ''bool''] False ''view'',
   abi_method False [typed ''address'' ''src'' ''address'', typed ''address'' ''dst'' ''address'', typed
     ''bytes4'' ''sig'' ''bytes4''] ''permit'' [] False ''nonpayable'']"

definition maker_dao_abi_64_json :: json where
  "maker_dao_abi_64_json = JList [
   event True [indexed True ''bytes4'' ''sig'' ''bytes4'', indexed True ''address'' ''guy'' ''address'', indexed
     True ''bytes32'' ''foo'' ''bytes32'', indexed True ''bytes32'' ''bar'' ''bytes32'', indexed False ''uint256''
     ''wad'' ''uint256'', indexed False ''bytes'' ''fax'' ''bytes''] ''LogNote'',
   event False [indexed True ''address'' ''authority'' ''address''] ''LogSetAuthority'',
   event False [indexed True ''address'' ''owner'' ''address''] ''LogSetOwner'',
   abi_method True [] ''authority'' [typed ''contract DSAuthority'' '''' ''address''] False ''view'',
   abi_method True [] ''owner'' [typed ''address'' '''' ''address''] False ''view'',
   abi_method False [typed ''contract DSAuthority'' ''authority_'' ''address''] ''setAuthority'' [] False
     ''nonpayable'',
   abi_method False [typed ''address'' ''owner_'' ''address''] ''setOwner'' [] False ''nonpayable'']"

definition maker_dao_abi_65_json :: json where
  "maker_dao_abi_65_json = JList [
   abi_method False [] ''newVat'' [typed ''contract Vat'' ''vat'' ''address''] False ''nonpayable'']"

definition maker_dao_abi_66_json :: json where
  "maker_dao_abi_66_json = JList [
   JObj [(''inputs'', JList [typed ''address'' ''vat_'' ''address'']), (''payable'', JBool False),
     (''stateMutability'', JStr ''nonpayable''), (''type'', JStr ''constructor'')],
   event True [indexed True ''bytes4'' ''sig'' ''bytes4'', indexed True ''address'' ''usr'' ''address'', indexed
     True ''bytes32'' ''arg1'' ''bytes32'', indexed True ''bytes32'' ''arg2'' ''bytes32'', indexed False ''bytes''
     ''data'' ''bytes''] ''LogNote'',
   event False [indexed True ''address'' ''usr'' ''address'', indexed True ''address'' ''own'' ''address'',
     indexed True ''uint256'' ''cdp'' ''uint256''] ''NewCdp'',
   abi_method False [typed ''uint256'' ''cdp'' ''uint256'', typed ''address'' ''usr'' ''address'', typed
     ''uint256'' ''ok'' ''uint256''] ''cdpAllow'' [] False ''nonpayable'',
   abi_method True [typed ''address'' '''' ''address'', typed ''uint256'' '''' ''uint256'', typed ''address'' ''''
     ''address''] ''cdpCan'' [typed ''uint256'' '''' ''uint256''] False ''view'',
   abi_method True [] ''cdpi'' [typed ''uint256'' '''' ''uint256''] False ''view'',
   abi_method True [typed ''address'' '''' ''address''] ''count'' [typed ''uint256'' '''' ''uint256''] False
     ''view'',
   abi_method False [typed ''address'' ''src'' ''address'', typed ''uint256'' ''cdp'' ''uint256''] ''enter'' []
     False ''nonpayable'',
   abi_method True [typed ''address'' '''' ''address''] ''first'' [typed ''uint256'' '''' ''uint256''] False
     ''view'',
   abi_method False [typed ''bytes32'' ''ilk'' ''bytes32'', typed ''uint256'' ''cdp'' ''uint256'', typed
     ''address'' ''dst'' ''address'', typed ''uint256'' ''wad'' ''uint256''] ''flux'' [] False ''nonpayable'',
   abi_method False [typed ''uint256'' ''cdp'' ''uint256'', typed ''address'' ''dst'' ''address'', typed
     ''uint256'' ''wad'' ''uint256''] ''flux'' [] False ''nonpayable'',
   abi_method False [typed ''uint256'' ''cdp'' ''uint256'', typed ''int256'' ''dink'' ''int256'', typed ''int256''
     ''dart'' ''int256''] ''frob'' [] False ''nonpayable'',
   abi_method False [typed ''uint256'' ''cdp'' ''uint256'', typed ''address'' ''dst'' ''address''] ''give'' []
     False ''nonpayable'',
   abi_method True [typed ''uint256'' '''' ''uint256''] ''ilks'' [typed ''bytes32'' '''' ''bytes32''] False
     ''view'',
   abi_method True [typed ''address'' '''' ''address''] ''last'' [typed ''uint256'' '''' ''uint256''] False
     ''view'',
   abi_method True [typed ''uint256'' '''' ''uint256''] ''list'' [typed ''uint256'' ''prev'' ''uint256'', typed
     ''uint256'' ''next'' ''uint256''] False ''view'',
   abi_method False [typed ''uint256'' ''cdp'' ''uint256'', typed ''address'' ''dst'' ''address'', typed
     ''uint256'' ''rad'' ''uint256''] ''move'' [] False ''nonpayable'',
   abi_method False [typed ''bytes32'' ''ilk'' ''bytes32'', typed ''address'' ''usr'' ''address''] ''open'' [typed
     ''uint256'' '''' ''uint256''] False ''nonpayable'',
   abi_method True [typed ''uint256'' '''' ''uint256''] ''owns'' [typed ''address'' '''' ''address''] False
     ''view'',
   abi_method False [typed ''uint256'' ''cdp'' ''uint256'', typed ''address'' ''dst'' ''address''] ''quit'' []
     False ''nonpayable'',
   abi_method False [typed ''uint256'' ''cdpSrc'' ''uint256'', typed ''uint256'' ''cdpDst'' ''uint256''] ''shift''
     [] False ''nonpayable'',
   abi_method False [typed ''address'' ''usr'' ''address'', typed ''uint256'' ''ok'' ''uint256''] ''urnAllow'' []
     False ''nonpayable'',
   abi_method True [typed ''address'' '''' ''address'', typed ''address'' '''' ''address''] ''urnCan'' [typed
     ''uint256'' '''' ''uint256''] False ''view'',
   abi_method True [typed ''uint256'' '''' ''uint256''] ''urns'' [typed ''address'' '''' ''address''] False
     ''view'',
   abi_method True [] ''vat'' [typed ''address'' '''' ''address''] False ''view'']"

definition maker_dao_abi_67_json :: json where
  "maker_dao_abi_67_json = JList [
   JObj [(''inputs'', JList [typed ''address'' ''vat_'' ''address'', typed ''bytes32'' ''ilk_'' ''bytes32'', typed
     ''address'' ''gem_'' ''address'']), (''payable'', JBool False), (''stateMutability'', JStr ''nonpayable''),
     (''type'', JStr ''constructor'')],
   event True [indexed True ''bytes4'' ''sig'' ''bytes4'', indexed True ''address'' ''usr'' ''address'', indexed
     True ''bytes32'' ''arg1'' ''bytes32'', indexed True ''bytes32'' ''arg2'' ''bytes32'', indexed False ''bytes''
     ''data'' ''bytes''] ''LogNote'',
   abi_method False [] ''cage'' [] False ''nonpayable'',
   abi_method True [] ''dec'' [typed ''uint256'' '''' ''uint256''] False ''view'',
   abi_method False [typed ''address'' ''usr'' ''address''] ''deny'' [] False ''nonpayable'',
   abi_method False [typed ''address'' ''guy'' ''address'', typed ''uint256'' ''wad'' ''uint256''] ''exit'' []
     False ''nonpayable'',
   abi_method True [] ''gem'' [typed ''contract GemLike'' '''' ''address''] False ''view'',
   abi_method True [] ''ilk'' [typed ''bytes32'' '''' ''bytes32''] False ''view'',
   abi_method False [typed ''address'' ''urn'' ''address'', typed ''uint256'' ''wad'' ''uint256''] ''join'' []
     False ''nonpayable'',
   abi_method True [] ''live'' [typed ''uint256'' '''' ''uint256''] False ''view'',
   abi_method False [typed ''address'' ''usr'' ''address''] ''rely'' [] False ''nonpayable'',
   abi_method True [] ''vat'' [typed ''contract VatLike'' '''' ''address''] False ''view'',
   abi_method True [typed ''address'' '''' ''address''] ''wards'' [typed ''uint256'' '''' ''uint256''] False
     ''view'']"

definition maker_dao_abi_68_json_part1 :: "json list" where
  "maker_dao_abi_68_json_part1 = [
   JObj [(''inputs'', JList []), (''payable'', JBool False), (''stateMutability'', JStr ''nonpayable''),
     (''type'', JStr ''constructor'')],
   event True [indexed True ''bytes4'' ''sig'' ''bytes4'', indexed True ''bytes32'' ''arg1'' ''bytes32'', indexed
     True ''bytes32'' ''arg2'' ''bytes32'', indexed True ''bytes32'' ''arg3'' ''bytes32'', indexed False ''bytes''
     ''data'' ''bytes''] ''LogNote'',
   abi_method True [] ''Line'' [typed ''uint256'' '''' ''uint256''] False ''view'',
   abi_method False [] ''cage'' [] False ''nonpayable'',
   abi_method True [typed ''address'' '''' ''address'', typed ''address'' '''' ''address''] ''can'' [typed
     ''uint256'' '''' ''uint256''] False ''view'',
   abi_method True [typed ''address'' '''' ''address''] ''dai'' [typed ''uint256'' '''' ''uint256''] False ''view'',
   abi_method True [] ''debt'' [typed ''uint256'' '''' ''uint256''] False ''view'',
   abi_method False [typed ''address'' ''usr'' ''address''] ''deny'' [] False ''nonpayable'',
   abi_method False [typed ''bytes32'' ''ilk'' ''bytes32'', typed ''bytes32'' ''what'' ''bytes32'', typed
     ''uint256'' ''data'' ''uint256''] ''file'' [] False ''nonpayable'',
   abi_method False [typed ''bytes32'' ''what'' ''bytes32'', typed ''uint256'' ''data'' ''uint256''] ''file'' []
     False ''nonpayable'',
   abi_method False [typed ''bytes32'' ''ilk'' ''bytes32'', typed ''address'' ''src'' ''address'', typed
     ''address'' ''dst'' ''address'', typed ''uint256'' ''wad'' ''uint256''] ''flux'' [] False ''nonpayable'',
   abi_method False [typed ''bytes32'' ''i'' ''bytes32'', typed ''address'' ''u'' ''address'', typed ''int256''
     ''rate'' ''int256''] ''fold'' [] False ''nonpayable'',
   abi_method False [typed ''bytes32'' ''ilk'' ''bytes32'', typed ''address'' ''src'' ''address'', typed
     ''address'' ''dst'' ''address'', typed ''int256'' ''dink'' ''int256'', typed ''int256'' ''dart'' ''int256'']
     ''fork'' [] False ''nonpayable'',
   abi_method False [typed ''bytes32'' ''i'' ''bytes32'', typed ''address'' ''u'' ''address'', typed ''address''
     ''v'' ''address'', typed ''address'' ''w'' ''address'', typed ''int256'' ''dink'' ''int256'', typed ''int256''
     ''dart'' ''int256''] ''frob'' [] False ''nonpayable'',
   abi_method True [typed ''bytes32'' '''' ''bytes32'', typed ''address'' '''' ''address''] ''gem'' [typed
     ''uint256'' '''' ''uint256''] False ''view'',
   abi_method False [typed ''bytes32'' ''i'' ''bytes32'', typed ''address'' ''u'' ''address'', typed ''address''
     ''v'' ''address'', typed ''address'' ''w'' ''address'', typed ''int256'' ''dink'' ''int256'', typed ''int256''
     ''dart'' ''int256''] ''grab'' [] False ''nonpayable'',
   abi_method False [typed ''uint256'' ''rad'' ''uint256''] ''heal'' [] False ''nonpayable'',
   abi_method False [typed ''address'' ''usr'' ''address''] ''hope'' [] False ''nonpayable'',
   abi_method True [typed ''bytes32'' '''' ''bytes32''] ''ilks'' [typed ''uint256'' ''Art'' ''uint256'', typed
     ''uint256'' ''rate'' ''uint256'', typed ''uint256'' ''spot'' ''uint256'', typed ''uint256'' ''line''
     ''uint256'', typed ''uint256'' ''dust'' ''uint256''] False ''view'',
   abi_method False [typed ''bytes32'' ''ilk'' ''bytes32''] ''init'' [] False ''nonpayable'',
   abi_method True [] ''live'' [typed ''uint256'' '''' ''uint256''] False ''view'',
   abi_method False [typed ''address'' ''src'' ''address'', typed ''address'' ''dst'' ''address'', typed
     ''uint256'' ''rad'' ''uint256''] ''move'' [] False ''nonpayable'',
   abi_method False [typed ''address'' ''usr'' ''address''] ''nope'' [] False ''nonpayable'',
   abi_method False [typed ''address'' ''usr'' ''address''] ''rely'' [] False ''nonpayable'',
   abi_method True [typed ''address'' '''' ''address''] ''sin'' [typed ''uint256'' '''' ''uint256''] False ''view'']"

definition maker_dao_abi_68_json_part2 :: "json list" where
  "maker_dao_abi_68_json_part2 = [
   abi_method False [typed ''bytes32'' ''ilk'' ''bytes32'', typed ''address'' ''usr'' ''address'', typed
     ''int256'' ''wad'' ''int256''] ''slip'' [] False ''nonpayable'',
   abi_method False [typed ''address'' ''u'' ''address'', typed ''address'' ''v'' ''address'', typed ''uint256''
     ''rad'' ''uint256''] ''suck'' [] False ''nonpayable'',
   abi_method True [typed ''bytes32'' '''' ''bytes32'', typed ''address'' '''' ''address''] ''urns'' [typed
     ''uint256'' ''ink'' ''uint256'', typed ''uint256'' ''art'' ''uint256''] False ''view'',
   abi_method True [] ''vice'' [typed ''uint256'' '''' ''uint256''] False ''view'',
   abi_method True [typed ''address'' '''' ''address''] ''wards'' [typed ''uint256'' '''' ''uint256''] False
     ''view'']"

definition maker_dao_abi_68_json :: json where
  "maker_dao_abi_68_json = JList (maker_dao_abi_68_json_part1 @ maker_dao_abi_68_json_part2)"

definition maker_dao_abi_69_json :: json where
  "maker_dao_abi_69_json = JList [
   JObj [(''inputs'', JList []), (''payable'', JBool False), (''stateMutability'', JStr ''nonpayable''),
     (''type'', JStr ''constructor'')],
   event True [indexed True ''bytes4'' ''sig'' ''bytes4'', indexed True ''address'' ''usr'' ''address'', indexed
     True ''bytes32'' ''arg1'' ''bytes32'', indexed True ''bytes32'' ''arg2'' ''bytes32'', indexed False ''bytes''
     ''data'' ''bytes''] ''LogNote'',
   abi_method True [typed ''address'' '''' ''address''] ''amt'' [typed ''uint256'' '''' ''uint256''] False ''view'',
   abi_method False [typed ''address'' ''guy'' ''address''] ''deny'' [] False ''nonpayable'',
   abi_method True [typed ''address'' '''' ''address'', typed ''address'' '''' ''address''] ''done'' [typed
     ''bool'' '''' ''bool''] False ''view'',
   abi_method False [typed ''address'' ''gem'' ''address'', typed ''address[]'' ''addrs'' ''address[]''] ''gulp''
     [] False ''nonpayable'',
   abi_method False [typed ''address'' ''gem'' ''address''] ''gulp'' [] False ''nonpayable'',
   abi_method False [typed ''address'' ''guy'' ''address''] ''hope'' [] False ''nonpayable'',
   abi_method True [typed ''address'' '''' ''address''] ''list'' [typed ''uint256'' '''' ''uint256''] False
     ''view'',
   abi_method False [typed ''address'' ''guy'' ''address''] ''nope'' [] False ''nonpayable'',
   abi_method False [typed ''address'' ''guy'' ''address''] ''rely'' [] False ''nonpayable'',
   abi_method False [typed ''address'' ''gem'' ''address'', typed ''uint256'' ''amt_'' ''uint256''] ''setAmt'' []
     False ''nonpayable'',
   abi_method False [typed ''contract ERC20Like'' ''gem'' ''address''] ''shut'' [] False ''nonpayable'',
   abi_method False [typed ''address'' ''usr'' ''address'', typed ''address'' ''gem'' ''address''] ''undo'' []
     False ''nonpayable'',
   abi_method True [typed ''address'' '''' ''address''] ''wards'' [typed ''uint256'' '''' ''uint256''] False
     ''view'']"

definition maker_dao_abi_70_json :: json where
  "maker_dao_abi_70_json = JList [
   abi_method False [typed ''address'' ''apt'' ''address'', typed ''address'' ''urn'' ''address'', typed
     ''uint256'' ''wad'' ''uint256''] ''daiJoin_join'' [] False ''nonpayable'',
   abi_method False [typed ''address'' ''daiJoin'' ''address'', typed ''address'' ''pot'' ''address'', typed
     ''uint256'' ''wad'' ''uint256''] ''exit'' [] False ''nonpayable'',
   abi_method False [typed ''address'' ''daiJoin'' ''address'', typed ''address'' ''pot'' ''address''] ''exitAll''
     [] False ''nonpayable'',
   abi_method False [typed ''address'' ''daiJoin'' ''address'', typed ''address'' ''pot'' ''address'', typed
     ''uint256'' ''wad'' ''uint256''] ''join'' [] False ''nonpayable'']"

definition maker_dao_abi_71_json :: json where
  "maker_dao_abi_71_json = JList [
   JObj [(''inputs'', JList [typed ''address'' ''pot_'' ''address'', typed ''address'' ''daiJoin_'' ''address'']),
     (''payable'', JBool False), (''stateMutability'', JStr ''nonpayable''), (''type'', JStr ''constructor'')],
   event False [indexed True ''address'' ''dst'' ''address'', indexed False ''uint256'' ''wad'' ''uint256'']
     ''Exit'',
   event False [indexed True ''address'' ''dst'' ''address'', indexed False ''uint256'' ''wad'' ''uint256'']
     ''Join'',
   abi_method True [] ''dai'' [typed ''contract GemLike'' '''' ''address''] False ''view'',
   abi_method False [typed ''address'' ''usr'' ''address''] ''daiBalance'' [typed ''uint256'' ''wad'' ''uint256'']
     False ''nonpayable'',
   abi_method True [] ''daiJoin'' [typed ''contract JoinLike'' '''' ''address''] False ''view'',
   abi_method False [typed ''address'' ''dst'' ''address'', typed ''uint256'' ''wad'' ''uint256''] ''exit'' []
     False ''nonpayable'',
   abi_method False [typed ''address'' ''dst'' ''address''] ''exitAll'' [] False ''nonpayable'',
   abi_method False [typed ''address'' ''dst'' ''address'', typed ''uint256'' ''wad'' ''uint256''] ''join'' []
     False ''nonpayable'',
   abi_method True [typed ''address'' '''' ''address''] ''pieOf'' [typed ''uint256'' '''' ''uint256''] False
     ''view'',
   abi_method True [] ''pot'' [typed ''contract PotLike'' '''' ''address''] False ''view'',
   abi_method True [] ''supply'' [typed ''uint256'' '''' ''uint256''] False ''view'']"

definition maker_dao_abi_72_json :: json where
  "maker_dao_abi_72_json = JList [
   event False [indexed True ''address'' ''creator'' ''address'', indexed False ''address'' ''token'' ''address'']
     ''LogMake'',
   abi_method False [] ''make'' [typed ''contract WETH9_'' ''result'' ''address''] False ''nonpayable'']"

definition maker_dao_abi_73_json :: json where
  "maker_dao_abi_73_json = JList [
   event False [indexed True ''address'' ''src'' ''address'', indexed True ''address'' ''guy'' ''address'',
     indexed False ''uint256'' ''wad'' ''uint256''] ''Approval'',
   event False [indexed True ''address'' ''src'' ''address'', indexed True ''address'' ''dst'' ''address'',
     indexed False ''uint256'' ''wad'' ''uint256''] ''Transfer'']"

definition maker_dao_abi_74_json :: json where
  "maker_dao_abi_74_json = JList [
   JObj [(''inputs'', JList []), (''payable'', JBool False), (''stateMutability'', JStr ''nonpayable''),
     (''type'', JStr ''constructor'')],
   event True [indexed True ''bytes4'' ''sig'' ''bytes4'', indexed True ''address'' ''usr'' ''address'', indexed
     True ''bytes32'' ''arg1'' ''bytes32'', indexed True ''bytes32'' ''arg2'' ''bytes32'', indexed False ''bytes''
     ''data'' ''bytes''] ''LogNote'',
   abi_method True [typed ''address'' '''' ''address''] ''amt'' [typed ''uint256'' '''' ''uint256''] False ''view'',
   abi_method False [typed ''address'' ''guy'' ''address''] ''deny'' [] False ''nonpayable'',
   abi_method True [typed ''address'' '''' ''address'', typed ''address'' '''' ''address''] ''done'' [typed
     ''bool'' '''' ''bool''] False ''view'',
   abi_method False [typed ''address'' ''gem'' ''address'', typed ''address[]'' ''addrs'' ''address[]''] ''gulp''
     [] False ''nonpayable'',
   abi_method False [typed ''address'' ''gem'' ''address''] ''gulp'' [] False ''nonpayable'',
   abi_method False [typed ''address'' ''guy'' ''address''] ''rely'' [] False ''nonpayable'',
   abi_method False [typed ''address'' ''gem'' ''address'', typed ''uint256'' ''amt_'' ''uint256''] ''setAmt'' []
     False ''nonpayable'',
   abi_method False [typed ''contract ERC20Like'' ''gem'' ''address''] ''shut'' [] False ''nonpayable'',
   abi_method True [typed ''address'' '''' ''address''] ''wards'' [typed ''uint256'' '''' ''uint256''] False
     ''view'']"

definition maker_dao_abi_75_json :: json where
  "maker_dao_abi_75_json = JList [
   JObj [(''inputs'', JList [typed ''contract DSChief'' ''chief_'' ''address'']), (''payable'', JBool False),
     (''stateMutability'', JStr ''nonpayable''), (''type'', JStr ''constructor'')],
   abi_method False [typed ''contract DSToken'' ''token'' ''address'', typed ''address'' ''recipient''
     ''address'', typed ''uint256'' ''amount'' ''uint256''] ''approve'' [typed ''bool'' '''' ''bool''] False
     ''nonpayable'',
   abi_method False [typed ''address[]'' ''guys'' ''address[]''] ''etch'' [typed ''bytes32'' '''' ''bytes32'']
     False ''nonpayable'',
   abi_method False [typed ''uint256'' ''amt'' ''uint256''] ''free'' [] False ''nonpayable'',
   abi_method False [typed ''address'' ''candidate'' ''address''] ''lift'' [] False ''nonpayable'',
   abi_method False [typed ''uint256'' ''amt'' ''uint256''] ''lock'' [] False ''nonpayable'',
   abi_method False [typed ''uint256'' ''amt'' ''uint256''] ''tryFree'' [typed ''bool'' ''ok'' ''bool''] False
     ''nonpayable'',
   abi_method False [typed ''bytes32'' ''id'' ''bytes32''] ''vote'' [] False ''nonpayable'',
   abi_method False [typed ''address[]'' ''guys'' ''address[]''] ''vote'' [typed ''bytes32'' '''' ''bytes32'']
     False ''nonpayable'']"

definition maker_dao_abi_76_json :: json where
  "maker_dao_abi_76_json = JList [
   JObj [(''inputs'', JList [typed ''contract DSToken'' ''GOV_'' ''address'', typed ''contract DSToken'' ''IOU_''
     ''address'', typed ''uint256'' ''MAX_YAYS_'' ''uint256'']), (''payable'', JBool False), (''stateMutability'',
     JStr ''nonpayable''), (''type'', JStr ''constructor'')],
   event False [indexed True ''bytes32'' ''slate'' ''bytes32''] ''Etch'',
   event True [indexed True ''bytes4'' ''sig'' ''bytes4'', indexed True ''address'' ''guy'' ''address'', indexed
     True ''bytes32'' ''foo'' ''bytes32'', indexed True ''bytes32'' ''bar'' ''bytes32'', indexed False ''uint256''
     ''wad'' ''uint256'', indexed False ''bytes'' ''fax'' ''bytes''] ''LogNote'',
   event False [indexed True ''address'' ''authority'' ''address''] ''LogSetAuthority'',
   event False [indexed True ''address'' ''owner'' ''address''] ''LogSetOwner'',
   abi_method True [] ''GOV'' [typed ''contract DSToken'' '''' ''address''] False ''view'',
   abi_method True [] ''IOU'' [typed ''contract DSToken'' '''' ''address''] False ''view'',
   abi_method True [] ''MAX_YAYS'' [typed ''uint256'' '''' ''uint256''] False ''view'',
   abi_method True [typed ''address'' '''' ''address''] ''approvals'' [typed ''uint256'' '''' ''uint256''] False
     ''view'',
   abi_method True [] ''authority'' [typed ''contract DSAuthority'' '''' ''address''] False ''view'',
   abi_method True [typed ''address'' '''' ''address''] ''deposits'' [typed ''uint256'' '''' ''uint256''] False
     ''view'',
   abi_method False [typed ''address[]'' ''yays'' ''address[]''] ''etch'' [typed ''bytes32'' ''slate''
     ''bytes32''] False ''nonpayable'',
   abi_method False [typed ''uint256'' ''wad'' ''uint256''] ''free'' [] False ''nonpayable'',
   abi_method True [] ''hat'' [typed ''address'' '''' ''address''] False ''view'',
   abi_method False [typed ''address'' ''whom'' ''address''] ''lift'' [] False ''nonpayable'',
   abi_method False [typed ''uint256'' ''wad'' ''uint256''] ''lock'' [] False ''nonpayable'',
   abi_method True [] ''owner'' [typed ''address'' '''' ''address''] False ''view'',
   abi_method False [typed ''contract DSAuthority'' ''authority_'' ''address''] ''setAuthority'' [] False
     ''nonpayable'',
   abi_method False [typed ''address'' ''owner_'' ''address''] ''setOwner'' [] False ''nonpayable'',
   abi_method True [typed ''bytes32'' '''' ''bytes32'', typed ''uint256'' '''' ''uint256''] ''slates'' [typed
     ''address'' '''' ''address''] False ''view'',
   abi_method False [typed ''bytes32'' ''slate'' ''bytes32''] ''vote'' [] False ''nonpayable'',
   abi_method False [typed ''address[]'' ''yays'' ''address[]''] ''vote'' [typed ''bytes32'' '''' ''bytes32'']
     False ''nonpayable'',
   abi_method True [typed ''address'' '''' ''address''] ''votes'' [typed ''bytes32'' '''' ''bytes32''] False
     ''view'']"

definition maker_dao_abi_77_json :: json where
  "maker_dao_abi_77_json = JList [
   JObj [(''inputs'', JList [typed ''contract VoteProxyFactory'' ''voteProxyFactory_'' ''address'']),
     (''payable'', JBool False), (''stateMutability'', JStr ''nonpayable''), (''type'', JStr ''constructor'')],
   abi_method False [typed ''address'' ''cold'' ''address''] ''doApproveLink'' [typed ''contract VoteProxy'' ''''
     ''address''] False ''nonpayable'',
   abi_method False [] ''doBreakLink'' [] False ''nonpayable'',
   abi_method False [typed ''address'' ''hot'' ''address''] ''doInitiateLink'' [] False ''nonpayable'',
   abi_method False [] ''doLinkSelf'' [typed ''contract VoteProxy'' '''' ''address''] False ''nonpayable'',
   abi_method False [typed ''address'' ''_proxy'' ''address'', typed ''contract DSToken'' ''_token'' ''address'']
     ''proxyApprove'' [] False ''nonpayable'',
   abi_method False [typed ''contract VoteProxy'' ''_proxy'' ''address'', typed ''uint256'' ''amount''
     ''uint256''] ''proxyFree'' [] False ''nonpayable'',
   abi_method False [typed ''contract VoteProxy'' ''_proxy'' ''address'', typed ''uint256'' ''amount''
     ''uint256''] ''proxyLock'' [] False ''nonpayable'',
   abi_method False [] ''tryBreakLink'' [typed ''bool'' '''' ''bool''] False ''nonpayable'']"

definition maker_dao_abi_78_json :: json where
  "maker_dao_abi_78_json = JList [
   JObj [(''inputs'', JList [typed ''contract WETH9'' ''_weth'' ''address'']), (''payable'', JBool False),
     (''stateMutability'', JStr ''nonpayable''), (''type'', JStr ''constructor'')],
   JObj [(''payable'', JBool True), (''stateMutability'', JStr ''payable''), (''type'', JStr ''fallback'')],
   abi_method False [typed ''contract Guy'' ''guy'' ''address'', typed ''uint256'' ''wad'' ''uint256'']
     ''approve'' [] False ''nonpayable'',
   abi_method False [typed ''uint256'' ''wad'' ''uint256''] ''exit'' [] False ''nonpayable'',
   abi_method False [] ''join'' [] True ''payable'',
   abi_method False [typed ''contract Guy'' ''dst'' ''address'', typed ''uint256'' ''wad'' ''uint256'']
     ''transfer'' [] False ''nonpayable'',
   abi_method False [typed ''contract Guy'' ''src'' ''address'', typed ''contract Guy'' ''dst'' ''address'', typed
     ''uint256'' ''wad'' ''uint256''] ''transfer'' [] False ''nonpayable'']"

definition maker_dao_abi_79_json :: json where
  "maker_dao_abi_79_json = JList [
   abi_method False [typed ''address'' ''vat'' ''address'', typed ''address'' ''flap'' ''address'', typed
     ''address'' ''flop'' ''address''] ''newVow'' [typed ''contract Vow'' ''vow'' ''address''] False ''nonpayable'']"

definition maker_dao_abi_80_json :: json where
  "maker_dao_abi_80_json = JList [
   JObj [(''inputs'', JList [typed ''contract OsmMom'' ''mom_'' ''address'']), (''payable'', JBool False),
     (''stateMutability'', JStr ''nonpayable''), (''type'', JStr ''constructor'')],
   abi_method False [typed ''address'' ''newAuthority'' ''address''] ''setAuthority'' [] False ''nonpayable'',
   abi_method False [typed ''bytes32'' ''ilk'' ''bytes32'', typed ''address'' ''osm'' ''address''] ''setOsm'' []
     False ''nonpayable'',
   abi_method False [typed ''address'' ''newOwner'' ''address''] ''setOwner'' [] False ''nonpayable'',
   abi_method False [typed ''bytes32'' ''ilk'' ''bytes32''] ''stop'' [] False ''nonpayable'']"

definition maker_dao_abi_81_json :: json where
  "maker_dao_abi_81_json = JList [
   JObj [(''inputs'', JList [typed ''address'' ''vat'' ''address'']), (''payable'', JBool False),
     (''stateMutability'', JStr ''nonpayable''), (''type'', JStr ''constructor'')]]"

definition maker_dao_abi_82_json :: json where
  "maker_dao_abi_82_json = JList [
   short_method [typed ''address'' ''token'' ''address''] ''name'' [typed ''string'' '''' ''string''] ''view'',
   short_method [typed ''address'' ''token'' ''address''] ''symbol'' [typed ''string'' '''' ''string''] ''view'']"

definition maker_dao_abi_83_json :: json where
  "maker_dao_abi_83_json = JList [
   abi_method False [] ''newEnd'' [typed ''contract End'' ''end'' ''address''] False ''nonpayable'']"

definition maker_dao_abi_84_json :: json where
  "maker_dao_abi_84_json = JList [
   JObj [(''inputs'', JList [typed ''address'' ''cat_'' ''address'']), (''payable'', JBool False),
     (''stateMutability'', JStr ''nonpayable''), (''type'', JStr ''constructor'')],
   event False [indexed False ''address'' ''flip'' ''address'', indexed False ''address'' ''usr'' ''address'']
     ''Deny'',
   event False [indexed False ''address'' ''flip'' ''address'', indexed False ''address'' ''usr'' ''address'']
     ''Rely'',
   event False [indexed False ''address'' ''oldAuthority'' ''address'', indexed False ''address'' ''newAuthority''
     ''address''] ''SetAuthority'',
   event False [indexed False ''uint256'' ''oldDelay'' ''uint256'', indexed False ''uint256'' ''newDelay''
     ''uint256''] ''SetDelay'',
   event False [indexed False ''address'' ''oldOwner'' ''address'', indexed False ''address'' ''newOwner''
     ''address''] ''SetOwner'',
   abi_method True [] ''authority'' [typed ''address'' '''' ''address''] False ''view'',
   abi_method True [] ''cat'' [typed ''address'' '''' ''address''] False ''view'',
   abi_method True [] ''delay'' [typed ''uint256'' '''' ''uint256''] False ''view'',
   abi_method False [typed ''address'' ''flip'' ''address''] ''deny'' [] False ''nonpayable'',
   abi_method True [] ''owner'' [typed ''address'' '''' ''address''] False ''view'',
   abi_method False [typed ''address'' ''flip'' ''address''] ''rely'' [] False ''nonpayable'',
   abi_method False [typed ''address'' ''authority_'' ''address''] ''setAuthority'' [] False ''nonpayable'',
   abi_method False [typed ''uint256'' ''delay_'' ''uint256''] ''setDelay'' [] False ''nonpayable'',
   abi_method False [typed ''address'' ''owner_'' ''address''] ''setOwner'' [] False ''nonpayable'']"

definition maker_dao_abi_85_json :: json where
  "maker_dao_abi_85_json = JList [
   JObj [(''inputs'', JList []), (''payable'', JBool False), (''stateMutability'', JStr ''nonpayable''),
     (''type'', JStr ''constructor'')],
   event False [indexed True ''address'' ''authority'' ''address''] ''LogSetAuthority'',
   event False [indexed True ''address'' ''owner'' ''address''] ''LogSetOwner'',
   abi_method True [] ''authority'' [typed ''contract DSAuthority'' '''' ''address''] False ''view'',
   abi_method True [] ''owner'' [typed ''address'' '''' ''address''] False ''view'',
   abi_method False [typed ''contract DSAuthority'' ''authority_'' ''address''] ''setAuthority'' [] False
     ''nonpayable'',
   abi_method False [typed ''address'' ''owner_'' ''address''] ''setOwner'' [] False ''nonpayable'']"

definition maker_dao_abi_86_json :: json where
  "maker_dao_abi_86_json = JList [
   JObj [(''inputs'', JList [typed ''address'' ''vat_'' ''address'']), (''payable'', JBool False),
     (''stateMutability'', JStr ''nonpayable''), (''type'', JStr ''constructor'')],
   event True [indexed True ''bytes4'' ''sig'' ''bytes4'', indexed True ''address'' ''usr'' ''address'', indexed
     True ''bytes32'' ''arg1'' ''bytes32'', indexed True ''bytes32'' ''arg2'' ''bytes32'', indexed False ''bytes''
     ''data'' ''bytes''] ''LogNote'',
   event False [indexed False ''bytes32'' ''ilk'' ''bytes32'', indexed False ''bytes32'' ''val'' ''bytes32'',
     indexed False ''uint256'' ''spot'' ''uint256''] ''Poke'',
   abi_method False [] ''cage'' [] False ''nonpayable'',
   abi_method False [typed ''address'' ''guy'' ''address''] ''deny'' [] False ''nonpayable'',
   abi_method False [typed ''bytes32'' ''ilk'' ''bytes32'', typed ''bytes32'' ''what'' ''bytes32'', typed
     ''uint256'' ''data'' ''uint256''] ''file'' [] False ''nonpayable'',
   abi_method False [typed ''bytes32'' ''what'' ''bytes32'', typed ''uint256'' ''data'' ''uint256''] ''file'' []
     False ''nonpayable'',
   abi_method False [typed ''bytes32'' ''ilk'' ''bytes32'', typed ''bytes32'' ''what'' ''bytes32'', typed
     ''address'' ''pip_'' ''address''] ''file'' [] False ''nonpayable'',
   abi_method True [typed ''bytes32'' '''' ''bytes32''] ''ilks'' [typed ''contract PipLike'' ''pip'' ''address'',
     typed ''uint256'' ''mat'' ''uint256''] False ''view'',
   abi_method True [] ''live'' [typed ''uint256'' '''' ''uint256''] False ''view'',
   abi_method True [] ''par'' [typed ''uint256'' '''' ''uint256''] False ''view'',
   abi_method False [typed ''bytes32'' ''ilk'' ''bytes32''] ''poke'' [] False ''nonpayable'',
   abi_method False [typed ''address'' ''guy'' ''address''] ''rely'' [] False ''nonpayable'',
   abi_method True [] ''vat'' [typed ''contract VatLike'' '''' ''address''] False ''view'',
   abi_method True [typed ''address'' '''' ''address''] ''wards'' [typed ''uint256'' '''' ''uint256''] False
     ''view'']"

definition maker_dao_abi_87_json :: json where
  "maker_dao_abi_87_json = JList [
   JObj [(''inputs'', JList [typed ''address'' ''vat_'' ''address'']), (''payable'', JBool False),
     (''stateMutability'', JStr ''nonpayable''), (''type'', JStr ''constructor'')],
   event False [indexed True ''bytes32'' ''ilk'' ''bytes32'', indexed True ''address'' ''urn'' ''address'',
     indexed False ''uint256'' ''ink'' ''uint256'', indexed False ''uint256'' ''art'' ''uint256'', indexed False
     ''uint256'' ''tab'' ''uint256'', indexed False ''address'' ''flip'' ''address'', indexed False ''uint256''
     ''id'' ''uint256''] ''Bite'',
   event True [indexed True ''bytes4'' ''sig'' ''bytes4'', indexed True ''address'' ''usr'' ''address'', indexed
     True ''bytes32'' ''arg1'' ''bytes32'', indexed True ''bytes32'' ''arg2'' ''bytes32'', indexed False ''bytes''
     ''data'' ''bytes''] ''LogNote'',
   abi_method False [typed ''bytes32'' ''ilk'' ''bytes32'', typed ''address'' ''urn'' ''address''] ''bite'' [typed
     ''uint256'' ''id'' ''uint256''] False ''nonpayable'',
   abi_method True [] ''box'' [typed ''uint256'' '''' ''uint256''] False ''view'',
   abi_method False [] ''cage'' [] False ''nonpayable'',
   abi_method False [typed ''uint256'' ''rad'' ''uint256''] ''claw'' [] False ''nonpayable'',
   abi_method False [typed ''address'' ''usr'' ''address''] ''deny'' [] False ''nonpayable'',
   abi_method False [typed ''bytes32'' ''ilk'' ''bytes32'', typed ''bytes32'' ''what'' ''bytes32'', typed
     ''uint256'' ''data'' ''uint256''] ''file'' [] False ''nonpayable'',
   abi_method False [typed ''bytes32'' ''what'' ''bytes32'', typed ''uint256'' ''data'' ''uint256''] ''file'' []
     False ''nonpayable'',
   abi_method False [typed ''bytes32'' ''what'' ''bytes32'', typed ''address'' ''data'' ''address''] ''file'' []
     False ''nonpayable'',
   abi_method False [typed ''bytes32'' ''ilk'' ''bytes32'', typed ''bytes32'' ''what'' ''bytes32'', typed
     ''address'' ''flip'' ''address''] ''file'' [] False ''nonpayable'',
   abi_method True [typed ''bytes32'' '''' ''bytes32''] ''ilks'' [typed ''address'' ''flip'' ''address'', typed
     ''uint256'' ''chop'' ''uint256'', typed ''uint256'' ''dunk'' ''uint256''] False ''view'',
   abi_method True [] ''litter'' [typed ''uint256'' '''' ''uint256''] False ''view'',
   abi_method True [] ''live'' [typed ''uint256'' '''' ''uint256''] False ''view'',
   abi_method False [typed ''address'' ''usr'' ''address''] ''rely'' [] False ''nonpayable'',
   abi_method True [] ''vat'' [typed ''contract VatLike'' '''' ''address''] False ''view'',
   abi_method True [] ''vow'' [typed ''contract VowLike'' '''' ''address''] False ''view'',
   abi_method True [typed ''address'' '''' ''address''] ''wards'' [typed ''uint256'' '''' ''uint256''] False
     ''view'']"

definition maker_dao_abi_88_json :: json where
  "maker_dao_abi_88_json = JList [
   JObj [(''inputs'', JList []), (''payable'', JBool False), (''stateMutability'', JStr ''nonpayable''),
     (''type'', JStr ''constructor'')],
   abi_method False [typed ''address'' ''usr'' ''address'', typed ''bytes'' ''fax'' ''bytes''] ''exec'' [typed
     ''bytes'' ''out'' ''bytes''] False ''nonpayable'',
   abi_method True [] ''owner'' [typed ''address'' '''' ''address''] False ''view'']"

definition maker_dao_abi_89_json :: json where
  "maker_dao_abi_89_json = JList [
   abi_method False [typed ''address'' ''vat'' ''address''] ''newPot'' [typed ''contract Pot'' ''pot''
     ''address''] False ''nonpayable'']"

definition maker_dao_abi_90_json :: json where
  "maker_dao_abi_90_json = JList [
   JObj [(''inputs'', JList [typed ''address'' ''vat_'' ''address'', typed ''address'' ''cat_'' ''address'', typed
     ''bytes32'' ''ilk_'' ''bytes32'']), (''payable'', JBool False), (''stateMutability'', JStr ''nonpayable''),
     (''type'', JStr ''constructor'')],
   event False [indexed False ''uint256'' ''id'' ''uint256'', indexed False ''uint256'' ''lot'' ''uint256'',
     indexed False ''uint256'' ''bid'' ''uint256'', indexed False ''uint256'' ''tab'' ''uint256'', indexed True
     ''address'' ''usr'' ''address'', indexed True ''address'' ''gal'' ''address''] ''Kick'',
   event True [indexed True ''bytes4'' ''sig'' ''bytes4'', indexed True ''address'' ''usr'' ''address'', indexed
     True ''bytes32'' ''arg1'' ''bytes32'', indexed True ''bytes32'' ''arg2'' ''bytes32'', indexed False ''bytes''
     ''data'' ''bytes''] ''LogNote'',
   abi_method True [] ''beg'' [typed ''uint256'' '''' ''uint256''] False ''view'',
   abi_method True [typed ''uint256'' '''' ''uint256''] ''bids'' [typed ''uint256'' ''bid'' ''uint256'', typed
     ''uint256'' ''lot'' ''uint256'', typed ''address'' ''guy'' ''address'', typed ''uint48'' ''tic'' ''uint48'',
     typed ''uint48'' ''end'' ''uint48'', typed ''address'' ''usr'' ''address'', typed ''address'' ''gal''
     ''address'', typed ''uint256'' ''tab'' ''uint256''] False ''view'',
   abi_method True [] ''cat'' [typed ''contract CatLike'' '''' ''address''] False ''view'',
   abi_method False [typed ''uint256'' ''id'' ''uint256''] ''deal'' [] False ''nonpayable'',
   abi_method False [typed ''uint256'' ''id'' ''uint256'', typed ''uint256'' ''lot'' ''uint256'', typed
     ''uint256'' ''bid'' ''uint256''] ''dent'' [] False ''nonpayable'',
   abi_method False [typed ''address'' ''usr'' ''address''] ''deny'' [] False ''nonpayable'',
   abi_method False [typed ''bytes32'' ''what'' ''bytes32'', typed ''uint256'' ''data'' ''uint256''] ''file'' []
     False ''nonpayable'',
   abi_method False [typed ''bytes32'' ''what'' ''bytes32'', typed ''address'' ''data'' ''address''] ''file'' []
     False ''nonpayable'',
   abi_method True [] ''ilk'' [typed ''bytes32'' '''' ''bytes32''] False ''view'',
   abi_method False [typed ''address'' ''usr'' ''address'', typed ''address'' ''gal'' ''address'', typed
     ''uint256'' ''tab'' ''uint256'', typed ''uint256'' ''lot'' ''uint256'', typed ''uint256'' ''bid'' ''uint256'']
     ''kick'' [typed ''uint256'' ''id'' ''uint256''] False ''nonpayable'',
   abi_method True [] ''kicks'' [typed ''uint256'' '''' ''uint256''] False ''view'',
   abi_method False [typed ''address'' ''usr'' ''address''] ''rely'' [] False ''nonpayable'',
   abi_method True [] ''tau'' [typed ''uint48'' '''' ''uint48''] False ''view'',
   abi_method False [typed ''uint256'' ''id'' ''uint256'', typed ''uint256'' ''lot'' ''uint256'', typed
     ''uint256'' ''bid'' ''uint256''] ''tend'' [] False ''nonpayable'',
   abi_method False [typed ''uint256'' ''id'' ''uint256''] ''tick'' [] False ''nonpayable'',
   abi_method True [] ''ttl'' [typed ''uint48'' '''' ''uint48''] False ''view'',
   abi_method True [] ''vat'' [typed ''contract VatLike'' '''' ''address''] False ''view'',
   abi_method True [typed ''address'' '''' ''address''] ''wards'' [typed ''uint256'' '''' ''uint256''] False
     ''view'',
   abi_method False [typed ''uint256'' ''id'' ''uint256''] ''yank'' [] False ''nonpayable'']"

definition maker_dao_abi_91_json :: json where
  "maker_dao_abi_91_json = JList [
   JObj [(''inputs'', JList [typed ''contract DSToken'' ''token_'' ''address'', typed
     ''contract RestrictedTokenFaucet'' ''faucet_'' ''address'']), (''payable'', JBool False), (''stateMutability'',
     JStr ''nonpayable''), (''type'', JStr ''constructor'')],
   abi_method False [] ''doGulp'' [] False ''nonpayable'',
   abi_method False [typed ''address'' ''usr'' ''address''] ''doHope'' [] False ''nonpayable'',
   abi_method False [typed ''address'' ''usr'' ''address''] ''doNope'' [] False ''nonpayable'',
   abi_method False [typed ''address'' ''tok'' ''address'', typed ''uint256'' ''amt'' ''uint256''] ''doSetAmt'' []
     False ''nonpayable'',
   abi_method False [] ''doShut'' [] False ''nonpayable'',
   abi_method False [typed ''address'' ''usr'' ''address''] ''doUndo'' [] False ''nonpayable'']"

definition maker_dao_abi_92_json :: json where
  "maker_dao_abi_92_json = JList [
   abi_method False [] ''cage'' [] False ''nonpayable'',
   abi_method True [typed ''bytes32'' '''' ''bytes32''] ''ilks'' [typed ''contract PipLike'' ''pip'' ''address'',
     typed ''uint256'' ''mat'' ''uint256''] False ''view'',
   abi_method True [] ''par'' [typed ''uint256'' '''' ''uint256''] False ''view'']"

definition maker_dao_abi_93_json :: json where
  "maker_dao_abi_93_json = JList [
   JObj [(''inputs'', JList [typed ''address'' ''vat_'' ''address'', typed ''bytes32'' ''ilk_'' ''bytes32'', typed
     ''address'' ''gem_'' ''address'', typed ''uint256'' ''decimals'' ''uint256'']), (''payable'', JBool False),
     (''stateMutability'', JStr ''nonpayable''), (''type'', JStr ''constructor'')],
   event True [indexed True ''bytes4'' ''sig'' ''bytes4'', indexed True ''address'' ''usr'' ''address'', indexed
     True ''bytes32'' ''arg1'' ''bytes32'', indexed True ''bytes32'' ''arg2'' ''bytes32'', indexed False ''bytes''
     ''data'' ''bytes''] ''LogNote'',
   abi_method False [] ''cage'' [] False ''nonpayable'',
   abi_method True [] ''dec'' [typed ''uint256'' '''' ''uint256''] False ''view'',
   abi_method False [typed ''address'' ''usr'' ''address''] ''deny'' [] False ''nonpayable'',
   abi_method False [typed ''address'' ''guy'' ''address'', typed ''uint256'' ''wad'' ''uint256''] ''exit'' []
     False ''nonpayable'',
   abi_method True [] ''gem'' [typed ''contract GemLike'' '''' ''address''] False ''view'',
   abi_method True [] ''ilk'' [typed ''bytes32'' '''' ''bytes32''] False ''view'',
   abi_method False [typed ''address'' ''urn'' ''address'', typed ''uint256'' ''wad'' ''uint256''] ''join'' []
     False ''nonpayable'',
   abi_method True [] ''live'' [typed ''uint256'' '''' ''uint256''] False ''view'',
   abi_method False [typed ''address'' ''usr'' ''address''] ''rely'' [] False ''nonpayable'',
   abi_method True [] ''vat'' [typed ''contract VatLike'' '''' ''address''] False ''view'',
   abi_method True [typed ''address'' '''' ''address''] ''wards'' [typed ''uint256'' '''' ''uint256''] False
     ''view'']"

definition maker_dao_abi_94_json :: json where
  "maker_dao_abi_94_json = JList [
   JObj [(''inputs'', JList [typed ''address'' ''src_'' ''address'']), (''payable'', JBool False),
     (''stateMutability'', JStr ''nonpayable''), (''type'', JStr ''constructor'')],
   event True [indexed True ''bytes4'' ''sig'' ''bytes4'', indexed True ''address'' ''usr'' ''address'', indexed
     True ''bytes32'' ''arg1'' ''bytes32'', indexed True ''bytes32'' ''arg2'' ''bytes32'', indexed False ''bytes''
     ''data'' ''bytes''] ''LogNote'',
   event False [indexed False ''bytes32'' ''val'' ''bytes32''] ''LogValue'',
   abi_method True [typed ''address'' '''' ''address''] ''bud'' [typed ''uint256'' '''' ''uint256''] False ''view'',
   abi_method False [typed ''address'' ''src_'' ''address''] ''change'' [] False ''nonpayable'',
   abi_method False [typed ''address'' ''usr'' ''address''] ''deny'' [] False ''nonpayable'',
   abi_method False [typed ''address[]'' ''a'' ''address[]''] ''diss'' [] False ''nonpayable'',
   abi_method False [typed ''address'' ''a'' ''address''] ''diss'' [] False ''nonpayable'',
   abi_method True [] ''hop'' [typed ''uint16'' '''' ''uint16''] False ''view'',
   abi_method False [typed ''address[]'' ''a'' ''address[]''] ''kiss'' [] False ''nonpayable'',
   abi_method False [typed ''address'' ''a'' ''address''] ''kiss'' [] False ''nonpayable'',
   abi_method True [] ''pass'' [typed ''bool'' ''ok'' ''bool''] False ''view'',
   abi_method True [] ''peek'' [typed ''bytes32'' '''' ''bytes32'', typed ''bool'' '''' ''bool''] False ''view'',
   abi_method True [] ''peep'' [typed ''bytes32'' '''' ''bytes32'', typed ''bool'' '''' ''bool''] False ''view'',
   abi_method False [] ''poke'' [] False ''nonpayable'',
   abi_method True [] ''read'' [typed ''bytes32'' '''' ''bytes32''] False ''view'',
   abi_method False [typed ''address'' ''usr'' ''address''] ''rely'' [] False ''nonpayable'',
   abi_method True [] ''src'' [typed ''address'' '''' ''address''] False ''view'',
   abi_method False [] ''start'' [] False ''nonpayable'',
   abi_method False [typed ''uint16'' ''ts'' ''uint16''] ''step'' [] False ''nonpayable'',
   abi_method False [] ''stop'' [] False ''nonpayable'',
   abi_method True [] ''stopped'' [typed ''uint256'' '''' ''uint256''] False ''view'',
   abi_method False [] ''void'' [] False ''nonpayable'',
   abi_method True [typed ''address'' '''' ''address''] ''wards'' [typed ''uint256'' '''' ''uint256''] False
     ''view'',
   abi_method True [] ''zzz'' [typed ''uint64'' '''' ''uint64''] False ''view'']"

definition maker_dao_abi_95_json :: json where
  "maker_dao_abi_95_json = JList [
   JObj [(''inputs'', JList [typed ''uint256'' ''supply'' ''uint256'']), (''payable'', JBool False),
     (''stateMutability'', JStr ''nonpayable''), (''type'', JStr ''constructor'')],
   event False [indexed True ''address'' ''src'' ''address'', indexed True ''address'' ''guy'' ''address'',
     indexed False ''uint256'' ''wad'' ''uint256''] ''Approval'',
   event False [indexed True ''address'' ''src'' ''address'', indexed True ''address'' ''dst'' ''address'',
     indexed False ''uint256'' ''wad'' ''uint256''] ''Transfer'',
   abi_method True [typed ''address'' ''src'' ''address'', typed ''address'' ''guy'' ''address''] ''allowance''
     [typed ''uint256'' '''' ''uint256''] False ''view'',
   abi_method False [typed ''address'' ''guy'' ''address'', typed ''uint256'' ''wad'' ''uint256''] ''approve'' []
     False ''nonpayable'',
   abi_method True [typed ''address'' ''src'' ''address''] ''balanceOf'' [typed ''uint256'' '''' ''uint256'']
     False ''view'',
   abi_method True [] ''decimals'' [typed ''uint256'' '''' ''uint256''] False ''view'',
   abi_method True [] ''name'' [typed ''string'' '''' ''string''] False ''view'',
   abi_method True [] ''symbol'' [typed ''string'' '''' ''string''] False ''view'',
   abi_method True [] ''totalSupply'' [typed ''uint256'' '''' ''uint256''] False ''view'',
   abi_method False [typed ''address'' ''dst'' ''address'', typed ''uint256'' ''wad'' ''uint256''] ''transfer'' []
     False ''nonpayable'',
   abi_method False [typed ''address'' ''src'' ''address'', typed ''address'' ''dst'' ''address'', typed
     ''uint256'' ''wad'' ''uint256''] ''transferFrom'' [] False ''nonpayable'']"

definition maker_dao_abi_96_json :: json where
  "maker_dao_abi_96_json = JList [
   abi_method False [typed ''uint256'' ''chainId'' ''uint256''] ''newDai'' [typed ''contract Dai'' ''dai''
     ''address''] False ''nonpayable'']"

definition maker_dao_abi_97_json :: json where
  "maker_dao_abi_97_json = JList [
   JObj [(''inputs'', JList [typed ''address'' ''vat_'' ''address'', typed ''bytes32'' ''ilk_'' ''bytes32'', typed
     ''address'' ''gem_'' ''address'']), (''payable'', JBool False), (''stateMutability'', JStr ''nonpayable''),
     (''type'', JStr ''constructor'')],
   event True [indexed True ''bytes4'' ''sig'' ''bytes4'', indexed True ''address'' ''usr'' ''address'', indexed
     True ''bytes32'' ''arg1'' ''bytes32'', indexed True ''bytes32'' ''arg2'' ''bytes32'', indexed False ''bytes''
     ''data'' ''bytes''] ''LogNote'',
   abi_method False [] ''cage'' [] False ''nonpayable'',
   abi_method True [] ''dec'' [typed ''uint256'' '''' ''uint256''] False ''view'',
   abi_method False [typed ''address'' ''usr'' ''address''] ''deny'' [] False ''nonpayable'',
   abi_method False [typed ''address'' ''usr'' ''address'', typed ''uint256'' ''wad'' ''uint256''] ''exit'' []
     False ''nonpayable'',
   abi_method True [] ''gem'' [typed ''contract GemLike'' '''' ''address''] False ''view'',
   abi_method True [] ''ilk'' [typed ''bytes32'' '''' ''bytes32''] False ''view'',
   abi_method True [typed ''address'' '''' ''address''] ''implementations'' [typed ''uint256'' '''' ''uint256'']
     False ''view'',
   abi_method False [typed ''address'' ''usr'' ''address'', typed ''uint256'' ''wad'' ''uint256''] ''join'' []
     False ''nonpayable'',
   abi_method True [] ''live'' [typed ''uint256'' '''' ''uint256''] False ''view'',
   abi_method False [typed ''address'' ''usr'' ''address''] ''rely'' [] False ''nonpayable'',
   abi_method False [typed ''address'' ''implementation'' ''address'', typed ''uint256'' ''permitted''
     ''uint256''] ''setImplementation'' [] False ''nonpayable'',
   abi_method True [] ''vat'' [typed ''contract VatLike'' '''' ''address''] False ''view'',
   abi_method True [typed ''address'' '''' ''address''] ''wards'' [typed ''uint256'' '''' ''uint256''] False
     ''view'']"

definition maker_dao_abi_98_json :: json where
  "maker_dao_abi_98_json = JList [
   abi_method False [typed ''uint256'' ''delay'' ''uint256'', typed ''address'' ''owner'' ''address'', typed
     ''address'' ''authority'' ''address''] ''newPause'' [typed ''contract DSPause'' ''pause'' ''address''] False
     ''nonpayable'']"

definition maker_dao_abi_99_json :: json where
  "maker_dao_abi_99_json = JList [
   JObj [(''inputs'', JList [typed ''address'' ''vat_'' ''address'']), (''payable'', JBool False),
     (''stateMutability'', JStr ''nonpayable''), (''type'', JStr ''constructor'')],
   event True [indexed True ''bytes4'' ''sig'' ''bytes4'', indexed True ''address'' ''usr'' ''address'', indexed
     True ''bytes32'' ''arg1'' ''bytes32'', indexed True ''bytes32'' ''arg2'' ''bytes32'', indexed False ''bytes''
     ''data'' ''bytes''] ''LogNote'',
   abi_method True [] ''Pie'' [typed ''uint256'' '''' ''uint256''] False ''view'',
   abi_method False [] ''cage'' [] False ''nonpayable'',
   abi_method True [] ''chi'' [typed ''uint256'' '''' ''uint256''] False ''view'',
   abi_method False [typed ''address'' ''guy'' ''address''] ''deny'' [] False ''nonpayable'',
   abi_method False [] ''drip'' [typed ''uint256'' ''tmp'' ''uint256''] False ''nonpayable'',
   abi_method True [] ''dsr'' [typed ''uint256'' '''' ''uint256''] False ''view'',
   abi_method False [typed ''uint256'' ''wad'' ''uint256''] ''exit'' [] False ''nonpayable'',
   abi_method False [typed ''bytes32'' ''what'' ''bytes32'', typed ''uint256'' ''data'' ''uint256''] ''file'' []
     False ''nonpayable'',
   abi_method False [typed ''bytes32'' ''what'' ''bytes32'', typed ''address'' ''addr'' ''address''] ''file'' []
     False ''nonpayable'',
   abi_method False [typed ''uint256'' ''wad'' ''uint256''] ''join'' [] False ''nonpayable'',
   abi_method True [] ''live'' [typed ''uint256'' '''' ''uint256''] False ''view'',
   abi_method True [typed ''address'' '''' ''address''] ''pie'' [typed ''uint256'' '''' ''uint256''] False ''view'',
   abi_method False [typed ''address'' ''guy'' ''address''] ''rely'' [] False ''nonpayable'',
   abi_method True [] ''rho'' [typed ''uint256'' '''' ''uint256''] False ''view'',
   abi_method True [] ''vat'' [typed ''contract VatLike'' '''' ''address''] False ''view'',
   abi_method True [] ''vow'' [typed ''address'' '''' ''address''] False ''view'',
   abi_method True [typed ''address'' '''' ''address''] ''wards'' [typed ''uint256'' '''' ''uint256''] False
     ''view'']"

definition maker_dao_abi_100_json :: json where
  "maker_dao_abi_100_json = JList [
   JObj [(''inputs'', JList [typed ''uint256'' ''_initialSupply'' ''uint256'']), (''payable'', JBool False),
     (''stateMutability'', JStr ''nonpayable''), (''type'', JStr ''constructor'')],
   event False [indexed True ''address'' ''owner'' ''address'', indexed True ''address'' ''spender'' ''address'',
     indexed False ''uint256'' ''value'' ''uint256''] ''Approval'',
   event False [indexed False ''address'' ''newAddress'' ''address''] ''Deprecate'',
   event False [indexed True ''address'' ''from'' ''address'', indexed True ''address'' ''to'' ''address'',
     indexed False ''uint256'' ''value'' ''uint256''] ''Transfer'',
   abi_method True [] ''MAX_UINT'' [typed ''uint256'' '''' ''uint256''] False ''view'',
   abi_method True [typed ''address'' ''_owner'' ''address'', typed ''address'' ''_spender'' ''address'']
     ''allowance'' [typed ''uint256'' ''remaining'' ''uint256''] False ''view'',
   abi_method True [typed ''address'' '''' ''address'', typed ''address'' '''' ''address''] ''allowed'' [typed
     ''uint256'' '''' ''uint256''] False ''view'',
   abi_method False [typed ''address'' ''_spender'' ''address'', typed ''uint256'' ''_value'' ''uint256'']
     ''approve'' [] False ''nonpayable'',
   abi_method True [typed ''address'' ''_owner'' ''address''] ''balanceOf'' [typed ''uint256'' ''balance''
     ''uint256''] False ''view'',
   abi_method True [typed ''address'' '''' ''address''] ''balances'' [typed ''uint256'' '''' ''uint256''] False
     ''view'',
   abi_method True [] ''basisPointsRate'' [typed ''uint256'' '''' ''uint256''] False ''view'',
   abi_method False [typed ''uint256'' ''_basisPointsRate'' ''uint256'', typed ''uint256'' ''_maximumFee''
     ''uint256''] ''changeFees'' [] False ''nonpayable'',
   abi_method True [] ''decimals'' [typed ''uint256'' '''' ''uint256''] False ''view'',
   abi_method False [typed ''address'' ''_upgradedAddress'' ''address''] ''deprecate'' [] False ''nonpayable'',
   abi_method True [] ''deprecated'' [typed ''bool'' '''' ''bool''] False ''view'',
   abi_method True [] ''maximumFee'' [typed ''uint256'' '''' ''uint256''] False ''view'',
   abi_method True [] ''name'' [typed ''string'' '''' ''string''] False ''view'',
   abi_method True [] ''owner'' [typed ''address'' '''' ''address''] False ''view'',
   abi_method True [] ''symbol'' [typed ''string'' '''' ''string''] False ''view'',
   abi_method False [typed ''address'' ''_to'' ''address'', typed ''uint256'' ''_value'' ''uint256''] ''transfer''
     [] False ''nonpayable'',
   abi_method False [typed ''address'' ''_from'' ''address'', typed ''address'' ''_to'' ''address'', typed
     ''uint256'' ''_value'' ''uint256''] ''transferFrom'' [] False ''nonpayable'',
   abi_method True [] ''upgradedAddress'' [typed ''address'' '''' ''address''] False ''view'']"

definition maker_dao_abi_101_json :: json where
  "maker_dao_abi_101_json = JList [
   abi_method False [typed ''uint256'' ''amount'' ''uint256''] ''withdraw'' [] False ''nonpayable'']"

definition maker_dao_abi_102_json :: json where
  "maker_dao_abi_102_json = JList [
   abi_method True [] ''fail'' [] False ''pure'',
   abi_method True [] ''get48Bytes'' [typed ''bytes'' ''result'' ''bytes''] False ''pure'',
   abi_method True [] ''getBytes32'' [typed ''bytes32'' '''' ''bytes32''] False ''pure'',
   abi_method True [] ''getBytes32AndUint'' [typed ''bytes32'' '''' ''bytes32'', typed ''uint256'' ''''
     ''uint256''] False ''pure'',
   abi_method True [typed ''uint256'' ''amount'' ''uint256''] ''getMultipleValues'' [typed ''bytes32[]''
     ''result'' ''bytes32[]''] False ''pure'']"

definition maker_dao_abi_103_json :: json where
  "maker_dao_abi_103_json = JList [
   JObj [(''inputs'', JList [typed ''uint256'' ''supply'' ''uint256'']), (''payable'', JBool False),
     (''stateMutability'', JStr ''nonpayable''), (''type'', JStr ''constructor'')],
   event False [indexed True ''address'' ''src'' ''address'', indexed True ''address'' ''guy'' ''address'',
     indexed False ''uint256'' ''wad'' ''uint256''] ''Approval'',
   event False [indexed True ''address'' ''src'' ''address'', indexed True ''address'' ''dst'' ''address'',
     indexed False ''uint256'' ''wad'' ''uint256''] ''Transfer'',
   abi_method True [typed ''address'' ''src'' ''address'', typed ''address'' ''guy'' ''address''] ''allowance''
     [typed ''uint256'' '''' ''uint256''] False ''view'',
   abi_method False [typed ''address'' ''guy'' ''address'', typed ''uint256'' ''wad'' ''uint256''] ''approve''
     [typed ''bool'' '''' ''bool''] False ''nonpayable'',
   abi_method True [typed ''address'' ''src'' ''address''] ''balanceOf'' [typed ''uint256'' '''' ''uint256'']
     False ''view'',
   abi_method True [] ''decimals'' [typed ''uint8'' '''' ''uint8''] False ''view'',
   abi_method True [] ''erc20Impl'' [typed ''address'' '''' ''address''] False ''view'',
   abi_method True [] ''name'' [typed ''string'' '''' ''string''] False ''view'',
   abi_method False [typed ''address'' ''newImplementation'' ''address''] ''setImplementation'' [] False
     ''nonpayable'',
   abi_method True [] ''symbol'' [typed ''string'' '''' ''string''] False ''view'',
   abi_method True [] ''totalSupply'' [typed ''uint256'' '''' ''uint256''] False ''view'',
   abi_method False [typed ''address'' ''dst'' ''address'', typed ''uint256'' ''wad'' ''uint256''] ''transfer''
     [typed ''bool'' '''' ''bool''] False ''nonpayable'',
   abi_method False [typed ''address'' ''src'' ''address'', typed ''address'' ''dst'' ''address'', typed
     ''uint256'' ''wad'' ''uint256''] ''transferFrom'' [typed ''bool'' '''' ''bool''] False ''nonpayable'']"

definition maker_dao_abi_104_json :: json where
  "maker_dao_abi_104_json = JList [
   JObj [(''inputs'', JList [typed ''address'' ''gem_'' ''address'', typed ''address'' ''end_'' ''address'', typed
     ''address'' ''pit_'' ''address'', typed ''uint256'' ''min_'' ''uint256'']), (''payable'', JBool False),
     (''stateMutability'', JStr ''nonpayable''), (''type'', JStr ''constructor'')],
   event True [indexed True ''bytes4'' ''sig'' ''bytes4'', indexed True ''address'' ''usr'' ''address'', indexed
     True ''bytes32'' ''arg1'' ''bytes32'', indexed True ''bytes32'' ''arg2'' ''bytes32'', indexed False ''bytes''
     ''data'' ''bytes''] ''LogNote'',
   abi_method True [] ''Sum'' [typed ''uint256'' '''' ''uint256''] False ''view'',
   abi_method True [] ''end'' [typed ''contract EndLike'' '''' ''address''] False ''view'',
   abi_method False [] ''fire'' [] False ''nonpayable'',
   abi_method True [] ''fired'' [typed ''uint256'' '''' ''uint256''] False ''view'',
   abi_method True [] ''gem'' [typed ''contract GemLike'' '''' ''address''] False ''view'',
   abi_method False [typed ''uint256'' ''wad'' ''uint256''] ''join'' [] False ''nonpayable'',
   abi_method True [] ''min'' [typed ''uint256'' '''' ''uint256''] False ''view'',
   abi_method True [] ''pit'' [typed ''address'' '''' ''address''] False ''view'',
   abi_method True [typed ''address'' '''' ''address''] ''sum'' [typed ''uint256'' '''' ''uint256''] False ''view'']"

definition maker_dao_abi_105_json :: json where
  "maker_dao_abi_105_json = JList [
   JObj [(''inputs'', JList [typed ''address'' ''_cacheAddr'' ''address'']), (''payable'', JBool False),
     (''stateMutability'', JStr ''nonpayable''), (''type'', JStr ''constructor'')],
   event True [indexed True ''bytes4'' ''sig'' ''bytes4'', indexed True ''address'' ''guy'' ''address'', indexed
     True ''bytes32'' ''foo'' ''bytes32'', indexed True ''bytes32'' ''bar'' ''bytes32'', indexed False ''uint256''
     ''wad'' ''uint256'', indexed False ''bytes'' ''fax'' ''bytes''] ''LogNote'',
   event False [indexed True ''address'' ''authority'' ''address''] ''LogSetAuthority'',
   event False [indexed True ''address'' ''owner'' ''address''] ''LogSetOwner'',
   JObj [(''payable'', JBool True), (''stateMutability'', JStr ''payable''), (''type'', JStr ''fallback'')],
   abi_method True [] ''authority'' [typed ''contract DSAuthority'' '''' ''address''] False ''view'',
   abi_method True [] ''cache'' [typed ''contract DSProxyCache'' '''' ''address''] False ''view'',
   abi_method False [typed ''address'' ''_target'' ''address'', typed ''bytes'' ''_data'' ''bytes''] ''execute''
     [typed ''bytes'' ''response'' ''bytes''] True ''payable'',
   abi_method False [typed ''bytes'' ''_code'' ''bytes'', typed ''bytes'' ''_data'' ''bytes''] ''execute'' [typed
     ''address'' ''target'' ''address'', typed ''bytes'' ''response'' ''bytes''] True ''payable'',
   abi_method True [] ''owner'' [typed ''address'' '''' ''address''] False ''view'',
   abi_method False [typed ''contract DSAuthority'' ''authority_'' ''address''] ''setAuthority'' [] False
     ''nonpayable'',
   abi_method False [typed ''address'' ''_cacheAddr'' ''address''] ''setCache'' [typed ''bool'' '''' ''bool'']
     False ''nonpayable'',
   abi_method False [typed ''address'' ''owner_'' ''address''] ''setOwner'' [] False ''nonpayable'']"

definition maker_dao_abi_106_json :: json where
  "maker_dao_abi_106_json = JList [
   event False [indexed True ''address'' ''authority'' ''address''] ''LogSetAuthority'',
   event False [indexed True ''address'' ''owner'' ''address''] ''LogSetOwner'']"

definition maker_dao_abi_107_json :: json where
  "maker_dao_abi_107_json = JList [
   abi_method False [typed ''address'' ''pause'' ''address'', typed ''address'' ''actions'' ''address'', typed
     ''address'' ''who'' ''address'', typed ''bytes32'' ''ilk'' ''bytes32'', typed ''bytes32'' ''what'' ''bytes32'',
     typed ''uint256'' ''data'' ''uint256''] ''dripAndFile'' [] False ''nonpayable'',
   abi_method False [typed ''address'' ''pause'' ''address'', typed ''address'' ''actions'' ''address'', typed
     ''address'' ''who'' ''address'', typed ''bytes32'' ''what'' ''bytes32'', typed ''uint256'' ''data''
     ''uint256''] ''dripAndFile'' [] False ''nonpayable'',
   abi_method False [typed ''address'' ''pause'' ''address'', typed ''address'' ''actions'' ''address'', typed
     ''address'' ''who'' ''address'', typed ''bytes32'' ''ilk'' ''bytes32'', typed ''bytes32'' ''what'' ''bytes32'',
     typed ''uint256'' ''data'' ''uint256''] ''file'' [] False ''nonpayable'',
   abi_method False [typed ''address'' ''pause'' ''address'', typed ''address'' ''actions'' ''address'', typed
     ''address'' ''who'' ''address'', typed ''bytes32'' ''what'' ''bytes32'', typed ''uint256'' ''data''
     ''uint256''] ''file'' [] False ''nonpayable'',
   abi_method False [typed ''address'' ''pause'' ''address'', typed ''address'' ''actions'' ''address'', typed
     ''address'' ''who'' ''address'', typed ''bytes32'' ''ilk'' ''bytes32'', typed ''bytes32'' ''what'' ''bytes32'',
     typed ''address'' ''data'' ''address''] ''file'' [] False ''nonpayable'',
   abi_method False [typed ''address'' ''pause'' ''address'', typed ''address'' ''actions'' ''address'', typed
     ''address'' ''who'' ''address'', typed ''address'' ''to'' ''address''] ''rely'' [] False ''nonpayable'',
   abi_method False [typed ''address'' ''pause'' ''address'', typed ''address'' ''actions'' ''address'', typed
     ''address'' ''newAuthority'' ''address'', typed ''uint256'' ''newDelay'' ''uint256''] ''setAuthorityAndDelay''
     [] False ''nonpayable'']"

definition maker_dao_abi_108_json :: json where
  "maker_dao_abi_108_json = JList [
   JObj [(''inputs'', JList [typed ''address'' ''vat_'' ''address'', typed ''bytes32'' ''ilk_'' ''bytes32'', typed
     ''address'' ''gem_'' ''address'']), (''payable'', JBool False), (''stateMutability'', JStr ''nonpayable''),
     (''type'', JStr ''constructor'')],
   event True [indexed True ''bytes4'' ''sig'' ''bytes4'', indexed True ''address'' ''usr'' ''address'', indexed
     True ''bytes32'' ''arg1'' ''bytes32'', indexed True ''bytes32'' ''arg2'' ''bytes32'', indexed False ''bytes''
     ''data'' ''bytes''] ''LogNote'',
   abi_method True [typed ''address'' '''' ''address''] ''bags'' [typed ''address'' '''' ''address''] False
     ''view'',
   abi_method False [] ''cage'' [] False ''nonpayable'',
   abi_method True [] ''dec'' [typed ''uint256'' '''' ''uint256''] False ''view'',
   abi_method False [typed ''address'' ''usr'' ''address''] ''deny'' [] False ''nonpayable'',
   abi_method False [typed ''address'' ''usr'' ''address'', typed ''uint256'' ''wad'' ''uint256''] ''exit'' []
     False ''nonpayable'',
   abi_method True [] ''gem'' [typed ''contract GemLike'' '''' ''address''] False ''view'',
   abi_method True [] ''ilk'' [typed ''bytes32'' '''' ''bytes32''] False ''view'',
   abi_method False [typed ''address'' ''urn'' ''address'', typed ''uint256'' ''wad'' ''uint256''] ''join'' []
     False ''nonpayable'',
   abi_method True [] ''live'' [typed ''uint256'' '''' ''uint256''] False ''view'',
   abi_method False [typed ''address'' ''usr'' ''address''] ''make'' [typed ''address'' ''bag'' ''address''] False
     ''nonpayable'',
   abi_method False [] ''make'' [typed ''address'' ''bag'' ''address''] False ''nonpayable'',
   abi_method False [typed ''address'' ''usr'' ''address''] ''rely'' [] False ''nonpayable'',
   abi_method True [] ''vat'' [typed ''contract VatLike'' '''' ''address''] False ''view'',
   abi_method True [typed ''address'' '''' ''address''] ''wards'' [typed ''uint256'' '''' ''uint256''] False
     ''view'']"

definition maker_dao_abi_109_json_part1 :: "json list" where
  "maker_dao_abi_109_json_part1 = [
   event False [indexed True ''address'' ''src'' ''address'', indexed True ''address'' ''guy'' ''address'',
     indexed False ''uint256'' ''wad'' ''uint256''] ''Approval'',
   event False [indexed True ''address'' ''guy'' ''address'', indexed False ''uint256'' ''wad'' ''uint256'']
     ''Burn'',
   event False [indexed True ''address'' ''authority'' ''address''] ''LogSetAuthority'',
   event False [indexed True ''address'' ''owner'' ''address''] ''LogSetOwner'',
   event False [indexed True ''address'' ''guy'' ''address'', indexed False ''uint256'' ''wad'' ''uint256'']
     ''Mint'',
   event False [] ''Start'',
   event False [] ''Stop'',
   event False [indexed True ''address'' ''src'' ''address'', indexed True ''address'' ''dst'' ''address'',
     indexed False ''uint256'' ''wad'' ''uint256''] ''Transfer'',
   abi_method True [typed ''address'' '''' ''address'', typed ''address'' '''' ''address''] ''allowance'' [typed
     ''uint256'' '''' ''uint256''] False ''view'',
   abi_method False [typed ''address'' ''guy'' ''address'', typed ''uint256'' ''wad'' ''uint256''] ''approve''
     [typed ''bool'' '''' ''bool''] False ''nonpayable'',
   abi_method False [typed ''address'' ''guy'' ''address''] ''approve'' [typed ''bool'' '''' ''bool''] False
     ''nonpayable'',
   abi_method True [] ''authority'' [typed ''contract DSAuthority'' '''' ''address''] False ''view'',
   abi_method True [typed ''address'' '''' ''address''] ''balanceOf'' [typed ''uint256'' '''' ''uint256''] False
     ''view'',
   abi_method False [typed ''uint256'' ''wad'' ''uint256''] ''burn'' [] False ''nonpayable'',
   abi_method False [typed ''address'' ''guy'' ''address'', typed ''uint256'' ''wad'' ''uint256''] ''burn'' []
     False ''nonpayable'',
   abi_method True [] ''decimals'' [typed ''uint256'' '''' ''uint256''] False ''view'',
   abi_method False [typed ''address'' ''guy'' ''address'', typed ''uint256'' ''wad'' ''uint256''] ''mint'' []
     False ''nonpayable'',
   abi_method False [typed ''uint256'' ''wad'' ''uint256''] ''mint'' [] False ''nonpayable'',
   abi_method False [typed ''address'' ''src'' ''address'', typed ''address'' ''dst'' ''address'', typed
     ''uint256'' ''wad'' ''uint256''] ''move'' [] False ''nonpayable'',
   abi_method True [] ''name'' [typed ''bytes32'' '''' ''bytes32''] False ''view'',
   abi_method True [] ''owner'' [typed ''address'' '''' ''address''] False ''view'',
   abi_method False [typed ''address'' ''src'' ''address'', typed ''uint256'' ''wad'' ''uint256''] ''pull'' []
     False ''nonpayable'',
   abi_method False [typed ''address'' ''dst'' ''address'', typed ''uint256'' ''wad'' ''uint256''] ''push'' []
     False ''nonpayable'',
   abi_method False [typed ''contract DSAuthority'' ''authority_'' ''address''] ''setAuthority'' [] False
     ''nonpayable'',
   abi_method False [typed ''bytes32'' ''name_'' ''bytes32''] ''setName'' [] False ''nonpayable'']"

definition maker_dao_abi_109_json_part2 :: "json list" where
  "maker_dao_abi_109_json_part2 = [
   abi_method False [typed ''address'' ''owner_'' ''address''] ''setOwner'' [] False ''nonpayable'',
   abi_method False [] ''start'' [] False ''nonpayable'',
   abi_method False [] ''stop'' [] False ''nonpayable'',
   abi_method True [] ''stopped'' [typed ''bool'' '''' ''bool''] False ''view'',
   abi_method True [] ''symbol'' [typed ''bytes32'' '''' ''bytes32''] False ''view'',
   abi_method True [] ''totalSupply'' [typed ''uint256'' '''' ''uint256''] False ''view'',
   abi_method False [typed ''address'' ''dst'' ''address'', typed ''uint256'' ''wad'' ''uint256''] ''transfer''
     [typed ''bool'' '''' ''bool''] False ''nonpayable'',
   abi_method False [typed ''address'' ''src'' ''address'', typed ''address'' ''dst'' ''address'', typed
     ''uint256'' ''wad'' ''uint256''] ''transferFrom'' [typed ''bool'' '''' ''bool''] False ''nonpayable'']"

definition maker_dao_abi_109_json :: json where
  "maker_dao_abi_109_json = JList (maker_dao_abi_109_json_part1 @ maker_dao_abi_109_json_part2)"

definition maker_dao_abi_110_json :: json where
  "maker_dao_abi_110_json = JList [
   abi_method False [typed ''contract DSToken'' ''gov'' ''address'', typed ''uint256'' ''MAX_YAYS'' ''uint256'']
     ''newChief'' [typed ''contract DSChief'' ''chief'' ''address''] False ''nonpayable'']"

definition maker_dao_abi_111_json_part1 :: "json list" where
  "maker_dao_abi_111_json_part1 = [
   JObj [(''inputs'', JList []), (''payable'', JBool False), (''stateMutability'', JStr ''nonpayable''),
     (''type'', JStr ''constructor'')],
   event True [indexed True ''bytes4'' ''sig'' ''bytes4'', indexed True ''address'' ''usr'' ''address'', indexed
     True ''bytes32'' ''arg1'' ''bytes32'', indexed True ''bytes32'' ''arg2'' ''bytes32'', indexed False ''bytes''
     ''data'' ''bytes''] ''LogNote'',
   abi_method True [typed ''bytes32'' '''' ''bytes32''] ''Art'' [typed ''uint256'' '''' ''uint256''] False ''view'',
   abi_method True [typed ''address'' '''' ''address''] ''bag'' [typed ''uint256'' '''' ''uint256''] False ''view'',
   abi_method False [] ''cage'' [] False ''nonpayable'',
   abi_method False [typed ''bytes32'' ''ilk'' ''bytes32''] ''cage'' [] False ''nonpayable'',
   abi_method False [typed ''bytes32'' ''ilk'' ''bytes32'', typed ''uint256'' ''wad'' ''uint256''] ''cash'' []
     False ''nonpayable'',
   abi_method True [] ''cat'' [typed ''contract CatLike'' '''' ''address''] False ''view'',
   abi_method True [] ''debt'' [typed ''uint256'' '''' ''uint256''] False ''view'',
   abi_method False [typed ''address'' ''guy'' ''address''] ''deny'' [] False ''nonpayable'',
   abi_method False [typed ''bytes32'' ''what'' ''bytes32'', typed ''uint256'' ''data'' ''uint256''] ''file'' []
     False ''nonpayable'',
   abi_method False [typed ''bytes32'' ''what'' ''bytes32'', typed ''address'' ''data'' ''address''] ''file'' []
     False ''nonpayable'',
   abi_method True [typed ''bytes32'' '''' ''bytes32''] ''fix'' [typed ''uint256'' '''' ''uint256''] False ''view'',
   abi_method False [typed ''bytes32'' ''ilk'' ''bytes32''] ''flow'' [] False ''nonpayable'',
   abi_method False [typed ''bytes32'' ''ilk'' ''bytes32''] ''free'' [] False ''nonpayable'',
   abi_method True [typed ''bytes32'' '''' ''bytes32''] ''gap'' [typed ''uint256'' '''' ''uint256''] False ''view'',
   abi_method True [] ''live'' [typed ''uint256'' '''' ''uint256''] False ''view'',
   abi_method True [typed ''bytes32'' '''' ''bytes32'', typed ''address'' '''' ''address''] ''out'' [typed
     ''uint256'' '''' ''uint256''] False ''view'',
   abi_method False [typed ''uint256'' ''wad'' ''uint256''] ''pack'' [] False ''nonpayable'',
   abi_method True [] ''pot'' [typed ''contract PotLike'' '''' ''address''] False ''view'',
   abi_method False [typed ''address'' ''guy'' ''address''] ''rely'' [] False ''nonpayable'',
   abi_method False [typed ''bytes32'' ''ilk'' ''bytes32'', typed ''address'' ''urn'' ''address''] ''skim'' []
     False ''nonpayable'',
   abi_method False [typed ''bytes32'' ''ilk'' ''bytes32'', typed ''uint256'' ''id'' ''uint256''] ''skip'' []
     False ''nonpayable'',
   abi_method True [] ''spot'' [typed ''contract Spotty'' '''' ''address''] False ''view'',
   abi_method True [typed ''bytes32'' '''' ''bytes32''] ''tag'' [typed ''uint256'' '''' ''uint256''] False ''view'']"

definition maker_dao_abi_111_json_part2 :: "json list" where
  "maker_dao_abi_111_json_part2 = [
   abi_method False [] ''thaw'' [] False ''nonpayable'',
   abi_method True [] ''vat'' [typed ''contract VatLike'' '''' ''address''] False ''view'',
   abi_method True [] ''vow'' [typed ''contract VowLike'' '''' ''address''] False ''view'',
   abi_method True [] ''wait'' [typed ''uint256'' '''' ''uint256''] False ''view'',
   abi_method True [typed ''address'' '''' ''address''] ''wards'' [typed ''uint256'' '''' ''uint256''] False
     ''view'',
   abi_method True [] ''when'' [typed ''uint256'' '''' ''uint256''] False ''view'']"

definition maker_dao_abi_111_json :: json where
  "maker_dao_abi_111_json = JList (maker_dao_abi_111_json_part1 @ maker_dao_abi_111_json_part2)"

definition maker_dao_abi_112_json_part1 :: "json list" where
  "maker_dao_abi_112_json_part1 = [
   abi_method False [typed ''address'' ''manager'' ''address'', typed ''uint256'' ''cdp'' ''uint256'', typed
     ''address'' ''usr'' ''address'', typed ''uint256'' ''ok'' ''uint256''] ''cdpAllow'' [] False ''nonpayable'',
   abi_method False [typed ''address'' ''apt'' ''address'', typed ''address'' ''urn'' ''address'', typed
     ''uint256'' ''wad'' ''uint256''] ''daiJoin_join'' [] False ''nonpayable'',
   abi_method False [typed ''address'' ''manager'' ''address'', typed ''address'' ''jug'' ''address'', typed
     ''address'' ''daiJoin'' ''address'', typed ''uint256'' ''cdp'' ''uint256'', typed ''uint256'' ''wad''
     ''uint256''] ''draw'' [] False ''nonpayable'',
   abi_method False [typed ''address'' ''manager'' ''address'', typed ''address'' ''src'' ''address'', typed
     ''uint256'' ''cdp'' ''uint256''] ''enter'' [] False ''nonpayable'',
   abi_method False [typed ''address'' ''apt'' ''address'', typed ''address'' ''urn'' ''address'']
     ''ethJoin_join'' [] True ''payable'',
   abi_method False [typed ''address'' ''manager'' ''address'', typed ''address'' ''ethJoin'' ''address'', typed
     ''uint256'' ''cdp'' ''uint256'', typed ''uint256'' ''wad'' ''uint256''] ''exitETH'' [] False ''nonpayable'',
   abi_method False [typed ''address'' ''manager'' ''address'', typed ''address'' ''gemJoin'' ''address'', typed
     ''uint256'' ''cdp'' ''uint256'', typed ''uint256'' ''amt'' ''uint256''] ''exitGem'' [] False ''nonpayable'',
   abi_method False [typed ''address'' ''manager'' ''address'', typed ''uint256'' ''cdp'' ''uint256'', typed
     ''address'' ''dst'' ''address'', typed ''uint256'' ''wad'' ''uint256''] ''flux'' [] False ''nonpayable'',
   abi_method False [typed ''address'' ''manager'' ''address'', typed ''address'' ''ethJoin'' ''address'', typed
     ''uint256'' ''cdp'' ''uint256'', typed ''uint256'' ''wad'' ''uint256''] ''freeETH'' [] False ''nonpayable'',
   abi_method False [typed ''address'' ''manager'' ''address'', typed ''address'' ''gemJoin'' ''address'', typed
     ''uint256'' ''cdp'' ''uint256'', typed ''uint256'' ''amt'' ''uint256''] ''freeGem'' [] False ''nonpayable'',
   abi_method False [typed ''address'' ''manager'' ''address'', typed ''uint256'' ''cdp'' ''uint256'', typed
     ''int256'' ''dink'' ''int256'', typed ''int256'' ''dart'' ''int256''] ''frob'' [] False ''nonpayable'',
   abi_method False [typed ''address'' ''apt'' ''address'', typed ''address'' ''urn'' ''address'', typed
     ''uint256'' ''amt'' ''uint256'', typed ''bool'' ''transferFrom'' ''bool''] ''gemJoin_join'' [] False
     ''nonpayable'',
   abi_method False [typed ''address'' ''manager'' ''address'', typed ''uint256'' ''cdp'' ''uint256'', typed
     ''address'' ''usr'' ''address''] ''give'' [] False ''nonpayable'',
   abi_method False [typed ''address'' ''proxyRegistry'' ''address'', typed ''address'' ''manager'' ''address'',
     typed ''uint256'' ''cdp'' ''uint256'', typed ''address'' ''dst'' ''address''] ''giveToProxy'' [] False
     ''nonpayable'',
   abi_method False [typed ''address'' ''obj'' ''address'', typed ''address'' ''usr'' ''address''] ''hope'' []
     False ''nonpayable'',
   abi_method False [typed ''address'' ''manager'' ''address'', typed ''address'' ''ethJoin'' ''address'', typed
     ''uint256'' ''cdp'' ''uint256''] ''lockETH'' [] True ''payable'',
   abi_method False [typed ''address'' ''manager'' ''address'', typed ''address'' ''jug'' ''address'', typed
     ''address'' ''ethJoin'' ''address'', typed ''address'' ''daiJoin'' ''address'', typed ''uint256'' ''cdp''
     ''uint256'', typed ''uint256'' ''wadD'' ''uint256''] ''lockETHAndDraw'' [] True ''payable'',
   abi_method False [typed ''address'' ''manager'' ''address'', typed ''address'' ''gemJoin'' ''address'', typed
     ''uint256'' ''cdp'' ''uint256'', typed ''uint256'' ''amt'' ''uint256'', typed ''bool'' ''transferFrom''
     ''bool''] ''lockGem'' [] False ''nonpayable'',
   abi_method False [typed ''address'' ''manager'' ''address'', typed ''address'' ''jug'' ''address'', typed
     ''address'' ''gemJoin'' ''address'', typed ''address'' ''daiJoin'' ''address'', typed ''uint256'' ''cdp''
     ''uint256'', typed ''uint256'' ''amtC'' ''uint256'', typed ''uint256'' ''wadD'' ''uint256'', typed ''bool''
     ''transferFrom'' ''bool''] ''lockGemAndDraw'' [] False ''nonpayable'',
   abi_method False [typed ''address'' ''gemJoin'' ''address''] ''makeGemBag'' [typed ''address'' ''bag''
     ''address''] False ''nonpayable'',
   abi_method False [typed ''address'' ''manager'' ''address'', typed ''uint256'' ''cdp'' ''uint256'', typed
     ''address'' ''dst'' ''address'', typed ''uint256'' ''rad'' ''uint256''] ''move'' [] False ''nonpayable'',
   abi_method False [typed ''address'' ''obj'' ''address'', typed ''address'' ''usr'' ''address''] ''nope'' []
     False ''nonpayable'',
   abi_method False [typed ''address'' ''manager'' ''address'', typed ''bytes32'' ''ilk'' ''bytes32'', typed
     ''address'' ''usr'' ''address''] ''open'' [typed ''uint256'' ''cdp'' ''uint256''] False ''nonpayable'',
   abi_method False [typed ''address'' ''manager'' ''address'', typed ''address'' ''jug'' ''address'', typed
     ''address'' ''ethJoin'' ''address'', typed ''address'' ''daiJoin'' ''address'', typed ''bytes32'' ''ilk''
     ''bytes32'', typed ''uint256'' ''wadD'' ''uint256''] ''openLockETHAndDraw'' [typed ''uint256'' ''cdp''
     ''uint256''] True ''payable'',
   abi_method False [typed ''address'' ''manager'' ''address'', typed ''address'' ''jug'' ''address'', typed
     ''address'' ''gntJoin'' ''address'', typed ''address'' ''daiJoin'' ''address'', typed ''bytes32'' ''ilk''
     ''bytes32'', typed ''uint256'' ''amtC'' ''uint256'', typed ''uint256'' ''wadD'' ''uint256'']
     ''openLockGNTAndDraw'' [typed ''address'' ''bag'' ''address'', typed ''uint256'' ''cdp'' ''uint256''] False
     ''nonpayable'']"

definition maker_dao_abi_112_json_part2 :: "json list" where
  "maker_dao_abi_112_json_part2 = [
   abi_method False [typed ''address'' ''manager'' ''address'', typed ''address'' ''jug'' ''address'', typed
     ''address'' ''gemJoin'' ''address'', typed ''address'' ''daiJoin'' ''address'', typed ''bytes32'' ''ilk''
     ''bytes32'', typed ''uint256'' ''amtC'' ''uint256'', typed ''uint256'' ''wadD'' ''uint256'', typed ''bool''
     ''transferFrom'' ''bool''] ''openLockGemAndDraw'' [typed ''uint256'' ''cdp'' ''uint256''] False ''nonpayable'',
   abi_method False [typed ''address'' ''manager'' ''address'', typed ''uint256'' ''cdp'' ''uint256'', typed
     ''address'' ''dst'' ''address''] ''quit'' [] False ''nonpayable'',
   abi_method False [typed ''address'' ''manager'' ''address'', typed ''address'' ''ethJoin'' ''address'', typed
     ''uint256'' ''cdp'' ''uint256'', typed ''address'' ''owner'' ''address''] ''safeLockETH'' [] True ''payable'',
   abi_method False [typed ''address'' ''manager'' ''address'', typed ''address'' ''gemJoin'' ''address'', typed
     ''uint256'' ''cdp'' ''uint256'', typed ''uint256'' ''amt'' ''uint256'', typed ''bool'' ''transferFrom''
     ''bool'', typed ''address'' ''owner'' ''address''] ''safeLockGem'' [] False ''nonpayable'',
   abi_method False [typed ''address'' ''manager'' ''address'', typed ''address'' ''daiJoin'' ''address'', typed
     ''uint256'' ''cdp'' ''uint256'', typed ''uint256'' ''wad'' ''uint256'', typed ''address'' ''owner''
     ''address''] ''safeWipe'' [] False ''nonpayable'',
   abi_method False [typed ''address'' ''manager'' ''address'', typed ''address'' ''daiJoin'' ''address'', typed
     ''uint256'' ''cdp'' ''uint256'', typed ''address'' ''owner'' ''address''] ''safeWipeAll'' [] False
     ''nonpayable'',
   abi_method False [typed ''address'' ''manager'' ''address'', typed ''uint256'' ''cdpSrc'' ''uint256'', typed
     ''uint256'' ''cdpOrg'' ''uint256''] ''shift'' [] False ''nonpayable'',
   abi_method False [typed ''address'' ''gem'' ''address'', typed ''address'' ''dst'' ''address'', typed
     ''uint256'' ''amt'' ''uint256''] ''transfer'' [] False ''nonpayable'',
   abi_method False [typed ''address'' ''manager'' ''address'', typed ''address'' ''usr'' ''address'', typed
     ''uint256'' ''ok'' ''uint256''] ''urnAllow'' [] False ''nonpayable'',
   abi_method False [typed ''address'' ''manager'' ''address'', typed ''address'' ''daiJoin'' ''address'', typed
     ''uint256'' ''cdp'' ''uint256'', typed ''uint256'' ''wad'' ''uint256''] ''wipe'' [] False ''nonpayable'',
   abi_method False [typed ''address'' ''manager'' ''address'', typed ''address'' ''daiJoin'' ''address'', typed
     ''uint256'' ''cdp'' ''uint256''] ''wipeAll'' [] False ''nonpayable'',
   abi_method False [typed ''address'' ''manager'' ''address'', typed ''address'' ''ethJoin'' ''address'', typed
     ''address'' ''daiJoin'' ''address'', typed ''uint256'' ''cdp'' ''uint256'', typed ''uint256'' ''wadC''
     ''uint256''] ''wipeAllAndFreeETH'' [] False ''nonpayable'',
   abi_method False [typed ''address'' ''manager'' ''address'', typed ''address'' ''gemJoin'' ''address'', typed
     ''address'' ''daiJoin'' ''address'', typed ''uint256'' ''cdp'' ''uint256'', typed ''uint256'' ''amtC''
     ''uint256''] ''wipeAllAndFreeGem'' [] False ''nonpayable'',
   abi_method False [typed ''address'' ''manager'' ''address'', typed ''address'' ''ethJoin'' ''address'', typed
     ''address'' ''daiJoin'' ''address'', typed ''uint256'' ''cdp'' ''uint256'', typed ''uint256'' ''wadC''
     ''uint256'', typed ''uint256'' ''wadD'' ''uint256''] ''wipeAndFreeETH'' [] False ''nonpayable'',
   abi_method False [typed ''address'' ''manager'' ''address'', typed ''address'' ''gemJoin'' ''address'', typed
     ''address'' ''daiJoin'' ''address'', typed ''uint256'' ''cdp'' ''uint256'', typed ''uint256'' ''amtC''
     ''uint256'', typed ''uint256'' ''wadD'' ''uint256''] ''wipeAndFreeGem'' [] False ''nonpayable'']"

definition maker_dao_abi_112_json :: json where
  "maker_dao_abi_112_json = JList (maker_dao_abi_112_json_part1 @ maker_dao_abi_112_json_part2)"

definition maker_dao_abi_113_json :: json where
  "maker_dao_abi_113_json = JList [
   JObj [(''inputs'', JList [typed ''address'' ''lad_'' ''address'', typed ''address'' ''gem_'' ''address'']),
     (''payable'', JBool False), (''stateMutability'', JStr ''nonpayable''), (''type'', JStr ''constructor'')],
   abi_method True [] ''ada'' [typed ''address'' '''' ''address''] False ''view'',
   abi_method False [typed ''address'' ''usr'' ''address'', typed ''uint256'' ''wad'' ''uint256''] ''exit'' []
     False ''nonpayable'',
   abi_method True [] ''gem'' [typed ''contract GemLike'' '''' ''address''] False ''view'',
   abi_method True [] ''lad'' [typed ''address'' '''' ''address''] False ''view'']"

definition maker_dao_abis_json :: "json list" where
  "maker_dao_abis_json =
    [maker_dao_abi_1_json,
     maker_dao_abi_2_json,
     maker_dao_abi_3_json,
     maker_dao_abi_4_json,
     maker_dao_abi_5_json,
     maker_dao_abi_6_json,
     maker_dao_abi_7_json,
     maker_dao_abi_8_json,
     maker_dao_abi_9_json,
     maker_dao_abi_10_json,
     maker_dao_abi_11_json,
     maker_dao_abi_12_json,
     maker_dao_abi_13_json,
     maker_dao_abi_14_json,
     maker_dao_abi_15_json,
     maker_dao_abi_16_json,
     maker_dao_abi_17_json,
     maker_dao_abi_18_json,
     maker_dao_abi_19_json,
     maker_dao_abi_20_json,
     maker_dao_abi_21_json,
     maker_dao_abi_22_json,
     maker_dao_abi_23_json,
     maker_dao_abi_24_json,
     maker_dao_abi_25_json,
     maker_dao_abi_26_json,
     maker_dao_abi_27_json,
     maker_dao_abi_28_json,
     maker_dao_abi_29_json,
     maker_dao_abi_30_json,
     maker_dao_abi_31_json,
     maker_dao_abi_32_json,
     maker_dao_abi_33_json,
     maker_dao_abi_34_json,
     maker_dao_abi_35_json,
     maker_dao_abi_36_json,
     maker_dao_abi_37_json,
     maker_dao_abi_38_json,
     maker_dao_abi_39_json,
     maker_dao_abi_40_json,
     maker_dao_abi_41_json,
     maker_dao_abi_42_json,
     maker_dao_abi_43_json,
     maker_dao_abi_44_json,
     maker_dao_abi_45_json,
     maker_dao_abi_46_json,
     maker_dao_abi_47_json,
     maker_dao_abi_48_json,
     maker_dao_abi_49_json,
     maker_dao_abi_50_json,
     maker_dao_abi_51_json,
     maker_dao_abi_52_json,
     maker_dao_abi_53_json,
     maker_dao_abi_54_json,
     maker_dao_abi_55_json,
     maker_dao_abi_56_json,
     maker_dao_abi_57_json,
     maker_dao_abi_58_json,
     maker_dao_abi_59_json,
     maker_dao_abi_60_json,
     maker_dao_abi_61_json,
     maker_dao_abi_62_json,
     maker_dao_abi_63_json,
     maker_dao_abi_64_json,
     maker_dao_abi_65_json,
     maker_dao_abi_66_json,
     maker_dao_abi_67_json,
     maker_dao_abi_68_json,
     maker_dao_abi_69_json,
     maker_dao_abi_70_json,
     maker_dao_abi_71_json,
     maker_dao_abi_72_json,
     maker_dao_abi_73_json,
     maker_dao_abi_74_json,
     maker_dao_abi_75_json,
     maker_dao_abi_76_json,
     maker_dao_abi_77_json,
     maker_dao_abi_78_json,
     maker_dao_abi_79_json,
     maker_dao_abi_80_json,
     maker_dao_abi_81_json,
     maker_dao_abi_82_json,
     maker_dao_abi_83_json,
     maker_dao_abi_84_json,
     maker_dao_abi_85_json,
     maker_dao_abi_86_json,
     maker_dao_abi_87_json,
     maker_dao_abi_88_json,
     maker_dao_abi_89_json,
     maker_dao_abi_90_json,
     maker_dao_abi_91_json,
     maker_dao_abi_92_json,
     maker_dao_abi_93_json,
     maker_dao_abi_94_json,
     maker_dao_abi_95_json,
     maker_dao_abi_96_json,
     maker_dao_abi_97_json,
     maker_dao_abi_98_json,
     maker_dao_abi_99_json,
     maker_dao_abi_100_json,
     maker_dao_abi_101_json,
     maker_dao_abi_102_json,
     maker_dao_abi_103_json,
     maker_dao_abi_104_json,
     maker_dao_abi_105_json,
     maker_dao_abi_106_json,
     maker_dao_abi_107_json,
     maker_dao_abi_108_json,
     maker_dao_abi_109_json,
     maker_dao_abi_110_json,
     maker_dao_abi_111_json,
     maker_dao_abi_112_json,
     maker_dao_abi_113_json]"

definition abi_tables_maker :: "json list" where
  "abi_tables_maker =
    [maker_dao_abi_1_json,
     maker_dao_abi_2_json,
     maker_dao_abi_3_json,
     maker_dao_abi_4_json,
     maker_dao_abi_5_json,
     maker_dao_abi_6_json,
     maker_dao_abi_7_json,
     maker_dao_abi_8_json,
     maker_dao_abi_9_json,
     maker_dao_abi_10_json,
     maker_dao_abi_11_json,
     maker_dao_abi_12_json,
     maker_dao_abi_13_json,
     maker_dao_abi_14_json,
     maker_dao_abi_15_json,
     maker_dao_abi_16_json,
     maker_dao_abi_17_json,
     maker_dao_abi_18_json,
     maker_dao_abi_19_json,
     maker_dao_abi_20_json,
     maker_dao_abi_21_json,
     maker_dao_abi_22_json,
     maker_dao_abi_23_json,
     maker_dao_abi_24_json,
     maker_dao_abi_25_json,
     maker_dao_abi_26_json,
     maker_dao_abi_27_json,
     maker_dao_abi_28_json,
     maker_dao_abi_29_json,
     maker_dao_abi_30_json,
     maker_dao_abi_31_json,
     maker_dao_abi_32_json,
     maker_dao_abi_33_json,
     maker_dao_abi_34_json,
     maker_dao_abi_35_json,
     maker_dao_abi_36_json,
     maker_dao_abi_37_json,
     maker_dao_abi_38_json,
     maker_dao_abi_39_json,
     maker_dao_abi_40_json,
     maker_dao_abi_41_json,
     maker_dao_abi_42_json,
     maker_dao_abi_43_json,
     maker_dao_abi_44_json,
     maker_dao_abi_45_json,
     maker_dao_abi_46_json,
     maker_dao_abi_47_json,
     maker_dao_abi_48_json,
     maker_dao_abi_49_json,
     maker_dao_abi_50_json,
     maker_dao_abi_51_json,
     maker_dao_abi_52_json,
     maker_dao_abi_53_json,
     maker_dao_abi_54_json,
     maker_dao_abi_55_json,
     maker_dao_abi_56_json,
     maker_dao_abi_57_json,
     maker_dao_abi_58_json,
     maker_dao_abi_59_json,
     maker_dao_abi_60_json,
     maker_dao_abi_61_json,
     maker_dao_abi_62_json,
     maker_dao_abi_63_json,
     maker_dao_abi_64_json,
     maker_dao_abi_65_json,
     maker_dao_abi_66_json,
     maker_dao_abi_67_json,
     maker_dao_abi_68_json,
     maker_dao_abi_69_json,
     maker_dao_abi_70_json,
     maker_dao_abi_71_json,
     maker_dao_abi_72_json,
     maker_dao_abi_73_json,
     maker_dao_abi_74_json,
     maker_dao_abi_75_json,
     maker_dao_abi_76_json,
     maker_dao_abi_77_json,
     maker_dao_abi_78_json,
     maker_dao_abi_79_json,
     maker_dao_abi_80_json,
     maker_dao_abi_81_json,
     maker_dao_abi_82_json,
     maker_dao_abi_83_json,
     maker_dao_abi_84_json,
     maker_dao_abi_85_json,
     maker_dao_abi_86_json,
     maker_dao_abi_87_json,
     maker_dao_abi_88_json,
     maker_dao_abi_89_json,
     maker_dao_abi_90_json,
     maker_dao_abi_91_json,
     maker_dao_abi_92_json,
     maker_dao_abi_93_json,
     maker_dao_abi_94_json,
     maker_dao_abi_95_json,
     maker_dao_abi_96_json,
     maker_dao_abi_97_json,
     maker_dao_abi_98_json,
     maker_dao_abi_99_json,
     maker_dao_abi_100_json,
     maker_dao_abi_101_json,
     maker_dao_abi_102_json,
     maker_dao_abi_103_json,
     maker_dao_abi_104_json,
     maker_dao_abi_105_json,
     maker_dao_abi_106_json,
     maker_dao_abi_107_json,
     maker_dao_abi_108_json,
     maker_dao_abi_109_json,
     maker_dao_abi_110_json,
     maker_dao_abi_111_json,
     maker_dao_abi_112_json,
     maker_dao_abi_113_json]"

lemma maker_dao_abi_1_json_ok: "abi_table_ok maker_dao_abi_1_json"
  by (simp add: abi_rules maker_dao_abi_1_json_def)

lemma maker_dao_abi_2_json_ok: "abi_table_ok maker_dao_abi_2_json"
  by (simp add: abi_rules maker_dao_abi_2_json_def)

lemma maker_dao_abi_3_json_ok: "abi_table_ok maker_dao_abi_3_json"
  by (simp add: abi_rules maker_dao_abi_3_json_def)

lemma maker_dao_abi_4_json_ok: "abi_table_ok maker_dao_abi_4_json"
  by (simp add: abi_rules maker_dao_abi_4_json_def)

lemma maker_dao_abi_5_json_ok: "abi_table_ok maker_dao_abi_5_json"
  by (simp add: abi_rules maker_dao_abi_5_json_def)

lemma maker_dao_abi_6_json_ok: "abi_table_ok maker_dao_abi_6_json"
  by (simp add: abi_rules maker_dao_abi_6_json_def)

lemma maker_dao_abi_7_json_ok: "abi_table_ok maker_dao_abi_7_json"
  by (simp add: abi_rules maker_dao_abi_7_json_def)

lemma maker_dao_abi_8_json_ok: "abi_table_ok maker_dao_abi_8_json"
  by (simp add: abi_rules maker_dao_abi_8_json_def)

lemma maker_dao_abi_9_json_ok: "abi_table_ok maker_dao_abi_9_json"
  by (simp add: abi_rules maker_dao_abi_9_json_def)

lemma maker_dao_abi_10_json_ok: "abi_table_ok maker_dao_abi_10_json"
  by (simp add: abi_rules maker_dao_abi_10_json_def maker_dao_abi_10_json_part1_def maker_dao_abi_10_json_part2_def)

lemma maker_dao_abi_11_json_ok: "abi_table_ok maker_dao_abi_11_json"
  by (simp add: abi_rules maker_dao_abi_11_json_def)

lemma maker_dao_abi_12_json_ok: "abi_table_ok maker_dao_abi_12_json"
  by (simp add: abi_rules maker_dao_abi_12_json_def)

lemma maker_dao_abi_13_json_ok: "abi_table_ok maker_dao_abi_13_json"
  by (simp add: abi_rules maker_dao_abi_13_json_def)

lemma maker_dao_abi_14_json_ok: "abi_table_ok maker_dao_abi_14_json"
  by (simp add: abi_rules maker_dao_abi_14_json_def)

lemma maker_dao_abi_15_json_ok: "abi_table_ok maker_dao_abi_15_json"
  by (simp add: abi_rules maker_dao_abi_15_json_def)

lemma maker_dao_abi_16_json_ok: "abi_table_ok maker_dao_abi_16_json"
  by (simp add: abi_rules maker_dao_abi_16_json_def)

lemma maker_dao_abi_17_json_ok: "abi_table_ok maker_dao_abi_17_json"
  by (simp add: abi_rules maker_dao_abi_17_json_def)

lemma maker_dao_abi_18_json_ok: "abi_table_ok maker_dao_abi_18_json"
  by (simp add: abi_rules maker_dao_abi_18_json_def)

lemma maker_dao_abi_19_json_ok: "abi_table_ok maker_dao_abi_19_json"
  by (simp add: abi_rules maker_dao_abi_19_json_def)

lemma maker_dao_abi_20_json_ok: "abi_table_ok maker_dao_abi_20_json"
  by (simp add: abi_rules maker_dao_abi_20_json_def maker_dao_abi_20_json_part1_def maker_dao_abi_20_json_part2_def)

lemma maker_dao_abi_21_json_ok: "abi_table_ok maker_dao_abi_21_json"
  by (simp add: abi_rules maker_dao_abi_21_json_def)

lemma maker_dao_abi_22_json_ok: "abi_table_ok maker_dao_abi_22_json"
  by (simp add: abi_rules maker_dao_abi_22_json_def)

lemma maker_dao_abi_23_json_ok: "abi_table_ok maker_dao_abi_23_json"
  by (simp add: abi_rules maker_dao_abi_23_json_def)

lemma maker_dao_abi_24_json_ok: "abi_table_ok maker_dao_abi_24_json"
  by (simp add: abi_rules maker_dao_abi_24_json_def)

lemma maker_dao_abi_25_json_ok: "abi_table_ok maker_dao_abi_25_json"
  by (simp add: abi_rules maker_dao_abi_25_json_def)

lemma maker_dao_abi_26_json_ok: "abi_table_ok maker_dao_abi_26_json"
  by (simp add: abi_rules maker_dao_abi_26_json_def)

lemma maker_dao_abi_27_json_ok: "abi_table_ok maker_dao_abi_27_json"
  by (simp add: abi_rules maker_dao_abi_27_json_def)

lemma maker_dao_abi_28_json_ok: "abi_table_ok maker_dao_abi_28_json"
  by (simp add: abi_rules maker_dao_abi_28_json_def)

lemma maker_dao_abi_29_json_ok: "abi_table_ok maker_dao_abi_29_json"
  by (simp add: abi_rules maker_dao_abi_29_json_def)

lemma maker_dao_abi_30_json_ok: "abi_table_ok maker_dao_abi_30_json"
  by (simp add: abi_rules maker_dao_abi_30_json_def maker_dao_abi_30_json_part1_def maker_dao_abi_30_json_part2_def)

lemma maker_dao_abi_31_json_ok: "abi_table_ok maker_dao_abi_31_json"
  by (simp add: abi_rules maker_dao_abi_31_json_def)

lemma maker_dao_abi_32_json_ok: "abi_table_ok maker_dao_abi_32_json"
  by (simp add: abi_rules maker_dao_abi_32_json_def)

lemma maker_dao_abi_33_json_ok: "abi_table_ok maker_dao_abi_33_json"
  by (simp add: abi_rules maker_dao_abi_33_json_def)

lemma maker_dao_abi_34_json_ok: "abi_table_ok maker_dao_abi_34_json"
  by (simp add: abi_rules maker_dao_abi_34_json_def)

lemma maker_dao_abi_35_json_ok: "abi_table_ok maker_dao_abi_35_json"
  by (simp add: abi_rules maker_dao_abi_35_json_def)

lemma maker_dao_abi_36_json_ok: "abi_table_ok maker_dao_abi_36_json"
  by (simp add: abi_rules maker_dao_abi_36_json_def)

lemma maker_dao_abi_37_json_ok: "abi_table_ok maker_dao_abi_37_json"
  by (simp add: abi_rules maker_dao_abi_37_json_def)

lemma maker_dao_abi_38_json_ok: "abi_table_ok maker_dao_abi_38_json"
  by (simp add: abi_rules maker_dao_abi_38_json_def)

lemma maker_dao_abi_39_json_ok: "abi_table_ok maker_dao_abi_39_json"
  by (simp add: abi_rules maker_dao_abi_39_json_def)

lemma maker_dao_abi_40_json_ok: "abi_table_ok maker_dao_abi_40_json"
  by (simp add: abi_rules maker_dao_abi_40_json_def)

lemma maker_dao_abi_41_json_ok: "abi_table_ok maker_dao_abi_41_json"
  by (simp add: abi_rules maker_dao_abi_41_json_def)

lemma maker_dao_abi_42_json_ok: "abi_table_ok maker_dao_abi_42_json"
  by (simp add: abi_rules maker_dao_abi_42_json_def)

lemma maker_dao_abi_43_json_ok: "abi_table_ok maker_dao_abi_43_json"
  by (simp add: abi_rules maker_dao_abi_43_json_def)

lemma maker_dao_abi_44_json_ok: "abi_table_ok maker_dao_abi_44_json"
  by (simp add: abi_rules maker_dao_abi_44_json_def)

lemma maker_dao_abi_45_json_ok: "abi_table_ok maker_dao_abi_45_json"
  by (simp add: abi_rules maker_dao_abi_45_json_def)

lemma maker_dao_abi_46_json_ok: "abi_table_ok maker_dao_abi_46_json"
  by (simp add: abi_rules maker_dao_abi_46_json_def)

lemma maker_dao_abi_47_json_ok: "abi_table_ok maker_dao_abi_47_json"
  by (simp add: abi_rules maker_dao_abi_47_json_def maker_dao_abi_47_json_part1_def maker_dao_abi_47_json_part2_def)

lemma maker_dao_abi_48_json_ok: "abi_table_ok maker_dao_abi_48_json"
  by (simp add: abi_rules maker_dao_abi_48_json_def)

lemma maker_dao_abi_49_json_ok: "abi_table_ok maker_dao_abi_49_json"
  by (simp add: abi_rules maker_dao_abi_49_json_def maker_dao_abi_49_json_part1_def maker_dao_abi_49_json_part2_def)

lemma maker_dao_abi_50_json_ok: "abi_table_ok maker_dao_abi_50_json"
  by (simp add: abi_rules maker_dao_abi_50_json_def)

lemma maker_dao_abi_51_json_ok: "abi_table_ok maker_dao_abi_51_json"
  by (simp add: abi_rules maker_dao_abi_51_json_def)

lemma maker_dao_abi_52_json_ok: "abi_table_ok maker_dao_abi_52_json"
  by (simp add: abi_rules maker_dao_abi_52_json_def)

lemma maker_dao_abi_53_json_ok: "abi_table_ok maker_dao_abi_53_json"
  by (simp add: abi_rules maker_dao_abi_53_json_def)

lemma maker_dao_abi_54_json_ok: "abi_table_ok maker_dao_abi_54_json"
  by (simp add: abi_rules maker_dao_abi_54_json_def)

lemma maker_dao_abi_55_json_ok: "abi_table_ok maker_dao_abi_55_json"
  by (simp add: abi_rules maker_dao_abi_55_json_def maker_dao_abi_55_json_part1_def maker_dao_abi_55_json_part2_def)

lemma maker_dao_abi_56_json_ok: "abi_table_ok maker_dao_abi_56_json"
  by (simp add: abi_rules maker_dao_abi_56_json_def)

lemma maker_dao_abi_57_json_ok: "abi_table_ok maker_dao_abi_57_json"
  by (simp add: abi_rules maker_dao_abi_57_json_def)

lemma maker_dao_abi_58_json_ok: "abi_table_ok maker_dao_abi_58_json"
  by (simp add: abi_rules maker_dao_abi_58_json_def)

lemma maker_dao_abi_59_json_ok: "abi_table_ok maker_dao_abi_59_json"
  by (simp add: abi_rules maker_dao_abi_59_json_def)

lemma maker_dao_abi_60_json_ok: "abi_table_ok maker_dao_abi_60_json"
  by (simp add: abi_rules maker_dao_abi_60_json_def)

lemma maker_dao_abi_61_json_ok: "abi_table_ok maker_dao_abi_61_json"
  by (simp add: abi_rules maker_dao_abi_61_json_def)

lemma maker_dao_abi_62_json_ok: "abi_table_ok maker_dao_abi_62_json"
  by (simp add: abi_rules maker_dao_abi_62_json_def)

lemma maker_dao_abi_63_json_ok: "abi_table_ok maker_dao_abi_63_json"
  by (simp add: abi_rules maker_dao_abi_63_json_def)

lemma maker_dao_abi_64_json_ok: "abi_table_ok maker_dao_abi_64_json"
  by (simp add: abi_rules maker_dao_abi_64_json_def)

lemma maker_dao_abi_65_json_ok: "abi_table_ok maker_dao_abi_65_json"
  by (simp add: abi_rules maker_dao_abi_65_json_def)

lemma maker_dao_abi_66_json_ok: "abi_table_ok maker_dao_abi_66_json"
  by (simp add: abi_rules maker_dao_abi_66_json_def)

lemma maker_dao_abi_67_json_ok: "abi_table_ok maker_dao_abi_67_json"
  by (simp add: abi_rules maker_dao_abi_67_json_def)

lemma maker_dao_abi_68_json_ok: "abi_table_ok maker_dao_abi_68_json"
  by (simp add: abi_rules maker_dao_abi_68_json_def maker_dao_abi_68_json_part1_def maker_dao_abi_68_json_part2_def)

lemma maker_dao_abi_69_json_ok: "abi_table_ok maker_dao_abi_69_json"
  by (simp add: abi_rules maker_dao_abi_69_json_def)

lemma maker_dao_abi_70_json_ok: "abi_table_ok maker_dao_abi_70_json"
  by (simp add: abi_rules maker_dao_abi_70_json_def)

lemma maker_dao_abi_71_json_ok: "abi_table_ok maker_dao_abi_71_json"
  by (simp add: abi_rules maker_dao_abi_71_json_def)

lemma maker_dao_abi_72_json_ok: "abi_table_ok maker_dao_abi_72_json"
  by (simp add: abi_rules maker_dao_abi_72_json_def)

lemma maker_dao_abi_73_json_ok: "abi_table_ok maker_dao_abi_73_json"
  by (simp add: abi_rules maker_dao_abi_73_json_def)

lemma maker_dao_abi_74_json_ok: "abi_table_ok maker_dao_abi_74_json"
  by (simp add: abi_rules maker_dao_abi_74_json_def)

lemma maker_dao_abi_75_json_ok: "abi_table_ok maker_dao_abi_75_json"
  by (simp add: abi_rules maker_dao_abi_75_json_def)

lemma maker_dao_abi_76_json_ok: "abi_table_ok maker_dao_abi_76_json"
  by (simp add: abi_rules maker_dao_abi_76_json_def)

lemma maker_dao_abi_77_json_ok: "abi_table_ok maker_dao_abi_77_json"
  by (simp add: abi_rules maker_dao_abi_77_json_def)

lemma maker_dao_abi_78_json_ok: "abi_table_ok maker_dao_abi_78_json"
  by (simp add: abi_rules maker_dao_abi_78_json_def)

lemma maker_dao_abi_79_json_ok: "abi_table_ok maker_dao_abi_79_json"
  by (simp add: abi_rules maker_dao_abi_79_json_def)

lemma maker_dao_abi_80_json_ok: "abi_table_ok maker_dao_abi_80_json"
  by (simp add: abi_rules maker_dao_abi_80_json_def)

lemma maker_dao_abi_81_json_ok: "abi_table_ok maker_dao_abi_81_json"
  by (simp add: abi_rules maker_dao_abi_81_json_def)

lemma maker_dao_abi_82_json_ok: "abi_table_ok maker_dao_abi_82_json"
  by (simp add: abi_rules maker_dao_abi_82_json_def)

lemma maker_dao_abi_83_json_ok: "abi_table_ok maker_dao_abi_83_json"
  by (simp add: abi_rules maker_dao_abi_83_json_def)

lemma maker_dao_abi_84_json_ok: "abi_table_ok maker_dao_abi_84_json"
  by (simp add: abi_rules maker_dao_abi_84_json_def)

lemma maker_dao_abi_85_json_ok: "abi_table_ok maker_dao_abi_85_json"
  by (simp add: abi_rules maker_dao_abi_85_json_def)

lemma maker_dao_abi_86_json_ok: "abi_table_ok maker_dao_abi_86_json"
  by (simp add: abi_rules maker_dao_abi_86_json_def)

lemma maker_dao_abi_87_json_ok: "abi_table_ok maker_dao_abi_87_json"
  by (simp add: abi_rules maker_dao_abi_87_json_def)

lemma maker_dao_abi_88_json_ok: "abi_table_ok maker_dao_abi_88_json"
  by (simp add: abi_rules maker_dao_abi_88_json_def)

lemma maker_dao_abi_89_json_ok: "abi_table_ok maker_dao_abi_89_json"
  by (simp add: abi_rules maker_dao_abi_89_json_def)

lemma maker_dao_abi_90_json_ok: "abi_table_ok maker_dao_abi_90_json"
  by (simp add: abi_rules maker_dao_abi_90_json_def)

lemma maker_dao_abi_91_json_ok: "abi_table_ok maker_dao_abi_91_json"
  by (simp add: abi_rules maker_dao_abi_91_json_def)

lemma maker_dao_abi_92_json_ok: "abi_table_ok maker_dao_abi_92_json"
  by (simp add: abi_rules maker_dao_abi_92_json_def)

lemma maker_dao_abi_93_json_ok: "abi_table_ok maker_dao_abi_93_json"
  by (simp add: abi_rules maker_dao_abi_93_json_def)

lemma maker_dao_abi_94_json_ok: "abi_table_ok maker_dao_abi_94_json"
  by (simp add: abi_rules maker_dao_abi_94_json_def)

lemma maker_dao_abi_95_json_ok: "abi_table_ok maker_dao_abi_95_json"
  by (simp add: abi_rules maker_dao_abi_95_json_def)

lemma maker_dao_abi_96_json_ok: "abi_table_ok maker_dao_abi_96_json"
  by (simp add: abi_rules maker_dao_abi_96_json_def)

lemma maker_dao_abi_97_json_ok: "abi_table_ok maker_dao_abi_97_json"
  by (simp add: abi_rules maker_dao_abi_97_json_def)

lemma maker_dao_abi_98_json_ok: "abi_table_ok maker_dao_abi_98_json"
  by (simp add: abi_rules maker_dao_abi_98_json_def)

lemma maker_dao_abi_99_json_ok: "abi_table_ok maker_dao_abi_99_json"
  by (simp add: abi_rules maker_dao_abi_99_json_def)

lemma maker_dao_abi_100_json_ok: "abi_table_ok maker_dao_abi_100_json"
  by (simp add: abi_rules maker_dao_abi_100_json_def)

lemma maker_dao_abi_101_json_ok: "abi_table_ok maker_dao_abi_101_json"
  by (simp add: abi_rules maker_dao_abi_101_json_def)

lemma maker_dao_abi_102_json_ok: "abi_table_ok maker_dao_abi_102_json"
  by (simp add: abi_rules maker_dao_abi_102_json_def)

lemma maker_dao_abi_103_json_ok: "abi_table_ok maker_dao_abi_103_json"
  by (simp add: abi_rules maker_dao_abi_103_json_def)

lemma maker_dao_abi_104_json_ok: "abi_table_ok maker_dao_abi_104_json"
  by (simp add: abi_rules maker_dao_abi_104_json_def)

lemma maker_dao_abi_105_json_ok: "abi_table_ok maker_dao_abi_105_json"
  by (simp add: abi_rules maker_dao_abi_105_json_def)

lemma maker_dao_abi_106_json_ok: "abi_table_ok maker_dao_abi_106_json"
  by (simp add: abi_rules maker_dao_abi_106_json_def)

lemma maker_dao_abi_107_json_ok: "abi_table_ok maker_dao_abi_107_json"
  by (simp add: abi_rules maker_dao_abi_107_json_def)

lemma maker_dao_abi_108_json_ok: "abi_table_ok maker_dao_abi_108_json"
  by (simp add: abi_rules maker_dao_abi_108_json_def)

lemma maker_dao_abi_109_json_ok: "abi_table_ok maker_dao_abi_109_json"
  by (simp add: abi_rules maker_dao_abi_109_json_def maker_dao_abi_109_json_part1_def maker_dao_abi_109_json_part2_def)

lemma maker_dao_abi_110_json_ok: "abi_table_ok maker_dao_abi_110_json"
  by (simp add: abi_rules maker_dao_abi_110_json_def)

lemma maker_dao_abi_111_json_ok: "abi_table_ok maker_dao_abi_111_json"
  by (simp add: abi_rules maker_dao_abi_111_json_def maker_dao_abi_111_json_part1_def maker_dao_abi_111_json_part2_def)

lemma maker_dao_abi_112_json_ok: "abi_table_ok maker_dao_abi_112_json"
  by (simp add: abi_rules maker_dao_abi_112_json_def maker_dao_abi_112_json_part1_def maker_dao_abi_112_json_part2_def)

lemma maker_dao_abi_113_json_ok: "abi_table_ok maker_dao_abi_113_json"
  by (simp add: abi_rules maker_dao_abi_113_json_def)

lemma abi_tables_maker_ok: "list_all abi_table_ok abi_tables_maker"
  by (simp add: abi_tables_maker_def maker_dao_abi_1_json_ok
      maker_dao_abi_2_json_ok
      maker_dao_abi_3_json_ok
      maker_dao_abi_4_json_ok
      maker_dao_abi_5_json_ok
      maker_dao_abi_6_json_ok
      maker_dao_abi_7_json_ok
      maker_dao_abi_8_json_ok
      maker_dao_abi_9_json_ok
      maker_dao_abi_10_json_ok
      maker_dao_abi_11_json_ok
      maker_dao_abi_12_json_ok
      maker_dao_abi_13_json_ok
      maker_dao_abi_14_json_ok
      maker_dao_abi_15_json_ok
      maker_dao_abi_16_json_ok
      maker_dao_abi_17_json_ok
      maker_dao_abi_18_json_ok
      maker_dao_abi_19_json_ok
      maker_dao_abi_20_json_ok
      maker_dao_abi_21_json_ok
      maker_dao_abi_22_json_ok
      maker_dao_abi_23_json_ok
      maker_dao_abi_24_json_ok
      maker_dao_abi_25_json_ok
      maker_dao_abi_26_json_ok
      maker_dao_abi_27_json_ok
      maker_dao_abi_28_json_ok
      maker_dao_abi_29_json_ok
      maker_dao_abi_30_json_ok
      maker_dao_abi_31_json_ok
      maker_dao_abi_32_json_ok
      maker_dao_abi_33_json_ok
      maker_dao_abi_34_json_ok
      maker_dao_abi_35_json_ok
      maker_dao_abi_36_json_ok
      maker_dao_abi_37_json_ok
      maker_dao_abi_38_json_ok
      maker_dao_abi_39_json_ok
      maker_dao_abi_40_json_ok
      maker_dao_abi_41_json_ok
      maker_dao_abi_42_json_ok
      maker_dao_abi_43_json_ok
      maker_dao_abi_44_json_ok
      maker_dao_abi_45_json_ok
      maker_dao_abi_46_json_ok
      maker_dao_abi_47_json_ok
      maker_dao_abi_48_json_ok
      maker_dao_abi_49_json_ok
      maker_dao_abi_50_json_ok
      maker_dao_abi_51_json_ok
      maker_dao_abi_52_json_ok
      maker_dao_abi_53_json_ok
      maker_dao_abi_54_json_ok
      maker_dao_abi_55_json_ok
      maker_dao_abi_56_json_ok
      maker_dao_abi_57_json_ok
      maker_dao_abi_58_json_ok
      maker_dao_abi_59_json_ok
      maker_dao_abi_60_json_ok
      maker_dao_abi_61_json_ok
      maker_dao_abi_62_json_ok
      maker_dao_abi_63_json_ok
      maker_dao_abi_64_json_ok
      maker_dao_abi_65_json_ok
      maker_dao_abi_66_json_ok
      maker_dao_abi_67_json_ok
      maker_dao_abi_68_json_ok
      maker_dao_abi_69_json_ok
      maker_dao_abi_70_json_ok
      maker_dao_abi_71_json_ok
      maker_dao_abi_72_json_ok
      maker_dao_abi_73_json_ok
      maker_dao_abi_74_json_ok
      maker_dao_abi_75_json_ok
      maker_dao_abi_76_json_ok
      maker_dao_abi_77_json_ok
      maker_dao_abi_78_json_ok
      maker_dao_abi_79_json_ok
      maker_dao_abi_80_json_ok
      maker_dao_abi_81_json_ok
      maker_dao_abi_82_json_ok
      maker_dao_abi_83_json_ok
      maker_dao_abi_84_json_ok
      maker_dao_abi_85_json_ok
      maker_dao_abi_86_json_ok
      maker_dao_abi_87_json_ok
      maker_dao_abi_88_json_ok
      maker_dao_abi_89_json_ok
      maker_dao_abi_90_json_ok
      maker_dao_abi_91_json_ok
      maker_dao_abi_92_json_ok
      maker_dao_abi_93_json_ok
      maker_dao_abi_94_json_ok
      maker_dao_abi_95_json_ok
      maker_dao_abi_96_json_ok
      maker_dao_abi_97_json_ok
      maker_dao_abi_98_json_ok
      maker_dao_abi_99_json_ok
      maker_dao_abi_100_json_ok
      maker_dao_abi_101_json_ok
      maker_dao_abi_102_json_ok
      maker_dao_abi_103_json_ok
      maker_dao_abi_104_json_ok
      maker_dao_abi_105_json_ok
      maker_dao_abi_106_json_ok
      maker_dao_abi_107_json_ok
      maker_dao_abi_108_json_ok
      maker_dao_abi_109_json_ok
      maker_dao_abi_110_json_ok
      maker_dao_abi_111_json_ok
      maker_dao_abi_112_json_ok
      maker_dao_abi_113_json_ok)

end
