(* ===== verification/Abi_Tables_More.thy ===== *)
theory Abi_Tables_More
  imports Abi_Shape
begin

text \<open>
  ABI tables that come with the service: \<open>app/datasources/abis\<close>, the modules
  \<open>idle\<close>, \<open>gnosis_protocol\<close>, \<open>chainlink\<close>, \<open>safe\<close>,
  \<open>sight\<close>, \<open>timelock\<close>.
  A table is the JSON value of the Python literal, or of the text that \<open>json.loads\<close> reads;
  a long one is written in parts of consecutive entries. Every table here is well formed.
\<close>

definition idle_token_v3_json_part1 :: "json list" where
  "idle_token_v3_json_part1 = [
   JObj [(''inputs'', JList [typed ''string'' ''_name'' ''string'', typed ''string'' ''_symbol'' ''string'', typed
     ''uint8'' ''_decimals'' ''uint8'', typed ''address'' ''_token'' ''address'', typed ''address'' ''_cToken''
     ''address'', typed ''address'' ''_iToken'' ''address'', typed ''address'' ''_rebalancer'' ''address'', typed
     ''address'' ''_priceCalculator'' ''address'', typed ''address'' ''_idleCompound'' ''address'', typed
     ''address'' ''_idleFulcrum'' ''address'']), (''payable'', JBool False), (''stateMutability'', JStr
     ''nonpayable''), (''type'', JStr ''constructor'')],
   event False [indexed True ''address'' ''owner'' ''address'', indexed True ''address'' ''spender'' ''address'',
     indexed False ''uint256'' ''value'' ''uint256''] ''Approval'',
   event False [indexed True ''address'' ''previousOwner'' ''address'', indexed True ''address'' ''newOwner''
     ''address''] ''OwnershipTransferred'',
   event False [indexed False ''address'' ''account'' ''address''] ''Paused'',
   event False [indexed True ''address'' ''account'' ''address''] ''PauserAdded'',
   event False [indexed True ''address'' ''account'' ''address''] ''PauserRemoved'',
   event False [indexed True ''address'' ''from'' ''address'', indexed True ''address'' ''to'' ''address'',
     indexed False ''uint256'' ''value'' ''uint256''] ''Transfer'',
   event False [indexed False ''address'' ''account'' ''address''] ''Unpaused'',
   abi_method False [typed ''address'' ''account'' ''address''] ''addPauser'' [] False ''nonpayable'']"

definition idle_token_v3_json_part2 :: "json list" where
  "idle_token_v3_json_part2 = [
   abi_method True [typed ''uint256'' '''' ''uint256''] ''allAvailableTokens'' [typed ''address'' ''''
     ''address''] False ''view'',
   abi_method True [typed ''address'' ''owner'' ''address'', typed ''address'' ''spender'' ''address'']
     ''allowance'' [typed ''uint256'' '''' ''uint256''] False ''view'',
   abi_method False [typed ''address'' ''spender'' ''address'', typed ''uint256'' ''amount'' ''uint256'']
     ''approve'' [typed ''bool'' '''' ''bool''] False ''nonpayable'',
   abi_method True [typed ''address'' ''account'' ''address''] ''balanceOf'' [typed ''uint256'' '''' ''uint256'']
     False ''view'',
   abi_method True [] ''decimals'' [typed ''uint8'' '''' ''uint8''] False ''view'',
   abi_method False [typed ''address'' ''spender'' ''address'', typed ''uint256'' ''subtractedValue'' ''uint256'']
     ''decreaseAllowance'' [typed ''bool'' '''' ''bool''] False ''nonpayable'',
   abi_method True [] ''fee'' [typed ''uint256'' '''' ''uint256''] False ''view'',
   abi_method True [] ''feeAddress'' [typed ''address'' '''' ''address''] False ''view'',
   abi_method True [] ''gst2'' [typed ''contract GasToken'' '''' ''address''] False ''view'',
   abi_method True [] ''iToken'' [typed ''address'' '''' ''address''] False ''view'',
   abi_method False [typed ''address'' ''spender'' ''address'', typed ''uint256'' ''addedValue'' ''uint256'']
     ''increaseAllowance'' [typed ''bool'' '''' ''bool''] False ''nonpayable'',
   abi_method True [] ''isNewProtocolDelayed'' [typed ''bool'' '''' ''bool''] False ''view'',
   abi_method True [] ''isOwner'' [typed ''bool'' '''' ''bool''] False ''view'',
   abi_method True [typed ''address'' ''account'' ''address''] ''isPauser'' [typed ''bool'' '''' ''bool''] False
     ''view'']"

definition idle_token_v3_json_part3 :: "json list" where
  "idle_token_v3_json_part3 = [
   abi_method True [] ''isRiskAdjusted'' [typed ''bool'' '''' ''bool''] False ''view'',
   abi_method True [typed ''uint256'' '''' ''uint256''] ''lastAllocations'' [typed ''uint256'' '''' ''uint256'']
     False ''view'',
   abi_method True [] ''lastITokenPrice'' [typed ''uint256'' '''' ''uint256''] False ''view'',
   abi_method True [] ''manualPlay'' [typed ''bool'' '''' ''bool''] False ''view'',
   abi_method True [] ''name'' [typed ''string'' '''' ''string''] False ''view'',
   abi_method True [] ''owner'' [typed ''address'' '''' ''address''] False ''view'',
   abi_method False [] ''pause'' [] False ''nonpayable'',
   abi_method True [] ''paused'' [typed ''bool'' '''' ''bool''] False ''view'',
   abi_method True [] ''priceCalculator'' [typed ''address'' '''' ''address''] False ''view'',
   abi_method True [typed ''address'' '''' ''address''] ''protocolWrappers'' [typed ''address'' '''' ''address'']
     False ''view'',
   abi_method True [] ''rebalancer'' [typed ''address'' '''' ''address''] False ''view'',
   abi_method True [typed ''address'' '''' ''address''] ''releaseTimes'' [typed ''uint256'' '''' ''uint256'']
     False ''view'',
   abi_method False [] ''renounceOwnership'' [] False ''nonpayable'',
   abi_method False [] ''renouncePauser'' [] False ''nonpayable'',
   abi_method True [] ''symbol'' [typed ''string'' '''' ''string''] False ''view'',
   abi_method True [] ''token'' [typed ''address'' '''' ''address''] False ''view'']"

definition idle_token_v3_json_part4 :: "json list" where
  "idle_token_v3_json_part4 = [
   abi_method True [] ''tokenDecimals'' [typed ''uint256'' '''' ''uint256''] False ''view'',
   abi_method True [] ''totalSupply'' [typed ''uint256'' '''' ''uint256''] False ''view'',
   abi_method False [typed ''address'' ''newOwner'' ''address''] ''transferOwnership'' [] False ''nonpayable'',
   abi_method False [] ''unpause'' [] False ''nonpayable'',
   abi_method True [typed ''address'' '''' ''address''] ''userAvgPrices'' [typed ''uint256'' '''' ''uint256'']
     False ''view'',
   abi_method False [typed ''address'' ''_rebalancer'' ''address''] ''setRebalancer'' [] False ''nonpayable'',
   abi_method False [typed ''address'' ''_priceCalculator'' ''address''] ''setPriceCalculator'' [] False
     ''nonpayable'',
   abi_method False [typed ''address'' ''_token'' ''address'', typed ''address'' ''_wrapper'' ''address'']
     ''setProtocolWrapper'' [] False ''nonpayable'',
   abi_method False [typed ''bool'' ''_manualPlay'' ''bool''] ''setManualPlay'' [] False ''nonpayable'',
   abi_method False [typed ''bool'' ''_isRiskAdjusted'' ''bool''] ''setIsRiskAdjusted'' [] False ''nonpayable'',
   abi_method False [] ''delayNewProtocols'' [] False ''nonpayable'',
   abi_method False [typed ''uint256'' ''_fee'' ''uint256''] ''setFee'' [] False ''nonpayable'',
   abi_method False [typed ''address'' ''_feeAddress'' ''address''] ''setFeeAddress'' [] False ''nonpayable'',
   abi_method False [typed ''uint256[]'' ''_amounts'' ''uint256[]''] ''setGasParams'' [] False ''nonpayable'',
   abi_method True [] ''tokenPrice'' [typed ''uint256'' ''price'' ''uint256''] False ''view'']"

definition idle_token_v3_json_part5 :: "json list" where
  "idle_token_v3_json_part5 = [
   abi_method True [] ''getAPRs'' [typed ''address[]'' ''addresses'' ''address[]'', typed ''uint256[]'' ''aprs''
     ''uint256[]''] False ''view'',
   abi_method True [] ''getAvgAPR'' [typed ''uint256'' ''avgApr'' ''uint256''] False ''view'',
   abi_method False [typed ''address'' ''sender'' ''address'', typed ''address'' ''recipient'' ''address'', typed
     ''uint256'' ''amount'' ''uint256''] ''transferFrom'' [typed ''bool'' '''' ''bool''] False ''nonpayable'',
   abi_method False [typed ''address'' ''recipient'' ''address'', typed ''uint256'' ''amount'' ''uint256'']
     ''transfer'' [typed ''bool'' '''' ''bool''] False ''nonpayable'',
   abi_method False [typed ''uint256'' ''_amount'' ''uint256'', typed ''bool'' ''_skipWholeRebalance'' ''bool'']
     ''mintIdleToken'' [typed ''uint256'' ''mintedTokens'' ''uint256''] False ''nonpayable'',
   abi_method False [typed ''uint256'' ''_amount'' ''uint256'', typed ''uint256[]'' '''' ''uint256[]'']
     ''mintIdleToken'' [typed ''uint256'' ''mintedTokens'' ''uint256''] False ''nonpayable'',
   abi_method False [typed ''uint256'' ''_amount'' ''uint256'', typed ''bool'' ''_skipRebalance'' ''bool'', typed
     ''uint256[]'' '''' ''uint256[]''] ''redeemIdleToken'' [typed ''uint256'' ''redeemedTokens'' ''uint256''] False
     ''nonpayable'',
   abi_method False [typed ''uint256'' ''_amount'' ''uint256''] ''redeemInterestBearingTokens'' [] False
     ''nonpayable'',
   abi_method False [typed ''uint256[]'' ''_newAllocations'' ''uint256[]''] ''openRebalance'' [typed ''bool'' ''''
     ''bool'', typed ''uint256'' ''avgApr'' ''uint256''] False ''nonpayable'',
   abi_method False [] ''rebalanceWithGST'' [typed ''bool'' '''' ''bool''] False ''nonpayable'',
   abi_method False [] ''rebalance'' [typed ''bool'' '''' ''bool''] False ''nonpayable'',
   abi_method False [typed ''uint256'' '''' ''uint256'', typed ''uint256[]'' '''' ''uint256[]''] ''rebalance''
     [typed ''bool'' '''' ''bool''] False ''nonpayable'']"

definition idle_token_v3_json_part6 :: "json list" where
  "idle_token_v3_json_part6 = [
   abi_method True [] ''getCurrentAllocations'' [typed ''address[]'' ''tokenAddresses'' ''address[]'', typed
     ''uint256[]'' ''amounts'' ''uint256[]'', typed ''uint256'' ''total'' ''uint256''] False ''view'']"

definition idle_token_v3_json :: json where
  "idle_token_v3_json = JList (
     idle_token_v3_json_part1 @ idle_token_v3_json_part2 @ idle_token_v3_json_part3 @ idle_token_v3_json_part4 @ idle_token_v3_json_part5 @ idle_token_v3_json_part6)"

definition gnosis_protocol_abi_json_part1 :: "json list" where
  "gnosis_protocol_abi_json_part1 = [
   abi_method True [] ''IMPROVEMENT_DENOMINATOR'' [plain '''' ''uint256''] False ''view'',
   abi_method True [] ''getSecondsRemainingInBatch'' [plain '''' ''uint256''] False ''view'',
   abi_method True [] ''getEncodedOrders'' [plain ''elements'' ''bytes''] False ''view'',
   abi_method False [plain ''buyToken'' ''uint16'', plain ''sellToken'' ''uint16'', plain ''validUntil''
     ''uint32'', plain ''buyAmount'' ''uint128'', plain ''sellAmount'' ''uint128''] ''placeOrder'' [plain ''''
     ''uint256''] False ''nonpayable'',
   abi_method False [plain ''batchId'' ''uint32'', plain ''claimedObjectiveValue'' ''uint256'', plain ''owners''
     ''address[]'', plain ''orderIds'' ''uint16[]'', plain ''buyVolumes'' ''uint128[]'', plain ''prices''
     ''uint128[]'', plain ''tokenIdsForPrice'' ''uint16[]''] ''submitSolution'' [plain '''' ''uint256''] False
     ''nonpayable'',
   abi_method True [plain ''id'' ''uint16''] ''tokenIdToAddressMap'' [plain '''' ''address''] False ''view'',
   abi_method False [plain ''token'' ''address'', plain ''amount'' ''uint256''] ''requestWithdraw'' [] False
     ''nonpayable'',
   abi_method True [] ''FEE_FOR_LISTING_TOKEN_IN_OWL'' [plain '''' ''uint256''] False ''view'',
   abi_method True [plain ''previousPageUser'' ''address'', plain ''pageSize'' ''uint16''] ''getUsersPaginated''
     [plain ''users'' ''bytes''] False ''view'',
   abi_method False [plain ''token'' ''address'', plain ''amount'' ''uint256''] ''deposit'' [] False ''nonpayable'',
   abi_method False [plain ''orderIds'' ''uint16[]''] ''cancelOrders'' [] False ''nonpayable'',
   abi_method True [] ''AMOUNT_MINIMUM'' [plain '''' ''uint128''] False ''view'',
   abi_method True [] ''feeToken'' [plain '''' ''address''] False ''view'',
   abi_method False [plain ''buyTokens'' ''uint16[]'', plain ''sellTokens'' ''uint16[]'', plain ''validFroms''
     ''uint32[]'', plain ''validUntils'' ''uint32[]'', plain ''buyAmounts'' ''uint128[]'', plain ''sellAmounts''
     ''uint128[]''] ''placeValidFromOrders'' [plain ''orderIds'' ''uint16[]''] False ''nonpayable'',
   abi_method True [plain '''' ''uint16''] ''currentPrices'' [plain '''' ''uint128''] False ''view'',
   abi_method True [plain ''user'' ''address''] ''getEncodedUserOrders'' [plain ''elements'' ''bytes''] False
     ''view'',
   abi_method True [plain '''' ''address'', plain '''' ''uint256''] ''orders'' [plain ''buyToken'' ''uint16'',
     plain ''sellToken'' ''uint16'', plain ''validFrom'' ''uint32'', plain ''validUntil'' ''uint32'', plain
     ''priceNumerator'' ''uint128'', plain ''priceDenominator'' ''uint128'', plain ''usedAmount'' ''uint128''] False
     ''view'',
   abi_method True [] ''UNLIMITED_ORDER_AMOUNT'' [plain '''' ''uint128''] False ''view'',
   abi_method True [] ''numTokens'' [plain '''' ''uint16''] False ''view'',
   abi_method True [plain '''' ''address'', plain '''' ''address''] ''lastCreditBatchId'' [plain '''' ''uint32'']
     False ''view'',
   abi_method True [plain ''previousPageUser'' ''address'', plain ''previousPageUserOffset'' ''uint16'', plain
     ''pageSize'' ''uint16''] ''getEncodedUsersPaginated'' [plain ''elements'' ''bytes''] False ''view'',
   abi_method True [plain ''addr'' ''address''] ''hasToken'' [plain '''' ''bool''] False ''view'',
   abi_method True [] ''latestSolution'' [plain ''batchId'' ''uint32'', plain ''solutionSubmitter'' ''address'',
     plain ''feeReward'' ''uint256'', plain ''objectiveValue'' ''uint256''] False ''view'',
   abi_method True [plain ''user'' ''address'', plain ''token'' ''address''] ''getPendingDeposit'' [plain ''''
     ''uint256'', plain '''' ''uint32''] False ''view'',
   abi_method False [plain ''cancellations'' ''uint16[]'', plain ''buyTokens'' ''uint16[]'', plain ''sellTokens''
     ''uint16[]'', plain ''validFroms'' ''uint32[]'', plain ''validUntils'' ''uint32[]'', plain ''buyAmounts''
     ''uint128[]'', plain ''sellAmounts'' ''uint128[]''] ''replaceOrders'' [plain '''' ''uint16[]''] False
     ''nonpayable'']"

definition gnosis_protocol_abi_json_part2 :: "json list" where
  "gnosis_protocol_abi_json_part2 = [
   abi_method True [plain ''user'' ''address'', plain ''token'' ''address''] ''getPendingWithdraw'' [plain ''''
     ''uint256'', plain '''' ''uint32''] False ''view'',
   abi_method True [plain ''batchId'' ''uint32''] ''acceptingSolutions'' [plain '''' ''bool''] False ''view'',
   abi_method False [plain ''token'' ''address''] ''addToken'' [] False ''nonpayable'',
   abi_method True [plain ''user'' ''address'', plain ''token'' ''address''] ''getBalance'' [plain ''''
     ''uint256''] False ''view'',
   abi_method True [] ''FEE_DENOMINATOR'' [plain '''' ''uint128''] False ''view'',
   abi_method True [] ''ENCODED_AUCTION_ELEMENT_WIDTH'' [plain '''' ''uint128''] False ''view'',
   abi_method True [] ''BATCH_TIME'' [plain '''' ''uint32''] False ''view'',
   abi_method True [] ''getCurrentBatchId'' [plain '''' ''uint32''] False ''view'',
   abi_method True [plain ''user'' ''address'', plain ''offset'' ''uint16'', plain ''pageSize'' ''uint16'']
     ''getEncodedUserOrdersPaginated'' [plain ''elements'' ''bytes''] False ''view'',
   abi_method True [plain ''addr'' ''address''] ''tokenAddressToIdMap'' [plain '''' ''uint16''] False ''view'',
   abi_method False [plain ''token'' ''address'', plain ''amount'' ''uint256'', plain ''batchId'' ''uint32'']
     ''requestFutureWithdraw'' [] False ''nonpayable'',
   abi_method True [plain ''user'' ''address'', plain ''token'' ''address''] ''hasValidWithdrawRequest'' [plain
     '''' ''bool''] False ''view'',
   abi_method True [] ''MAX_TOKENS'' [plain '''' ''uint256''] False ''view'',
   abi_method False [plain ''user'' ''address'', plain ''token'' ''address''] ''withdraw'' [] False ''nonpayable'',
   abi_method True [] ''MAX_TOUCHED_ORDERS'' [plain '''' ''uint256''] False ''view'',
   abi_method True [] ''getCurrentObjectiveValue'' [plain '''' ''uint256''] False ''view'',
   JObj [(''inputs'', JList [plain ''maxTokens'' ''uint256'', plain ''_feeToken'' ''address'']), (''payable'',
     JBool False), (''stateMutability'', JStr ''nonpayable''), (''type'', JStr ''constructor'')],
   event False [indexed_plain True ''owner'' ''address'', indexed_plain False ''index'' ''uint16'', indexed_plain
     True ''buyToken'' ''uint16'', indexed_plain True ''sellToken'' ''uint16'', indexed_plain False ''validFrom''
     ''uint32'', indexed_plain False ''validUntil'' ''uint32'', indexed_plain False ''priceNumerator'' ''uint128'',
     indexed_plain False ''priceDenominator'' ''uint128''] ''OrderPlacement'',
   event False [indexed_plain False ''token'' ''address'', indexed_plain False ''id'' ''uint16''] ''TokenListing'',
   event False [indexed_plain True ''owner'' ''address'', indexed_plain False ''id'' ''uint16'']
     ''OrderCancellation'',
   event False [indexed_plain True ''owner'' ''address'', indexed_plain False ''id'' ''uint16''] ''OrderDeletion'',
   event False [indexed_plain True ''owner'' ''address'', indexed_plain True ''orderId'' ''uint16'', indexed_plain
     True ''sellToken'' ''uint16'', indexed_plain False ''buyToken'' ''uint16'', indexed_plain False
     ''executedSellAmount'' ''uint128'', indexed_plain False ''executedBuyAmount'' ''uint128''] ''Trade'',
   event False [indexed_plain True ''owner'' ''address'', indexed_plain True ''orderId'' ''uint16'', indexed_plain
     True ''sellToken'' ''uint16'', indexed_plain False ''buyToken'' ''uint16'', indexed_plain False
     ''executedSellAmount'' ''uint128'', indexed_plain False ''executedBuyAmount'' ''uint128''] ''TradeReversion'',
   event False [indexed_plain True ''submitter'' ''address'', indexed_plain False ''utility'' ''uint256'',
     indexed_plain False ''disregardedUtility'' ''uint256'', indexed_plain False ''burntFees'' ''uint256'',
     indexed_plain False ''lastAuctionBurntFees'' ''uint256'', indexed_plain False ''prices'' ''uint128[]'',
     indexed_plain False ''tokenIdsForPrice'' ''uint16[]''] ''SolutionSubmission'',
   event False [indexed_plain True ''user'' ''address'', indexed_plain True ''token'' ''address'', indexed_plain
     False ''amount'' ''uint256'', indexed_plain False ''batchId'' ''uint32''] ''Deposit'']"

definition gnosis_protocol_abi_json_part3 :: "json list" where
  "gnosis_protocol_abi_json_part3 = [
   event False [indexed_plain True ''user'' ''address'', indexed_plain True ''token'' ''address'', indexed_plain
     False ''amount'' ''uint256'', indexed_plain False ''batchId'' ''uint32''] ''WithdrawRequest'',
   event False [indexed_plain True ''user'' ''address'', indexed_plain True ''token'' ''address'', indexed_plain
     False ''amount'' ''uint256''] ''Withdraw'']"

definition gnosis_protocol_abi_json :: json where
  "gnosis_protocol_abi_json = JList (gnosis_protocol_abi_json_part1 @ gnosis_protocol_abi_json_part2 @ gnosis_protocol_abi_json_part3)"

definition fleet_factory_deterministic_abi_json :: json where
  "fleet_factory_deterministic_abi_json = JList [
   abi_method True [] ''proxyFactory'' [plain '''' ''address''] False ''view'',
   abi_method False [plain ''owner'' ''address'', plain ''size'' ''uint256'', plain ''template'' ''address'',
     plain ''saltNonce'' ''uint256''] ''deployFleetWithNonce'' [] False ''nonpayable'',
   JObj [(''inputs'', JList [plain ''_proxyFactory'' ''address'']), (''payable'', JBool False),
     (''stateMutability'', JStr ''nonpayable''), (''type'', JStr ''constructor'')],
   event False [indexed_plain True ''owner'' ''address'', indexed_plain False ''fleet'' ''address[]'']
     ''FleetDeployed'']"

definition fleet_factory_abi_json :: json where
  "fleet_factory_abi_json = JList [
   abi_method False [plain ''owner'' ''address'', plain ''size'' ''uint256'', plain ''template'' ''address'']
     ''deployFleet'' [] False ''nonpayable'',
   abi_method True [] ''proxyFactory'' [plain '''' ''address''] False ''view'',
   JObj [(''inputs'', JList [plain ''_proxyFactory'' ''address'']), (''payable'', JBool False),
     (''stateMutability'', JStr ''nonpayable''), (''type'', JStr ''constructor'')],
   event False [indexed_plain True ''owner'' ''address'', indexed_plain False ''fleet'' ''address[]'']
     ''FleetDeployed'']"

definition cowswap_settlement_v2_abi_json_part1 :: "json list" where
  "cowswap_settlement_v2_abi_json_part1 = [
   JObj [(''inputs'', JList [typed ''contract GPv2Authentication'' ''authenticator_'' ''address'', typed
     ''contract IVault'' ''vault_'' ''address'']), (''stateMutability'', JStr ''nonpayable''), (''type'', JStr
     ''constructor'')],
   event False [indexed True ''address'' ''target'' ''address'', indexed False ''uint256'' ''value'' ''uint256'',
     indexed False ''bytes4'' ''selector'' ''bytes4''] ''Interaction'',
   event False [indexed True ''address'' ''owner'' ''address'', indexed False ''bytes'' ''orderUid'' ''bytes'']
     ''OrderInvalidated'',
   event False [indexed True ''address'' ''owner'' ''address'', indexed False ''bytes'' ''orderUid'' ''bytes'',
     indexed False ''bool'' ''signed'' ''bool''] ''PreSignature'',
   event False [indexed True ''address'' ''solver'' ''address''] ''Settlement'',
   event False [indexed True ''address'' ''owner'' ''address'', indexed False ''contract IERC20'' ''sellToken''
     ''address'', indexed False ''contract IERC20'' ''buyToken'' ''address'', indexed False ''uint256''
     ''sellAmount'' ''uint256'', indexed False ''uint256'' ''buyAmount'' ''uint256'', indexed False ''uint256''
     ''feeAmount'' ''uint256'', indexed False ''bytes'' ''orderUid'' ''bytes''] ''Trade'']"

definition cowswap_settlement_v2_abi_json_part2 :: "json list" where
  "cowswap_settlement_v2_abi_json_part2 = [
   short_method [] ''authenticator'' [typed ''contract GPv2Authentication'' '''' ''address''] ''view'',
   short_method [] ''domainSeparator'' [typed ''bytes32'' '''' ''bytes32''] ''view'',
   short_method [typed ''bytes'' '''' ''bytes''] ''filledAmount'' [typed ''uint256'' '''' ''uint256''] ''view'',
   short_method [typed ''bytes[]'' ''orderUids'' ''bytes[]''] ''freeFilledAmountStorage'' [] ''nonpayable'',
   short_method [typed ''bytes[]'' ''orderUids'' ''bytes[]''] ''freePreSignatureStorage'' [] ''nonpayable'',
   short_method [typed ''uint256'' ''offset'' ''uint256'', typed ''uint256'' ''length'' ''uint256'']
     ''getStorageAt'' [typed ''bytes'' '''' ''bytes''] ''view'',
   short_method [typed ''bytes'' ''orderUid'' ''bytes''] ''invalidateOrder'' [] ''nonpayable'',
   short_method [typed ''bytes'' '''' ''bytes''] ''preSignature'' [typed ''uint256'' '''' ''uint256''] ''view'',
   short_method [typed ''bytes'' ''orderUid'' ''bytes'', typed ''bool'' ''signed'' ''bool''] ''setPreSignature''
     [] ''nonpayable'',
   short_method [typed ''contract IERC20[]'' ''tokens'' ''address[]'', typed ''uint256[]'' ''clearingPrices''
     ''uint256[]'', JObj [(''components'', JList [typed ''uint256'' ''sellTokenIndex'' ''uint256'', typed
     ''uint256'' ''buyTokenIndex'' ''uint256'', typed ''address'' ''receiver'' ''address'', typed ''uint256''
     ''sellAmount'' ''uint256'', typed ''uint256'' ''buyAmount'' ''uint256'', typed ''uint32'' ''validTo''
     ''uint32'', typed ''bytes32'' ''appData'' ''bytes32'', typed ''uint256'' ''feeAmount'' ''uint256'', typed
     ''uint256'' ''flags'' ''uint256'', typed ''uint256'' ''executedAmount'' ''uint256'', typed ''bytes''
     ''signature'' ''bytes'']), (''internalType'', JStr ''struct GPv2Trade.Data[]''), (''name'', JStr ''trades''),
     (''type'', JStr ''tuple[]'')], JObj [(''components'', JList [typed ''address'' ''target'' ''address'', typed
     ''uint256'' ''value'' ''uint256'', typed ''bytes'' ''callData'' ''bytes'']), (''internalType'', JStr
     ''struct GPv2Interaction.Data[][3]''), (''name'', JStr ''interactions''), (''type'', JStr ''tuple[][3]'')]]
     ''settle'' [] ''nonpayable'',
   short_method [typed ''address'' ''targetContract'' ''address'', typed ''bytes'' ''calldataPayload'' ''bytes'']
     ''simulateDelegatecall'' [typed ''bytes'' ''response'' ''bytes''] ''nonpayable'']"

definition cowswap_settlement_v2_abi_json_part3 :: "json list" where
  "cowswap_settlement_v2_abi_json_part3 = [
   short_method [typed ''address'' ''targetContract'' ''address'', typed ''bytes'' ''calldataPayload'' ''bytes'']
     ''simulateDelegatecallInternal'' [typed ''bytes'' ''response'' ''bytes''] ''nonpayable'',
   short_method [JObj [(''components'', JList [typed ''bytes32'' ''poolId'' ''bytes32'', typed ''uint256''
     ''assetInIndex'' ''uint256'', typed ''uint256'' ''assetOutIndex'' ''uint256'', typed ''uint256'' ''amount''
     ''uint256'', typed ''bytes'' ''userData'' ''bytes'']), (''internalType'', JStr
     ''struct IVault.BatchSwapStep[]''), (''name'', JStr ''swaps''), (''type'', JStr ''tuple[]'')], typed
     ''contract IERC20[]'' ''tokens'' ''address[]'', JObj [(''components'', JList [typed ''uint256''
     ''sellTokenIndex'' ''uint256'', typed ''uint256'' ''buyTokenIndex'' ''uint256'', typed ''address'' ''receiver''
     ''address'', typed ''uint256'' ''sellAmount'' ''uint256'', typed ''uint256'' ''buyAmount'' ''uint256'', typed
     ''uint32'' ''validTo'' ''uint32'', typed ''bytes32'' ''appData'' ''bytes32'', typed ''uint256'' ''feeAmount''
     ''uint256'', typed ''uint256'' ''flags'' ''uint256'', typed ''uint256'' ''executedAmount'' ''uint256'', typed
     ''bytes'' ''signature'' ''bytes'']), (''internalType'', JStr ''struct GPv2Trade.Data''), (''name'', JStr
     ''trade''), (''type'', JStr ''tuple'')]] ''swap'' [] ''nonpayable'',
   short_method [] ''vault'' [typed ''contract IVault'' '''' ''address''] ''view'',
   short_method [] ''vaultRelayer'' [typed ''contract GPv2VaultRelayer'' '''' ''address''] ''view'',
   JObj [(''stateMutability'', JStr ''payable''), (''type'', JStr ''receive'')]]"

definition cowswap_settlement_v2_abi_json :: json where
  "cowswap_settlement_v2_abi_json = JList (
     cowswap_settlement_v2_abi_json_part1 @ cowswap_settlement_v2_abi_json_part2 @ cowswap_settlement_v2_abi_json_part3)"

definition chainlink_token_abi_json :: json where
  "chainlink_token_abi_json = JList [
   abi_method True [] ''name'' [plain '''' ''string''] False ''view'',
   abi_method False [plain ''_spender'' ''address'', plain ''_value'' ''uint256''] ''approve'' [plain ''''
     ''bool''] False ''nonpayable'',
   abi_method True [] ''totalSupply'' [plain '''' ''uint256''] False ''view'',
   abi_method False [plain ''_from'' ''address'', plain ''_to'' ''address'', plain ''_value'' ''uint256'']
     ''transferFrom'' [plain '''' ''bool''] False ''nonpayable'',
   abi_method True [] ''decimals'' [plain '''' ''uint8''] False ''view'',
   abi_method False [plain ''_to'' ''address'', plain ''_value'' ''uint256'', plain ''_data'' ''bytes'']
     ''transferAndCall'' [plain ''success'' ''bool''] False ''nonpayable'',
   abi_method False [plain ''_spender'' ''address'', plain ''_subtractedValue'' ''uint256''] ''decreaseApproval''
     [plain ''success'' ''bool''] False ''nonpayable'',
   abi_method True [plain ''_owner'' ''address''] ''balanceOf'' [plain ''balance'' ''uint256''] False ''view'',
   abi_method True [] ''symbol'' [plain '''' ''string''] False ''view'',
   abi_method False [plain ''_to'' ''address'', plain ''_value'' ''uint256''] ''transfer'' [plain ''success''
     ''bool''] False ''nonpayable'',
   abi_method False [plain ''_spender'' ''address'', plain ''_addedValue'' ''uint256''] ''increaseApproval''
     [plain ''success'' ''bool''] False ''nonpayable'',
   abi_method True [plain ''_owner'' ''address'', plain ''_spender'' ''address''] ''allowance'' [plain
     ''remaining'' ''uint256''] False ''view'',
   JObj [(''inputs'', JList []), (''payable'', JBool False), (''stateMutability'', JStr ''nonpayable''),
     (''type'', JStr ''constructor'')],
   event False [indexed_plain True ''from'' ''address'', indexed_plain True ''to'' ''address'', indexed_plain
     False ''value'' ''uint256'', indexed_plain False ''data'' ''bytes''] ''Transfer'',
   event False [indexed_plain True ''owner'' ''address'', indexed_plain True ''spender'' ''address'',
     indexed_plain False ''value'' ''uint256''] ''Approval'']"

definition safe_allowance_module_abi_json_part1 :: "json list" where
  "safe_allowance_module_abi_json_part1 = [
   event False [indexed True ''address'' ''safe'' ''address'', indexed False ''address'' ''delegate'' ''address'']
     ''AddDelegate'',
   event False [indexed True ''address'' ''safe'' ''address'', indexed False ''address'' ''delegate'' ''address'',
     indexed False ''address'' ''token'' ''address''] ''DeleteAllowance'',
   event False [indexed True ''address'' ''safe'' ''address'', indexed False ''address'' ''delegate'' ''address'',
     indexed False ''address'' ''token'' ''address'', indexed False ''address'' ''to'' ''address'', indexed False
     ''uint96'' ''value'' ''uint96'', indexed False ''uint16'' ''nonce'' ''uint16''] ''ExecuteAllowanceTransfer'',
   event False [indexed True ''address'' ''safe'' ''address'', indexed False ''address'' ''delegate'' ''address'',
     indexed False ''address'' ''paymentToken'' ''address'', indexed False ''address'' ''paymentReceiver''
     ''address'', indexed False ''uint96'' ''payment'' ''uint96''] ''PayAllowanceTransfer'',
   event False [indexed True ''address'' ''safe'' ''address'', indexed False ''address'' ''delegate'' ''address'']
     ''RemoveDelegate'',
   event False [indexed True ''address'' ''safe'' ''address'', indexed False ''address'' ''delegate'' ''address'',
     indexed False ''address'' ''token'' ''address''] ''ResetAllowance'',
   event False [indexed True ''address'' ''safe'' ''address'', indexed False ''address'' ''delegate'' ''address'',
     indexed False ''address'' ''token'' ''address'', indexed False ''uint96'' ''allowanceAmount'' ''uint96'',
     indexed False ''uint16'' ''resetTime'' ''uint16''] ''SetAllowance'',
   short_method [] ''ALLOWANCE_TRANSFER_TYPEHASH'' [typed ''bytes32'' '''' ''bytes32''] ''view'',
   short_method [] ''DOMAIN_SEPARATOR_TYPEHASH'' [typed ''bytes32'' '''' ''bytes32''] ''view'',
   short_method [] ''NAME'' [typed ''string'' '''' ''string''] ''view'',
   short_method [] ''VERSION'' [typed ''string'' '''' ''string''] ''view'',
   short_method [typed ''address'' ''delegate'' ''address''] ''addDelegate'' [] ''nonpayable'',
   short_method [typed ''address'' '''' ''address'', typed ''address'' '''' ''address'', typed ''address'' ''''
     ''address''] ''allowances'' [typed ''uint96'' ''amount'' ''uint96'', typed ''uint96'' ''spent'' ''uint96'',
     typed ''uint16'' ''resetTimeMin'' ''uint16'', typed ''uint32'' ''lastResetMin'' ''uint32'', typed ''uint16''
     ''nonce'' ''uint16''] ''view'',
   short_method [typed ''address'' '''' ''address'', typed ''uint48'' '''' ''uint48''] ''delegates'' [typed
     ''address'' ''delegate'' ''address'', typed ''uint48'' ''prev'' ''uint48'', typed ''uint48'' ''next''
     ''uint48''] ''view'',
   short_method [typed ''address'' '''' ''address''] ''delegatesStart'' [typed ''uint48'' '''' ''uint48''] ''view'',
   short_method [typed ''address'' ''delegate'' ''address'', typed ''address'' ''token'' ''address'']
     ''deleteAllowance'' [] ''nonpayable'',
   short_method [typed ''contract GnosisSafe'' ''safe'' ''address'', typed ''address'' ''token'' ''address'',
     typed ''address payable'' ''to'' ''address'', typed ''uint96'' ''amount'' ''uint96'', typed ''address''
     ''paymentToken'' ''address'', typed ''uint96'' ''payment'' ''uint96'', typed ''address'' ''delegate''
     ''address'', typed ''bytes'' ''signature'' ''bytes''] ''executeAllowanceTransfer'' [] ''nonpayable'',
   short_method [typed ''address'' ''safe'' ''address'', typed ''address'' ''token'' ''address'', typed
     ''address'' ''to'' ''address'', typed ''uint96'' ''amount'' ''uint96'', typed ''address'' ''paymentToken''
     ''address'', typed ''uint96'' ''payment'' ''uint96'', typed ''uint16'' ''nonce'' ''uint16'']
     ''generateTransferHash'' [typed ''bytes32'' '''' ''bytes32''] ''view'',
   short_method [] ''getChainId'' [typed ''uint256'' '''' ''uint256''] ''pure'',
   short_method [typed ''address'' ''safe'' ''address'', typed ''uint48'' ''start'' ''uint48'', typed ''uint8''
     ''pageSize'' ''uint8''] ''getDelegates'' [typed ''address[]'' ''results'' ''address[]'', typed ''uint48''
     ''next'' ''uint48''] ''view'',
   short_method [typed ''address'' ''safe'' ''address'', typed ''address'' ''delegate'' ''address'', typed
     ''address'' ''token'' ''address''] ''getTokenAllowance'' [typed ''uint256[5]'' '''' ''uint256[5]''] ''view'',
   short_method [typed ''address'' ''safe'' ''address'', typed ''address'' ''delegate'' ''address''] ''getTokens''
     [typed ''address[]'' '''' ''address[]''] ''view'',
   short_method [typed ''address'' ''delegate'' ''address'', typed ''bool'' ''removeAllowances'' ''bool'']
     ''removeDelegate'' [] ''nonpayable'',
   short_method [typed ''address'' ''delegate'' ''address'', typed ''address'' ''token'' ''address'']
     ''resetAllowance'' [] ''nonpayable'',
   short_method [typed ''address'' ''delegate'' ''address'', typed ''address'' ''token'' ''address'', typed
     ''uint96'' ''allowanceAmount'' ''uint96'', typed ''uint16'' ''resetTimeMin'' ''uint16'', typed ''uint32''
     ''resetBaseMin'' ''uint32''] ''setAllowance'' [] ''nonpayable'']"

definition safe_allowance_module_abi_json_part2 :: "json list" where
  "safe_allowance_module_abi_json_part2 = [
   short_method [typed ''address'' '''' ''address'', typed ''address'' '''' ''address'', typed ''uint256'' ''''
     ''uint256''] ''tokens'' [typed ''address'' '''' ''address''] ''view'']"

definition safe_allowance_module_abi_json :: json where
  "safe_allowance_module_abi_json = JList (safe_allowance_module_abi_json_part1 @ safe_allowance_module_abi_json_part2)"

definition conditional_token_abi_json_part1 :: "json list" where
  "conditional_token_abi_json_part1 = [
   abi_method True [plain ''owner'' ''address'', plain ''id'' ''uint256''] ''balanceOf'' [plain '''' ''uint256'']
     False ''view'',
   abi_method True [plain ''interfaceId'' ''bytes4''] ''supportsInterface'' [plain '''' ''bool''] False ''view'',
   abi_method True [plain '''' ''bytes32'', plain '''' ''uint256''] ''payoutNumerators'' [plain '''' ''uint256'']
     False ''view'',
   abi_method False [plain ''from'' ''address'', plain ''to'' ''address'', plain ''ids'' ''uint256[]'', plain
     ''values'' ''uint256[]'', plain ''data'' ''bytes''] ''safeBatchTransferFrom'' [] False ''nonpayable'',
   abi_method True [plain ''owners'' ''address[]'', plain ''ids'' ''uint256[]''] ''balanceOfBatch'' [plain ''''
     ''uint256[]''] False ''view'',
   abi_method False [plain ''operator'' ''address'', plain ''approved'' ''bool''] ''setApprovalForAll'' [] False
     ''nonpayable'',
   abi_method True [plain '''' ''bytes32''] ''payoutDenominator'' [plain '''' ''uint256''] False ''view'',
   abi_method True [plain ''owner'' ''address'', plain ''operator'' ''address''] ''isApprovedForAll'' [plain ''''
     ''bool''] False ''view'',
   abi_method False [plain ''from'' ''address'', plain ''to'' ''address'', plain ''id'' ''uint256'', plain
     ''value'' ''uint256'', plain ''data'' ''bytes''] ''safeTransferFrom'' [] False ''nonpayable'',
   event False [indexed_plain True ''conditionId'' ''bytes32'', indexed_plain True ''oracle'' ''address'',
     indexed_plain True ''questionId'' ''bytes32'', indexed_plain False ''outcomeSlotCount'' ''uint256'']
     ''ConditionPreparation'',
   event False [indexed_plain True ''conditionId'' ''bytes32'', indexed_plain True ''oracle'' ''address'',
     indexed_plain True ''questionId'' ''bytes32'', indexed_plain False ''outcomeSlotCount'' ''uint256'',
     indexed_plain False ''payoutNumerators'' ''uint256[]''] ''ConditionResolution'',
   event False [indexed_plain True ''stakeholder'' ''address'', indexed_plain False ''collateralToken''
     ''address'', indexed_plain True ''parentCollectionId'' ''bytes32'', indexed_plain True ''conditionId''
     ''bytes32'', indexed_plain False ''partition'' ''uint256[]'', indexed_plain False ''amount'' ''uint256'']
     ''PositionSplit'',
   event False [indexed_plain True ''stakeholder'' ''address'', indexed_plain False ''collateralToken''
     ''address'', indexed_plain True ''parentCollectionId'' ''bytes32'', indexed_plain True ''conditionId''
     ''bytes32'', indexed_plain False ''partition'' ''uint256[]'', indexed_plain False ''amount'' ''uint256'']
     ''PositionsMerge'',
   event False [indexed_plain True ''redeemer'' ''address'', indexed_plain True ''collateralToken'' ''address'',
     indexed_plain True ''parentCollectionId'' ''bytes32'', indexed_plain False ''conditionId'' ''bytes32'',
     indexed_plain False ''indexSets'' ''uint256[]'', indexed_plain False ''payout'' ''uint256'']
     ''PayoutRedemption'',
   event False [indexed_plain True ''operator'' ''address'', indexed_plain True ''from'' ''address'',
     indexed_plain True ''to'' ''address'', indexed_plain False ''id'' ''uint256'', indexed_plain False ''value''
     ''uint256''] ''TransferSingle'',
   event False [indexed_plain True ''operator'' ''address'', indexed_plain True ''from'' ''address'',
     indexed_plain True ''to'' ''address'', indexed_plain False ''ids'' ''uint256[]'', indexed_plain False
     ''values'' ''uint256[]''] ''TransferBatch'',
   event False [indexed_plain True ''owner'' ''address'', indexed_plain True ''operator'' ''address'',
     indexed_plain False ''approved'' ''bool''] ''ApprovalForAll'',
   event False [indexed_plain False ''value'' ''string'', indexed_plain True ''id'' ''uint256''] ''URI'',
   abi_method False [plain ''oracle'' ''address'', plain ''questionId'' ''bytes32'', plain ''outcomeSlotCount''
     ''uint256''] ''prepareCondition'' [] False ''nonpayable'',
   abi_method False [plain ''questionId'' ''bytes32'', plain ''payouts'' ''uint256[]''] ''reportPayouts'' [] False
     ''nonpayable'',
   abi_method False [plain ''collateralToken'' ''address'', plain ''parentCollectionId'' ''bytes32'', plain
     ''conditionId'' ''bytes32'', plain ''partition'' ''uint256[]'', plain ''amount'' ''uint256''] ''splitPosition''
     [] False ''nonpayable'',
   abi_method False [plain ''collateralToken'' ''address'', plain ''parentCollectionId'' ''bytes32'', plain
     ''conditionId'' ''bytes32'', plain ''partition'' ''uint256[]'', plain ''amount'' ''uint256'']
     ''mergePositions'' [] False ''nonpayable'',
   abi_method False [plain ''collateralToken'' ''address'', plain ''parentCollectionId'' ''bytes32'', plain
     ''conditionId'' ''bytes32'', plain ''indexSets'' ''uint256[]''] ''redeemPositions'' [] False ''nonpayable'',
   abi_method True [plain ''conditionId'' ''bytes32''] ''getOutcomeSlotCount'' [plain '''' ''uint256''] False
     ''view'',
   abi_method True [plain ''oracle'' ''address'', plain ''questionId'' ''bytes32'', plain ''outcomeSlotCount''
     ''uint256''] ''getConditionId'' [plain '''' ''bytes32''] False ''pure'']"

definition conditional_token_abi_json_part2 :: "json list" where
  "conditional_token_abi_json_part2 = [
   abi_method True [plain ''parentCollectionId'' ''bytes32'', plain ''conditionId'' ''bytes32'', plain
     ''indexSet'' ''uint256''] ''getCollectionId'' [plain '''' ''bytes32''] False ''view'',
   abi_method True [plain ''collateralToken'' ''address'', plain ''collectionId'' ''bytes32''] ''getPositionId''
     [plain '''' ''uint256''] False ''pure'']"

definition conditional_token_abi_json :: json where
  "conditional_token_abi_json = JList (conditional_token_abi_json_part1 @ conditional_token_abi_json_part2)"

definition market_maker_abi_json_part1 :: "json list" where
  "market_maker_abi_json_part1 = [
   abi_method True [plain ''interfaceId'' ''bytes4''] ''supportsInterface'' [plain '''' ''bool''] False ''view'',
   abi_method False [] ''resume'' [] False ''nonpayable'',
   abi_method True [] ''pmSystem'' [plain '''' ''address''] False ''view'',
   abi_method False [plain ''outcomeTokenAmounts'' ''int256[]'', plain ''collateralLimit'' ''int256''] ''trade''
     [plain ''netCost'' ''int256''] False ''nonpayable'',
   abi_method False [] ''close'' [] False ''nonpayable'',
   abi_method False [] ''withdrawFees'' [plain ''fees'' ''uint256''] False ''nonpayable'',
   abi_method False [] ''renounceOwnership'' [] False ''nonpayable'',
   abi_method False [] ''pause'' [] False ''nonpayable'',
   abi_method False [plain ''fundingChange'' ''int256''] ''changeFunding'' [] False ''nonpayable'',
   abi_method True [] ''owner'' [plain '''' ''address''] False ''view'',
   abi_method True [] ''isOwner'' [plain '''' ''bool''] False ''view'',
   abi_method True [] ''whitelist'' [plain '''' ''address''] False ''view'',
   abi_method True [plain ''outcomeTokenCost'' ''uint256''] ''calcMarketFee'' [plain '''' ''uint256''] False
     ''view'',
   abi_method True [] ''collateralToken'' [plain '''' ''address''] False ''view'',
   abi_method False [plain ''_operator'' ''address'', plain '''' ''address'', plain '''' ''uint256[]'', plain ''''
     ''uint256[]'', plain '''' ''bytes''] ''onERC1155BatchReceived'' [plain '''' ''bytes4''] False ''nonpayable'',
   abi_method True [] ''stage'' [plain '''' ''uint8''] False ''view'',
   abi_method True [] ''funding'' [plain '''' ''uint256''] False ''view'',
   abi_method True [plain '''' ''uint256''] ''conditionIds'' [plain '''' ''bytes32''] False ''view'',
   abi_method True [] ''atomicOutcomeSlotCount'' [plain '''' ''uint256''] False ''view'',
   abi_method True [] ''fee'' [plain '''' ''uint64''] False ''view'',
   abi_method False [plain ''_fee'' ''uint64''] ''changeFee'' [] False ''nonpayable'',
   abi_method False [plain ''operator'' ''address'', plain '''' ''address'', plain '''' ''uint256'', plain ''''
     ''uint256'', plain '''' ''bytes''] ''onERC1155Received'' [plain '''' ''bytes4''] False ''nonpayable'',
   abi_method False [plain ''newOwner'' ''address''] ''transferOwnership'' [] False ''nonpayable'',
   abi_method True [] ''FEE_RANGE'' [plain '''' ''uint64''] False ''view'',
   event False [indexed_plain False ''initialFunding'' ''uint256''] ''AMMCreated'']"

definition market_maker_abi_json_part2 :: "json list" where
  "market_maker_abi_json_part2 = [
   event False [] ''AMMPaused'',
   event False [] ''AMMResumed'',
   event False [] ''AMMClosed'',
   event False [indexed_plain False ''fundingChange'' ''int256''] ''AMMFundingChanged'',
   event False [indexed_plain False ''newFee'' ''uint64''] ''AMMFeeChanged'',
   event False [indexed_plain False ''fees'' ''uint256''] ''AMMFeeWithdrawal'',
   event False [indexed_plain True ''transactor'' ''address'', indexed_plain False ''outcomeTokenAmounts''
     ''int256[]'', indexed_plain False ''outcomeTokenNetCost'' ''int256'', indexed_plain False ''marketFees''
     ''uint256''] ''AMMOutcomeTokenTrade'',
   event False [indexed_plain True ''previousOwner'' ''address'', indexed_plain True ''newOwner'' ''address'']
     ''OwnershipTransferred'',
   abi_method True [plain ''outcomeTokenAmounts'' ''int256[]''] ''calcNetCost'' [plain ''netCost'' ''int256'']
     False ''view'',
   abi_method True [plain ''outcomeTokenIndex'' ''uint8''] ''calcMarginalPrice'' [plain ''price'' ''uint256'']
     False ''view'']"

definition market_maker_abi_json :: json where
  "market_maker_abi_json = JList (market_maker_abi_json_part1 @ market_maker_abi_json_part2)"

definition market_maker_factory_abi_json :: json where
  "market_maker_factory_abi_json = JList [
   abi_method True [] ''implementationMaster'' [plain '''' ''address''] False ''view'',
   JObj [(''inputs'', JList []), (''payable'', JBool False), (''stateMutability'', JStr ''nonpayable''),
     (''type'', JStr ''constructor'')],
   event False [indexed_plain True ''creator'' ''address'', indexed_plain False ''lmsrMarketMaker'' ''address'',
     indexed_plain False ''pmSystem'' ''address'', indexed_plain False ''collateralToken'' ''address'',
     indexed_plain False ''conditionIds'' ''bytes32[]'', indexed_plain False ''fee'' ''uint64'', indexed_plain False
     ''funding'' ''uint256''] ''LMSRMarketMakerCreation'',
   event False [indexed_plain True ''previousOwner'' ''address'', indexed_plain True ''newOwner'' ''address'']
     ''OwnershipTransferred'',
   event False [indexed_plain False ''initialFunding'' ''uint256''] ''AMMCreated'',
   event False [indexed_plain True ''target'' ''address'', indexed_plain False ''clone'' ''address'']
     ''CloneCreated'',
   abi_method False [plain ''consData'' ''bytes''] ''cloneConstructor'' [] False ''nonpayable'',
   abi_method False [plain ''pmSystem'' ''address'', plain ''collateralToken'' ''address'', plain ''conditionIds''
     ''bytes32[]'', plain ''fee'' ''uint64'', plain ''whitelist'' ''address'', plain ''funding'' ''uint256'']
     ''createLMSRMarketMaker'' [plain ''lmsrMarketMaker'' ''address''] False ''nonpayable'']"

definition timelock_abi_json :: json where
  "timelock_abi_json = JList [
   JObj [(''inputs'', JList [typed ''address'' ''admin_'' ''address'', typed ''uint256'' ''delay_'' ''uint256'']),
     (''payable'', JBool False), (''stateMutability'', JStr ''nonpayable''), (''type'', JStr ''constructor'')],
   event False [indexed True ''bytes32'' ''txHash'' ''bytes32'', indexed True ''address'' ''target'' ''address'',
     indexed False ''uint256'' ''value'' ''uint256'', indexed False ''string'' ''signature'' ''string'', indexed
     False ''bytes'' ''data'' ''bytes'', indexed False ''uint256'' ''eta'' ''uint256''] ''CancelTransaction'',
   event False [indexed True ''bytes32'' ''txHash'' ''bytes32'', indexed True ''address'' ''target'' ''address'',
     indexed False ''uint256'' ''value'' ''uint256'', indexed False ''string'' ''signature'' ''string'', indexed
     False ''bytes'' ''data'' ''bytes'', indexed False ''uint256'' ''eta'' ''uint256''] ''ExecuteTransaction'',
   event False [indexed True ''address'' ''newAdmin'' ''address''] ''NewAdmin'',
   event False [indexed True ''uint256'' ''newDelay'' ''uint256''] ''NewDelay'',
   event False [indexed True ''address'' ''newPendingAdmin'' ''address''] ''NewPendingAdmin'',
   event False [indexed True ''bytes32'' ''txHash'' ''bytes32'', indexed True ''address'' ''target'' ''address'',
     indexed False ''uint256'' ''value'' ''uint256'', indexed False ''string'' ''signature'' ''string'', indexed
     False ''bytes'' ''data'' ''bytes'', indexed False ''uint256'' ''eta'' ''uint256''] ''QueueTransaction'',
   JObj [(''payable'', JBool True), (''stateMutability'', JStr ''payable''), (''type'', JStr ''fallback'')],
   abi_method True [] ''GRACE_PERIOD'' [typed ''uint256'' '''' ''uint256''] False ''view'',
   abi_method True [] ''MAXIMUM_DELAY'' [typed ''uint256'' '''' ''uint256''] False ''view'',
   abi_method True [] ''MINIMUM_DELAY'' [typed ''uint256'' '''' ''uint256''] False ''view'',
   abi_method False [] ''acceptAdmin'' [] False ''nonpayable'',
   abi_method True [] ''admin'' [typed ''address'' '''' ''address''] False ''view'',
   abi_method True [] ''admin_initialized'' [typed ''bool'' '''' ''bool''] False ''view'',
   abi_method False [typed ''address'' ''target'' ''address'', typed ''uint256'' ''value'' ''uint256'', typed
     ''string'' ''signature'' ''string'', typed ''bytes'' ''data'' ''bytes'', typed ''uint256'' ''eta'' ''uint256'']
     ''cancelTransaction'' [] False ''nonpayable'',
   abi_method True [] ''delay'' [typed ''uint256'' '''' ''uint256''] False ''view'',
   abi_method False [typed ''address'' ''target'' ''address'', typed ''uint256'' ''value'' ''uint256'', typed
     ''string'' ''signature'' ''string'', typed ''bytes'' ''data'' ''bytes'', typed ''uint256'' ''eta'' ''uint256'']
     ''executeTransaction'' [typed ''bytes'' '''' ''bytes''] True ''payable'',
   abi_method True [] ''pendingAdmin'' [typed ''address'' '''' ''address''] False ''view'',
   abi_method False [typed ''address'' ''target'' ''address'', typed ''uint256'' ''value'' ''uint256'', typed
     ''string'' ''signature'' ''string'', typed ''bytes'' ''data'' ''bytes'', typed ''uint256'' ''eta'' ''uint256'']
     ''queueTransaction'' [typed ''bytes32'' '''' ''bytes32''] False ''nonpayable'',
   abi_method True [typed ''bytes32'' '''' ''bytes32''] ''queuedTransactions'' [typed ''bool'' '''' ''bool'']
     False ''view'',
   abi_method False [typed ''uint256'' ''delay_'' ''uint256''] ''setDelay'' [] False ''nonpayable'',
   abi_method False [typed ''address'' ''pendingAdmin_'' ''address''] ''setPendingAdmin'' [] False ''nonpayable'']"

definition abi_tables_more :: "json list" where
  "abi_tables_more =
    [idle_token_v3_json,
     gnosis_protocol_abi_json,
     fleet_factory_deterministic_abi_json,
     fleet_factory_abi_json,
     cowswap_settlement_v2_abi_json,
     chainlink_token_abi_json,
     safe_allowance_module_abi_json,
     conditional_token_abi_json,
     market_maker_abi_json,
     market_maker_factory_abi_json,
     timelock_abi_json]"

lemma idle_token_v3_json_ok: "abi_table_ok idle_token_v3_json"
  by (simp add: abi_rules 
      idle_token_v3_json_def idle_token_v3_json_part1_def idle_token_v3_json_part2_def idle_token_v3_json_part3_def idle_token_v3_json_part4_def idle_token_v3_json_part5_def idle_token_v3_json_part6_def)

lemma gnosis_protocol_abi_json_ok: "abi_table_ok gnosis_protocol_abi_json"
  by (simp add: abi_rules 
      gnosis_protocol_abi_json_def gnosis_protocol_abi_json_part1_def gnosis_protocol_abi_json_part2_def gnosis_protocol_abi_json_part3_def)

lemma fleet_factory_deterministic_abi_json_ok: "abi_table_ok fleet_factory_deterministic_abi_json"
  by (simp add: abi_rules fleet_factory_deterministic_abi_json_def)

lemma fleet_factory_abi_json_ok: "abi_table_ok fleet_factory_abi_json"
  by (simp add: abi_rules fleet_factory_abi_json_def)

lemma cowswap_settlement_v2_abi_json_ok: "abi_table_ok cowswap_settlement_v2_abi_json"
  by (simp add: abi_rules 
      cowswap_settlement_v2_abi_json_def cowswap_settlement_v2_abi_json_part1_def cowswap_settlement_v2_abi_json_part2_def cowswap_settlement_v2_abi_json_part3_def)

lemma chainlink_token_abi_json_ok: "abi_table_ok chainlink_token_abi_json"
  by (simp add: abi_rules chainlink_token_abi_json_def)

lemma safe_allowance_module_abi_json_ok: "abi_table_ok safe_allowance_module_abi_json"
  by (simp add: abi_rules 
      safe_allowance_module_abi_json_def safe_allowance_module_abi_json_part1_def safe_allowance_module_abi_json_part2_def)

lemma conditional_token_abi_json_ok: "abi_table_ok conditional_token_abi_json"
  by (simp add: abi_rules conditional_token_abi_json_def conditional_token_abi_json_part1_def conditional_token_abi_json_part2_def)

lemma market_maker_abi_json_ok: "abi_table_ok market_maker_abi_json"
  by (simp add: abi_rules market_maker_abi_json_def market_maker_abi_json_part1_def market_maker_abi_json_part2_def)

lemma market_maker_factory_abi_json_ok: "abi_table_ok market_maker_factory_abi_json"
  by (simp add: abi_rules market_maker_factory_abi_json_def)

lemma timelock_abi_json_ok: "abi_table_ok timelock_abi_json"
  by (simp add: abi_rules timelock_abi_json_def)

lemma abi_tables_more_ok: "list_all abi_table_ok abi_tables_more"
  by (simp add: abi_tables_more_def idle_token_v3_json_ok
      gnosis_protocol_abi_json_ok
      fleet_factory_deterministic_abi_json_ok
      fleet_factory_abi_json_ok
      cowswap_settlement_v2_abi_json_ok
      chainlink_token_abi_json_ok
      safe_allowance_module_abi_json_ok
      conditional_token_abi_json_ok
      market_maker_abi_json_ok
      market_maker_factory_abi_json_ok
      timelock_abi_json_ok)

end
