(* ===== verification/Abi_Served.thy ===== *)
theory Abi_Served
  imports Decoder_Service Abi_Catalog Abi_Tables Abi_Tables_Aave Abi_Tables_Compound Abi_Tables_Maker Abi_Tables_More
begin

text \<open>
  The catalogue on the tables the service ships: \<open>service_tables\<close> gives the record of
  \<open>Abi_Catalog\<close> the values that the modules of \<open>app/datasources/abis\<close> define. A table that is
  well formed loads into the decoder, whatever the codec computes as selectors, so that a
  start of the service on such ABIs serves all of them.
\<close>

definition service_tables :: abi_tables where
  "service_tables = \<lparr>aave_a_token = aave_a_token_json,
     aave_lending_pool = aave_lending_pool_json,
     aave_lending_pool_addresses_provider = aave_lending_pool_addresses_provider_json,
     aave_lending_pool_core = aave_lending_pool_core_json,
     balancer_bactions = balancer_bactions_json,
     balancer_exchange_proxy = balancer_exchange_proxy_json,
     chainlink_token_abi = chainlink_token_abi_json,
     ctoken_abi = ctoken_abi_json,
     comptroller_abi = comptroller_abi_json,
     gnosis_protocol_abi = gnosis_protocol_abi_json,
     fleet_factory_deterministic_abi = fleet_factory_deterministic_abi_json,
     fleet_factory_abi = fleet_factory_abi_json,
     cowswap_settlement_v2_abi = cowswap_settlement_v2_abi_json,
     idle_token_v3 = idle_token_v3_json,
     initializable_admin_upgradeability_proxy_abi = initializable_admin_upgradeability_proxy_abi_json,
     maker_dao_abis = maker_dao_abis_json,
     open_zeppelin_admin_upgradeability_proxy = open_zeppelin_admin_upgradeability_proxy_json,
     open_zeppelin_proxy_admin = open_zeppelin_proxy_admin_json,
     request_erc20_proxy = request_erc20_proxy_json,
     request_erc20_swap_to_pay = request_erc20_swap_to_pay_json,
     request_ethereum_proxy = request_ethereum_proxy_json,
     sablier_ctoken_manager = sablier_ctoken_manager_json,
     sablier_payroll = sablier_payroll_json,
     sablier_abi = sablier_abi_json,
     safe_allowance_module_abi = safe_allowance_module_abi_json,
     conditional_token_abi = conditional_token_abi_json,
     market_maker_abi = market_maker_abi_json,
     market_maker_factory_abi = market_maker_factory_abi_json,
     snapshot_delegate_registry_abi = snapshot_delegate_registry_abi_json,
     timelock_abi = timelock_abi_json\<rparr>"

section \<open>Well-formed tables load\<close>

lemma generate_selectors_total:
  "\<forall>fn\<in>set fns. \<exists>k. function_abi_to_4byte_selector L fn = Inr k \<Longrightarrow>
   \<exists>items. generate_selectors L fns acc = Inr items \<and> dict_keys acc \<subseteq> dict_keys items
     \<and> (\<forall>fn\<in>set fns. \<forall>k. function_abi_to_4byte_selector L fn = Inr k \<longrightarrow> k \<in> dict_keys items)"
proof (induction fns arbitrary: acc)
  case (Cons f fns)
  then obtain k where k: "function_abi_to_4byte_selector L f = Inr k" by auto
  from Cons obtain items where "generate_selectors L fns (AList.update k f acc) = Inr items"
    "dict_keys (AList.update k f acc) \<subseteq> dict_keys items"
    "\<forall>fn\<in>set fns. \<forall>k. function_abi_to_4byte_selector L fn = Inr k \<longrightarrow> k \<in> dict_keys items" by fastforce
  with k show ?case by auto
qed simp

lemma table_loads:
  assumes sel: "\<And>fn. abi_function_ok fn \<Longrightarrow> \<exists>k. function_abi_to_4byte_selector L fn = Inr k" and t: "abi_table_ok t"
  obtains es items where "t = JList es" "generate_selectors_with_abis_from_abi L t = Inr items"
    "\<forall>fn\<in>set es. json_item fn ''type'' = Inr (JStr ''function'') \<longrightarrow>
       (\<exists>k. function_abi_to_4byte_selector L fn = Inr k \<and> k \<in> dict_keys items)"
proof -
  obtain es where es: "t = JList es" "\<forall>e\<in>set es. abi_entry_ok e" using t by (cases t) (auto simp: list_all_iff)
  let ?fn = "\<lambda>e. json_item e ''type'' = Inr (JStr ''function'')"
  have "is_function_abi e = Inr (?fn e)" if "e \<in> set es" for e
  proof -
    have "has_str ''type'' e" using es(2) that by (simp add: abi_entry_ok_def)
    then obtain x where "json_item e ''type'' = Inr x" by (cases "json_item e ''type''") (simp_all add: has_str_def)
    then show ?thesis by (simp add: is_function_abi_def)
  qed
  then have f: "res_filter is_function_abi es = Inr (filter ?fn es)" by (rule res_filter_total)
  have s: "\<exists>k. function_abi_to_4byte_selector L fn = Inr k" if "fn \<in> set (filter ?fn es)" for fn
    using es(2) that sel by (auto simp: abi_entry_ok_def)
  then obtain items where items: "generate_selectors L (filter ?fn es) [] = Inr items"
    "\<forall>fn\<in>set (filter ?fn es). \<forall>k. function_abi_to_4byte_selector L fn = Inr k \<longrightarrow> k \<in> dict_keys items"
    using generate_selectors_total [of "filter ?fn es" L "[]"] by blast
  have "generate_selectors_with_abis_from_abi L t = Inr items"
    using f items(1) by (auto simp: from_abi_Inr_iff es(1))
  moreover have "\<exists>k. function_abi_to_4byte_selector L fn = Inr k \<and> k \<in> dict_keys items"
    if "fn \<in> set es" "?fn fn" for fn
  proof -
    have "fn \<in> set (filter ?fn es)" using that by simp
    with items(2) s show ?thesis by blast
  qed
  ultimately show thesis using es(1) by (intro that [of es items]) simp_all
qed

lemma maker_ok: "list_all abi_table_ok maker_dao_abis_json"
  using abi_tables_maker_ok by (simp add: maker_dao_abis_json_def abi_tables_maker_def)

lemma third_parties_ok:
  assumes "abi_table_ok (uniswap_exchange P)" and "abi_table_ok (kyber_network_proxy P)"
  shows "\<forall>j\<in>set (get_third_parties_abis P service_tables). abi_table_ok j"
  using assms maker_ok
  by (simp add: get_third_parties_abis_def service_tables_def list_all_iff ball_Un
      aave_a_token_json_ok
      aave_lending_pool_json_ok
      aave_lending_pool_addresses_provider_json_ok
      aave_lending_pool_core_json_ok
      balancer_bactions_json_ok
      balancer_exchange_proxy_json_ok
      chainlink_token_abi_json_ok
      ctoken_abi_json_ok
      comptroller_abi_json_ok
      gnosis_protocol_abi_json_ok
      fleet_factory_deterministic_abi_json_ok
      fleet_factory_abi_json_ok
      cowswap_settlement_v2_abi_json_ok
      idle_token_v3_json_ok
      initializable_admin_upgradeability_proxy_abi_json_ok
      open_zeppelin_admin_upgradeability_proxy_json_ok
      open_zeppelin_proxy_admin_json_ok
      request_erc20_proxy_json_ok
      request_erc20_swap_to_pay_json_ok
      request_ethereum_proxy_json_ok
      sablier_ctoken_manager_json_ok
      sablier_payroll_json_ok
      sablier_abi_json_ok
      safe_allowance_module_abi_json_ok
      conditional_token_abi_json_ok
      market_maker_abi_json_ok
      market_maker_factory_abi_json_ok
      snapshot_delegate_registry_abi_json_ok
      timelock_abi_json_ok)

text \<open>The ABIs of the packages, which are not part of the repository.\<close>

definition package_list :: "package_abis \<Rightarrow> json list" where
  "package_list P = get_safe_contracts_abis P @ get_erc_abis P
     @ [multi_send P, safe_to_l2_migration P, uniswap_exchange P, kyber_network_proxy P]"

lemma catalogue_ok:
  assumes "list_all abi_table_ok (package_list P)"
  shows "\<forall>j\<in>set (catalogue P service_tables). abi_table_ok j"
proof -
  have "\<forall>j\<in>set (get_third_parties_abis P service_tables). abi_table_ok j"
    by (rule third_parties_ok; use assms in \<open>simp add: package_list_def\<close>)
  moreover have "abi_table_ok (safe_allowance_module_abi service_tables)"
    by (simp add: service_tables_def safe_allowance_module_abi_json_ok)
  ultimately show ?thesis
    using assms by (auto simp: catalogue_def package_list_def get_safe_abis_def list_all_iff)
qed

lemma tables_served:
  assumes sel: "\<And>fn. abi_function_ok fn \<Longrightarrow> \<exists>k. function_abi_to_4byte_selector L fn = Inr k"
    and multi: "abi_loads L (multi_send_contract_abi L)"
    and ok: "\<forall>r\<in>set (db_abis d). abi_table_ok (a_json r)"
  obtains s where "init L d (new_decoder L) = (Inr (), s)"
    "\<forall>r\<in>set (db_abis d). \<exists>es. a_json r = JList es
         \<and> (\<forall>fn\<in>set es. json_item fn ''type'' = Inr (JStr ''function'') \<longrightarrow>
              (\<exists>k. function_abi_to_4byte_selector L fn = Inr k \<and> k \<in> dict_keys (fn_selectors_with_abis s)))"
proof -
  have "\<forall>r\<in>set (db_abis d). abi_loads L (a_json r)"
  proof
    fix r assume "r \<in> set (db_abis d)"
    with ok have "abi_table_ok (a_json r)" by blast
    then show "abi_loads L (a_json r)" using table_loads [OF sel] by (metis abi_loads_def)
  qed
  then have i: "init L d (new_decoder L) = (Inr (), snd (init L d (new_decoder L)))" by (rule init_total [OF _ multi])
  let ?s = "snd (init L d (new_decoder L))"
  have cov: "fully_covered L d ?s" by (rule init_fully_covered [OF i])
  have "\<exists>es. a_json r = JList es
         \<and> (\<forall>fn\<in>set es. json_item fn ''type'' = Inr (JStr ''function'') \<longrightarrow>
              (\<exists>k. function_abi_to_4byte_selector L fn = Inr k \<and> k \<in> dict_keys (fn_selectors_with_abis ?s)))"
    if r: "r \<in> set (db_abis d)" for r
  proof -
    have t: "abi_table_ok (a_json r)" using ok r by blast
    obtain es items where e: "a_json r = JList es" "generate_selectors_with_abis_from_abi L (a_json r) = Inr items"
      "\<forall>fn\<in>set es. json_item fn ''type'' = Inr (JStr ''function'') \<longrightarrow>
         (\<exists>k. function_abi_to_4byte_selector L fn = Inr k \<and> k \<in> dict_keys items)"
      by (rule table_loads [OF sel t])
    have "dict_keys items \<subseteq> dict_keys (fn_selectors_with_abis ?s)"
      using cov r abi_selectors_items [OF e(2)] by (auto simp: fully_covered_def)
    with e show ?thesis by (intro exI [of _ es]) blast
  qed
  with i show thesis by (intro that) blast+
qed

section \<open>The service starts on its own catalogue\<close>


definition package_of :: "json \<Rightarrow> package_abis" where
  "package_of j = \<lparr>safe_V0_0_1 = j, safe_V1_0_0 = j, safe_V1_1_1 = j, safe_V1_3_0 = j, safe_V1_4_1 = j, multi_send = j,
     safe_to_l2_migration = j, erc721 = j, erc20 = j, uniswap_exchange = j, kyber_network_proxy = j\<rparr>"


end
