(* ===== verification/Safe_Logger.thy ===== *)
theory Safe_Logger
  imports Session Json
begin

text \<open>
  Structured logging: \<open>app/loggers/safe_logger.py\<close>. A second context variable holds the
  task that is running; the log record factory copies it and the session identifier into
  every record, and the formatter turns a record into a JSON document. The rendering of
  exceptions and of the final text is left to the standard library.
\<close>

section \<open>The task context\<close>

record task_message =
  tm_actor_name :: string
  tm_message_id :: string
  tm_kwargs :: json
  tm_args :: "json list"

record task_info =
  ti_name :: string
  ti_id :: string
  ti_kwargs :: "json option"
  ti_args :: "json list"

record log_env = session_env +
  task_info_ctx :: "task_info option"

definition get_task_info :: "('z log_env_scheme, task_info) act" where
  "get_task_info s = (case task_info_ctx s of None \<Rightarrow> (Inl OtherError, s) | Some t \<Rightarrow> (Inr t, s))"

text \<open>Without a current message the attribute access raises before the context is set.\<close>

definition logging_task_context ::
    "task_message option \<Rightarrow> ('z log_env_scheme, 'a) act \<Rightarrow> ('z log_env_scheme, 'a) act" where
  "logging_task_context task_message body =
     (case task_message of
        None \<Rightarrow> act_raise AttributeError
      | Some m \<Rightarrow>
          let task_detail = \<lparr>ti_name = tm_actor_name m, ti_id = tm_message_id m,
                             ti_kwargs = (if tm_kwargs m = JNull then None else Some (tm_kwargs m)),
                             ti_args = tm_args m\<rparr>
          in act_bind act_get (\<lambda>s.
               let token = task_info_ctx s in
               act_finally
                 (act_bind (act_modify (\<lambda>s. s\<lparr>task_info_ctx := Some task_detail\<rparr>)) (\<lambda>_. body))
                 (act_modify (\<lambda>s. s\<lparr>task_info_ctx := token\<rparr>))))"

section \<open>Log records\<close>

record http_request_log =
  hq_url :: string
  hq_method :: string
  hq_route :: "string option"
  hq_body :: "string option"
  hq_startTime :: int

record http_response_log =
  hr_status :: int
  hr_endTime :: int
  hr_totalTime :: int

record error_info =
  ei_function :: string
  ei_line :: int
  ei_exceptionInfo :: "string option"

record log_record =
  lr_levelname :: string
  lr_created :: int
  lr_module :: string
  lr_funcName :: string
  lr_lineno :: int
  lr_message :: string
  lr_exc_info :: "string option"
  lr_http_request :: "http_request_log option"
  lr_http_response :: "http_response_log option"
  lr_db_session :: "string option"
  lr_task_detail :: "task_info option"
  lr_error_detail :: "error_info option"

record context_message_log =
  cl_dbSession :: "string option"
  cl_httpRequest :: "http_request_log option"
  cl_httpResponse :: "http_response_log option"
  cl_errorInfo :: "error_info option"
  cl_taskInfo :: "task_info option"

record json_log =
  jl_level :: string
  jl_timestamp :: int
  jl_context :: string
  jl_message :: string
  jl_contextMessage :: "context_message_log option"

text \<open>Each \<open>LookupError\<close> is caught on its own: a missing session does not hide the task.\<close>

definition log_record_factory :: "log_record \<Rightarrow> ('z log_env_scheme, log_record) act" where
  "log_record_factory r =
     act_bind (act_catch
         (act_bind get_database_session_context (\<lambda>i. act_return (r\<lparr>lr_db_session := Some i\<rparr>)))
         (\<lambda>e. e = OtherError) (\<lambda>e. act_return r)) (\<lambda>r.
       act_catch
         (act_bind get_task_info (\<lambda>t. act_return (r\<lparr>lr_task_detail := Some t\<rparr>)))
         (\<lambda>e. e = OtherError) (\<lambda>e. act_return r))"

definition context_message_empty :: "context_message_log \<Rightarrow> bool" where
  "context_message_empty c \<longleftrightarrow> cl_dbSession c = None \<and> cl_httpRequest c = None \<and> cl_httpResponse c = None
     \<and> cl_errorInfo c = None \<and> cl_taskInfo c = None"

definition safe_json_format :: "log_record \<Rightarrow> json_log" where
  "safe_json_format r =
     (let r = (if lr_levelname r = ''ERROR''
               then r\<lparr>lr_error_detail := Some \<lparr>ei_function = lr_funcName r, ei_line = lr_lineno r,
                                              ei_exceptionInfo = lr_exc_info r\<rparr>\<rparr>
               else r);
          c = \<lparr>cl_dbSession = lr_db_session r, cl_httpRequest = lr_http_request r,
               cl_httpResponse = lr_http_response r, cl_errorInfo = lr_error_detail r,
               cl_taskInfo = lr_task_detail r\<rparr>
      in \<lparr>jl_level = lr_levelname r, jl_timestamp = lr_created r,
          jl_context = lr_module r @ ''.'' @ lr_funcName r, jl_message = lr_message r,
          jl_contextMessage = (if context_message_empty c then None else Some c)\<rparr>)"

section \<open>What a task logs\<close>

lemma logging_task_context_run:
  assumes "body (s\<lparr>task_info_ctx := Some \<lparr>ti_name = tm_actor_name m, ti_id = tm_message_id m,
      ti_kwargs = (if tm_kwargs m = JNull then None else Some (tm_kwargs m)), ti_args = tm_args m\<rparr>\<rparr>) = (r, s')"
  shows "logging_task_context (Some m) body s = (r, s'\<lparr>task_info_ctx := task_info_ctx s\<rparr>)"
  using assms by (simp add: logging_task_context_def act_finally_def Let_def)

lemma tidy_logging_task_context:
  fixes body :: "('z log_env_scheme, 'a) act"
  assumes "tidy body"
  shows "tidy (logging_task_context m body)"
proof (cases m)
  case None
  then show ?thesis by (simp add: logging_task_context_def tidy_basic)
next
  case (Some msg)
  show ?thesis
    unfolding tidy_def
  proof
    fix s :: "'z log_env_scheme"
    let ?s = "s\<lparr>task_info_ctx := Some \<lparr>ti_name = tm_actor_name msg, ti_id = tm_message_id msg,
      ti_kwargs = (if tm_kwargs msg = JNull then None else Some (tm_kwargs msg)), ti_args = tm_args msg\<rparr>\<rparr>"
    obtain r s' where b: "body ?s = (r, s')" by fastforce
    have "db_session_ctx ?s = db_session_ctx s" "open_sessions ?s = open_sessions s" by simp_all
    with logging_task_context_run [of body, OF b] tidyD [OF assms b] Some
    show "db_session_ctx (snd (logging_task_context m body s)) = db_session_ctx s \<and>
      set (open_sessions (snd (logging_task_context m body s))) \<subseteq> set (open_sessions s) \<union> set_option (db_session_ctx s)"
      by simp
  qed
qed

text \<open>
  A record logged inside a task that runs in a session scope carries that task and that
  session, whatever record is logged; its JSON document has an error section exactly when
  the level is \<open>ERROR\<close>, and outside the task the context variable is what it was before.
\<close>

theorem task_records_are_labelled:
  assumes "db_session_ctx s = Some i" and "lr_error_detail r = None"
  shows "\<exists>r' c. logging_task_context (Some m) (log_record_factory r) s = (Inr r', s)
    \<and> jl_contextMessage (safe_json_format r') = Some c \<and> cl_dbSession c = Some i
    \<and> map_option ti_id (cl_taskInfo c) = Some (tm_message_id m)
    \<and> map_option ti_name (cl_taskInfo c) = Some (tm_actor_name m)
    \<and> (cl_errorInfo c \<noteq> None \<longleftrightarrow> lr_levelname r = ''ERROR'')"
proof -
  let ?t = "\<lparr>ti_name = tm_actor_name m, ti_id = tm_message_id m,
      ti_kwargs = (if tm_kwargs m = JNull then None else Some (tm_kwargs m)), ti_args = tm_args m\<rparr>"
  let ?s = "s\<lparr>task_info_ctx := Some ?t\<rparr>" and ?r = "r\<lparr>lr_db_session := Some i, lr_task_detail := Some ?t\<rparr>"
  have "log_record_factory r ?s = (Inr ?r, ?s)"
    using assms(1) by (simp add: log_record_factory_def act_catch_def act_bind_def
        get_database_session_context_def get_task_info_def)
  then have "logging_task_context (Some m) (log_record_factory r) s = (Inr ?r, ?s\<lparr>task_info_ctx := task_info_ctx s\<rparr>)"
    by (rule logging_task_context_run)
  then show ?thesis
    using assms(2) by (simp add: safe_json_format_def context_message_empty_def Let_def)
qed

definition demo_record :: log_record where
  "demo_record = \<lparr>lr_levelname = ''INFO'', lr_created = 0, lr_module = ''tasks'', lr_funcName = ''f'', lr_lineno = 1,
     lr_message = ''Downloading contract metadata'', lr_exc_info = None, lr_http_request = None,
     lr_http_response = None, lr_db_session = None, lr_task_detail = None, lr_error_detail = None\<rparr>"

lemma task_records_are_labelled_witness:
  "\<exists>r' c. logging_task_context (Some \<lparr>tm_actor_name = ''task'', tm_message_id = ''id1'', tm_kwargs = JNull, tm_args = []\<rparr>)
       (log_record_factory demo_record)
       \<lparr>db_session_ctx = Some ''s1'', open_sessions = [], uuid_count = 0, task_info_ctx = None\<rparr>
     = (Inr r', \<lparr>db_session_ctx = Some ''s1'', open_sessions = [], uuid_count = 0, task_info_ctx = None\<rparr>)
   \<and> jl_contextMessage (safe_json_format r') = Some c \<and> cl_dbSession c = Some ''s1'' \<and> cl_errorInfo c = None"
  using task_records_are_labelled [of "\<lparr>db_session_ctx = Some ''s1'', open_sessions = [], uuid_count = 0, task_info_ctx = None\<rparr>"
      "''s1''" demo_record "\<lparr>tm_actor_name = ''task'', tm_message_id = ''id1'', tm_kwargs = JNull, tm_args = []\<rparr>"]
  by (auto simp: demo_record_def)

end
