(* ===== verification/Tasks.thy ===== *)
theory Tasks
  imports Safe_Logger Metadata Redis_Cache Safe_Contracts
begin

text \<open>
  The background tasks: \<open>app/workers/tasks.py\<close>, with \<open>should_attempt_download\<close> of
  \<open>app/services/contract_metadata_service.py\<close>, which is the part of that service that uses
  Redis. The state of a worker joins the context variables, the database, Redis, the
  services' own state and the messages sent to the broker. Every use of the database first
  uses the session of the current scope, so an access outside a scope raises.
\<close>

section \<open>The worker\<close>

datatype task_call =
    GetContractMetadata (tc_address: string) (tc_chain_id: int) (tc_skip_attempt_download: bool)
  | CreateSafeContracts (tc_chain_id: int)

record ('r, 'cl) sys = log_env +
  sys_db :: db
  sys_redis :: 'r
  sys_metadata :: "'cl metadata_service"
  sys_safe_cache :: "int set"
  sys_sent :: "task_call list"

text \<open>What the worker is configured with: packages, services and settings.\<close>

record ('r, 'cl) world =
  w_uuid :: "nat \<Rightarrow> string"
  w_eth :: eth_lib
  w_hash :: "json \<Rightarrow> bytes"
  w_explorers :: "'cl explorers"
  w_clients :: client_settings
  w_redis :: "'r redis"
  w_deployments :: deployments
  w_trusted :: "string set"
  CONTRACT_MAX_DOWNLOAD_RETRIES :: int

definition on_db :: "(db, 'a) act \<Rightarrow> (('r, 'cl) sys, 'a) act" where
  "on_db m = act_bind db_session_use (\<lambda>_. act_zoom sys_db (\<lambda>d s. s\<lparr>sys_db := d\<rparr>) m)"

definition on_redis :: "('r, 'a) act \<Rightarrow> (('r, 'cl) sys, 'a) act" where
  "on_redis = act_zoom sys_redis (\<lambda>r s. s\<lparr>sys_redis := r\<rparr>)"

definition on_metadata :: "('cl metadata_service, 'a) act \<Rightarrow> (('r, 'cl) sys, 'a) act" where
  "on_metadata = act_zoom sys_metadata (\<lambda>x s. s\<lparr>sys_metadata := x\<rparr>)"

definition on_safe_cache :: "(int set, 'a) act \<Rightarrow> (('r, 'cl) sys, 'a) act" where
  "on_safe_cache = act_zoom sys_safe_cache (\<lambda>x s. s\<lparr>sys_safe_cache := x\<rparr>)"

definition send :: "task_call \<Rightarrow> (('r, 'cl) sys, unit) act" where
  "send t = act_modify (\<lambda>s. s\<lparr>sys_sent := sys_sent s @ [t]\<rparr>)"

section \<open>Whether a download should be attempted\<close>

definition SHOULD_ATTEMPT_DOWNLOAD_CACHE_TTL :: int where
  "SHOULD_ATTEMPT_DOWNLOAD_CACHE_TTL = 24 * 60 * 60"

definition should_attempt_key :: "string \<Rightarrow> int \<Rightarrow> int \<Rightarrow> string" where
  "should_attempt_key contract_address chain_id max_retries =
     ''should_attempt_download:'' @ contract_address @ '':'' @ str_int chain_id @ '':'' @ str_int max_retries"

text \<open>\<open>contract and (contract.fetch_retries > max_retries or contract.abi_id)\<close>\<close>

definition download_settled :: "contract option \<Rightarrow> int \<Rightarrow> bool" where
  "download_settled c max_retries =
     (case c of
        None \<Rightarrow> False
      | Some c \<Rightarrow> c_fetch_retries c > max_retries \<or> (case c_abi_id c of None \<Rightarrow> False | Some i \<Rightarrow> i \<noteq> 0))"

definition should_attempt_download ::
    "('r, 'cl) world \<Rightarrow> string \<Rightarrow> int \<Rightarrow> int \<Rightarrow> (('r, 'cl) sys, bool) act" where
  "should_attempt_download W contract_address chain_id max_retries =
     (let cache_key = should_attempt_key contract_address chain_id max_retries in
      act_bind act_get (\<lambda>s.
        case redis_get (w_redis W) (sys_redis s) cache_key of
          Some cached_retries \<Rightarrow> act_bind (act_lift (int_of_str cached_retries)) (\<lambda>i. act_return (i \<noteq> 0))
        | None \<Rightarrow>
            act_bind (act_lift (hex_bytes (w_eth W) contract_address)) (\<lambda>address.
            act_bind (on_db (act_bind act_get (\<lambda>d. act_return (get_contract address chain_id d)))) (\<lambda>c.
              if download_settled c max_retries
              then act_bind (on_redis (act_modify (\<lambda>r.
                     redis_set (w_redis W) r cache_key ''0'' SHOULD_ATTEMPT_DOWNLOAD_CACHE_TTL))) (\<lambda>_.
                   act_return False)
              else act_return True))))"

section \<open>The tasks\<close>

definition download_metadata :: "('r, 'cl) world \<Rightarrow> string \<Rightarrow> int \<Rightarrow> (('r, 'cl) sys, unit) act" where
  "download_metadata W address chain_id =
     act_bind (act_lift (to_checksum_address (w_eth W) address)) (\<lambda>checksummed.
     act_bind (on_metadata (get_contract_metadata (w_explorers W) (w_clients W) checksummed chain_id)) (\<lambda>metadata.
     act_bind (on_db (process_contract_metadata (w_eth W) (w_hash W) metadata)) (\<lambda>result.
     act_bind (if result then on_redis (del_contract_cache (w_redis W) address) else act_return ()) (\<lambda>_.
     act_bind (act_lift (get_proxy_implementation_address (w_eth W) metadata)) (\<lambda>proxy.
       case proxy of
         None \<Rightarrow> act_return ()
       | Some implementation \<Rightarrow> send (GetContractMetadata implementation chain_id False))))))"

definition get_contract_metadata_task ::
    "('r, 'cl) world \<Rightarrow> task_message option \<Rightarrow> string \<Rightarrow> int \<Rightarrow> bool \<Rightarrow> (('r, 'cl) sys, unit) act" where
  "get_contract_metadata_task W message address chain_id skip_attempt_download =
     db_session_context (w_uuid W) (logging_task_context message (
       act_bind (with_db_session_context (w_uuid W) None
           (if skip_attempt_download then act_return True
            else should_attempt_download W address chain_id 0)) (\<lambda>should_download.
         if should_download then download_metadata W address chain_id else act_return ())))"

definition send_all_skipping :: "('r, 'cl) world \<Rightarrow> contract list \<Rightarrow> (('r, 'cl) sys, unit) act" where
  "send_all_skipping W cs =
     act_bind (act_map (\<lambda>c. send (GetContractMetadata (hex_str (w_eth W) (c_address c)) (c_chain_id c) True)) cs)
       (\<lambda>_. act_return ())"

definition get_missing_contract_metadata_task ::
    "('r, 'cl) world \<Rightarrow> task_message option \<Rightarrow> (('r, 'cl) sys, unit) act" where
  "get_missing_contract_metadata_task W message =
     db_session_context (w_uuid W) (logging_task_context message (
       act_bind (on_db (act_bind act_get (\<lambda>d.
           act_return (get_contracts_without_abi (CONTRACT_MAX_DOWNLOAD_RETRIES W) d)))) (send_all_skipping W)))"

definition update_proxies_task :: "('r, 'cl) world \<Rightarrow> task_message option \<Rightarrow> (('r, 'cl) sys, unit) act" where
  "update_proxies_task W message =
     db_session_context (w_uuid W) (logging_task_context message (
       act_bind (on_db (act_bind act_get (\<lambda>d. act_return (get_proxy_contracts d)))) (send_all_skipping W)))"

definition update_safe_contracts_info_task ::
    "('r, 'cl) world \<Rightarrow> task_message option \<Rightarrow> (('r, 'cl) sys, unit) act" where
  "update_safe_contracts_info_task W message =
     db_session_context (w_uuid W) (logging_task_context message
       (on_db (update_safe_contracts_info (w_eth W) (w_deployments W) (w_trusted W))))"

definition create_lock_key :: "int \<Rightarrow> string" where
  "create_lock_key chain_id = ''lock:create_safe_contracts:'' @ str_int chain_id"

definition acquire_create_lock :: "'r redis \<Rightarrow> int \<Rightarrow> ('r, bool) act" where
  "acquire_create_lock R chain_id r =
     (case redis_set_nx R r (create_lock_key chain_id) ''1'' 300 of (acquired, r') \<Rightarrow> (Inr acquired, r'))"

definition release_create_lock :: "'r redis \<Rightarrow> int \<Rightarrow> ('r, unit) act" where
  "release_create_lock R chain_id = act_modify (\<lambda>r. redis_delete R r (create_lock_key chain_id))"

definition create_safe_contracts_task_for_new_chains ::
    "('r, 'cl) world \<Rightarrow> task_message option \<Rightarrow> int \<Rightarrow> (('r, 'cl) sys, unit) act" where
  "create_safe_contracts_task_for_new_chains W message chain_id =
     db_session_context (w_uuid W) (logging_task_context message (
       act_bind (on_redis (acquire_create_lock (w_redis W) chain_id)) (\<lambda>lock_acquired.
         if \<not> lock_acquired then act_return ()
         else act_finally
           (act_bind (on_db (create_safe_contracts (w_eth W) (w_deployments W) (w_trusted W) chain_id))
              (\<lambda>_. act_return ()))
           (on_redis (release_create_lock (w_redis W) chain_id)))))"

section \<open>Tasks leak nothing\<close>

lemma tidy_parts: "tidy (on_db m)" "tidy (on_redis n)" "tidy (on_metadata k)" "tidy (on_safe_cache l)" "tidy (send t)"
  unfolding on_db_def on_redis_def on_metadata_def on_safe_cache_def
  by (intro tidy_bind tidy_use tidy_zoom; simp)+ (simp add: tidy_def send_def)

lemma tidy_if: "tidy m \<Longrightarrow> tidy n \<Longrightarrow> tidy (if b then m else n)"
  by simp

lemma tidy_cases: "tidy m \<Longrightarrow> (\<And>a. tidy (k a)) \<Longrightarrow> tidy (case x of None \<Rightarrow> m | Some a \<Rightarrow> k a)"
  by (simp split: option.splits)

lemma tidy_map: "(\<And>x. tidy (k x)) \<Longrightarrow> tidy (act_map k xs)"
  by (induction xs) (simp_all add: tidy_basic tidy_bind)

lemma tidy_finally:
  assumes "tidy m" and "tidy n"
  shows "tidy (act_finally m n)"
proof (unfold tidy_def, intro allI)
  fix s
  obtain r s1 where m: "m s = (r, s1)" by fastforce
  obtain q s2 where n: "n s1 = (q, s2)" by fastforce
  have "snd (act_finally m n s) = s2" using m n by (simp add: act_finally_state)
  with tidyD [OF assms(1) m] tidyD [OF assms(2) n]
  show "db_session_ctx (snd (act_finally m n s)) = db_session_ctx s \<and>
    set (open_sessions (snd (act_finally m n s))) \<subseteq> set (open_sessions s) \<union> set_option (db_session_ctx s)" by auto
qed

lemmas tidy_rules = tidy_basic tidy_bind tidy_if tidy_cases tidy_map tidy_finally tidy_parts tidy_context
  tidy_logging_task_context

lemma tidy_tasks:
  "tidy (get_contract_metadata_task W message address chain_id skip)"
  "tidy (get_missing_contract_metadata_task W message)"
  "tidy (update_proxies_task W message)"
  "tidy (update_safe_contracts_info_task W message)"
  "tidy (create_safe_contracts_task_for_new_chains W message chain_id)"
  unfolding get_contract_metadata_task_def get_missing_contract_metadata_task_def update_proxies_task_def
    update_safe_contracts_info_task_def create_safe_contracts_task_for_new_chains_def db_session_context_def
    should_attempt_download_def download_metadata_def send_all_skipping_def Let_def
  by (intro tidy_rules)+


section \<open>Running inside the task's scope\<close>

text \<open>The state in which the body of a task starts: a fresh session scope and the task's label.\<close>

definition task_state :: "('r, 'cl) world \<Rightarrow> task_message \<Rightarrow> ('r, 'cl) sys \<Rightarrow> ('r, 'cl) sys" where
  "task_state W m s = s\<lparr>uuid_count := uuid_count s + 1, db_session_ctx := Some (w_uuid W (uuid_count s)),
     task_info_ctx := Some \<lparr>ti_name = tm_actor_name m, ti_id = tm_message_id m,
       ti_kwargs = (if tm_kwargs m = JNull then None else Some (tm_kwargs m)), ti_args = tm_args m\<rparr>\<rparr>"

abbreviation effects :: "('r, 'cl) sys \<Rightarrow> db \<times> 'r \<times> 'cl metadata_service \<times> int set \<times> task_call list" where
  "effects s \<equiv> (sys_db s, sys_redis s, sys_metadata s, sys_safe_cache s, sys_sent s)"

lemma task_state_effects [simp]:
  "sys_db (task_state W m s) = sys_db s" "sys_redis (task_state W m s) = sys_redis s"
  "sys_metadata (task_state W m s) = sys_metadata s" "sys_safe_cache (task_state W m s) = sys_safe_cache s"
  "sys_sent (task_state W m s) = sys_sent s"
  by (simp_all add: task_state_def)

lemma task_state_ctx [simp]: "db_session_ctx (task_state W m s) = Some (w_uuid W (uuid_count s))"
  by (simp add: task_state_def)

lemma task_run:
  fixes body :: "(('r, 'cl) sys, 'a) act"
  assumes t: "tidy body" and b: "body (task_state W m s) = (r, s2)"
  obtains s' where "db_session_context (w_uuid W) (logging_task_context (Some m) body) s = (r, s')"
    "effects s' = effects s2"
proof -
  let ?i = "w_uuid W (uuid_count s)"
  let ?s1 = "s\<lparr>uuid_count := uuid_count s + 1\<rparr>" and ?body = "logging_task_context (Some m) body"
  have ch: "chosen_session_id (w_uuid W) None s = (Inr ?i, ?s1)"
    by (simp add: chosen_session_id_def uuid4_def)
  have "?body (?s1\<lparr>db_session_ctx := Some ?i\<rparr>) = (r, s2\<lparr>task_info_ctx := task_info_ctx s\<rparr>)"
    using logging_task_context_run [where body = body and s = "?s1\<lparr>db_session_ctx := Some ?i\<rparr>" and m = m and r = r and s' = s2] b
    by (simp add: task_state_def)
  from with_db_session_context_run [OF ch tidy_keeps [OF tidy_logging_task_context [OF t]] this]
  have "db_session_context (w_uuid W) ?body s = (r, s2\<lparr>task_info_ctx := task_info_ctx s, db_session_ctx := db_session_ctx s,
      open_sessions := filter (\<lambda>j. j \<noteq> ?i) (open_sessions s2)\<rparr>)"
    by (simp add: db_session_context_def)
  then show thesis by (rule that) simp
qed

lemma on_db_run:
  assumes "db_session_ctx s = Some i" and "m (sys_db s) = (r, d)"
  shows "on_db m s = (r, s\<lparr>open_sessions := List.insert i (open_sessions s), sys_db := d\<rparr>)"
  using assms by (simp add: on_db_def db_session_use_def act_bind_def get_database_session_context_def act_zoom_def)

lemma act_map_send:
  "act_map (\<lambda>c. send (f c)) cs s = (Inr (map (\<lambda>_. ()) cs), s\<lparr>sys_sent := sys_sent s @ map f cs\<rparr>)"
  by (induction cs arbitrary: s) (simp_all add: act_bind_def send_def)

text \<open>
  The nightly task asks for exactly the contracts that have no ABI and at most
  \<open>CONTRACT_MAX_DOWNLOAD_RETRIES\<close> retries, one message each in the order of the query, with
  the first-attempt check switched off; it changes nothing else. The daily proxy task does
  the same for the contracts with an implementation.
\<close>

theorem nightly_tasks_enqueue:
  "(\<exists>s'. get_missing_contract_metadata_task W (Some m) s = (Inr (), s')
     \<and> effects s' = (sys_db s, sys_redis s, sys_metadata s, sys_safe_cache s,
         sys_sent s @ map (\<lambda>c. GetContractMetadata (hex_str (w_eth W) (c_address c)) (c_chain_id c) True)
           (filter (\<lambda>c. c_abi_id c = None \<and> c_fetch_retries c \<le> CONTRACT_MAX_DOWNLOAD_RETRIES W)
              (db_contracts (sys_db s)))))
   \<and> (\<exists>s'. update_proxies_task W (Some m) s = (Inr (), s')
     \<and> effects s' = (sys_db s, sys_redis s, sys_metadata s, sys_safe_cache s,
         sys_sent s @ map (\<lambda>c. GetContractMetadata (hex_str (w_eth W) (c_address c)) (c_chain_id c) True)
           (filter (\<lambda>c. c_implementation c \<noteq> None) (db_contracts (sys_db s)))))"
proof -
  let ?body = "\<lambda>q. act_bind (on_db (act_bind act_get (\<lambda>d. act_return (q d)))) (send_all_skipping W)"
  let ?msg = "\<lambda>c. GetContractMetadata (hex_str (w_eth W) (c_address c)) (c_chain_id c) True"
  have *: "\<exists>s'. db_session_context (w_uuid W) (logging_task_context (Some m) (?body q)) s = (Inr (), s')
      \<and> effects s' = (sys_db s, sys_redis s, sys_metadata s, sys_safe_cache s, sys_sent s @ map ?msg (q (sys_db s)))" for q
  proof -
    let ?s = "task_state W m s"
    have t: "tidy (?body q)" unfolding send_all_skipping_def by (intro tidy_rules)
    have "?body q ?s = (Inr (), ?s\<lparr>open_sessions := List.insert (w_uuid W (uuid_count s)) (open_sessions ?s),
        sys_db := sys_db ?s, sys_sent := sys_sent ?s @ map ?msg (q (sys_db ?s))\<rparr>)"
      using on_db_run [OF task_state_ctx, of "act_bind act_get (\<lambda>d. act_return (q d))" W m s "Inr (q (sys_db ?s))" "sys_db ?s"]
      by (simp add: act_bind_def send_all_skipping_def act_map_send)
    from task_run [OF t this] obtain s' where "db_session_context (w_uuid W) (logging_task_context (Some m) (?body q)) s = (Inr (), s')"
      "effects s' = effects (?s\<lparr>open_sessions := List.insert (w_uuid W (uuid_count s)) (open_sessions ?s),
        sys_db := sys_db ?s, sys_sent := sys_sent ?s @ map ?msg (q (sys_db ?s))\<rparr>)" .
    then show ?thesis by (intro exI [of _ s']) simp
  qed
  show ?thesis
    unfolding get_missing_contract_metadata_task_def update_proxies_task_def
    using * [of "get_contracts_without_abi (CONTRACT_MAX_DOWNLOAD_RETRIES W)"] * [of get_proxy_contracts]
    by (simp add: get_contracts_without_abi_def get_proxy_contracts_def)
qed


section \<open>A contract is downloaded once\<close>

lemma values_okD:
  assumes "values_ok R"
  shows "0 < ex \<Longrightarrow> redis_get R (redis_set R s k v ex) k' = (if k' = k then Some v else redis_get R s k')"
    and "0 < ex \<Longrightarrow> redis_ttl R (redis_set R s k v ex) k' = (if k' = k then ex else redis_ttl R s k')"
    and "0 < ex \<Longrightarrow> redis_set_nx R s k v ex = (if redis_exists R s k then (False, s) else (True, redis_set R s k v ex))"
    and "redis_get R (redis_delete R s k) k' = (if k' = k then None else redis_get R s k')"
    and "redis_ttl R (redis_delete R s k) k' = (if k' = k then -2 else redis_ttl R s k')"
    and "redis_exists R s k \<longleftrightarrow> redis_ttl R s k \<noteq> -2"
    and "redis_ttl R s k = -2 \<Longrightarrow> redis_get R s k = None"
    and "redis_ttl R (redis_pass R n s) k = (if redis_ttl R s k < 0 then redis_ttl R s k
           else if redis_ttl R s k \<le> int n then -2 else redis_ttl R s k - int n)"
  using assms unfolding values_ok_def by simp_all

text \<open>The answer of \<open>should_attempt_download\<close> for a first attempt.\<close>

definition first_attempt :: "('r, 'cl) world \<Rightarrow> bytes \<Rightarrow> string \<Rightarrow> int \<Rightarrow> ('r, 'cl) sys \<Rightarrow> bool" where
  "first_attempt W a address i s \<longleftrightarrow> redis_get (w_redis W) (sys_redis s) (should_attempt_key address i 0) = None
     \<and> \<not> download_settled (get_contract a i (sys_db s)) 0"

text \<open>The only value \<open>should_attempt_download\<close> ever stores under its keys is 0.\<close>

definition attempt_cache_ok :: "('r, 'cl) world \<Rightarrow> string \<Rightarrow> int \<Rightarrow> ('r, 'cl) sys \<Rightarrow> bool" where
  "attempt_cache_ok W address i s \<longleftrightarrow>
     redis_get (w_redis W) (sys_redis s) (should_attempt_key address i 0) \<in> {None, Some ''0''}"

lemma int_of_zero: "int_of_str ''0'' = Inr 0"
  by code_simp

lemma should_attempt_run:
  assumes R: "values_ok (w_redis W)" and ctx: "db_session_ctx s = Some j"
    and a: "hex_bytes (w_eth W) address = Inr a" and c: "attempt_cache_ok W address i s"
  obtains s' where "should_attempt_download W address i 0 s
      = (Inr (first_attempt W a address i s), s')"
    "sys_db s' = sys_db s" "sys_metadata s' = sys_metadata s" "sys_sent s' = sys_sent s" "attempt_cache_ok W address i s'"
    "first_attempt W a address i s' \<longrightarrow> first_attempt W a address i s"
proof (cases "redis_get (w_redis W) (sys_redis s) (should_attempt_key address i 0)")
  case (Some v)
  then have "v = ''0''" using c by (simp add: attempt_cache_ok_def)
  then show thesis using Some c int_of_zero
    by (intro that [of s]) (simp_all add: should_attempt_download_def first_attempt_def Let_def)
next
  case None
  let ?s1 = "s\<lparr>open_sessions := List.insert j (open_sessions s), sys_db := sys_db s\<rparr>"
  let ?s2 = "?s1\<lparr>sys_redis := redis_set (w_redis W) (sys_redis s) (should_attempt_key address i 0) ''0''
      SHOULD_ATTEMPT_DOWNLOAD_CACHE_TTL\<rparr>"
  have db: "on_db (act_bind act_get (\<lambda>d. act_return (get_contract a i d))) s = (Inr (get_contract a i (sys_db s)), ?s1)"
    by (rule on_db_run [OF ctx]) simp
  have "0 < SHOULD_ATTEMPT_DOWNLOAD_CACHE_TTL" by (simp add: SHOULD_ATTEMPT_DOWNLOAD_CACHE_TTL_def)
  then have "attempt_cache_ok W address i ?s2" by (simp add: attempt_cache_ok_def values_okD(1) [OF R])
  then show thesis using None db a c
    by (intro that [of "if download_settled (get_contract a i (sys_db s)) 0 then ?s2 else ?s1"])
      (auto simp: should_attempt_download_def Let_def act_bind_def on_redis_def act_zoom_def attempt_cache_ok_def first_attempt_def)
qed

lemma attempt_in_scope:
  fixes s :: "('r, 'cl) sys" and W :: "('r, 'cl) world"
  assumes R: "values_ok (w_redis W)" and a: "hex_bytes (w_eth W) address = Inr a" and c: "attempt_cache_ok W address i s"
  obtains s' where "with_db_session_context (w_uuid W) None (should_attempt_download W address i 0) s
      = (Inr (first_attempt W a address i s), s')"
    "db_session_ctx s' = db_session_ctx s"
    "sys_db s' = sys_db s" "sys_metadata s' = sys_metadata s" "sys_sent s' = sys_sent s" "attempt_cache_ok W address i s'"
    "first_attempt W a address i s' \<longrightarrow> first_attempt W a address i s"
proof -
  let ?i = "w_uuid W (uuid_count s)" and ?s1 = "s\<lparr>uuid_count := uuid_count s + 1\<rparr>"
  have ch: "chosen_session_id (w_uuid W) None s = (Inr ?i, ?s1)" by (simp add: chosen_session_id_def uuid4_def)
  have t: "tidy (should_attempt_download W address i 0)"
    unfolding should_attempt_download_def Let_def by (intro tidy_rules)
  have c1: "attempt_cache_ok W address i (?s1\<lparr>db_session_ctx := Some ?i\<rparr>)" using c by (simp add: attempt_cache_ok_def)
  obtain s' where r: "should_attempt_download W address i 0 (?s1\<lparr>db_session_ctx := Some ?i\<rparr>)
      = (Inr (first_attempt W a address i s), s')"
    "sys_db s' = sys_db s" "sys_metadata s' = sys_metadata s" "sys_sent s' = sys_sent s" "attempt_cache_ok W address i s'"
    "first_attempt W a address i s' \<longrightarrow> first_attempt W a address i s"
    by (rule should_attempt_run [OF R _ a c1]) (auto simp: first_attempt_def)
  from with_db_session_context_run [OF ch tidy_keeps [OF t] r(1)] r(2-6) show thesis
    by (intro that) (assumption, simp_all add: attempt_cache_ok_def first_attempt_def)
qed

lemma enabled_clients_address:
  "get_contract_metadata X cfg address i s = (Inr em, s') \<Longrightarrow> em_address em = address \<and> em_chain_id em = i"
  by (auto simp: get_contract_metadata_def act_bind_Inr_iff dest!: try_clients_Inr)

lemma should_attempt_not_contract: "should_attempt_key address i n \<noteq> get_key_for_contract b"
  by (simp add: should_attempt_key_def get_key_for_contract_def)

text \<open>A download that returned: what it asked, what it stored, and what it left in Redis.\<close>

lemma download_run:
  assumes ctx: "db_session_ctx s = Some j" and run: "download_metadata W address i s = (Inr (), s')"
  obtains y em x b where "to_checksum_address (w_eth W) address = Inr y"
    "get_contract_metadata (w_explorers W) (w_clients W) y i (sys_metadata s) = (Inr em, x)"
    "em_address em = y" "em_chain_id em = i"
    "process_contract_metadata (w_eth W) (w_hash W) em (sys_db s) = (Inr b, sys_db s')"
    "sys_redis s' = (if b then redis_delete (w_redis W) (sys_redis s) (get_key_for_contract address) else sys_redis s)"
proof -
  from run obtain y em s1 b s2 s3 p where y: "to_checksum_address (w_eth W) address = Inr y"
    and em: "on_metadata (get_contract_metadata (w_explorers W) (w_clients W) y i) s = (Inr em, s1)"
    and pr: "on_db (process_contract_metadata (w_eth W) (w_hash W) em) s1 = (Inr b, s2)"
    and del: "(if b then on_redis (del_contract_cache (w_redis W) address) else act_return ()) s2 = (Inr (), s3)"
    and snd: "(case p of None \<Rightarrow> act_return () | Some x \<Rightarrow> send (GetContractMetadata x i False)) s3 = (Inr (), s')"
    unfolding download_metadata_def
    by (auto simp: act_bind_Inr_iff)
  obtain x where em': "get_contract_metadata (w_explorers W) (w_clients W) y i (sys_metadata s) = (Inr em, x)"
    and s1: "s1 = s\<lparr>sys_metadata := x\<rparr>"
    using em by (auto simp: on_metadata_def act_zoom_def split: prod.splits)
  obtain d where d: "process_contract_metadata (w_eth W) (w_hash W) em (sys_db s) = (Inr b, d)"
    and s2: "sys_db s2 = d" "sys_redis s2 = sys_redis s"
  proof -
    obtain q d where q: "process_contract_metadata (w_eth W) (w_hash W) em (sys_db s1) = (q, d)" by fastforce
    with on_db_run [where m = "process_contract_metadata (w_eth W) (w_hash W) em", OF _ q] ctx pr s1 that [of d]
    show thesis by auto
  qed
  have "sys_db s3 = d" "sys_redis s3
      = (if b then redis_delete (w_redis W) (sys_redis s) (get_key_for_contract address) else sys_redis s)"
    using del s2 by (auto simp: on_redis_def act_zoom_def del_contract_cache_def split: if_splits)
  then show thesis
    using that [OF y em'] enabled_clients_address [OF em'] d snd by (auto simp: send_def split: option.splits)
qed

lemma download_settles:
  assumes R: "values_ok (w_redis W)" and ok: "db_ok (w_hash W) (sys_db s)" and ctx: "db_session_ctx s = Some j"
    and law: "\<And>y. to_checksum_address (w_eth W) address = Inr y \<Longrightarrow> hex_bytes (w_eth W) y = Inr a"
    and nonneg: "\<And>c. get_contract a i (sys_db s) = Some c \<Longrightarrow> 0 \<le> c_fetch_retries c"
    and c: "attempt_cache_ok W address i s" and run: "download_metadata W address i s = (Inr (), s')"
  shows "download_settled (get_contract a i (sys_db s')) 0 \<and> attempt_cache_ok W address i s'"
proof -
  obtain y em x b where y: "to_checksum_address (w_eth W) address = Inr y"
    and e: "em_address em = y" "em_chain_id em = i"
    and d: "process_contract_metadata (w_eth W) (w_hash W) em (sys_db s) = (Inr b, sys_db s')"
    and r: "sys_redis s' = (if b then redis_delete (w_redis W) (sys_redis s) (get_key_for_contract address) else sys_redis s)"
    by (rule download_run [OF ctx run])
  obtain c0 where "get_contract a i (sys_db s') = Some c0" "0 < c_fetch_retries c0 \<or> (\<exists>n>0. c_abi_id c0 = Some n)"
    using process_settles [OF ok _ d] law [OF y] nonneg e by metis
  moreover have "attempt_cache_ok W address i s'"
    using c r should_attempt_not_contract [of address i 0 address] values_okD(4) [OF R] by (auto simp: attempt_cache_ok_def)
  ultimately show ?thesis by (auto simp: download_settled_def)
qed

text \<open>The body of the task without the skip flag.\<close>

abbreviation first_download :: "('r, 'cl) world \<Rightarrow> string \<Rightarrow> int \<Rightarrow> (('r, 'cl) sys, unit) act" where
  "first_download W address i \<equiv>
     act_bind (with_db_session_context (w_uuid W) None (should_attempt_download W address i 0)) (\<lambda>should_download.
       if should_download then download_metadata W address i else act_return ())"

lemma first_task: "get_contract_metadata_task W (Some m) address i False
    = db_session_context (w_uuid W) (logging_task_context (Some m) (first_download W address i))"
  by (simp add: get_contract_metadata_task_def)

lemma tidy_first: "tidy (first_download W address i)"
  unfolding should_attempt_download_def download_metadata_def Let_def by (intro tidy_rules)

lemma first_attempt_state [simp]:
  "first_attempt W a address i (task_state W m s) = first_attempt W a address i s"
  "attempt_cache_ok W address i (task_state W m s) = attempt_cache_ok W address i s"
  by (simp_all add: first_attempt_def attempt_cache_ok_def)

lemma first_run_settles:
  assumes R: "values_ok (w_redis W)" and ok: "db_ok (w_hash W) (sys_db s)"
    and a: "hex_bytes (w_eth W) address = Inr a"
    and law: "\<And>y. to_checksum_address (w_eth W) address = Inr y \<Longrightarrow> hex_bytes (w_eth W) y = Inr a"
    and nonneg: "\<And>c. get_contract a i (sys_db s) = Some c \<Longrightarrow> 0 \<le> c_fetch_retries c"
    and c: "attempt_cache_ok W address i s"
    and first: "get_contract_metadata_task W (Some m) address i False s = (Inr (), s1)"
  shows "\<not> first_attempt W a address i s1 \<and> attempt_cache_ok W address i s1"
proof -
  obtain q b where b: "first_download W address i (task_state W m s) = (q, b)" by fastforce
  obtain s2 where "get_contract_metadata_task W (Some m) address i False s = (q, s2)" "effects s2 = effects b"
    unfolding first_task by (rule task_run [OF tidy_first b])
  with first have e: "q = Inr ()" "effects s1 = effects b" by simp_all
  have c': "attempt_cache_ok W address i (task_state W m s)" using c by simp
  obtain t where t: "with_db_session_context (w_uuid W) None (should_attempt_download W address i 0) (task_state W m s)
      = (Inr (first_attempt W a address i (task_state W m s)), t)"
    "db_session_ctx t = db_session_ctx (task_state W m s)" "sys_db t = sys_db (task_state W m s)"
    "sys_metadata t = sys_metadata (task_state W m s)" "sys_sent t = sys_sent (task_state W m s)"
    "attempt_cache_ok W address i t" "first_attempt W a address i t \<longrightarrow> first_attempt W a address i (task_state W m s)"
    by (rule attempt_in_scope [OF R a c'])
  have "\<not> first_attempt W a address i b \<and> attempt_cache_ok W address i b"
  proof (cases "first_attempt W a address i s")
    case True
    then have run: "download_metadata W address i t = (Inr (), b)" using b t(1) e(1) by (simp add: act_bind_def)
    have "db_session_ctx t = Some (w_uuid W (uuid_count s))" using t(2) by simp
    from download_settles [OF R _ this law _ t(6) run] ok nonneg t(3) show ?thesis by (simp add: first_attempt_def)
  next
    case False
    then have "b = t" using b t(1) by (simp add: act_bind_def)
    with False t(6,7) show ?thesis by simp
  qed
  then show ?thesis using e(2) by (simp add: first_attempt_def attempt_cache_ok_def)
qed

lemma settled_run_idles:
  assumes R: "values_ok (w_redis W)" and a: "hex_bytes (w_eth W) address = Inr a"
    and settled: "\<not> first_attempt W a address i s" "attempt_cache_ok W address i s"
    and run: "get_contract_metadata_task W (Some m) address i False s = (r, s')"
  shows "r = Inr () \<and> sys_db s' = sys_db s \<and> sys_metadata s' = sys_metadata s \<and> sys_sent s' = sys_sent s"
proof -
  have c: "attempt_cache_ok W address i (task_state W m s)" using settled by simp
  obtain t where t: "with_db_session_context (w_uuid W) None (should_attempt_download W address i 0) (task_state W m s)
      = (Inr (first_attempt W a address i (task_state W m s)), t)"
    "sys_db t = sys_db (task_state W m s)" "sys_metadata t = sys_metadata (task_state W m s)"
    "sys_sent t = sys_sent (task_state W m s)"
    by (rule attempt_in_scope [OF R a c])
  have "first_download W address i (task_state W m s) = (Inr (), t)" using t(1) settled(1) by (simp add: act_bind_def)
  from task_run [OF tidy_first this] obtain s2 where "get_contract_metadata_task W (Some m) address i False s = (Inr (), s2)"
    "effects s2 = effects t" unfolding first_task .
  with run t(2-4) show ?thesis by simp
qed

text \<open>
  C30. An event downloads a contract at most once: after a run of the task without the
  skip flag that returned, whether it downloaded something, failed to, or found the contract
  settled, another run for the same contract asks no explorer, writes no row and sends no
  message. Only the nightly tasks, which set the skip flag, try again.
\<close>

theorem download_happens_once:
  assumes R: "values_ok (w_redis W)" and ok: "db_ok (w_hash W) (sys_db s)"
    and a: "hex_bytes (w_eth W) address = Inr a"
    and law: "\<And>y. to_checksum_address (w_eth W) address = Inr y \<Longrightarrow> hex_bytes (w_eth W) y = Inr a"
    and nonneg: "\<And>c. get_contract a i (sys_db s) = Some c \<Longrightarrow> 0 \<le> c_fetch_retries c"
    and c: "attempt_cache_ok W address i s"
    and first: "get_contract_metadata_task W (Some m) address i False s = (Inr (), s1)"
    and again: "get_contract_metadata_task W (Some m') address i False s1 = (r, s2)"
  shows "r = Inr () \<and> sys_db s2 = sys_db s1 \<and> sys_metadata s2 = sys_metadata s1 \<and> sys_sent s2 = sys_sent s1"
proof -
  have "\<not> first_attempt W a address i s1" "attempt_cache_ok W address i s1"
    using first_run_settles [OF R ok a law nonneg c first] by simp_all
  from settled_run_idles [OF R a this again] show ?thesis .
qed

section \<open>The lock of the creation task\<close>

lemma acquire_run:
  "values_ok R \<Longrightarrow> acquire_create_lock R i r =
    (if redis_exists R r (create_lock_key i) then (Inr False, r)
     else (Inr True, redis_set R r (create_lock_key i) ''1'' 300))"
  by (simp add: acquire_create_lock_def values_okD(3))

text \<open>
  C36. The task that creates the Safe contracts of a chain excludes itself: while the chain's
  lock exists it changes nothing. Without the lock it does what \<open>create_safe_contracts\<close> does
  to the database, and whether that returns or raises, the outcome is passed on and the
  lock does not exist afterwards.
\<close>

theorem create_lock_excludes:
  assumes R: "values_ok (w_redis W)"
    and run: "create_safe_contracts_task_for_new_chains W (Some m) i s = (res, s')"
    and create: "create_safe_contracts (w_eth W) (w_deployments W) (w_trusted W) i (sys_db s) = (r, d)"
  shows "if redis_exists (w_redis W) (sys_redis s) (create_lock_key i)
     then res = Inr () \<and> effects s' = effects s
     else res = (case r of Inl e \<Rightarrow> Inl e | Inr n \<Rightarrow> Inr ()) \<and> sys_db s' = d
       \<and> \<not> redis_exists (w_redis W) (sys_redis s') (create_lock_key i)"
proof -
  let ?R = "w_redis W" and ?k = "create_lock_key i" and ?s = "task_state W m s"
  let ?create = "create_safe_contracts (w_eth W) (w_deployments W) (w_trusted W) i"
  let ?body = "act_bind (on_redis (acquire_create_lock ?R i)) (\<lambda>lock_acquired.
         if \<not> lock_acquired then act_return ()
         else act_finally (act_bind (on_db ?create) (\<lambda>_. act_return ())) (on_redis (release_create_lock ?R i)))"
  have t: "tidy ?body" by (intro tidy_rules)
  have acq: "on_redis (acquire_create_lock ?R i) ?s = (if redis_exists ?R (sys_redis s) ?k then (Inr False, ?s)
      else (Inr True, ?s\<lparr>sys_redis := redis_set ?R (sys_redis s) ?k ''1'' 300\<rparr>))"
    by (simp add: on_redis_def act_zoom_def acquire_run [OF R])
  show ?thesis
  proof (cases "redis_exists ?R (sys_redis s) ?k")
    case True
    then have "?body ?s = (Inr (), ?s)" using acq by (simp add: act_bind_def)
    from task_run [OF t this] obtain s2 where "db_session_context (w_uuid W) (logging_task_context (Some m) ?body) s = (Inr (), s2)"
      "effects s2 = effects ?s" .
    then show ?thesis using True run by (simp add: create_safe_contracts_task_for_new_chains_def)
  next
    case False
    let ?s1 = "?s\<lparr>sys_redis := redis_set ?R (sys_redis s) ?k ''1'' 300\<rparr>"
    let ?s2 = "?s1\<lparr>open_sessions := List.insert (w_uuid W (uuid_count s)) (open_sessions ?s1), sys_db := d\<rparr>"
    have db: "on_db ?create ?s1 = (r, ?s2)" by (rule on_db_run) (simp_all add: create)
    let ?r = "case r of Inl e \<Rightarrow> Inl e | Inr n \<Rightarrow> Inr ()"
    let ?s3 = "?s2\<lparr>sys_redis := redis_delete ?R (redis_set ?R (sys_redis s) ?k ''1'' 300) ?k\<rparr>"
    have "act_finally (act_bind (on_db ?create) (\<lambda>_. act_return ())) (on_redis (release_create_lock ?R i)) ?s1 = (?r, ?s3)"
      by (simp add: act_finally_def act_bind_def db on_redis_def act_zoom_def release_create_lock_def split: sum.splits)
    then have "?body ?s = (?r, ?s3)" using acq False by (simp add: act_bind_def)
    from task_run [OF t this] obtain s4 where s4: "db_session_context (w_uuid W) (logging_task_context (Some m) ?body) s = (?r, s4)"
      "effects s4 = effects ?s3" .
    have "\<not> redis_exists ?R (sys_redis s4) ?k" using s4(2) by (simp add: values_okD(5,6) [OF R])
    then show ?thesis using False s4 run by (simp add: create_safe_contracts_task_for_new_chains_def)
  qed
qed

text \<open>
  The lock has no owner. A task that holds it for longer than its 300 seconds loses it
  to a second one, and when the first ends it deletes the lock of the second: a third task
  acquires it while the second is still running.
\<close>

theorem expired_lock_is_released_by_first_owner:
  assumes R: "values_ok R" and free: "\<not> redis_exists R r (create_lock_key i)" and n: "300 \<le> n"
    and first: "acquire_create_lock R i r = (x1, r1)"
    and second: "acquire_create_lock R i (redis_pass R n r1) = (x2, r2)"
    and release: "release_create_lock R i r2 = (x3, r3)"
  shows "x1 = Inr True \<and> x2 = Inr True \<and> fst (acquire_create_lock R i r3) = Inr True"
proof -
  have r1: "x1 = Inr True" "r1 = redis_set R r (create_lock_key i) ''1'' 300"
    using first free by (simp_all add: acquire_run [OF R])
  then have "\<not> redis_exists R (redis_pass R n r1) (create_lock_key i)"
    using n by (simp add: values_okD(2,6,8) [OF R])
  then have "x2 = Inr True" using second by (simp add: acquire_run [OF R])
  moreover have "r3 = redis_delete R r2 (create_lock_key i)" using release by (simp add: release_create_lock_def)
  then have "\<not> redis_exists R r3 (create_lock_key i)" by (simp add: values_okD(5,6) [OF R])
  ultimately show ?thesis using r1 by (simp add: acquire_run [OF R])
qed

lemma expired_lock_is_released_by_first_owner_witness:
  "\<exists>r1 x2 r2 r3. acquire_create_lock demo_redis 1 Map.empty = (Inr True, r1)
     \<and> acquire_create_lock demo_redis 1 (redis_pass demo_redis 400 r1) = (x2, r2)
     \<and> release_create_lock demo_redis 1 r2 = (Inr (), r3)
     \<and> x2 = Inr True \<and> fst (acquire_create_lock demo_redis 1 r3) = Inr True"
proof -
  obtain x1 r1 where 1: "acquire_create_lock demo_redis 1 Map.empty = (x1, r1)" by fastforce
  obtain x2 r2 where 2: "acquire_create_lock demo_redis 1 (redis_pass demo_redis 400 r1) = (x2, r2)" by fastforce
  obtain r3 where 3: "release_create_lock demo_redis 1 r2 = (Inr (), r3)" by (simp add: release_create_lock_def)
  have free: "\<not> redis_exists demo_redis Map.empty (create_lock_key 1)" by (simp add: demo_redis_def)
  from expired_lock_is_released_by_first_owner [OF demo_values_ok free _ 1 2 3] 1 2 3 show ?thesis by auto
qed

definition demo_world :: "(string \<rightharpoonup> demo_entry, string) world" where
  "demo_world = \<lparr>w_uuid = (\<lambda>n. str_int (int n)), w_eth = demo_eth, w_hash = (\<lambda>j. []), w_explorers = demo_explorers,
     w_clients = demo_client_settings, w_redis = demo_redis, w_deployments = demo_deployments,
     w_trusted = {''MultiSendCallOnly''}, CONTRACT_MAX_DOWNLOAD_RETRIES = 90\<rparr>"

definition demo_sys :: "db \<Rightarrow> (string \<rightharpoonup> demo_entry, string) sys" where
  "demo_sys d = \<lparr>db_session_ctx = None, open_sessions = [], uuid_count = 0, task_info_ctx = None, sys_db = d,
     sys_redis = Map.empty, sys_metadata = new_metadata_service ''key'', sys_safe_cache = {}, sys_sent = []\<rparr>"

definition demo_message :: task_message where
  "demo_message = \<lparr>tm_actor_name = ''task'', tm_message_id = ''id1'', tm_kwargs = JNull, tm_args = []\<rparr>"

lemma create_lock_excludes_witness:
  "\<exists>res s'. create_safe_contracts_task_for_new_chains demo_world (Some demo_message) 1 (demo_sys demo_chain_db) = (res, s')
     \<and> sys_db s' = snd (create_safe_contracts demo_eth demo_deployments {''MultiSendCallOnly''} 1 demo_chain_db)
     \<and> \<not> redis_exists demo_redis (sys_redis s') (create_lock_key 1)"
proof -
  have W: "w_redis demo_world = demo_redis" "w_eth demo_world = demo_eth" "w_deployments demo_world = demo_deployments"
    "w_trusted demo_world = {''MultiSendCallOnly''}" by (simp_all add: demo_world_def)
  have R: "values_ok (w_redis demo_world)" by (simp add: W demo_values_ok)
  obtain res s' where run: "create_safe_contracts_task_for_new_chains demo_world (Some demo_message) 1 (demo_sys demo_chain_db)
      = (res, s')" by fastforce
  obtain r d where create: "create_safe_contracts (w_eth demo_world) (w_deployments demo_world) (w_trusted demo_world) 1
      (sys_db (demo_sys demo_chain_db)) = (r, d)" by fastforce
  have "\<not> redis_exists (w_redis demo_world) (sys_redis (demo_sys demo_chain_db)) (create_lock_key 1)"
    by (simp add: W demo_sys_def demo_redis_def)
  with create_lock_excludes [OF R run create] run create show ?thesis by (simp add: W) (simp add: demo_sys_def)
qed

lemma demo_download: "fst (get_contract_metadata_task demo_world (Some demo_message) ''0xa'' 1 False (demo_sys demo_source_db)) = Inr ()"
  by code_simp

lemma download_happens_once_witness:
  "\<exists>s1 s2. get_contract_metadata_task demo_world (Some demo_message) ''0xa'' 1 False (demo_sys demo_source_db) = (Inr (), s1)
     \<and> get_contract_metadata_task demo_world (Some demo_message) ''0xa'' 1 False s1 = (Inr (), s2)
     \<and> sys_db s2 = sys_db s1 \<and> sys_metadata s2 = sys_metadata s1 \<and> sys_sent s2 = sys_sent s1"
proof -
  let ?t = "get_contract_metadata_task demo_world (Some demo_message) ''0xa'' 1 False"
  obtain s1 where first: "?t (demo_sys demo_source_db) = (Inr (), s1)"
    using demo_download by (metis prod.collapse)
  obtain r s2 where again: "?t s1 = (r, s2)" by fastforce
  have R: "values_ok (w_redis demo_world)" by (simp add: demo_world_def demo_values_ok)
  have ok: "db_ok (w_hash demo_world) (sys_db (demo_sys demo_source_db))"
    by (simp add: demo_world_def demo_sys_def demo_source_db_def db_ok_defs empty_db_def)
  have a: "hex_bytes (w_eth demo_world) ''0xa'' = Inr [97]" by (simp add: demo_world_def demo_eth_def)
  have law: "hex_bytes (w_eth demo_world) y = Inr [97]" if "to_checksum_address (w_eth demo_world) ''0xa'' = Inr y" for y
    using that a by (simp add: demo_world_def demo_eth_def)
  have none: "get_contract [97] 1 (sys_db (demo_sys demo_source_db)) = None"
    by (simp add: get_contract_def get_contracts_query_def demo_sys_def demo_source_db_def empty_db_def)
  have c: "attempt_cache_ok demo_world ''0xa'' 1 (demo_sys demo_source_db)"
    by (simp add: attempt_cache_ok_def demo_world_def demo_redis_def demo_sys_def)
  have "r = Inr () \<and> sys_db s2 = sys_db s1 \<and> sys_metadata s2 = sys_metadata s1 \<and> sys_sent s2 = sys_sent s1"
    by (rule download_happens_once [OF R ok a law _ c first again]) (simp_all add: none)
  with first again show ?thesis by auto
qed

end
