(* ===== verification/Events.thy ===== *)
theory Events
  imports Tasks Decoder
begin

text \<open>
  Transaction events: \<open>app/services/events.py\<close>. An executed transaction asks for the
  metadata of the contracts it touches and, on a new chain, for the Safe contracts of that
  chain. The state is the process state \<open>sys\<close> of the tasks; the JSON parser, the MultiSend
  parser and the iteration order of a Python set of strings are arguments.
\<close>

section \<open>The handler\<close>

record events_lib =
  json_loads :: "string \<Rightarrow> json res"
  from_transaction_data :: "bytes \<Rightarrow> multisend_tx list res"
  set_iter :: "string list \<Rightarrow> string list"

definition get_contracts_from_data :: "eth_lib \<Rightarrow> events_lib \<Rightarrow> string \<Rightarrow> string list res" where
  "get_contracts_from_data E X data =
     (if data = [] then Inr []
      else res_bind (hex_bytes E data) (\<lambda>b.
           res_bind (from_transaction_data X b) (\<lambda>txs. Inr (remdups (map tx_to txs)))))"

text \<open>A value that is not a dictionary has no \<open>get\<close>; the tests stop at the first that fails.\<close>

definition is_processable_event :: "eth_lib \<Rightarrow> json \<Rightarrow> bool res" where
  "is_processable_event E ev =
     res_bind (json_get ev ''type'' JNull) (\<lambda>event_type.
     res_bind (json_get ev ''chainId'' JNull) (\<lambda>chain_id.
     res_bind (json_get ev ''to'' JNull) (\<lambda>address.
     res_bind (json_get ev ''data'' (JInt 0)) (\<lambda>data.
       Inr (json_is_str event_type \<and> event_type = JStr ''EXECUTED_MULTISIG_TRANSACTION''
         \<and> json_is_str chain_id \<and> str_isdigit (json_str chain_id)
         \<and> (data = JNull \<or> json_is_str data)
         \<and> json_is_str address \<and> is_checksum_address E (json_str address))))))"

text \<open>The service's cache is asked first; only a chain that is not in it needs a session.\<close>

definition chain_is_complete :: "('r, 'cl) world \<Rightarrow> int \<Rightarrow> (('r, 'cl) sys, bool) act" where
  "chain_is_complete W chain_id =
     act_bind act_get (\<lambda>s.
       act_bind (if chain_id \<in> sys_safe_cache s then act_return () else db_session_use) (\<lambda>_.
         on_safe_cache (safe_contracts_exist (w_eth W) (w_deployments W) (sys_db s) chain_id)))"

definition send_contract_tasks :: "('r, 'cl) world \<Rightarrow> int \<Rightarrow> string list \<Rightarrow> (('r, 'cl) sys, unit) act" where
  "send_contract_tasks W chain_id addresses =
     act_bind (act_map (\<lambda>a. send (GetContractMetadata a chain_id False))
         (filter (\<lambda>a. a \<noteq> NULL_ADDRESS (w_eth W)) addresses)) (\<lambda>_. act_return ())"

definition process_event_data ::
    "('r, 'cl) world \<Rightarrow> events_lib \<Rightarrow> json \<Rightarrow> string \<Rightarrow> (('r, 'cl) sys, unit) act" where
  "process_event_data W X ev data =
     act_bind (act_lift (res_bind (json_item ev ''chainId'') (\<lambda>j. int_of_str (json_str j)))) (\<lambda>chain_id.
     act_bind (act_lift (json_item ev ''to'')) (\<lambda>to.
     act_bind (act_lift (get_contracts_from_data (w_eth W) X data)) (\<lambda>contracts_from_data.
     act_bind (chain_is_complete W chain_id) (\<lambda>complete.
     act_bind (if complete then act_return () else send (CreateSafeContracts chain_id)) (\<lambda>_.
       send_contract_tasks W chain_id (set_iter X (json_str to # contracts_from_data)))))))"

definition process_event_body :: "('r, 'cl) world \<Rightarrow> events_lib \<Rightarrow> string \<Rightarrow> (('r, 'cl) sys, unit) act" where
  "process_event_body W X message =
     act_catch
       (act_bind (act_lift (json_loads X message)) (\<lambda>ev.
        act_bind (act_lift (is_processable_event (w_eth W) ev)) (\<lambda>processable.
          if \<not> processable then act_return ()
          else act_bind (act_lift (json_item ev ''data'')) (\<lambda>data.
            if json_truthy data then process_event_data W X ev (json_str data) else act_return ()))))
       (\<lambda>e. e = JSONDecodeError) (\<lambda>_. act_return ())"

definition process_event :: "('r, 'cl) world \<Rightarrow> events_lib \<Rightarrow> string \<Rightarrow> (('r, 'cl) sys, unit) act" where
  "process_event W X message = db_session_context (w_uuid W) (process_event_body W X message)"

section \<open>In its scope\<close>

lemma tidy_chain_is_complete: "tidy (chain_is_complete W i)"
  unfolding chain_is_complete_def by (intro tidy_rules tidy_use)

lemma tidy_event:
  "tidy (send_contract_tasks W i as)"
  "tidy (process_event_data W X ev data)"
  "tidy (process_event_body W X message)"
  unfolding process_event_body_def process_event_data_def send_contract_tasks_def
  by (intro tidy_catch tidy_rules tidy_chain_is_complete)+

text \<open>The state in which a decorated function starts, and what it leaves.\<close>

definition scope_state :: "('r, 'cl) world \<Rightarrow> ('r, 'cl) sys \<Rightarrow> ('r, 'cl) sys" where
  "scope_state W s = s\<lparr>uuid_count := uuid_count s + 1, db_session_ctx := Some (w_uuid W (uuid_count s))\<rparr>"

lemma scope_state_effects [simp]:
  "sys_db (scope_state W s) = sys_db s" "sys_redis (scope_state W s) = sys_redis s"
  "sys_metadata (scope_state W s) = sys_metadata s" "sys_safe_cache (scope_state W s) = sys_safe_cache s"
  "sys_sent (scope_state W s) = sys_sent s" "db_session_ctx (scope_state W s) = Some (w_uuid W (uuid_count s))"
  by (simp_all add: scope_state_def)

lemma scope_run:
  fixes body :: "(('r, 'cl) sys, 'a) act"
  assumes t: "tidy body" and b: "body (scope_state W s) = (r, s2)"
  obtains s' where "db_session_context (w_uuid W) body s = (r, s')" "effects s' = effects s2"
proof -
  have ch: "chosen_session_id (w_uuid W) None s = (Inr (w_uuid W (uuid_count s)), s\<lparr>uuid_count := uuid_count s + 1\<rparr>)"
    by (simp add: chosen_session_id_def uuid4_def)
  from with_db_session_context_run [OF ch tidy_keeps [OF t], of r s2] b show thesis
    by (intro that [of "s2\<lparr>db_session_ctx := db_session_ctx s,
          open_sessions := filter (\<lambda>j. j \<noteq> w_uuid W (uuid_count s)) (open_sessions s2)\<rparr>"])
      (simp_all add: db_session_context_def scope_state_def)
qed

text \<open>An event handled in its scope, with \<open>JSONDecodeError\<close> caught.\<close>

lemma process_event_run:
  fixes s :: "('r, 'cl) sys"
  assumes ev: "json_loads X message = Inr ev" and p: "is_processable_event (w_eth W) ev = Inr True"
    and d: "json_item ev ''data'' = Inr (JStr data)" "data \<noteq> []"
    and run: "process_event_data W X ev data (scope_state W s) = (r, s2)" and r: "r \<noteq> Inl JSONDecodeError"
  obtains s' where "process_event W X message s = (r, s')" "effects s' = effects s2"
proof -
  have "process_event_body W X message (scope_state W s) = (r, s2)"
    using ev p d run r by (simp add: process_event_body_def act_catch_def split: sum.splits)
  from scope_run [OF tidy_event(3) this] obtain s' where
    "db_session_context (w_uuid W) (process_event_body W X message) s = (r, s')" "effects s' = effects s2" .
  then show thesis by (intro that [of s']) (simp_all add: process_event_def)
qed

lemma chain_is_complete_run:
  assumes ctx: "db_session_ctx s = Some j"
    and as: "list_all2 (\<lambda>(_, _, address) a. hex_bytes (w_eth W) address = Inr a)
      (get_default_deployments_by_version (w_deployments W)) as"
  obtains s' where "chain_is_complete W i s
      = (Inr (i \<in> sys_safe_cache s \<or> exists_safe_contracts i (set as) (sys_db s)), s')"
    "sys_db s' = sys_db s" "sys_redis s' = sys_redis s" "sys_metadata s' = sys_metadata s" "sys_sent s' = sys_sent s"
proof -
  have as': "res_map (\<lambda>(_, _, address). hex_bytes (w_eth W) address) (get_default_deployments_by_version (w_deployments W)) = Inr as"
    using as by (simp add: res_map_Inr_iff case_prod_unfold)
  let ?found = "exists_safe_contracts i (set as) (sys_db s)"
  let ?s = "s\<lparr>open_sessions := List.insert j (open_sessions s),
      sys_safe_cache := if ?found then insert i (sys_safe_cache s) else sys_safe_cache s\<rparr>"
  show thesis
    by (rule that [of "if i \<in> sys_safe_cache s then s else ?s"])
      (use ctx as' in \<open>auto simp: chain_is_complete_def on_safe_cache_def act_zoom_def safe_contracts_exist_def
        db_session_use_def get_database_session_context_def act_bind_def Let_def\<close>)
qed

lemma send_contract_tasks_run:
  "send_contract_tasks W i as s = (Inr (), s\<lparr>sys_sent := sys_sent s
     @ map (\<lambda>a. GetContractMetadata a i False) (filter (\<lambda>a. a \<noteq> NULL_ADDRESS (w_eth W)) as)\<rparr>)"
  by (simp add: send_contract_tasks_def act_bind_def act_map_send)

text \<open>
  C14. A processable event with data asks for each contract it involves exactly once: one
  message for the receiver and for every target of the MultiSend batch, none twice and
  none for the null address, all on the event's chain and without the skip flag. Before
  them it asks for the Safe contracts of the chain exactly when the chain is not known to be
  complete. Nothing else but the cache of complete chains changes.
\<close>

theorem event_requests_each_contract_once:
  assumes ev: "json_loads X message = Inr ev" and p: "is_processable_event (w_eth W) ev = Inr True"
    and data: "json_item ev ''data'' = Inr (JStr data)" "data \<noteq> []"
    and chain: "json_item ev ''chainId'' = Inr (JStr cid)" "int_of_str cid = Inr i"
    and to: "json_item ev ''to'' = Inr (JStr to)"
    and txs: "hex_bytes (w_eth W) data = Inr b" "from_transaction_data X b = Inr txs"
    and as: "list_all2 (\<lambda>(_, _, address) a. hex_bytes (w_eth W) address = Inr a)
      (get_default_deployments_by_version (w_deployments W)) as"
    and order: "\<And>xs. distinct (set_iter X xs) \<and> set (set_iter X xs) = set xs"
  shows "\<exists>s' targets. process_event W X message s = (Inr (), s')
    \<and> sys_sent s' = sys_sent s
        @ (if i \<in> sys_safe_cache s \<or> exists_safe_contracts i (set as) (sys_db s) then [] else [CreateSafeContracts i])
        @ map (\<lambda>a. GetContractMetadata a i False) targets
    \<and> distinct targets \<and> set targets = insert to (tx_to ` set txs) - {NULL_ADDRESS (w_eth W)}
    \<and> sys_db s' = sys_db s \<and> sys_redis s' = sys_redis s \<and> sys_metadata s' = sys_metadata s"
proof -
  let ?s = "scope_state W s" and ?all = "set_iter X (to # remdups (map tx_to txs))"
  let ?targets = "filter (\<lambda>a. a \<noteq> NULL_ADDRESS (w_eth W)) ?all"
  let ?complete = "i \<in> sys_safe_cache ?s \<or> exists_safe_contracts i (set as) (sys_db ?s)"
  obtain s1 where s1: "chain_is_complete W i ?s = (Inr ?complete, s1)" "sys_db s1 = sys_db ?s"
    "sys_redis s1 = sys_redis ?s" "sys_metadata s1 = sys_metadata ?s" "sys_sent s1 = sys_sent ?s"
    by (rule chain_is_complete_run [OF scope_state_effects(6) as])
  let ?s2 = "s1\<lparr>sys_sent := sys_sent s1 @ (if ?complete then [] else [CreateSafeContracts i])
      @ map (\<lambda>a. GetContractMetadata a i False) ?targets\<rparr>"
  have "get_contracts_from_data (w_eth W) X data = Inr (remdups (map tx_to txs))"
    using data txs by (simp add: get_contracts_from_data_def)
  then have "process_event_data W X ev data ?s = (Inr (), ?s2)"
    using chain to s1(1) by (simp add: process_event_data_def act_bind_def send_contract_tasks_run send_def)
  from process_event_run [OF ev p data this] obtain s' where
    "process_event W X message s = (Inr (), s')" "effects s' = effects ?s2" by blast
  moreover have "set ?targets = insert to (tx_to ` set txs) - {NULL_ADDRESS (w_eth W)}" "distinct ?targets"
    using order [of "to # remdups (map tx_to txs)"] by auto
  ultimately show ?thesis using s1 by (intro exI [of _ s'] exI [of _ ?targets]) auto
qed

definition demo_event :: json where
  "demo_event = JObj [(''type'', JStr ''EXECUTED_MULTISIG_TRANSACTION''), (''chainId'', JStr ''10''),
     (''to'', JStr ''0xa''), (''data'', JStr ''0x8d'')]"

definition demo_events_lib :: events_lib where
  "demo_events_lib = \<lparr>json_loads = (\<lambda>m. if m = [] then Inl JSONDecodeError else Inr demo_event),
     from_transaction_data = (\<lambda>b. Inr (map (\<lambda>a. \<lparr>tx_operation = 0, tx_to = a, tx_value = 0, tx_data = []\<rparr>)
       [''0xb'', ''0xa'', ''0x0''])),
     set_iter = remdups\<rparr>"

lemma event_requests_each_contract_once_witness:
  "\<exists>s' targets. process_event demo_world demo_events_lib ''m'' (demo_sys demo_chain_db) = (Inr (), s')
     \<and> sys_sent s' = CreateSafeContracts 10 # map (\<lambda>a. GetContractMetadata a 10 False) targets
     \<and> distinct targets \<and> set targets = {''0xa'', ''0xb''}"
proof -
  have W: "w_eth demo_world = demo_eth" "w_deployments demo_world = demo_deployments" by (simp_all add: demo_world_def)
  have ev: "json_loads demo_events_lib ''m'' = Inr demo_event" by (simp add: demo_events_lib_def)
  have p: "is_processable_event (w_eth demo_world) demo_event = Inr True" unfolding W by code_simp
  have i: "int_of_str ''10'' = Inr 10" by code_simp
  obtain b where b: "hex_bytes (w_eth demo_world) ''0x8d'' = Inr b" unfolding W by (simp add: demo_eth_def)
  let ?txs = "map (\<lambda>a. \<lparr>tx_operation = 0, tx_to = a, tx_value = 0, tx_data = []\<rparr>) [''0xb'', ''0xa'', ''0x0'']"
  have txs: "from_transaction_data demo_events_lib b = Inr ?txs" by (simp add: demo_events_lib_def)
  have order: "distinct (set_iter demo_events_lib xs) \<and> set (set_iter demo_events_lib xs) = set xs" for xs
    by (simp add: demo_events_lib_def)
  have e: "\<not> exists_safe_contracts 10 (set [[97], [98], [99], [97]]) demo_chain_db" by code_simp
  have fields: "json_item demo_event ''data'' = Inr (JStr ''0x8d'')" "json_item demo_event ''chainId'' = Inr (JStr ''10'')"
    "json_item demo_event ''to'' = Inr (JStr ''0xa'')" by (simp_all add: demo_event_def)
  have n: "insert ''0xa'' (tx_to ` set ?txs) - {NULL_ADDRESS (w_eth demo_world)} = {''0xa'', ''0xb''}"
    unfolding W by (auto simp: demo_eth_def)
  from event_requests_each_contract_once [OF ev p fields(1) _ fields(2) i fields(3) b txs
      demo_deployments_parse [folded W] order, of "demo_sys demo_chain_db"] e
  show ?thesis unfolding n by (auto simp: demo_sys_def)
qed

text \<open>
  C37. Events that ask for nothing. A message that is not JSON, an event that is not
  processable and an event without data are accepted without effect; a JSON value that is
  not an object raises \<open>AttributeError\<close>; and a processable event whose chain identifier
  \<open>str.isdigit\<close> accepts although it is not decimal, such as a superscript digit, raises
  \<open>ValueError\<close>. No message is sent in any of these cases and nothing changes.
\<close>

theorem rejected_events_change_nothing:
  assumes "json_loads X message = Inl JSONDecodeError \<and> r = Inr ()
    \<or> (\<exists>kvs. json_loads X message = Inr (JObj kvs) \<and> is_processable_event (w_eth W) (JObj kvs) = Inr False \<and> r = Inr ())
    \<or> (\<exists>kvs. json_loads X message = Inr (JObj kvs) \<and> map_of kvs ''data'' = Some JNull \<and> r = Inr ())
    \<or> (\<exists>ev. json_loads X message = Inr ev \<and> \<not> (\<exists>kvs. ev = JObj kvs) \<and> r = Inl AttributeError)
    \<or> (\<exists>ev cid data. json_loads X message = Inr ev \<and> is_processable_event (w_eth W) ev = Inr True
         \<and> json_item ev ''data'' = Inr (JStr data) \<and> data \<noteq> []
         \<and> json_item ev ''chainId'' = Inr (JStr cid) \<and> \<not> list_all is_decimal_char cid \<and> r = Inl ValueError)"
  shows "\<exists>s'. process_event W X message s = (r, s') \<and> effects s' = effects s"
proof -
  have nodict: "is_processable_event (w_eth W) ev = Inl AttributeError" if "\<not> (\<exists>kvs. ev = JObj kvs)" for ev
    using that by (cases ev) (simp_all add: is_processable_event_def)
  have obj: "\<exists>p. is_processable_event (w_eth W) (JObj kvs) = Inr p" for kvs
    by (simp add: is_processable_event_def)
  have cid: "int_of_str c = Inl ValueError" if "\<not> list_all is_decimal_char c" for c
    using that by (simp add: int_of_str_def)
  have "process_event_body W X message (scope_state W s) = (r, scope_state W s)"
    using assms
  proof (elim disjE exE conjE)
    fix kvs assume "json_loads X message = Inr (JObj kvs)" "map_of kvs ''data'' = Some JNull" "r = Inr ()"
    then show "process_event_body W X message (scope_state W s) = (r, scope_state W s)"
      using obj [of kvs] by (auto simp: process_event_body_def act_catch_def)
  qed (simp_all add: process_event_body_def act_catch_def nodict process_event_data_def cid)
  from scope_run [OF tidy_event(3) this] obtain s' where
    "db_session_context (w_uuid W) (process_event_body W X message) s = (r, s')" "effects s' = effects (scope_state W s)" .
  then show ?thesis by (intro exI [of _ s']) (simp add: process_event_def)
qed

lemma rejected_events_change_nothing_witness:
  "\<exists>s'. process_event demo_world
       (demo_events_lib\<lparr>json_loads := \<lambda>m. Inr (JObj [(''type'', JStr ''EXECUTED_MULTISIG_TRANSACTION''),
          (''chainId'', JStr [char_of (178::nat)]), (''to'', JStr ''0xa''), (''data'', JStr ''0x8d'')])\<rparr>) ''m''
       (demo_sys demo_chain_db) = (Inl ValueError, s')
     \<and> sys_sent s' = []"
proof -
  let ?ev = "JObj [(''type'', JStr ''EXECUTED_MULTISIG_TRANSACTION''),
          (''chainId'', JStr [char_of (178::nat)]), (''to'', JStr ''0xa''), (''data'', JStr ''0x8d'')]"
  let ?X = "demo_events_lib\<lparr>json_loads := \<lambda>m. Inr ?ev\<rparr>"
  have p: "is_processable_event (w_eth demo_world) ?ev = Inr True"
    by (simp add: is_processable_event_def demo_world_def demo_eth_def str_isdigit_def is_digit_char_def is_decimal_char_def)
  have c: "\<not> list_all is_decimal_char [char_of (178::nat)]" by (simp add: is_decimal_char_def Let_def)
  have f: "json_loads ?X ''m'' = Inr ?ev" "json_item ?ev ''data'' = Inr (JStr ''0x8d'')"
    "json_item ?ev ''chainId'' = Inr (JStr [char_of (178::nat)])" by simp_all
  have "\<exists>s'. process_event demo_world ?X ''m'' (demo_sys demo_chain_db) = (Inl ValueError, s')
      \<and> effects s' = effects (demo_sys demo_chain_db)"
    by (rule rejected_events_change_nothing) (use p c f in blast)
  then show ?thesis by (auto simp: demo_sys_def)
qed

end
