(* ===== verification/Queue_Provider.thy ===== *)
theory Queue_Provider
  imports Events
begin

text \<open>
  The consumer of the events queue: \<open>app/datasources/queue/queue_provider.py\<close>. The package
  \<open>aio_pika\<close> is the record \<open>amqp\<close> of operations on an abstract broker. A delivery is
  handled by \<open>wrapped_callback\<close>, which settles it; deliveries are handled one after the
  other here, while the event loop may interleave them at the points where they wait.
\<close>

section \<open>The provider\<close>

record 'b amqp =
  connect_robust :: "string \<Rightarrow> ('b, nat) act"
  open_channel :: "nat \<Rightarrow> ('b, nat) act"
  declare_exchange :: "nat \<Rightarrow> string \<Rightarrow> ('b, nat) act"
  declare_queue :: "nat \<Rightarrow> string \<Rightarrow> ('b, nat) act"
  bind_queue :: "nat \<Rightarrow> nat \<Rightarrow> ('b, unit) act"
  close_connection :: "nat \<Rightarrow> ('b, unit) act"
  start_consumer :: "nat \<Rightarrow> ('b, string) act"

record amqp_settings =
  RABBITMQ_AMQP_URL :: string
  RABBITMQ_AMQP_EXCHANGE :: string
  RABBITMQ_DECODER_EVENTS_QUEUE_NAME :: string

record 'b queue_provider =
  qp_connection :: "nat option"
  qp_exchange :: "nat option"
  qp_events_queue :: "nat option"
  qp_broker :: 'b

definition new_queue_provider :: "'b \<Rightarrow> 'b queue_provider" where
  "new_queue_provider b = \<lparr>qp_connection = None, qp_exchange = None, qp_events_queue = None, qp_broker = b\<rparr>"

definition on_broker :: "('b, 'a) act \<Rightarrow> ('b queue_provider, 'a) act" where
  "on_broker = act_zoom qp_broker (\<lambda>b s. s\<lparr>qp_broker := b\<rparr>)"

lemma on_broker_Inr: "on_broker m s = (Inr a, s') \<longleftrightarrow> (\<exists>b. m (qp_broker s) = (Inr a, b) \<and> s' = s\<lparr>qp_broker := b\<rparr>)"
  by (auto simp: on_broker_def act_zoom_def split: prod.splits)

definition connect_raw :: "'b amqp \<Rightarrow> amqp_settings \<Rightarrow> ('b queue_provider, unit) act" where
  "connect_raw A cfg =
     act_bind (act_catch
         (act_bind (on_broker (connect_robust A (RABBITMQ_AMQP_URL cfg))) (\<lambda>c.
            act_bind (act_modify (\<lambda>s. s\<lparr>qp_connection := Some c\<rparr>)) (\<lambda>_. act_return c)))
         (\<lambda>e. e = AMQPConnectionError) (\<lambda>_. act_raise QueueProviderUnableToConnect)) (\<lambda>c.
     act_bind (on_broker (open_channel A c)) (\<lambda>channel.
     act_bind (on_broker (declare_exchange A channel (RABBITMQ_AMQP_EXCHANGE cfg))) (\<lambda>x.
     act_bind (act_modify (\<lambda>s. s\<lparr>qp_exchange := Some x\<rparr>)) (\<lambda>_.
     act_bind (on_broker (declare_queue A channel (RABBITMQ_DECODER_EVENTS_QUEUE_NAME cfg))) (\<lambda>q.
     act_bind (act_modify (\<lambda>s. s\<lparr>qp_events_queue := Some q\<rparr>)) (\<lambda>_.
       on_broker (bind_queue A q x)))))))"

definition queue_connect :: "'b amqp \<Rightarrow> amqp_settings \<Rightarrow> ('b queue_provider, unit) act" where
  "queue_connect A cfg =
     act_bind act_get (\<lambda>s. if qp_connection s = None then connect_raw A cfg else act_return ())"

definition is_connected :: "'b queue_provider \<Rightarrow> bool" where
  "is_connected s \<longleftrightarrow> qp_connection s \<noteq> None"

definition queue_disconnect :: "'b amqp \<Rightarrow> ('b queue_provider, unit) act" where
  "queue_disconnect A =
     act_bind act_get (\<lambda>s. case qp_connection s of
         None \<Rightarrow> act_return ()
       | Some c \<Rightarrow> act_bind (on_broker (close_connection A c)) (\<lambda>_.
           act_modify (\<lambda>s. s\<lparr>qp_exchange := None, qp_connection := None, qp_events_queue := None\<rparr>)))"

definition queue_consume :: "'b amqp \<Rightarrow> ('b queue_provider, string) act" where
  "queue_consume A =
     act_bind act_get (\<lambda>s. case (qp_connection s, qp_events_queue s) of
         (Some c, Some q) \<Rightarrow> on_broker (start_consumer A q)
       | _ \<Rightarrow> act_raise QueueProviderNotConnected)"

section \<open>Settling a delivery\<close>

text \<open>
  The callback receives the decoded body; an empty body is acknowledged without it. Every
  \<open>Exception\<close>, from decoding, from the callback or from the acknowledgement itself, ends in
  a negative acknowledgement without requeueing.
\<close>

definition wrapped_callback ::
    "(bytes \<Rightarrow> string res) \<Rightarrow> (string \<Rightarrow> ('s, unit) act) \<Rightarrow> ('s, unit) act \<Rightarrow> (bool \<Rightarrow> ('s, unit) act) \<Rightarrow>
     bytes \<Rightarrow> ('s, unit) act" where
  "wrapped_callback decode callback ack nack body =
     act_catch
       (act_bind (if body \<noteq> [] then act_bind (act_lift (decode body)) callback else act_return ()) (\<lambda>_. ack))
       (\<lambda>e. True) (\<lambda>_. nack False)"

text \<open>What the broker is told about a delivery: its number, and for a rejection the requeue flag.\<close>

datatype settlement = Acked nat | Nacked nat bool

locale settling =
  fixes log :: "'s \<Rightarrow> settlement list"
    and ack :: "nat \<Rightarrow> ('s, unit) act"
    and nack :: "nat \<Rightarrow> bool \<Rightarrow> ('s, unit) act"
    and callback :: "string \<Rightarrow> ('s, unit) act"
  assumes ack_logs: "\<And>n s. \<exists>s'. ack n s = (Inr (), s') \<and> log s' = log s @ [Acked n]"
    and nack_logs: "\<And>n q s. \<exists>s'. nack n q s = (Inr (), s') \<and> log s' = log s @ [Nacked n q]"
    and callback_keeps: "\<And>m. keeps log (callback m)"

context settling
begin

text \<open>What handling the body gives, before it is settled.\<close>

definition handled :: "(bytes \<Rightarrow> string res) \<Rightarrow> bytes \<Rightarrow> 's \<Rightarrow> unit res" where
  "handled decode body s =
     (if body = [] then Inr () else case decode body of Inl e \<Rightarrow> Inl e | Inr m \<Rightarrow> fst (callback m s))"

lemma settled_once:
  "\<exists>s'. wrapped_callback decode callback (ack n) (nack n) body s = (Inr (), s')
     \<and> log s' = log s @ [case handled decode body s of Inl e \<Rightarrow> Nacked n False | Inr _ \<Rightarrow> Acked n]"
proof -
  let ?m = "if body \<noteq> [] then act_bind (act_lift (decode body)) callback else act_return ()"
  obtain r s1 where m: "?m s = (r, s1)" by fastforce
  have "keeps log ?m" by (intro keeps_rules callback_keeps)
  then have l: "log s1 = log s" using m by (rule keepsD')
  have h: "handled decode body s = r"
    using m by (cases "decode body") (auto simp: handled_def act_bind_lift split: if_splits)
  obtain s2 where a: "ack n s1 = (Inr (), s2)" "log s2 = log s @ [Acked n]" using ack_logs [of n s1] l by auto
  obtain s3 where b: "nack n False s1 = (Inr (), s3)" "log s3 = log s @ [Nacked n False]"
    using nack_logs [of n False s1] l by auto
  show ?thesis
    by (cases r) (use m h a b in \<open>simp_all add: wrapped_callback_def act_catch_def act_bind_def\<close>)
qed

lemma all_settled_in_order:
  "\<exists>s' rs. act_map (\<lambda>(n, body). wrapped_callback decode callback (ack n) (nack n) body) ds s = (Inr rs, s')
     \<and> (\<exists>oks. length oks = length ds
          \<and> log s' = log s @ map (\<lambda>(ok, n, body). if ok then Acked n else Nacked n False) (zip oks ds))"
proof (induction ds arbitrary: s)
  case Nil
  show ?case by simp
next
  case (Cons d ds)
  obtain n body where d: "d = (n, body)" by fastforce
  obtain s1 where s1: "wrapped_callback decode callback (ack n) (nack n) body s = (Inr (), s1)"
    "log s1 = log s @ [case handled decode body s of Inl e \<Rightarrow> Nacked n False | Inr _ \<Rightarrow> Acked n]"
    using settled_once by blast
  obtain s2 rs oks where s2: "act_map (\<lambda>(n, body). wrapped_callback decode callback (ack n) (nack n) body) ds s1 = (Inr rs, s2)"
    "length oks = length ds"
    "log s2 = log s1 @ map (\<lambda>(ok, n, body). if ok then Acked n else Nacked n False) (zip oks ds)"
    using Cons.IH by blast
  let ?ok = "case handled decode body s of Inl e \<Rightarrow> False | Inr _ \<Rightarrow> True"
  have "log s2 = log s @ map (\<lambda>(ok, n, body). if ok then Acked n else Nacked n False) (zip (?ok # oks) (d # ds))"
    using s1(2) s2(3) by (simp add: d split: sum.splits)
  moreover have "length (?ok # oks) = length (d # ds)" using s2(2) by simp
  ultimately show ?case using s1(1) s2(1) by (fastforce simp: d act_bind_def)
qed

end

section \<open>The events consumer\<close>

text \<open>The process state with the settlements of its deliveries.\<close>

type_synonym ('r, 'cl) consumer = "('r, 'cl) sys \<times> settlement list"

definition settle :: "settlement \<Rightarrow> (('r, 'cl) consumer, unit) act" where
  "settle x = act_modify (\<lambda>(s, l). (s, l @ [x]))"

definition on_event :: "('r, 'cl) world \<Rightarrow> events_lib \<Rightarrow> string \<Rightarrow> (('r, 'cl) consumer, unit) act" where
  "on_event W X message = act_zoom fst (\<lambda>s (_, l). (s, l)) (process_event W X message)"

definition on_deliveries ::
    "('r, 'cl) world \<Rightarrow> events_lib \<Rightarrow> (bytes \<Rightarrow> string res) \<Rightarrow> (nat \<times> bytes) list \<Rightarrow>
     (('r, 'cl) consumer, unit list) act" where
  "on_deliveries W X decode = act_map (\<lambda>(n, body).
     wrapped_callback decode (on_event W X) (settle (Acked n)) (\<lambda>requeue. settle (Nacked n requeue)) body)"

interpretation events_consumer: settling snd "\<lambda>n. settle (Acked n)" "\<lambda>n requeue. settle (Nacked n requeue)" "on_event W X"
  by unfold_locales (auto simp: settle_def on_event_def keeps_def act_zoom_def split: prod.splits)

text \<open>
  C26. Every delivery is settled exactly once, in the order of arrival, and the consumer never
  raises: a delivery is acknowledged when its body is empty or \<open>process_event\<close> returned on
  its text, and otherwise rejected without requeueing. In particular an event whose handler
  raises is not delivered again.
\<close>

theorem deliveries_are_settled_once:
  "\<exists>c rs. on_deliveries W X decode ds (s, []) = (Inr rs, c)
     \<and> map (\<lambda>x. case x of Acked n \<Rightarrow> n | Nacked n q \<Rightarrow> n) (snd c) = map fst ds
     \<and> (\<forall>n. Nacked n True \<notin> set (snd c))
     \<and> (\<forall>n body. ds = [(n, body)] \<longrightarrow> snd c =
          [if body = [] \<or> (\<exists>m. decode body = Inr m \<and> fst (process_event W X m s) = Inr ()) then Acked n
           else Nacked n False])"
proof -
  obtain c rs oks where run: "on_deliveries W X decode ds (s, []) = (Inr rs, c)" and l: "length oks = length ds"
    and log: "snd c = map (\<lambda>(ok, n, body). if ok then Acked n else Nacked n False) (zip oks ds)"
    using events_consumer.all_settled_in_order [of decode W X ds "(s, [])"] unfolding on_deliveries_def by auto
  have "map (\<lambda>x. case x of Acked n \<Rightarrow> n | Nacked n q \<Rightarrow> n) (snd c) = map fst ds"
    unfolding log using l by (induction oks ds rule: list_induct2) auto
  moreover have "Nacked n True \<notin> set (snd c)" for n
    unfolding log by (auto split: if_splits)
  moreover have "snd c = [if body = [] \<or> (\<exists>m. decode body = Inr m \<and> fst (process_event W X m s) = Inr ()) then Acked n
           else Nacked n False]" if ds: "ds = [(n, body)]" for n body
  proof -
    have f: "fst (on_event W X m (s, [])) = fst (process_event W X m s)" for m
      by (simp add: on_event_def act_zoom_def split: prod.splits)
    obtain c' where "wrapped_callback decode (on_event W X) (settle (Acked n)) (\<lambda>requeue. settle (Nacked n requeue)) body (s, [])
        = (Inr (), c')" "snd c' = [case events_consumer.handled W X decode body (s, []) of
          Inl e \<Rightarrow> Nacked n False | Inr _ \<Rightarrow> Acked n]"
      using events_consumer.settled_once [of decode W X n body "(s, [])"] by auto
    then show ?thesis using run f
      by (auto simp: on_deliveries_def ds act_bind_def events_consumer.handled_def split: sum.splits prod.splits)
  qed
  ultimately show ?thesis using run by blast
qed

lemma deliveries_are_settled_once_witness:
  "\<exists>c rs. on_deliveries demo_world demo_events_lib (\<lambda>b. Inr []) [(7, [0])] (demo_sys demo_chain_db, []) = (Inr rs, c)
     \<and> map (\<lambda>x. case x of Acked n \<Rightarrow> n | Nacked n q \<Rightarrow> n) (snd c) = [7]"
  using deliveries_are_settled_once [of demo_world demo_events_lib "\<lambda>b. Inr []" "[(7, [0])]" "demo_sys demo_chain_db"]
  by auto

section \<open>The life of a connection\<close>

text \<open>
  A provider is connected for good or not at all only when the broker accepts every
  step. After a refused connection it is as it was and \<open>connect\<close> tries again. But when the
  connection succeeds and the channel, the exchange or the queue does not, the provider says
  that it is connected, consuming raises \<open>QueueProviderNotConnected\<close>, and connecting again
  does nothing: only \<open>disconnect\<close> gets out of that state.
\<close>

theorem half_open_connection_is_stuck:
  assumes start: "qp_connection s = None" "qp_events_queue s = None"
    and run: "queue_connect A cfg s = (r, s')" and stuck: "qp_events_queue s' = None"
  shows "(\<not> is_connected s' \<longrightarrow> s' = s\<lparr>qp_broker := qp_broker s'\<rparr> \<and> (\<exists>e. r = Inl e))
    \<and> (is_connected s' \<longrightarrow> (\<exists>e. r = Inl e) \<and> queue_connect A cfg s' = (Inr (), s')
         \<and> queue_consume A s' = (Inl QueueProviderNotConnected, s'))
    \<and> (\<forall>c b. qp_connection s' = Some c \<longrightarrow> close_connection A c (qp_broker s') = (Inr (), b) \<longrightarrow>
         (\<exists>s''. queue_disconnect A s' = (Inr (), s'') \<and> \<not> is_connected s''))"
proof -
  have raw: "connect_raw A cfg s = (r, s')" using run start by (simp add: queue_connect_def)
  have r: "\<exists>e. r = Inl e"
  proof (cases r)
    case (Inr u)
    with raw stuck show ?thesis by (auto simp: connect_raw_def act_bind_Inr_iff on_broker_Inr)
  qed simp
  have "s' = s\<lparr>qp_broker := qp_broker s'\<rparr>" if "\<not> is_connected s'"
    using raw that start
    by (auto simp: connect_raw_def act_bind_def act_catch_def on_broker_def act_zoom_def is_connected_def
        split: prod.splits sum.splits if_splits)
  moreover have "queue_consume A s' = (Inl QueueProviderNotConnected, s')" using stuck
    by (simp add: queue_consume_def split: option.splits)
  moreover have "queue_connect A cfg s' = (Inr (), s')" if "is_connected s'"
    using that by (auto simp: queue_connect_def is_connected_def)
  moreover have "\<exists>s''. queue_disconnect A s' = (Inr (), s'') \<and> \<not> is_connected s''"
    if "qp_connection s' = Some c" "close_connection A c (qp_broker s') = (Inr (), b)" for c b
    using that by (simp add: queue_disconnect_def on_broker_def act_bind_def act_zoom_def is_connected_def)
  ultimately show ?thesis using r by blast
qed

text \<open>A broker that refuses the queue: it counts the connections and fails the declaration.\<close>

definition demo_amqp :: "nat amqp" where
  "demo_amqp = \<lparr>connect_robust = (\<lambda>u b. (Inr b, b + 1)), open_channel = (\<lambda>c. act_return c),
     declare_exchange = (\<lambda>c n. act_return 1), declare_queue = (\<lambda>c n. act_raise OtherError),
     bind_queue = (\<lambda>q x. act_return ()), close_connection = (\<lambda>c. act_return ()), start_consumer = (\<lambda>q. act_return ''tag'')\<rparr>"

definition demo_amqp_settings :: amqp_settings where
  "demo_amqp_settings = \<lparr>RABBITMQ_AMQP_URL = ''amqp://'', RABBITMQ_AMQP_EXCHANGE = ''x'', RABBITMQ_DECODER_EVENTS_QUEUE_NAME = ''q''\<rparr>"

lemma half_open_connection_is_stuck_witness:
  "\<exists>s'. queue_connect demo_amqp demo_amqp_settings (new_queue_provider 0) = (Inl OtherError, s') \<and> is_connected s'
     \<and> queue_connect demo_amqp demo_amqp_settings s' = (Inr (), s')
     \<and> queue_consume demo_amqp s' = (Inl QueueProviderNotConnected, s')"
proof -
  let ?s' = "\<lparr>qp_connection = Some 0, qp_exchange = Some 1, qp_events_queue = None, qp_broker = 1\<rparr>"
  have run: "queue_connect demo_amqp demo_amqp_settings (new_queue_provider 0) = (Inl OtherError, ?s')"
    by (simp add: queue_connect_def connect_raw_def new_queue_provider_def demo_amqp_def on_broker_def act_zoom_def
        act_bind_def act_catch_def)
  have c: "is_connected ?s'" "qp_events_queue ?s' = None" by (simp_all add: is_connected_def)
  have n: "qp_connection (new_queue_provider 0) = None" "qp_events_queue (new_queue_provider 0) = None"
    by (simp_all add: new_queue_provider_def)
  from half_open_connection_is_stuck [OF n run c(2)] run c(1) show ?thesis by blast
qed

end
