(* ===== verification/Pagination.thy ===== *)
theory Pagination
  imports Models
begin

text \<open>
  Pages of a query: \<open>app/services/pagination.py\<close> and \<open>app/services/contract.py\<close>. A query is
  the list of its rows in its order. The URL class of Starlette is a parameter: how it sets
  the two query parameters, how it is written, and the two parameters the framework reads
  from it when a client follows the link.
\<close>

section \<open>Parameters and pages\<close>

record 'u url_class =
  include_query_params :: "'u \<Rightarrow> int \<Rightarrow> int \<Rightarrow> 'u"
  url_str :: "'u \<Rightarrow> string"
  query_params :: "'u \<Rightarrow> int option \<times> int option"

record pagination =
  pg_max_page_size :: int
  pg_limit :: int
  pg_offset :: int

record 'a paginated_response =
  pr_count :: int
  pr_next :: "string option"
  pr_previous :: "string option"
  pr_results :: "'a list"

text \<open>The declared bounds \<open>ge=1\<close> and \<open>ge=0\<close>; a violation is answered with status 422.\<close>

definition pagination_query_params :: "int option \<Rightarrow> int option \<Rightarrow> (int option \<times> int option) res" where
  "pagination_query_params limit offset =
     (if (case limit of None \<Rightarrow> True | Some l \<Rightarrow> 1 \<le> l) \<and> (case offset of None \<Rightarrow> True | Some i \<Rightarrow> 0 \<le> i)
      then Inr (limit, offset) else Inl (HTTPException 422))"

definition new_pagination :: "int option \<Rightarrow> int option \<Rightarrow> int \<Rightarrow> int \<Rightarrow> pagination" where
  "new_pagination limit offset default_page_size max_page_size =
     \<lparr>pg_max_page_size = max_page_size,
      pg_limit = (case limit of
          None \<Rightarrow> default_page_size
        | Some l \<Rightarrow> if l \<noteq> 0 then min l max_page_size else default_page_size),
      pg_offset = (case offset of None \<Rightarrow> 0 | Some i \<Rightarrow> if i \<noteq> 0 then i else 0)\<rparr>"

definition next_url :: "'u url_class \<Rightarrow> pagination \<Rightarrow> 'u \<Rightarrow> int \<Rightarrow> 'u option" where
  "next_url U p url count =
     (if pg_offset p + pg_limit p < count
      then Some (include_query_params U url (pg_limit p) (pg_offset p + pg_limit p)) else None)"

definition get_next_page :: "'u url_class \<Rightarrow> pagination \<Rightarrow> 'u \<Rightarrow> int \<Rightarrow> string option" where
  "get_next_page U p url count = map_option (url_str U) (next_url U p url count)"

definition previous_url :: "'u url_class \<Rightarrow> pagination \<Rightarrow> 'u \<Rightarrow> 'u option" where
  "previous_url U p url =
     (if 0 < pg_offset p
      then Some (include_query_params U url (pg_limit p) (max 0 (pg_offset p - pg_limit p))) else None)"

definition get_previous_page :: "'u url_class \<Rightarrow> pagination \<Rightarrow> 'u \<Rightarrow> string option" where
  "get_previous_page U p url = map_option (url_str U) (previous_url U p url)"

text \<open>\<open>query.offset(o).limit(l)\<close>; both are never negative for validated parameters.\<close>

definition get_page :: "pagination \<Rightarrow> 'a list \<Rightarrow> 'a list" where
  "get_page p query = take (nat (pg_limit p)) (drop (nat (pg_offset p)) query)"

definition get_count :: "'a list \<Rightarrow> int" where
  "get_count query = int (length query)"

definition serialize :: "'u url_class \<Rightarrow> pagination \<Rightarrow> 'u \<Rightarrow> 'a list \<Rightarrow> int \<Rightarrow> 'a paginated_response" where
  "serialize U p url results count =
     \<lparr>pr_count = count, pr_next = get_next_page U p url count, pr_previous = get_previous_page U p url,
      pr_results = results\<rparr>"

text \<open>\<open>ContractService.get_contracts\<close>\<close>

definition get_contracts ::
    "pagination \<Rightarrow> bytes option \<Rightarrow> int list option \<Rightarrow> bool option \<Rightarrow> db \<Rightarrow> contract list \<times> int" where
  "get_contracts p address chain_ids trusted_for_delegate_call d =
     (let query = get_contracts_query address chain_ids trusted_for_delegate_call False d
      in (get_page p query, get_count query))"

section \<open>Following the links\<close>

text \<open>What the server makes of a link: the parameters in the URL, with the default sizes.\<close>

definition follow :: "'u url_class \<Rightarrow> 'u \<Rightarrow> pagination res" where
  "follow U url = (case query_params U url of (limit, offset) \<Rightarrow>
     res_bind (pagination_query_params limit offset) (\<lambda>(l, i). Inr (new_pagination l i 10 100)))"

text \<open>The pages a client gets that follows \<open>next\<close> from a URL at most \<open>n\<close> times.\<close>

fun pages :: "'u url_class \<Rightarrow> 'a list \<Rightarrow> nat \<Rightarrow> 'u \<Rightarrow> 'a list list" where
  "pages U query n url =
     (case follow U url of
        Inl e \<Rightarrow> []
      | Inr p \<Rightarrow> get_page p query #
          (case (n, next_url U p url (get_count query)) of (Suc m, Some url') \<Rightarrow> pages U query m url' | _ \<Rightarrow> []))"

declare pages.simps [simp del]

definition urls_ok :: "'u url_class \<Rightarrow> bool" where
  "urls_ok U \<longleftrightarrow> (\<forall>url l i. query_params U (include_query_params U url l i) = (Some l, Some i))"

lemma follow_link:
  "urls_ok U \<Longrightarrow> 1 \<le> l \<Longrightarrow> l \<le> 100 \<Longrightarrow> 0 \<le> i \<Longrightarrow>
   follow U (include_query_params U url l i) = Inr \<lparr>pg_max_page_size = 100, pg_limit = l, pg_offset = i\<rparr>"
  by (simp add: urls_ok_def follow_def pagination_query_params_def new_pagination_def)

lemma new_pagination_bounds:
  "pagination_query_params limit offset = Inr (l, i) \<Longrightarrow>
   1 \<le> pg_limit (new_pagination l i 10 100) \<and> pg_limit (new_pagination l i 10 100) \<le> 100
     \<and> 0 \<le> pg_offset (new_pagination l i 10 100)"
  by (auto simp: pagination_query_params_def new_pagination_def split: option.splits if_splits)

lemma pages_from:
  assumes U: "urls_ok U" and url: "follow U url = Inr p"
    and b: "1 \<le> pg_limit p" "pg_limit p \<le> 100" "0 \<le> pg_offset p"
    and n: "length query \<le> n + nat (pg_offset p)"
  shows "concat (pages U query n url) = drop (nat (pg_offset p)) query
    \<and> (\<forall>ps\<in>set (pages U query n url). length ps \<le> nat (pg_limit p))"
  using url b n
proof (induction n arbitrary: url p)
  case 0
  then show ?case
    by (simp add: pages.simps [of U query 0] get_page_def)
next
  case (Suc n)
  let ?l = "pg_limit p" and ?i = "pg_offset p"
  show ?case
  proof (cases "?i + ?l < get_count query")
    case False
    then have "length (drop (nat ?i) query) \<le> nat ?l" using Suc.prems by (simp add: get_count_def)
    then have "get_page p query = drop (nat ?i) query" by (simp add: get_page_def)
    moreover have "pages U query (Suc n) url = [get_page p query]"
      using Suc.prems(1) False by (simp add: pages.simps [of U query "Suc n"] next_url_def)
    ultimately show ?thesis using \<open>length (drop (nat ?i) query) \<le> nat ?l\<close> by simp
  next
    case True
    let ?url = "include_query_params U url ?l (?i + ?l)"
    let ?p = "\<lparr>pg_max_page_size = 100, pg_limit = ?l, pg_offset = ?i + ?l\<rparr>"
    have f: "follow U ?url = Inr ?p" by (rule follow_link [OF U]) (use Suc.prems in auto)
    have "concat (pages U query n ?url) = drop (nat (pg_offset ?p)) query
        \<and> (\<forall>ps\<in>set (pages U query n ?url). length ps \<le> nat (pg_limit ?p))"
      by (rule Suc.IH [OF f]) (use Suc.prems in auto)
    moreover have "pages U query (Suc n) url = get_page p query # pages U query n ?url"
      using Suc.prems(1) True by (simp add: pages.simps [of U query "Suc n"] next_url_def)
    moreover have "drop (nat (?i + ?l)) query = drop (nat ?l) (drop (nat ?i) query)"
      using Suc.prems by (simp add: nat_add_distrib add.commute)
    moreover have "take (nat ?l) (drop (nat ?i) query) @ drop (nat ?l) (drop (nat ?i) query) = drop (nat ?i) query"
      by (rule append_take_drop_id)
    ultimately show ?thesis by (simp add: get_page_def del: drop_drop)
  qed
qed


text \<open>A URL that is its two parameters.\<close>

definition demo_urls :: "(int option \<times> int option) url_class" where
  "demo_urls = \<lparr>include_query_params = (\<lambda>u l i. (Some l, Some i)), url_str = (\<lambda>u. ''u''), query_params = (\<lambda>u. u)\<rparr>"


end
