(* ===== verification/Contracts_Api.thy ===== *)
theory Contracts_Api
  imports Pagination Redis_Cache Ethereum Contract_Rows
begin

text \<open>
  The contract routes: \<open>app/routers/contracts.py\<close> with the response models of
  \<open>app/routers/models.py\<close>. The listing of one address goes through the response cache; its
  answer is a fresh page of rows or the JSON text that an earlier request stored. The
  rendering of a response as text, the digest and the loading of JSON are arguments.
\<close>

section \<open>Response models\<close>

record project_public =
  pp_description :: string
  pp_logo_file :: string

record abi_public =
  ap_abi_hash :: "string option"
  ap_abi_json :: json
  ap_modified :: int

record contracts_public =
  cp_address :: string
  cp_name :: "string option"
  cp_display_name :: "string option"
  cp_chain_id :: int
  cp_project :: "project_public option"
  cp_abi :: "abi_public option"
  cp_modified :: int
  cp_trusted_for_delegate_call :: bool
  cp_fetch_retries :: int
  cp_logo_url :: string

text \<open>What the response models use: the digest of the database, the checksum of an address and a setting.\<close>

record public_lib =
  abi_hash_of :: "json \<Rightarrow> bytes"
  checksum_of_bytes :: "bytes \<Rightarrow> string res"
  CONTRACT_LOGO_BASE_URL :: string

definition bytes_to_hex :: "bytes \<Rightarrow> string" where
  "bytes_to_hex v = ''0x'' @ bytes_hex v"

text \<open>\<open>list[dict] | dict | None\<close>\<close>

fun abi_json_valid :: "json \<Rightarrow> bool" where
  "abi_json_valid JNull = True"
| "abi_json_valid (JObj kvs) = True"
| "abi_json_valid (JList es) = list_all (\<lambda>e. case e of JObj _ \<Rightarrow> True | _ \<Rightarrow> False) es"
| "abi_json_valid _ = False"

definition abi_to_public :: "public_lib \<Rightarrow> abi_row \<Rightarrow> abi_public res" where
  "abi_to_public L a =
     (if abi_json_valid (a_json a)
      then Inr \<lparr>ap_abi_hash = Some (bytes_to_hex (abi_hash_of L (a_json a))), ap_abi_json = a_json a, ap_modified = a_modified a\<rparr>
      else Inl ValueError)"

definition convert_to_checksum_address :: "public_lib \<Rightarrow> bytes \<Rightarrow> string res" where
  "convert_to_checksum_address L address = checksum_of_bytes L address"

definition logo_url :: "public_lib \<Rightarrow> string \<Rightarrow> string" where
  "logo_url L address = CONTRACT_LOGO_BASE_URL L @ ''/'' @ address @ ''.png''"

definition project_of :: "db \<Rightarrow> contract \<Rightarrow> project option" where
  "project_of d c = (case c_project_id c of None \<Rightarrow> None | Some i \<Rightarrow> find (\<lambda>p. p_id p = i) (db_projects d))"

definition abi_of :: "db \<Rightarrow> contract \<Rightarrow> abi_row option" where
  "abi_of d c = (case c_abi_id c of None \<Rightarrow> None | Some i \<Rightarrow> find (\<lambda>a. a_id a = i) (db_abis d))"

definition contract_to_public :: "public_lib \<Rightarrow> db \<Rightarrow> contract \<Rightarrow> contracts_public res" where
  "contract_to_public L d c =
     res_bind (convert_to_checksum_address L (c_address c)) (\<lambda>address.
     res_bind (case abi_of d c of None \<Rightarrow> Inr None | Some a \<Rightarrow> res_bind (abi_to_public L a) (\<lambda>x. Inr (Some x))) (\<lambda>abi.
       Inr \<lparr>cp_address = address, cp_name = c_name c, cp_display_name = c_display_name c, cp_chain_id = c_chain_id c,
            cp_project = map_option (\<lambda>p. \<lparr>pp_description = p_description p, pp_logo_file = p_logo_file p\<rparr>) (project_of d c),
            cp_abi = abi, cp_modified = c_modified c, cp_trusted_for_delegate_call = c_trusted_for_delegate_call c,
            cp_fetch_retries = c_fetch_retries c, cp_logo_url = logo_url L address\<rparr>))"

definition page_to_public :: "public_lib \<Rightarrow> db \<Rightarrow> contract paginated_response \<Rightarrow> contracts_public paginated_response res" where
  "page_to_public L d page =
     res_bind (res_map (contract_to_public L d) (pr_results page)) (\<lambda>results.
       Inr \<lparr>pr_count = pr_count page, pr_next = pr_next page, pr_previous = pr_previous page, pr_results = results\<rparr>)"

section \<open>The routes\<close>

definition list_all_contracts ::
    "'u url_class \<Rightarrow> 'u \<Rightarrow> int option \<times> int option \<Rightarrow> int list option \<Rightarrow> bool option \<Rightarrow> db \<Rightarrow>
     contract paginated_response" where
  "list_all_contracts U proxy_url params chain_ids trusted_for_delegate_call d =
     (let pagination = new_pagination (fst params) (snd params) 10 100;
          (contracts_page, count) = get_contracts pagination None chain_ids trusted_for_delegate_call d
      in serialize U pagination proxy_url contracts_page count)"

definition list_contracts_uncached ::
    "eth_lib \<Rightarrow> 'u url_class \<Rightarrow> 'u \<Rightarrow> string \<Rightarrow> int option \<times> int option \<Rightarrow> int list option \<Rightarrow> db \<Rightarrow>
     contract paginated_response res" where
  "list_contracts_uncached E U proxy_url address params chain_ids d =
     (if \<not> is_checksum_address E address then Inl (HTTPException 400)
      else let pagination = new_pagination (fst params) (snd params) 10 100
           in res_bind (hex_bytes E address) (\<lambda>a.
                let (contracts_page, count) = get_contracts pagination (Some a) chain_ids None d
                in Inr (serialize U pagination proxy_url contracts_page count)))"

datatype contracts_answer = FreshPage "contract paginated_response" | CachedPage json

record cache_codec =
  cc_md5 :: "string \<Rightarrow> string"
  cc_dumps :: "(string, json) dict \<Rightarrow> string"
  cc_loads :: "string \<Rightarrow> json res"
  cc_params_repr :: "int option \<times> int option \<Rightarrow> string"
  cc_render :: "contracts_public paginated_response \<Rightarrow> string"

definition list_contracts_field ::
    "'u url_class \<Rightarrow> cache_codec \<Rightarrow> 'u \<Rightarrow> string \<Rightarrow> int option \<times> int option \<Rightarrow> int list option \<Rightarrow> string" where
  "list_contracts_field U K proxy_url address params chain_ids =
     get_field_key (cc_md5 K) (cc_dumps K)
       [(''request'', RequestArg (url_str U proxy_url)), (''address'', PlainArg (JStr address)),
        (''pagination_params'', PlainArg (JStr (cc_params_repr K params))),
        (''chain_ids'', PlainArg (case chain_ids of None \<Rightarrow> JNull | Some is \<Rightarrow> JList (map JInt is)))]"

definition validate_page :: "public_lib \<Rightarrow> cache_codec \<Rightarrow> db \<Rightarrow> contracts_answer \<Rightarrow> string res" where
  "validate_page L K d answer =
     (case answer of
        FreshPage page \<Rightarrow> res_bind (page_to_public L d page) (\<lambda>p. Inr (cc_render K p))
      | CachedPage j \<Rightarrow> Inl ValueError)"

definition list_contracts ::
    "eth_lib \<Rightarrow> public_lib \<Rightarrow> 'r redis \<Rightarrow> cache_codec \<Rightarrow> 'u url_class \<Rightarrow> 'u \<Rightarrow> string \<Rightarrow>
     int option \<times> int option \<Rightarrow> int list option \<Rightarrow> db \<Rightarrow> ('r, contracts_answer) act" where
  "list_contracts E L R K U proxy_url address params chain_ids d =
     cache_response R (\<lambda>t. res_bind (cc_loads K t) (\<lambda>j. Inr (CachedPage j))) (validate_page L K d) 60
       (get_key_for_contract address) (list_contracts_field U K proxy_url address params chain_ids)
       (act_lift (res_bind (list_contracts_uncached E U proxy_url address params chain_ids d) (\<lambda>p. Inr (FreshPage p))))"

section \<open>The listing of one address\<close>

lemma sorted_strict_map:
  fixes f :: "'a \<Rightarrow> 'b :: linorder"
  shows "sorted (map f xs) \<Longrightarrow> distinct (map f xs) \<Longrightarrow> sorted_wrt (\<lambda>x y. f x < f y) xs"
proof (induction xs)
  case (Cons x xs)
  then show ?case by (force simp: order_less_le)
qed simp

text \<open>On a database in order, the query for one address has one row per chain, by chain.\<close>

lemma address_query:
  fixes chain_ids :: "int list option"
  assumes ok: "db_ok h d" and a: "a \<noteq> []"
  defines "q \<equiv> get_contracts_query (Some a) chain_ids None False d"
  shows "\<forall>c\<in>set q. c_address c = a \<and> (case chain_ids of Some (i # is) \<Rightarrow> c_chain_id c \<in> set (i # is) | _ \<Rightarrow> True)"
    and "sorted_wrt (\<lambda>x y. c_chain_id x < c_chain_id y) q"
    and "set q = {c \<in> set (db_contracts d). c_address c = a
      \<and> (case chain_ids of Some (i # is) \<Rightarrow> c_chain_id c \<in> set (i # is) | _ \<Rightarrow> True)}"
proof -
  obtain b bs where ab: "a = b # bs" using a by (cases a) simp_all
  define k where "k = (\<lambda>c :: contract. (c_address c, c_chain_id c))"
  define f where "f = filter (\<lambda>c. c_address c = a
      \<and> (case chain_ids of Some (i # is) \<Rightarrow> c_chain_id c \<in> set (i # is) | _ \<Rightarrow> True)) (db_contracts d)"
  have q: "q = sort_key k f"
    unfolding q_def f_def k_def ab
    by (auto simp: get_contracts_query_def Let_def conj_commute split: option.splits list.splits intro!: arg_cong [where f = "sort_key _"] filter_cong)
  show s: "set q = {c \<in> set (db_contracts d). c_address c = a
      \<and> (case chain_ids of Some (i # is) \<Rightarrow> c_chain_id c \<in> set (i # is) | _ \<Rightarrow> True)}"
    unfolding q by (simp add: f_def)
  then show "\<forall>c\<in>set q. c_address c = a \<and> (case chain_ids of Some (i # is) \<Rightarrow> c_chain_id c \<in> set (i # is) | _ \<Rightarrow> True)"
    by blast
  have "distinct (map k (db_contracts d))" using ok by (simp add: db_ok_defs k_def)
  then have "distinct (map k f)" unfolding f_def by (rule distinct_map_filter)
  then have "distinct f" "inj_on k (set f)" by (simp_all add: distinct_map)
  then have "distinct (map k q)" unfolding q by (simp add: distinct_map)
  moreover have "sorted (map k q)" unfolding q by (rule sorted_sort_key)
  ultimately have w: "sorted_wrt (\<lambda>x y. k x < k y) q" by (intro sorted_strict_map)
  have "c_address c = a" if "c \<in> set q" for c using that unfolding s by simp
  then have "c_chain_id x < c_chain_id y" if "x \<in> set q" "y \<in> set q" "k x < k y" for x y
    using that by (simp add: k_def)
  then show "sorted_wrt (\<lambda>x y. c_chain_id x < c_chain_id y) q"
    by (rule sorted_wrt_mono_rel [OF _ w])
qed

text \<open>
  C16. The listing of an address, when the cache has nothing for the request: an address that
  is not checksummed is answered 400 and leaves the cache alone. Otherwise the answer is a
  page of the rows of that address on the requested chains, one per chain in increasing
  order, with their number; when it can be published, its text is in the cache for the same
  request afterwards, and the next such request is answered with that text whatever the
  database says by then, until the entry goes.
\<close>

theorem contract_listing_is_cached:
  assumes R: "hash_ok R" and ok: "db_ok h d" and a: "hex_bytes E address = Inr a" "a \<noteq> []"
    and page: "p = new_pagination (fst params) (snd params) 10 100"
    and query: "q = get_contracts_query (Some a) chain_ids None False d"
    and field: "f = list_contracts_field U K url address params chain_ids"
    and miss: "redis_hget R r (get_key_for_contract address) f = None"
  shows "(\<not> is_checksum_address E address \<longrightarrow>
      list_contracts E L R K U url address params chain_ids d r = (Inl (HTTPException 400), r))
    \<and> sorted_wrt (\<lambda>x y. c_chain_id x < c_chain_id y) q
    \<and> set q = {c \<in> set (db_contracts d). c_address c = a
        \<and> (case chain_ids of Some (i # is) \<Rightarrow> c_chain_id c \<in> set (i # is) | _ \<Rightarrow> True)}
    \<and> (\<forall>public. is_checksum_address E address \<longrightarrow>
        page_to_public L d (serialize U p url (get_page p q) (int (length q))) = Inr public \<longrightarrow>
        cc_render K public \<noteq> [] \<longrightarrow>
        (\<exists>r'. list_contracts E L R K U url address params chain_ids d r
              = (Inr (FreshPage (serialize U p url (get_page p q) (int (length q)))), r')
           \<and> map cp_chain_id (pr_results public) = map c_chain_id (get_page p q)
           \<and> (\<forall>d'. list_contracts E L R K U url address params chain_ids d' r'
                = (res_bind (cc_loads K (cc_render K public)) (\<lambda>j. Inr (CachedPage j)), r'))))"
proof (intro conjI impI allI)
  let ?k = "get_key_for_contract address"
  show "list_contracts E L R K U url address params chain_ids d r = (Inl (HTTPException 400), r)"
    if "\<not> is_checksum_address E address"
    using that miss by (simp add: list_contracts_def cache_response_def list_contracts_uncached_def field)
  show "sorted_wrt (\<lambda>x y. c_chain_id x < c_chain_id y) q" "set q = {c \<in> set (db_contracts d). c_address c = a
        \<and> (case chain_ids of Some (i # is) \<Rightarrow> c_chain_id c \<in> set (i # is) | _ \<Rightarrow> True)}"
    unfolding query by (rule address_query [OF ok a(2)])+
  fix public
  let ?page = "serialize U p url (get_page p q) (int (length q))"
  assume c: "is_checksum_address E address" and pub: "page_to_public L d ?page = Inr public" and t: "cc_render K public \<noteq> []"
  have un: "list_contracts_uncached E U url address params chain_ids d = Inr ?page"
    using c a by (simp add: list_contracts_uncached_def get_contracts_def get_count_def Let_def page query)
  let ?r1 = "redis_hset R r ?k f (cc_render K public)"
  let ?r' = "if redis_ttl R ?r1 ?k = -1 then redis_expire R ?r1 ?k 60 else ?r1"
  have first: "list_contracts E L R K U url address params chain_ids d r = (Inr (FreshPage ?page), ?r')"
    using miss pub by (simp add: list_contracts_def un cache_response_def act_bind_def field validate_page_def)
  have "redis_hget R ?r' ?k f = Some (cc_render K public)"
    by (simp add: hash_okD [OF R])
  then have hit: "list_contracts E L R K U url address params chain_ids d' ?r'
      = (res_bind (cc_loads K (cc_render K public)) (\<lambda>j. Inr (CachedPage j)), ?r')" for d'
    unfolding list_contracts_def field [symmetric] by (rule cache_response_hit [OF _ t])
  obtain results where rs: "res_map (contract_to_public L d) (get_page p q) = Inr results" "pr_results public = results"
    using pub by (auto simp: page_to_public_def serialize_def res_bind_Inr_iff)
  have "map cp_chain_id results = map c_chain_id (get_page p q)"
    using rs(1) unfolding res_map_Inr_iff
    by (induction rule: list_all2_induct) (auto simp: contract_to_public_def res_bind_Inr_iff)
  with first hit rs(2) show "\<exists>r'. list_contracts E L R K U url address params chain_ids d r = (Inr (FreshPage ?page), r')
      \<and> map cp_chain_id (pr_results public) = map c_chain_id (get_page p q)
      \<and> (\<forall>d'. list_contracts E L R K U url address params chain_ids d' r'
                = (res_bind (cc_loads K (cc_render K public)) (\<lambda>j. Inr (CachedPage j)), r'))"
    by (intro exI [of _ ?r']) blast
qed

definition demo_public_lib :: public_lib where
  "demo_public_lib = \<lparr>abi_hash_of = (\<lambda>j. [0xa9]), checksum_of_bytes = (\<lambda>b. Inr (hex_str demo_eth b)),
     CONTRACT_LOGO_BASE_URL = ''https://logos''\<rparr>"

definition demo_codec :: cache_codec where
  "demo_codec = \<lparr>cc_md5 = (\<lambda>s. s), cc_dumps = (\<lambda>kvs. ''f''), cc_loads = (\<lambda>t. Inr (JStr t)), cc_params_repr = (\<lambda>p. []),
     cc_render = (\<lambda>p. ''page of '' @ str_int (pr_count p))\<rparr>"

definition demo_listing_db :: db where
  "demo_listing_db = empty_db\<lparr>db_contracts := [(new_contract [97] 10)\<lparr>c_id := 1\<rparr>, (new_contract [98] 1)\<lparr>c_id := 2\<rparr>,
       (new_contract [97] 1)\<lparr>c_id := 3\<rparr>], db_contract_seq := 4\<rparr>"

lemma contract_listing_is_cached_witness:
  "\<exists>p r'. list_contracts demo_eth demo_public_lib demo_redis demo_codec demo_urls (None, None) ''0xa'' (None, None) None
       demo_listing_db Map.empty = (Inr (FreshPage p), r')
     \<and> map c_chain_id (pr_results p) = [1, 10] \<and> pr_count p = 2
     \<and> list_contracts demo_eth demo_public_lib demo_redis demo_codec demo_urls (None, None) ''0xa'' (None, None) None
         empty_db r' = (Inr (CachedPage (JStr ''page of 2'')), r')"
proof -
  let ?p = "new_pagination (fst (None :: int option, None :: int option)) (snd (None :: int option, None :: int option)) 10 100"
  let ?q = "get_contracts_query (Some [97]) None None False demo_listing_db"
  let ?page = "serialize demo_urls ?p (None, None) (get_page ?p ?q) (int (length ?q))"
  have ok: "db_ok (\<lambda>j. []) demo_listing_db"
    by (simp add: db_ok_defs demo_listing_db_def empty_db_def new_contract_def foreign_keys_ok_def)
  have a: "hex_bytes demo_eth ''0xa'' = Inr [97]" "[97] \<noteq> ([] :: bytes)" "is_checksum_address demo_eth ''0xa''"
    by (simp_all add: demo_eth_def)
  have q: "map c_chain_id ?q = [1, 10]" by code_simp
  have pg: "map c_chain_id (get_page ?p ?q) = [1, 10]" by code_simp
  have len: "int (length ?q) = 2" using arg_cong [where f = length, OF q] by simp
  obtain public where pub: "page_to_public demo_public_lib demo_listing_db ?page = Inr public" "cc_render demo_codec public = ''page of 2''"
  proof -
    have "(case page_to_public demo_public_lib demo_listing_db ?page of Inl e \<Rightarrow> [] | Inr x \<Rightarrow> cc_render demo_codec x) = ''page of 2''"
      by code_simp
    then show thesis using that by (cases "page_to_public demo_public_lib demo_listing_db ?page") auto
  qed
  have miss: "redis_hget demo_redis Map.empty (get_key_for_contract ''0xa'')
      (list_contracts_field demo_urls demo_codec (None, None) ''0xa'' (None, None) None) = None" by (simp add: demo_redis_def)
  have loads: "cc_loads demo_codec ''page of 2'' = Inr (JStr ''page of 2'')" by (simp add: demo_codec_def)
  from contract_listing_is_cached [OF demo_hash_ok ok a(1,2) refl refl refl miss, of demo_public_lib] a(3) pub
  obtain r' where r': "list_contracts demo_eth demo_public_lib demo_redis demo_codec demo_urls (None, None) ''0xa'' (None, None) None
       demo_listing_db Map.empty = (Inr (FreshPage ?page), r')"
    "list_contracts demo_eth demo_public_lib demo_redis demo_codec demo_urls (None, None) ''0xa'' (None, None) None
         empty_db r' = (res_bind (cc_loads demo_codec ''page of 2'') (\<lambda>j. Inr (CachedPage j)), r')" by auto
  have "map c_chain_id (pr_results ?page) = [1, 10]" "pr_count ?page = 2"
    using pg len by (simp_all add: serialize_def)
  with r' loads show ?thesis by (intro exI [of _ ?page] exI [of _ r']) simp
qed

end
