(* ===== verification/Web.thy ===== *)
theory Web
  imports Safe_Logger
begin

text \<open>
  What surrounds every request: \<open>get_proxy_aware_url\<close> of \<open>app/utils.py\<close>, the two
  middlewares of \<open>app/main.py\<close> and the plain routes of \<open>app/routers/default.py\<close> and
  \<open>app/routers/about.py\<close>. The URL class of Starlette is the record \<open>url_api\<close>. A request is
  its headers, with lower-case names, and its URL.
\<close>

section \<open>URLs behind a proxy\<close>

datatype port_value = PortInt int | PortStr string

record 'u url_api =
  parse_url :: "string \<Rightarrow> 'u"
  show_url :: "'u \<Rightarrow> string"
  url_scheme :: "'u \<Rightarrow> string option"
  url_hostname :: "'u \<Rightarrow> string option"
  url_port :: "'u \<Rightarrow> port_value option"
  url_path :: "'u \<Rightarrow> string"
  url_replace :: "'u \<Rightarrow> string option \<Rightarrow> string option \<Rightarrow> port_value option \<Rightarrow> string \<Rightarrow> 'u"

record 'u request =
  rq_headers :: "(string, string) dict"
  rq_url :: 'u
  rq_method :: string
  rq_route :: "string option"

definition get_header :: "(string, string) dict \<Rightarrow> string \<Rightarrow> string option" where
  "get_header headers name = map_of headers name"

definition forwarded_prefix :: "(string, string) dict \<Rightarrow> string" where
  "forwarded_prefix headers =
     str_rstrip (CHR ''/'') (case get_header headers ''x-forwarded-prefix'' of None \<Rightarrow> [] | Some p \<Rightarrow> p)"

definition get_proxy_aware_url :: "'u url_api \<Rightarrow> 'u request \<Rightarrow> 'u" where
  "get_proxy_aware_url U request =
     (let prefix = forwarded_prefix (rq_headers request); url = rq_url request in
      if prefix \<noteq> [] then
        let host = (case get_header (rq_headers request) ''x-forwarded-host'' of
                      Some h \<Rightarrow> Some h | None \<Rightarrow> url_hostname U url);
            protocol = (case get_header (rq_headers request) ''x-forwarded-proto'' of
                      Some p \<Rightarrow> Some p | None \<Rightarrow> url_scheme U url);
            port = (case get_header (rq_headers request) ''x-forwarded-port'' of
                      Some p \<Rightarrow> Some (PortStr p) | None \<Rightarrow> url_port U url)
        in url_replace U url protocol host port (prefix @ url_path U url)
      else url)"

text \<open>\<open>value.isoformat().replace("+00:00", "Z")\<close>, on the ISO text of the time.\<close>

definition datetime_to_str :: "string \<Rightarrow> string" where
  "datetime_to_str isoformat = str_replace ''+00:00'' ''Z'' isoformat"

section \<open>Responses and the redirect middleware\<close>

record response =
  rs_status :: int
  rs_headers :: "(string, string) dict"
  rs_body :: string

definition rewrite_location :: "'u url_api \<Rightarrow> 'u request \<Rightarrow> response \<Rightarrow> response" where
  "rewrite_location U request response =
     (let prefix = forwarded_prefix (rq_headers request) in
      case get_header (rs_headers response) ''location'' of
        None \<Rightarrow> response
      | Some location \<Rightarrow>
          if prefix = [] then response
          else let original_url = parse_url U location;
                   host = get_header (rq_headers request) ''x-forwarded-host'';
                   protocol = get_header (rq_headers request) ''x-forwarded-proto'';
                   port = map_option PortStr (get_header (rq_headers request) ''x-forwarded-port'')
               in response\<lparr>rs_headers := AList.update ''location''
                    (show_url U (url_replace U original_url protocol host port (prefix @ url_path U original_url)))
                    (rs_headers response)\<rparr>)"

definition http_redirect_middleware ::
    "'u url_api \<Rightarrow> 'u request \<Rightarrow> ('s, response) act \<Rightarrow> ('s, response) act" where
  "http_redirect_middleware U request call_next =
     act_bind call_next (\<lambda>response. act_return (rewrite_location U request response))"

section \<open>The request middleware\<close>

record web_env = session_env +
  web_log :: "(http_request_log \<times> http_response_log) list"

text \<open>\<open>int(total_seconds * 1000)\<close> on times in microseconds: towards zero.\<close>

definition total_milliseconds :: "int \<Rightarrow> int \<Rightarrow> int" where
  "total_milliseconds start_time end_time =
     (if start_time \<le> end_time then (end_time - start_time) div 1000 else - ((start_time - end_time) div 1000))"

definition log_request ::
    "'u url_api \<Rightarrow> 'u request \<Rightarrow> int \<Rightarrow> int \<Rightarrow> response option \<Rightarrow> ('z web_env_scheme, unit) act" where
  "log_request U request start_time end_time response =
     (let http_request = \<lparr>hq_url = show_url U (rq_url request), hq_method = rq_method request,
                          hq_route = rq_route request, hq_body = None, hq_startTime = start_time\<rparr>;
          status_code = (case response of Some r \<Rightarrow> rs_status r | None \<Rightarrow> 500);
          http_response = \<lparr>hr_status = status_code, hr_endTime = end_time,
                           hr_totalTime = total_milliseconds start_time end_time\<rparr>
      in act_modify (\<lambda>s. s\<lparr>web_log := web_log s @ [(http_request, http_response)]\<rparr>))"

text \<open>
  \<open>finally\<close> runs on both ways out: after a response with it, after an exception without one.
  The times of the two readings of the clock are arguments.
\<close>

definition http_request_middleware ::
    "(nat \<Rightarrow> string) \<Rightarrow> 'u url_api \<Rightarrow> 'u request \<Rightarrow> int \<Rightarrow> int \<Rightarrow> ('z web_env_scheme, response) act \<Rightarrow>
     ('z web_env_scheme, response) act" where
  "http_request_middleware uuids U request start_time end_time call_next s =
     (case with_db_session_context uuids None call_next s of
        (Inl e, s') \<Rightarrow> act_bind (log_request U request start_time end_time None) (\<lambda>_. act_raise e) s'
      | (Inr r, s') \<Rightarrow> act_bind (log_request U request start_time end_time (Some r)) (\<lambda>_. act_return r) s')"

text \<open>The middleware that was added last is the outermost.\<close>

definition serve ::
    "(nat \<Rightarrow> string) \<Rightarrow> 'u url_api \<Rightarrow> 'u request \<Rightarrow> int \<Rightarrow> int \<Rightarrow> ('z web_env_scheme, response) act \<Rightarrow>
     ('z web_env_scheme, response) act" where
  "serve uuids U request start_time end_time handler =
     http_request_middleware uuids U request start_time end_time (http_redirect_middleware U request handler)"

section \<open>Plain routes\<close>

definition about_route :: "string \<Rightarrow> (string \<times> string) list" where
  "about_route version = [(''version'', version)]"

record docs_page =
  dp_openapi_url :: string
  dp_title :: string
  dp_favicon_url :: string

definition docs_page_for :: "string \<Rightarrow> (string, string) dict \<Rightarrow> docs_page" where
  "docs_page_for title headers =
     (let prefix = (case get_header headers ''x-forwarded-prefix'' of None \<Rightarrow> [] | Some p \<Rightarrow> p)
      in \<lparr>dp_openapi_url = prefix @ ''/openapi.json'', dp_title = title,
          dp_favicon_url = prefix @ ''/static/favicon.ico''\<rparr>)"

definition home :: "(string, string) dict \<Rightarrow> docs_page" where
  "home = docs_page_for ''Safe Decoder Service - Swagger UI''"

definition redoc_html :: "(string, string) dict \<Rightarrow> docs_page" where
  "redoc_html = docs_page_for ''Safe Decoder Service - ReDoc''"

definition swagger_ui_html :: response where
  "swagger_ui_html = \<lparr>rs_status = 307, rs_headers = [(''location'', ''/'')], rs_body = []\<rparr>"

definition health :: string where
  "health = ''OK''"

section \<open>What the middlewares guarantee\<close>

lemma tidy_redirect: "tidy handler \<Longrightarrow> tidy (http_redirect_middleware U request handler)"
  unfolding http_redirect_middleware_def by (intro tidy_bind tidy_basic)

text \<open>
  C40. Every request is served in a session scope of its own and logged exactly once, after
  the scope has closed: with the status of its response, or with 500 when the handler
  raised, in which case the exception is passed on. Afterwards the context variable is what
  it was and no session is open that was not open before. A response without a location, or
  a request without a forwarded prefix, is passed on unchanged.
\<close>

theorem requests_are_logged_once:
  fixes handler :: "('z web_env_scheme, response) act"
  assumes t: "tidy handler" and k: "keeps web_log handler"
    and run: "serve uuids U request t0 t1 handler s = (r, s')"
  shows "\<exists>s1 r1. handler (s\<lparr>uuid_count := uuid_count s + 1, db_session_ctx := Some (uuids (uuid_count s))\<rparr>) = (r1, s1)
    \<and> r = map_sum id (rewrite_location U request) r1
    \<and> web_log s' = web_log s
        @ [(\<lparr>hq_url = show_url U (rq_url request), hq_method = rq_method request, hq_route = rq_route request,
             hq_body = None, hq_startTime = t0\<rparr>,
            \<lparr>hr_status = (case r1 of Inl e \<Rightarrow> 500 | Inr response \<Rightarrow> rs_status response), hr_endTime = t1,
             hr_totalTime = total_milliseconds t0 t1\<rparr>)]
    \<and> db_session_ctx s' = db_session_ctx s
    \<and> set (open_sessions s') \<subseteq> set (open_sessions s)
    \<and> (forwarded_prefix (rq_headers request) = [] \<longrightarrow> r = r1)
    \<and> (\<forall>response. r1 = Inr response \<longrightarrow> get_header (rs_headers response) ''location'' = None \<longrightarrow> r = r1)"
proof -
  let ?i = "uuids (uuid_count s)" and ?s1 = "s\<lparr>uuid_count := uuid_count s + 1\<rparr>"
  have ch: "chosen_session_id uuids None s = (Inr ?i, ?s1)" by (simp add: chosen_session_id_def uuid4_def)
  let ?body = "http_redirect_middleware U request handler"
  obtain r1 s1 where h: "handler (?s1\<lparr>db_session_ctx := Some ?i\<rparr>) = (r1, s1)" by fastforce
  let ?r = "map_sum id (rewrite_location U request) r1"
  have b: "?body (?s1\<lparr>db_session_ctx := Some ?i\<rparr>) = (?r, s1)"
    using h by (simp add: http_redirect_middleware_def act_bind_def split: sum.splits)
  let ?s2 = "s1\<lparr>db_session_ctx := db_session_ctx ?s1, open_sessions := filter (\<lambda>j. j \<noteq> ?i) (open_sessions s1)\<rparr>"
  have w: "with_db_session_context uuids None ?body s = (?r, ?s2)"
    by (rule with_db_session_context_run [OF ch tidy_keeps [OF tidy_redirect [OF t]] b])
  have log: "web_log s1 = web_log s" using keepsD' [OF k h] by simp
  have opn: "set (open_sessions s1) \<subseteq> insert ?i (set (open_sessions s))" using tidyD [OF t h] by auto
  have st: "(case ?r of Inl e \<Rightarrow> 500 | Inr q \<Rightarrow> rs_status q) = (case r1 of Inl e \<Rightarrow> 500 | Inr q \<Rightarrow> rs_status q)"
    by (simp add: rewrite_location_def Let_def split: sum.splits option.splits)
  have out: "r = ?r" "s' = ?s2\<lparr>web_log := web_log s1
        @ [(\<lparr>hq_url = show_url U (rq_url request), hq_method = rq_method request, hq_route = rq_route request,
             hq_body = None, hq_startTime = t0\<rparr>,
            \<lparr>hr_status = (case r1 of Inl e \<Rightarrow> 500 | Inr response \<Rightarrow> rs_status response), hr_endTime = t1,
             hr_totalTime = total_milliseconds t0 t1\<rparr>)]\<rparr>"
    using run w st by (auto simp: serve_def http_request_middleware_def log_request_def Let_def split: sum.splits)
  have id: "rewrite_location U request q = q"
    if "forwarded_prefix (rq_headers request) = [] \<or> get_header (rs_headers q) ''location'' = None" for q
    using that by (auto simp: rewrite_location_def Let_def split: option.splits)
  have p: "?r = r1" if "forwarded_prefix (rq_headers request) = []" using id that by (cases r1) simp_all
  have q: "?r = r1" if "r1 = Inr response" "get_header (rs_headers response) ''location'' = None" for response
    using id that by simp
  show ?thesis using h out opn log p q by (intro exI [of _ s1] exI [of _ r1]) auto
qed

definition demo_url_api :: "string url_api" where
  "demo_url_api = \<lparr>parse_url = (\<lambda>s. s), show_url = (\<lambda>s. s), url_scheme = (\<lambda>u. None), url_hostname = (\<lambda>u. None),
     url_port = (\<lambda>u. None), url_path = (\<lambda>u. u), url_replace = (\<lambda>u s h p path. path)\<rparr>"

definition demo_request :: "string request" where
  "demo_request = \<lparr>rq_headers = [(''x-forwarded-prefix'', ''/decoder/'')], rq_url = ''/docs'', rq_method = ''GET'', rq_route = Some ''/docs''\<rparr>"

lemma requests_are_logged_once_witness:
  "\<exists>s'. serve (\<lambda>n. str_int (int n)) demo_url_api demo_request 5000 9500 (act_return swagger_ui_html)
       \<lparr>db_session_ctx = None, open_sessions = [], uuid_count = 0, web_log = []\<rparr>
     = (Inr (swagger_ui_html\<lparr>rs_headers := [(''location'', ''/decoder/'')]\<rparr>), s')
   \<and> map (\<lambda>(q, p). (hq_url q, hr_status p, hr_totalTime p)) (web_log s') = [(''/docs'', 307, 4)]
   \<and> open_sessions s' = []"
proof -
  let ?s = "\<lparr>db_session_ctx = None, open_sessions = [], uuid_count = 0, web_log = []\<rparr>"
  have t: "tidy (act_return swagger_ui_html)" by (rule tidy_basic)
  have k: "keeps web_log (act_return swagger_ui_html)" by (rule keeps_basic)
  obtain r s' where run: "serve (\<lambda>n. str_int (int n)) demo_url_api demo_request 5000 9500 (act_return swagger_ui_html) ?s = (r, s')"
    by fastforce
  have loc: "rewrite_location demo_url_api demo_request swagger_ui_html = swagger_ui_html\<lparr>rs_headers := [(''location'', ''/decoder/'')]\<rparr>"
    by code_simp
  from requests_are_logged_once [OF t k run] run loc show ?thesis
    by (auto simp: total_milliseconds_def demo_url_api_def demo_request_def swagger_ui_html_def)
qed

end
