(* ===== verification/Admin.thy ===== *)
theory Admin
  imports Redis_Cache
begin

text \<open>
  The administration site: \<open>app/routers/admin.py\<close>. A login stores a random token in the
  browser's session and in Redis; the token authenticates until it expires or is deleted.
  A contract's address is typed as hexadecimal text. The random tokens are an argument, and
  so is whether a deletion in Redis fails; the digest comparison is equality of the two texts.
\<close>

section \<open>Authentication\<close>

datatype form_value = FormStr string | FormFile

record admin_settings =
  ADMIN_USERNAME :: string
  ADMIN_PASSWORD :: string
  ADMIN_TOKEN_EXPIRATION_SECONDS :: int

record 'r admin_state =
  as_session :: "(string, string) dict"
  as_redis :: 'r
  as_tokens :: nat

definition token_key :: "string \<Rightarrow> string" where
  "token_key secret = ''admin:token:'' @ secret"

definition compare_credentials :: "string \<Rightarrow> string \<Rightarrow> bool" where
  "compare_credentials candidate expected \<longleftrightarrow> candidate = expected"

definition login ::
    "(nat \<Rightarrow> string) \<Rightarrow> admin_settings \<Rightarrow> 'r redis \<Rightarrow> (string, form_value) dict \<Rightarrow> ('r admin_state, bool) act" where
  "login token_hex cfg R form =
     (case (map_of form ''username'', map_of form ''password'') of
        (Some (FormStr username), Some (FormStr password)) \<Rightarrow>
          let username_ok = compare_credentials username (ADMIN_USERNAME cfg);
              password_ok = compare_credentials password (ADMIN_PASSWORD cfg) in
          if username_ok \<and> password_ok
          then act_bind act_get (\<lambda>s.
                 let secret = token_hex (as_tokens s) in
                 act_bind (act_modify (\<lambda>s. s\<lparr>as_tokens := as_tokens s + 1,
                     as_session := AList.update ''token'' secret (as_session s)\<rparr>)) (\<lambda>_.
                 act_bind (act_modify (\<lambda>s. s\<lparr>as_redis := redis_set R (as_redis s) (token_key secret) ''1''
                     (ADMIN_TOKEN_EXPIRATION_SECONDS cfg)\<rparr>)) (\<lambda>_.
                   act_return True)))
          else act_return False
      | _ \<Rightarrow> act_return False)"

definition delete_token :: "'r redis \<Rightarrow> bool \<Rightarrow> string \<Rightarrow> ('r admin_state, unit) act" where
  "delete_token R fails secret =
     (if fails then act_raise OSError
      else act_modify (\<lambda>s. s\<lparr>as_redis := redis_delete R (as_redis s) (token_key secret)\<rparr>))"

definition logout :: "'r redis \<Rightarrow> bool \<Rightarrow> ('r admin_state, bool) act" where
  "logout R fails =
     act_bind act_get (\<lambda>s.
     act_bind (case map_of (as_session s) ''token'' of
         Some (c # cs) \<Rightarrow> act_catch (delete_token R fails (c # cs)) (\<lambda>e. True) (\<lambda>_. act_return ())
       | _ \<Rightarrow> act_return ()) (\<lambda>_.
     act_bind (act_modify (\<lambda>s. s\<lparr>as_session := []\<rparr>)) (\<lambda>_.
       act_return True)))"

definition authenticate :: "'r redis \<Rightarrow> ('r admin_state, bool) act" where
  "authenticate R =
     act_bind act_get (\<lambda>s.
       case map_of (as_session s) ''token'' of
         Some (c # cs) \<Rightarrow> act_return (redis_exists R (as_redis s) (token_key (c # cs)))
       | _ \<Rightarrow> act_return False)"

section \<open>Editing a contract\<close>

definition hex_value :: "char \<Rightarrow> nat option" where
  "hex_value c = (let n = of_char c in
     if 48 \<le> n \<and> n \<le> 57 then Some (n - 48)
     else if 65 \<le> n \<and> n \<le> 70 then Some (n - 55)
     else if 97 \<le> n \<and> n \<le> 102 then Some (n - 87)
     else None)"

definition is_ascii_space :: "char \<Rightarrow> bool" where
  "is_ascii_space c = (let n = (of_char c :: nat) in (9 \<le> n \<and> n \<le> 13) \<or> n = 32)"

text \<open>\<open>bytes.fromhex\<close>: pairs of digits, with white space allowed before and between pairs.\<close>

fun bytes_fromhex :: "string \<Rightarrow> bytes res" where
  "bytes_fromhex [] = Inr []"
| "bytes_fromhex [c] = (if is_ascii_space c then Inr [] else Inl ValueError)"
| "bytes_fromhex (c # e # cs) =
     (if is_ascii_space c then bytes_fromhex (e # cs)
      else case (hex_value c, hex_value e) of
        (Some x, Some y) \<Rightarrow> res_bind (bytes_fromhex cs) (\<lambda>bs. Inr (of_nat (16 * x + y) # bs))
      | _ \<Rightarrow> Inl ValueError)"

definition form_address :: "string \<Rightarrow> bytes res" where
  "form_address text = bytes_fromhex (str_replace ''0x'' [] (str_strip text))"

text \<open>The other fields of the form are passed on to the framework.\<close>

definition on_model_change :: "(string, string) dict \<Rightarrow> (bytes \<times> (string, string) dict) res" where
  "on_model_change data =
     (case map_of data ''address'' of
        None \<Rightarrow> Inl KeyError
      | Some text \<Rightarrow> res_bind (form_address text) (\<lambda>a. Inr (a, data)))"

section \<open>The life of a token\<close>

lemma authenticate_token:
  "map_of (as_session s) ''token'' = Some t \<Longrightarrow> t \<noteq> [] \<Longrightarrow>
   authenticate R s = (Inr (redis_exists R (as_redis s) (token_key t)), s)"
  by (cases t) (simp_all add: authenticate_def)

text \<open>
  C28. Only the configured user name and password log in, and any other form changes nothing.
  A login authenticates its session for as long as \<open>ADMIN_TOKEN_EXPIRATION_SECONDS\<close> and no
  longer. A logout always ends the session; it also withdraws the token, so that a copy of
  the session is refused, unless the deletion in Redis fails: then the copy is still accepted
  until the token expires.
\<close>

theorem token_authenticates_until_expiry:
  assumes laws: "values_ok R" and ttl: "0 < ADMIN_TOKEN_EXPIRATION_SECONDS cfg" and tok: "token_hex (as_tokens s) \<noteq> []"
    and run: "login token_hex cfg R form s = (r, s')"
  shows "r = Inr (map_of form ''username'' = Some (FormStr (ADMIN_USERNAME cfg)) \<and> map_of form ''password'' = Some (FormStr (ADMIN_PASSWORD cfg)))
    \<and> (r = Inr False \<longrightarrow> s' = s)
    \<and> (r = Inr True \<longrightarrow> (\<forall>n. fst (authenticate R (s'\<lparr>as_redis := redis_pass R n (as_redis s')\<rparr>))
          = Inr (int n < ADMIN_TOKEN_EXPIRATION_SECONDS cfg))
       \<and> (\<forall>fails. \<exists>s2. logout R fails s' = (Inr True, s2) \<and> fst (authenticate R s2) = Inr False
            \<and> fst (authenticate R (s2\<lparr>as_session := as_session s'\<rparr>)) = Inr fails))"
proof -
  let ?t = "token_hex (as_tokens s)" and ?ex = "ADMIN_TOKEN_EXPIRATION_SECONDS cfg"
  let ?ok = "map_of form ''username'' = Some (FormStr (ADMIN_USERNAME cfg)) \<and> map_of form ''password'' = Some (FormStr (ADMIN_PASSWORD cfg))"
  let ?s = "s\<lparr>as_tokens := as_tokens s + 1, as_session := AList.update ''token'' ?t (as_session s),
      as_redis := redis_set R (as_redis s) (token_key ?t) ''1'' ?ex\<rparr>"
  have res: "login token_hex cfg R form s = (if ?ok then (Inr True, ?s) else (Inr False, s))"
    by (auto simp: login_def compare_credentials_def Let_def split: option.splits form_value.splits)
  have exists: "redis_exists R x k \<longleftrightarrow> redis_ttl R x k \<noteq> -2" for x k using laws unfolding values_ok_def by blast
  have pass: "redis_ttl R (redis_pass R n x) k = (if redis_ttl R x k < 0 then redis_ttl R x k
           else if redis_ttl R x k \<le> int n then -2 else redis_ttl R x k - int n)" for n x k
    using laws unfolding values_ok_def by blast
  have del: "redis_ttl R (redis_delete R x k) k = -2" for x k using laws unfolding values_ok_def by simp
  have R: "redis_ttl R (redis_set R x k ''1'' ?ex) k = ?ex" for x k using laws ttl unfolding values_ok_def by simp
  have auth: "fst (authenticate R (?s\<lparr>as_redis := redis_pass R n (as_redis ?s)\<rparr>)) = Inr (int n < ?ex)" for n
    using authenticate_token [of "?s\<lparr>as_redis := redis_pass R n (as_redis ?s)\<rparr>" ?t R] tok R ttl
    by (simp add: exists pass)
  have out: "\<exists>s2. logout R fails ?s = (Inr True, s2) \<and> fst (authenticate R s2) = Inr False
            \<and> fst (authenticate R (s2\<lparr>as_session := as_session ?s\<rparr>)) = Inr fails" for fails
  proof -
    obtain c cs where t: "?t = c # cs" using tok by (cases ?t) simp_all
    let ?r2 = "if fails then as_redis ?s else redis_delete R (as_redis ?s) (token_key ?t)"
    let ?s2 = "?s\<lparr>as_redis := ?r2, as_session := []\<rparr>"
    have "logout R fails ?s = (Inr True, ?s2)"
      by (simp add: logout_def delete_token_def act_catch_def act_bind_def t)
    moreover have "fst (authenticate R ?s2) = Inr False" by (simp add: authenticate_def)
    moreover have "fst (authenticate R (?s2\<lparr>as_session := as_session ?s\<rparr>)) = Inr fails"
      using authenticate_token [of "?s2\<lparr>as_session := as_session ?s\<rparr>" ?t R] tok R ttl by (simp add: exists del)
    ultimately show ?thesis by blast
  qed
  show ?thesis
  proof (cases ?ok)
    case True
    then have "r = Inr True" "s' = ?s" using run res by simp_all
    with True auth out show ?thesis by auto
  next
    case False
    then show ?thesis using run res by auto
  qed
qed

definition demo_admin_settings :: admin_settings where
  "demo_admin_settings = \<lparr>ADMIN_USERNAME = ''admin'', ADMIN_PASSWORD = ''secret'', ADMIN_TOKEN_EXPIRATION_SECONDS = 604800\<rparr>"

lemma token_authenticates_until_expiry_witness:
  "\<exists>s'. login (\<lambda>n. ''t'') demo_admin_settings demo_redis [(''username'', FormStr ''admin''), (''password'', FormStr ''secret'')]
       \<lparr>as_session = [], as_redis = Map.empty, as_tokens = 0\<rparr> = (Inr True, s')
     \<and> (\<forall>n. fst (authenticate demo_redis (s'\<lparr>as_redis := redis_pass demo_redis n (as_redis s')\<rparr>)) = Inr (int n < 604800))"
proof -
  let ?form = "[(''username'', FormStr ''admin''), (''password'', FormStr ''secret'')]"
  let ?s = "\<lparr>as_session = [], as_redis = Map.empty :: string \<rightharpoonup> demo_entry, as_tokens = 0\<rparr>"
  have ttl: "0 < ADMIN_TOKEN_EXPIRATION_SECONDS demo_admin_settings" by (simp add: demo_admin_settings_def)
  obtain r s' where run: "login (\<lambda>n. ''t'') demo_admin_settings demo_redis ?form ?s = (r, s')" by fastforce
  have "r = Inr True" using run by (auto simp: login_def demo_admin_settings_def compare_credentials_def Let_def)
  moreover have "ADMIN_TOKEN_EXPIRATION_SECONDS demo_admin_settings = 604800" by (simp add: demo_admin_settings_def)
  ultimately show ?thesis
    using token_authenticates_until_expiry [where s = ?s and token_hex = "\<lambda>n. ''t''", OF demo_values_ok ttl _ run] run
    by (intro exI [of _ s']) simp
qed

section \<open>An address read back\<close>

lemma hex_value_digit: "d < 16 \<Longrightarrow> hex_value (hex_digit d) = Some d"
  by (auto simp: hex_value_def hex_digit_def Let_def)

lemma hex_digit_chars: "d < 16 \<Longrightarrow> \<not> is_ascii_space (hex_digit d) \<and> \<not> is_space (hex_digit d) \<and> hex_digit d \<noteq> CHR ''x''"
proof -
  have x: "CHR ''x'' = char_of (120 :: nat)" by code_simp
  assume "d < 16"
  then show ?thesis by (auto simp: is_ascii_space_def is_space_def hex_digit_def Let_def x)
qed

lemma byte_split: "of_nat (16 * (unat (b :: byte) div 16) + unat b mod 16) = b"
  by simp

lemma byte_bounds: "unat (b :: byte) div 16 < 16" "unat b mod 16 < 16"
proof -
  have "unat b < 256" by (rule order_less_le_trans [OF unsigned_less]) simp
  then show "unat b div 16 < 16" by simp
qed simp

lemma bytes_fromhex_hex: "bytes_fromhex (bytes_hex bs) = Inr bs"
proof (induction bs)
  case (Cons b bs)
  then show ?case
    using byte_bounds [of b] hex_digit_chars [of "unat b div 16"]
    by (simp add: bytes_hex_def byte_hex_def hex_value_digit)
qed (simp add: bytes_hex_def)

lemma bytes_hex_chars: "c \<in> set (bytes_hex bs) \<Longrightarrow> \<not> is_space c \<and> c \<noteq> CHR ''x''"
  using hex_digit_chars byte_bounds by (auto simp: bytes_hex_def byte_hex_def)

lemma str_replace_absent: "CHR ''x'' \<notin> set s \<Longrightarrow> str_replace ''0x'' [] s = s"
proof (induction s)
  case (Cons c s)
  then have "\<not> prefix ''0x'' (c # s)" by (cases s) (auto simp: prefix_def)
  with Cons show ?case by auto
qed simp

lemma strip_middle:
  assumes "list_all is_space l" and "list_all is_space r" and "t \<noteq> []" and "\<forall>c\<in>set t. \<not> is_space c"
  shows "str_strip (l @ t @ r) = t"
proof -
  have d: "dropWhile is_space (xs @ ys) = ys" if "list_all is_space xs" "ys \<noteq> []" "\<not> is_space (hd ys)" for xs ys
    using that by (induction xs) (cases ys; simp)+
  have "dropWhile is_space (l @ t @ r) = t @ r" using assms by (intro d) (cases t; simp)+
  moreover have "dropWhile is_space (rev r @ rev t) = rev t"
    using assms by (intro d) (simp_all add: list_all_iff hd_rev)
  ultimately show ?thesis by (simp add: str_strip_def)
qed

text \<open>
  An address typed into the form is stored as it was published: from the hexadecimal text
  of any bytes, with or without the prefix \<open>0x\<close> and with white space around it, the form
  reads back those bytes and leaves the other fields alone. A text of an odd number of
  digits, or with a character that is no digit, raises \<open>ValueError\<close>.
\<close>

theorem form_address_roundtrip:
  assumes "list_all is_space l" and "list_all is_space r" and "a \<noteq> []" and "p \<in> {[], ''0x''}"
    and "map_of data ''address'' = Some (l @ p @ bytes_hex a @ r)"
  shows "on_model_change data = Inr (a, data)
    \<and> (\<forall>d<16. form_address (p @ bytes_hex a @ [hex_digit d]) = Inl ValueError)"
proof -
  have ne: "bytes_hex a \<noteq> []" using assms(3) by (cases a) (simp_all add: bytes_hex_def byte_hex_def)
  have sp: "\<not> is_space CHR ''0'' \<and> \<not> is_space CHR ''x''" by code_simp
  have rep: "str_replace ''0x'' [] (p @ t) = t" if "CHR ''x'' \<notin> set t" for t
    using assms(4) str_replace_absent [OF that] by (auto simp: prefix_def)
  have x: "CHR ''x'' \<notin> set (bytes_hex a)" using bytes_hex_chars by blast
  have "str_strip (l @ (p @ bytes_hex a) @ r) = p @ bytes_hex a"
    using assms(1,2,4) ne sp bytes_hex_chars by (intro strip_middle) auto
  then have "form_address (l @ p @ bytes_hex a @ r) = Inr a"
    using rep [OF x] by (simp add: form_address_def bytes_fromhex_hex)
  moreover have "form_address (p @ bytes_hex a @ [hex_digit d]) = Inl ValueError" if d: "d < 16" for d
  proof -
    have h: "\<not> is_space (hex_digit d)" "hex_digit d \<noteq> CHR ''x''" "\<not> is_ascii_space (hex_digit d)" using hex_digit_chars [OF d] by auto
    have "str_strip ([] @ (p @ bytes_hex a @ [hex_digit d]) @ []) = p @ bytes_hex a @ [hex_digit d]"
      using assms(4) sp bytes_hex_chars h by (intro strip_middle) auto
    then have "form_address (p @ bytes_hex a @ [hex_digit d]) = bytes_fromhex (bytes_hex a @ [hex_digit d])"
      using rep [of "bytes_hex a @ [hex_digit d]"] x h by (simp add: form_address_def)
    moreover have "bytes_fromhex (bytes_hex bs @ [hex_digit d]) = Inl ValueError" for bs
    proof (induction bs)
      case (Cons b bs)
      then show ?case
        using byte_bounds [of b] hex_digit_chars [of "unat b div 16"]
        by (simp add: bytes_hex_def byte_hex_def hex_value_digit)
    qed (use h in \<open>simp add: bytes_hex_def\<close>)
    ultimately show ?thesis by simp
  qed
  ultimately show ?thesis using assms(5) by (simp add: on_model_change_def)
qed

lemma form_address_roundtrip_witness:
  "on_model_change [(''name'', ''Safe''), (''address'', '' 0x1aff '')] = Inr ([0x1a, 0xff], [(''name'', ''Safe''), (''address'', '' 0x1aff '')])"
proof -
  have "list_all is_space '' ''" "bytes_hex [0x1a, 0xff] = ''1aff''" by code_simp+
  then show ?thesis
    using form_address_roundtrip [of "'' ''" "'' ''" "[0x1a, 0xff]" "''0x''" "[(''name'', ''Safe''), (''address'', '' 0x1aff '')]"] by simp
qed

end
