(* ===== verification/Migrations.thy ===== *)
theory Migrations
  imports Metadata
begin

text \<open>
  The schema migrations: \<open>migrations/versions/\<close>. A migration is its revision, the revision
  below it and two lists of operations; an operation changes a catalogue of tables, columns,
  constraints and indexes, and fails on the rows that PostgreSQL would refuse. Of the rows
  only what a migration looks at is kept: the sources, the JSON of the ABIs, and of the
  contracts the name, the chain and the ABI. The default of a computed column and the
  uniqueness of the hashes that existing rows get are not looked at.
\<close>

section \<open>The catalogue\<close>

datatype col_type = INTEGER | BIGINT | VARCHAR | BYTEA | BOOLEAN | JSON_TYPE | TIMESTAMP | TIMESTAMPTZ

record column =
  cn_type :: col_type
  cn_nullable :: bool
  cn_computed :: "string option"

record pg_table =
  pt_columns :: "(string \<times> column) list"
  pt_primary :: "string list"
  pt_foreign :: "(string \<times> string \<times> string) list"
  pt_unique :: "(string \<times> string list) list"

record pg_index =
  ix_table :: string
  ix_columns :: "string list"
  ix_unique :: bool

record pg_contract =
  pc_name :: "string option"
  pc_chain_id :: int
  pc_abi_id :: "int option"

record pg =
  pg_tables :: "(string \<times> pg_table) list"
  pg_indexes :: "(string \<times> pg_index) list"
  pg_sources :: "(string \<times> string) list"
  pg_abis :: "(int \<times> json option) list"
  pg_contracts :: "pg_contract list"

definition empty_pg :: pg where
  "empty_pg = \<lparr>pg_tables = [], pg_indexes = [], pg_sources = [], pg_abis = [], pg_contracts = []\<rparr>"

datatype migration_op =
    CreateTable string "(string \<times> column) list" "string list" "(string \<times> string \<times> string) list" "(string \<times> string list) list"
  | DropTable string
  | CreateIndex string string "string list" bool
  | DropIndex string
  | AddColumn string string column
  | DropColumn string string
  | AlterNullable string string bool
  | AlterType string string col_type
  | RenameColumn string string string
  | InsertSources "(string \<times> string) list"
  | DeleteSources "(string \<times> string) list"
  | DetachNullAbis
  | DeleteNullAbis

definition row_count :: "string \<Rightarrow> pg \<Rightarrow> nat" where
  "row_count t s = (if t = ''abisource'' then length (pg_sources s) else if t = ''abi'' then length (pg_abis s)
     else if t = ''contract'' then length (pg_contracts s) else 0)"

text \<open>\<open>abi_json IS NULL OR abi_json::jsonb = 'null'::jsonb\<close>\<close>

definition null_abi :: "json option \<Rightarrow> bool" where
  "null_abi j \<longleftrightarrow> j = None \<or> j = Some JNull"

definition column_has_null :: "string \<Rightarrow> string \<Rightarrow> pg \<Rightarrow> bool" where
  "column_has_null t c s =
     ((t = ''abi'' \<and> c = ''abi_json'' \<and> list_ex (\<lambda>(i, j). j = None) (pg_abis s))
      \<or> (t = ''contract'' \<and> c = ''name'' \<and> list_ex (\<lambda>r. pc_name r = None) (pg_contracts s)))"

text \<open>The bounds of a 32-bit and of a 64-bit signed column.\<close>

definition type_admits :: "col_type \<Rightarrow> int \<Rightarrow> bool" where
  "type_admits ty i = (case ty of
       INTEGER \<Rightarrow> - (2 ^ 31) \<le> i \<and> i < 2 ^ 31
     | BIGINT \<Rightarrow> - (2 ^ 63) \<le> i \<and> i < 2 ^ 63
     | _ \<Rightarrow> True)"

definition column_admits :: "string \<Rightarrow> string \<Rightarrow> col_type \<Rightarrow> pg \<Rightarrow> bool" where
  "column_admits t c ty s \<longleftrightarrow>
     (t = ''contract'' \<and> c = ''chain_id'' \<longrightarrow> list_all (\<lambda>r. type_admits ty (pc_chain_id r)) (pg_contracts s))"

definition update_table :: "string \<Rightarrow> (pg_table \<Rightarrow> pg_table res) \<Rightarrow> pg \<Rightarrow> pg res" where
  "update_table t f s =
     (case map_of (pg_tables s) t of
        None \<Rightarrow> Inl OtherError
      | Some x \<Rightarrow> res_bind (f x) (\<lambda>y. Inr (s\<lparr>pg_tables := AList.update t y (pg_tables s)\<rparr>)))"

definition update_column :: "string \<Rightarrow> (column \<Rightarrow> column) \<Rightarrow> pg_table \<Rightarrow> pg_table res" where
  "update_column c f x =
     (case map_of (pt_columns x) c of
        None \<Rightarrow> Inl OtherError
      | Some k \<Rightarrow> Inr (x\<lparr>pt_columns := AList.update c (f k) (pt_columns x)\<rparr>))"

definition rename :: "string \<Rightarrow> string \<Rightarrow> string \<Rightarrow> string" where
  "rename old new c = (if c = old then new else c)"

text \<open>A dropped table takes its rows and its indexes with it; a table others refer to cannot go.\<close>

definition drop_table :: "string \<Rightarrow> pg \<Rightarrow> pg res" where
  "drop_table t s =
     (if map_of (pg_tables s) t = None \<or> list_ex (\<lambda>(t', x). t' \<noteq> t \<and> list_ex (\<lambda>(c, u, d). u = t) (pt_foreign x)) (pg_tables s)
      then Inl OtherError
      else Inr (s\<lparr>pg_tables := filter (\<lambda>(t', x). t' \<noteq> t) (pg_tables s),
                  pg_indexes := filter (\<lambda>(n, i). ix_table i \<noteq> t) (pg_indexes s),
                  pg_sources := (if t = ''abisource'' then [] else pg_sources s),
                  pg_abis := (if t = ''abi'' then [] else pg_abis s),
                  pg_contracts := (if t = ''contract'' then [] else pg_contracts s)\<rparr>))"

fun exec_op :: "migration_op \<Rightarrow> pg \<Rightarrow> pg res" where
  "exec_op (CreateTable t cols pk fks uniques) s =
     (if map_of (pg_tables s) t \<noteq> None \<or> \<not> list_all (\<lambda>(c, u, d). map_of (pg_tables s) u \<noteq> None) fks then Inl OtherError
      else Inr (s\<lparr>pg_tables := pg_tables s @ [(t, \<lparr>pt_columns = cols, pt_primary = pk, pt_foreign = fks, pt_unique = uniques\<rparr>)]\<rparr>))"
| "exec_op (DropTable t) s = drop_table t s"
| "exec_op (CreateIndex n t cols u) s =
     (case map_of (pg_tables s) t of
        None \<Rightarrow> Inl OtherError
      | Some x \<Rightarrow> if map_of (pg_indexes s) n \<noteq> None \<or> \<not> list_all (\<lambda>c. map_of (pt_columns x) c \<noteq> None) cols then Inl OtherError
                  else Inr (s\<lparr>pg_indexes := pg_indexes s @ [(n, \<lparr>ix_table = t, ix_columns = cols, ix_unique = u\<rparr>)]\<rparr>))"
| "exec_op (DropIndex n) s =
     (if map_of (pg_indexes s) n = None then Inl OtherError
      else Inr (s\<lparr>pg_indexes := filter (\<lambda>(m, i). m \<noteq> n) (pg_indexes s)\<rparr>))"
| "exec_op (AddColumn t c k) s =
     update_table t (\<lambda>x. if map_of (pt_columns x) c \<noteq> None \<or> (\<not> cn_nullable k \<and> 0 < row_count t s) then Inl OtherError
       else Inr (x\<lparr>pt_columns := pt_columns x @ [(c, k)]\<rparr>)) s"
| "exec_op (DropColumn t c) s =
     res_bind (update_table t (\<lambda>x. if map_of (pt_columns x) c = None then Inl OtherError
         else Inr (x\<lparr>pt_columns := filter (\<lambda>(d, k). d \<noteq> c) (pt_columns x)\<rparr>)) s) (\<lambda>s.
       Inr (s\<lparr>pg_indexes := filter (\<lambda>(n, i). \<not> (ix_table i = t \<and> c \<in> set (ix_columns i))) (pg_indexes s)\<rparr>))"
| "exec_op (AlterNullable t c b) s =
     (if \<not> b \<and> column_has_null t c s then Inl IntegrityError
      else update_table t (update_column c (\<lambda>k. k\<lparr>cn_nullable := b\<rparr>)) s)"
| "exec_op (AlterType t c ty) s =
     (if \<not> column_admits t c ty s then Inl OtherError
      else update_table t (update_column c (\<lambda>k. k\<lparr>cn_type := ty\<rparr>)) s)"
| "exec_op (RenameColumn t old new) s =
     update_table t (\<lambda>x. if map_of (pt_columns x) old = None \<or> map_of (pt_columns x) new \<noteq> None then Inl OtherError
       else Inr (x\<lparr>pt_columns := map (\<lambda>(c, k). (rename old new c, k)) (pt_columns x)\<rparr>)) s"
| "exec_op (InsertSources rows) s = Inr (s\<lparr>pg_sources := pg_sources s @ rows\<rparr>)"
| "exec_op (DeleteSources rows) s = Inr (s\<lparr>pg_sources := filter (\<lambda>r. r \<notin> set rows) (pg_sources s)\<rparr>)"
| "exec_op DetachNullAbis s =
     Inr (s\<lparr>pg_contracts := map (\<lambda>r. case pc_abi_id r of
         None \<Rightarrow> r
       | Some i \<Rightarrow> if list_ex (\<lambda>(a, j). a = i \<and> null_abi j) (pg_abis s) then r\<lparr>pc_abi_id := None\<rparr> else r) (pg_contracts s)\<rparr>)"
| "exec_op DeleteNullAbis s =
     (if list_ex (\<lambda>r. case pc_abi_id r of None \<Rightarrow> False | Some i \<Rightarrow> list_ex (\<lambda>(a, j). a = i \<and> null_abi j) (pg_abis s)) (pg_contracts s)
      then Inl IntegrityError
      else Inr (s\<lparr>pg_abis := filter (\<lambda>(i, j). \<not> null_abi j) (pg_abis s)\<rparr>))"

fun exec_ops :: "migration_op list \<Rightarrow> pg \<Rightarrow> pg res" where
  "exec_ops [] s = Inr s"
| "exec_ops (x # xs) s = res_bind (exec_op x s) (exec_ops xs)"

section \<open>The migrations\<close>

record migration =
  mg_revision :: string
  mg_down_revision :: "string option"
  mg_upgrade :: "migration_op list"
  mg_downgrade :: "migration_op list"

definition plain_column :: "col_type \<Rightarrow> bool \<Rightarrow> column" where
  "plain_column ty nullable = \<lparr>cn_type = ty, cn_nullable = nullable, cn_computed = None\<rparr>"

definition m_5ede7bdac949 :: migration where
  "m_5ede7bdac949 = \<lparr>mg_revision = ''5ede7bdac949'', mg_down_revision = None,
     mg_upgrade =
       [CreateTable ''abisource''
          [(''id'', plain_column INTEGER False), (''name'', plain_column VARCHAR False), (''url'', plain_column VARCHAR False)]
          [''id''] [] [],
        CreateTable ''project''
          [(''id'', plain_column INTEGER False), (''description'', plain_column VARCHAR False),
           (''logo_file'', plain_column VARCHAR False)]
          [''id''] [] [],
        CreateTable ''abi''
          [(''id'', plain_column INTEGER False), (''abi_hash'', plain_column BYTEA False),
           (''relevance'', plain_column INTEGER False), (''abi_json'', plain_column JSON_TYPE True),
           (''source_id'', plain_column INTEGER False)]
          [''id''] [(''source_id'', ''abisource'', ''id'')] [],
        CreateIndex ''ix_abi_abi_hash'' ''abi'' [''abi_hash''] True,
        CreateTable ''contract''
          [(''id'', plain_column INTEGER False), (''address'', plain_column BYTEA False), (''name'', plain_column VARCHAR False),
           (''display_name'', plain_column VARCHAR True), (''description'', plain_column VARCHAR True),
           (''trusted_for_delegate'', plain_column BOOLEAN False), (''proxy'', plain_column BOOLEAN False),
           (''fetch_retries'', plain_column INTEGER False), (''abi_id'', plain_column INTEGER True),
           (''project_id'', plain_column INTEGER True), (''chain_id'', plain_column INTEGER False)]
          [''id''] [(''abi_id'', ''abi'', ''id''), (''project_id'', ''project'', ''id'')]
          [(''address_chain_unique'', [''address'', ''chain_id''])],
        CreateIndex ''ix_contract_address'' ''contract'' [''address''] False],
     mg_downgrade =
       [DropIndex ''ix_contract_address'', DropTable ''contract'', DropIndex ''ix_abi_abi_hash'', DropTable ''abi'',
        DropTable ''project'', DropTable ''abisource'']\<rparr>"

definition m_148330712a84 :: migration where
  "m_148330712a84 = \<lparr>mg_revision = ''148330712a84'', mg_down_revision = Some ''5ede7bdac949'',
     mg_upgrade =
       [AddColumn ''abi'' ''created'' (plain_column TIMESTAMP False), AddColumn ''abi'' ''modified'' (plain_column TIMESTAMP False),
        AddColumn ''contract'' ''created'' (plain_column TIMESTAMP False),
        AddColumn ''contract'' ''modified'' (plain_column TIMESTAMP False)],
     mg_downgrade =
       [DropColumn ''contract'' ''modified'', DropColumn ''contract'' ''created'', DropColumn ''abi'' ''modified'',
        DropColumn ''abi'' ''created'']\<rparr>"

definition m_a160a84ce491 :: migration where
  "m_a160a84ce491 = \<lparr>mg_revision = ''a160a84ce491'', mg_down_revision = Some ''148330712a84'',
     mg_upgrade = [AddColumn ''contract'' ''implementation'' (plain_column BYTEA True), DropColumn ''contract'' ''proxy''],
     mg_downgrade = [AddColumn ''contract'' ''proxy'' (plain_column BOOLEAN False), DropColumn ''contract'' ''implementation'']\<rparr>"

definition m_e4e2e62601d2 :: migration where
  "m_e4e2e62601d2 = \<lparr>mg_revision = ''e4e2e62601d2'', mg_down_revision = Some ''a160a84ce491'',
     mg_upgrade = [AlterNullable ''contract'' ''name'' True],
     mg_downgrade = [AlterNullable ''contract'' ''name'' False]\<rparr>"

definition default_sources :: "(string \<times> string) list" where
  "default_sources = [(''Etherscan'', []), (''Sourcify'', []), (''Blockscout'', [])]"

definition m_8d2eacb17707 :: migration where
  "m_8d2eacb17707 = \<lparr>mg_revision = ''8d2eacb17707'', mg_down_revision = Some ''e4e2e62601d2'',
     mg_upgrade = [InsertSources default_sources], mg_downgrade = [DeleteSources default_sources]\<rparr>"

definition m_e5e94343c151 :: migration where
  "m_e5e94343c151 = \<lparr>mg_revision = ''e5e94343c151'', mg_down_revision = Some ''8d2eacb17707'',
     mg_upgrade =
       [AlterType ''abi'' ''created'' TIMESTAMPTZ, AlterType ''abi'' ''modified'' TIMESTAMPTZ,
        AlterType ''contract'' ''created'' TIMESTAMPTZ, AlterType ''contract'' ''modified'' TIMESTAMPTZ],
     mg_downgrade =
       [AlterType ''contract'' ''modified'' TIMESTAMP, AlterType ''contract'' ''created'' TIMESTAMP,
        AlterType ''abi'' ''modified'' TIMESTAMP, AlterType ''abi'' ''created'' TIMESTAMP]\<rparr>"

definition m_b062e814dbea :: migration where
  "m_b062e814dbea = \<lparr>mg_revision = ''b062e814dbea'', mg_down_revision = Some ''e5e94343c151'',
     mg_upgrade =
       [CreateIndex ''ix_abi_created'' ''abi'' [''created''] False,
        CreateIndex ''ix_contract_created'' ''contract'' [''created''] False],
     mg_downgrade = [DropIndex ''ix_contract_created'', DropIndex ''ix_abi_created'']\<rparr>"

definition m_66c1eb4456de :: migration where
  "m_66c1eb4456de = \<lparr>mg_revision = ''66c1eb4456de'', mg_down_revision = Some ''b062e814dbea'',
     mg_upgrade = [CreateIndex ''ix_abi_relevance'' ''abi'' [''relevance''] False],
     mg_downgrade = [DropIndex ''ix_abi_relevance'']\<rparr>"

definition m_03d30b614dc0 :: migration where
  "m_03d30b614dc0 = \<lparr>mg_revision = ''03d30b614dc0'', mg_down_revision = Some ''66c1eb4456de'',
     mg_upgrade = [RenameColumn ''contract'' ''trusted_for_delegate'' ''trusted_for_delegate_call''],
     mg_downgrade = [RenameColumn ''contract'' ''trusted_for_delegate_call'' ''trusted_for_delegate'']\<rparr>"

definition m_0da35e86b777 :: migration where
  "m_0da35e86b777 = \<lparr>mg_revision = ''0da35e86b777'', mg_down_revision = Some ''03d30b614dc0'',
     mg_upgrade = [AlterType ''contract'' ''chain_id'' BIGINT],
     mg_downgrade = [AlterType ''contract'' ''chain_id'' INTEGER]\<rparr>"

definition abi_hash_expression :: string where
  "abi_hash_expression = ''sha256(abi_json::jsonb::text::bytea)''"

definition m_a4f3b2c1d8e9 :: migration where
  "m_a4f3b2c1d8e9 = \<lparr>mg_revision = ''a4f3b2c1d8e9'', mg_down_revision = Some ''0da35e86b777'',
     mg_upgrade =
       [DropIndex ''ix_abi_abi_hash'', DropColumn ''abi'' ''abi_hash'',
        AddColumn ''abi'' ''abi_hash'' \<lparr>cn_type = BYTEA, cn_nullable = True, cn_computed = Some abi_hash_expression\<rparr>,
        CreateIndex ''ix_abi_abi_hash'' ''abi'' [''abi_hash''] True],
     mg_downgrade =
       [DropIndex ''ix_abi_abi_hash'', DropColumn ''abi'' ''abi_hash'', AddColumn ''abi'' ''abi_hash'' (plain_column BYTEA True),
        CreateIndex ''ix_abi_abi_hash'' ''abi'' [''abi_hash''] True]\<rparr>"

definition m_1737a3c2c89d :: migration where
  "m_1737a3c2c89d = \<lparr>mg_revision = ''1737a3c2c89d'', mg_down_revision = Some ''a4f3b2c1d8e9'',
     mg_upgrade = [DetachNullAbis, DeleteNullAbis, AlterNullable ''abi'' ''abi_json'' False],
     mg_downgrade = [AlterNullable ''abi'' ''abi_json'' True]\<rparr>"

text \<open>The files in the order of their names; the history follows \<open>down_revision\<close> from the base.\<close>

definition migrations :: "migration list" where
  "migrations = [m_03d30b614dc0, m_0da35e86b777, m_148330712a84, m_1737a3c2c89d, m_5ede7bdac949, m_66c1eb4456de,
     m_8d2eacb17707, m_a160a84ce491, m_a4f3b2c1d8e9, m_b062e814dbea, m_e4e2e62601d2, m_e5e94343c151]"

fun history :: "nat \<Rightarrow> string option \<Rightarrow> migration list" where
  "history 0 base = []"
| "history (Suc n) base =
     (case find (\<lambda>m. mg_down_revision m = base) migrations of
        None \<Rightarrow> []
      | Some m \<Rightarrow> m # history n (Some (mg_revision m)))"

definition all_migrations :: "migration list" where
  "all_migrations = history (length migrations) None"

fun upgrade_all :: "migration list \<Rightarrow> pg \<Rightarrow> pg res" where
  "upgrade_all [] s = Inr s"
| "upgrade_all (m # ms) s = res_bind (exec_ops (mg_upgrade m) s) (upgrade_all ms)"

fun downgrade_all :: "migration list \<Rightarrow> pg \<Rightarrow> pg res" where
  "downgrade_all [] s = Inr s"
| "downgrade_all (m # ms) s = res_bind (downgrade_all ms s) (exec_ops (mg_downgrade m))"

section \<open>What the model classes declare\<close>

text \<open>
  The tables of the classes in \<open>app/datasources/db/models.py\<close>: a field is nullable when its
  type admits \<open>None\<close> and it does not say otherwise, an indexed field has an index named after
  table and column, and the class \<open>TimeStampedSQLModel\<close> gives \<open>Abi\<close> and \<open>Contract\<close> their two times.
\<close>

definition timestamped_columns :: "(string \<times> column) list" where
  "timestamped_columns = [(''created'', plain_column TIMESTAMPTZ False), (''modified'', plain_column TIMESTAMPTZ False)]"

definition abisource_table :: pg_table where
  "abisource_table = \<lparr>pt_columns = [(''id'', plain_column INTEGER False), (''name'', plain_column VARCHAR False),
     (''url'', plain_column VARCHAR False)], pt_primary = [''id''], pt_foreign = [], pt_unique = []\<rparr>"

definition abi_table :: pg_table where
  "abi_table = \<lparr>pt_columns = timestamped_columns @ [(''id'', plain_column INTEGER False),
     (''abi_hash'', \<lparr>cn_type = BYTEA, cn_nullable = True, cn_computed = Some abi_hash_expression\<rparr>),
     (''relevance'', plain_column INTEGER False), (''abi_json'', plain_column JSON_TYPE False),
     (''source_id'', plain_column INTEGER False)],
     pt_primary = [''id''], pt_foreign = [(''source_id'', ''abisource'', ''id'')], pt_unique = []\<rparr>"

definition project_table :: pg_table where
  "project_table = \<lparr>pt_columns = [(''id'', plain_column INTEGER False), (''description'', plain_column VARCHAR False),
     (''logo_file'', plain_column VARCHAR False)], pt_primary = [''id''], pt_foreign = [], pt_unique = []\<rparr>"

definition contract_table :: pg_table where
  "contract_table = \<lparr>pt_columns = timestamped_columns @ [(''id'', plain_column INTEGER False),
     (''address'', plain_column BYTEA False), (''name'', plain_column VARCHAR True),
     (''display_name'', plain_column VARCHAR True), (''description'', plain_column VARCHAR True),
     (''trusted_for_delegate_call'', plain_column BOOLEAN False), (''implementation'', plain_column BYTEA True),
     (''fetch_retries'', plain_column INTEGER False), (''abi_id'', plain_column INTEGER True),
     (''project_id'', plain_column INTEGER True), (''chain_id'', plain_column BIGINT False)],
     pt_primary = [''id''], pt_foreign = [(''abi_id'', ''abi'', ''id''), (''project_id'', ''project'', ''id'')],
     pt_unique = [(''address_chain_unique'', [''address'', ''chain_id''])]\<rparr>"

text \<open>The indexes: a field with \<open>index=True\<close> has one named after its table and column.\<close>

definition model_schema :: pg where
  "model_schema = empty_pg\<lparr>
     pg_tables := [(''abisource'', abisource_table), (''abi'', abi_table), (''project'', project_table), (''contract'', contract_table)],
     pg_indexes :=
     [(''ix_abi_created'', \<lparr>ix_table = ''abi'', ix_columns = [''created''], ix_unique = False\<rparr>),
      (''ix_contract_created'', \<lparr>ix_table = ''contract'', ix_columns = [''created''], ix_unique = False\<rparr>),
      (''ix_abi_abi_hash'', \<lparr>ix_table = ''abi'', ix_columns = [''abi_hash''], ix_unique = True\<rparr>),
      (''ix_abi_relevance'', \<lparr>ix_table = ''abi'', ix_columns = [''relevance''], ix_unique = False\<rparr>),
      (''ix_contract_address'', \<lparr>ix_table = ''contract'', ix_columns = [''address''], ix_unique = False\<rparr>)]\<rparr>"

text \<open>Two catalogues are the same up to the order of tables, columns, constraints and indexes.\<close>

definition same_table :: "pg_table \<Rightarrow> pg_table \<Rightarrow> bool" where
  "same_table x y \<longleftrightarrow> length (pt_columns x) = length (pt_columns y) \<and> set (pt_columns x) = set (pt_columns y)
     \<and> pt_primary x = pt_primary y \<and> set (pt_foreign x) = set (pt_foreign y) \<and> set (pt_unique x) = set (pt_unique y)"

definition same_schema :: "pg \<Rightarrow> pg \<Rightarrow> bool" where
  "same_schema s t \<longleftrightarrow> length (pg_tables s) = length (pg_tables t)
     \<and> list_all (\<lambda>(n, x). case map_of (pg_tables t) n of None \<Rightarrow> False | Some y \<Rightarrow> same_table x y) (pg_tables s)
     \<and> length (pg_indexes s) = length (pg_indexes t) \<and> set (pg_indexes s) = set (pg_indexes t)"

text \<open>The schema below a migration and the schema after going up and down again.\<close>

definition down_restores :: "migration list \<Rightarrow> migration \<Rightarrow> bool" where
  "down_restores below m =
     (case upgrade_all below empty_pg of
        Inl e \<Rightarrow> False
      | Inr s \<Rightarrow> (case res_bind (exec_ops (mg_upgrade m) s) (exec_ops (mg_downgrade m)) of
          Inl e \<Rightarrow> False
        | Inr t \<Rightarrow> same_schema t s \<and> pg_sources t = pg_sources s))"

section \<open>The history and the models agree\<close>

text \<open>
  C24. Following \<open>down_revision\<close> from the base, the twelve migrations form one history that
  uses each of them once. Upgrading an empty database through it succeeds and yields exactly
  the schema that the model classes declare, computed hash, indexes, constraints and column
  widths included, and a source row under the name of each explorer, so that the metadata
  service finds the source of every answer.
\<close>

theorem head_schema_matches_models:
  "length all_migrations = 12 \<and> set all_migrations = set migrations \<and> distinct (map mg_revision migrations)
   \<and> (\<exists>s. upgrade_all all_migrations empty_pg = Inr s \<and> same_schema s model_schema
        \<and> (\<forall>source. (source_value source, []) \<in> set (pg_sources s)))"
proof -
  have 1: "length all_migrations = 12" by code_simp
  have "list_all (\<lambda>m. m \<in> set migrations) all_migrations" by code_simp
  moreover have "list_all (\<lambda>m. m \<in> set all_migrations) migrations" by code_simp
  ultimately have 2: "set all_migrations = set migrations" unfolding list_all_iff by blast
  have 3: "distinct (map mg_revision migrations)" by code_simp
  have "case upgrade_all all_migrations empty_pg of Inl e \<Rightarrow> False
      | Inr s \<Rightarrow> same_schema s model_schema \<and> list_all (\<lambda>x. (source_value x, []) \<in> set (pg_sources s)) [ETHERSCAN, SOURCIFY, BLOCKSCOUT]"
    by code_simp
  then obtain s where s: "upgrade_all all_migrations empty_pg = Inr s" "same_schema s model_schema"
    "list_all (\<lambda>x. (source_value x, []) \<in> set (pg_sources s)) [ETHERSCAN, SOURCIFY, BLOCKSCOUT]"
    by (cases "upgrade_all all_migrations empty_pg") auto
  have "(source_value source, []) \<in> set (pg_sources s)" for source
    using s(3) by (cases source) simp_all
  with 1 2 3 s(1,2) show ?thesis by blast
qed

section \<open>Going down again\<close>

lemma chain_id_alter:
  assumes "map_of (pg_tables s) ''contract'' = Some x" and "map_of (pt_columns x) ''chain_id'' = Some k"
  shows "(\<exists>t. exec_ops [AlterType ''contract'' ''chain_id'' ty] s = Inr t)
    \<longleftrightarrow> (\<forall>r\<in>set (pg_contracts s). type_admits ty (pc_chain_id r))"
  using assms by (simp add: update_table_def update_column_def column_admits_def list_all_iff)



section \<open>Rows without an ABI\<close>

lemma detached_row:
  fixes r :: pg_contract
  assumes ids: "distinct (map fst xs)" and refs: "\<forall>i. pc_abi_id r = Some i \<longrightarrow> i \<in> fst ` set xs"
    and f: "f = (case pc_abi_id r of None \<Rightarrow> r | Some i \<Rightarrow> if list_ex (\<lambda>(a, j). a = i \<and> null_abi j) xs then r\<lparr>pc_abi_id := None\<rparr> else r)"
  shows "f = r \<and> (\<forall>i. pc_abi_id r = Some i \<longrightarrow> i \<in> fst ` {(i, j) \<in> set xs. \<not> null_abi j})
    \<or> f = r\<lparr>pc_abi_id := None\<rparr> \<and> (\<exists>i j. pc_abi_id r = Some i \<and> (i, j) \<in> set xs \<and> null_abi j)"
proof (cases "pc_abi_id r")
  let ?null = "\<lambda>i. list_ex (\<lambda>(a, j). a = i \<and> null_abi j) xs"
  case (Some i)
  then obtain j where j: "(i, j) \<in> set xs" using refs by force
  have u: "j' = j" if "(i, j') \<in> set xs" for j' using eq_key_imp_eq_value [OF ids that j] .
  have null: "?null i \<longleftrightarrow> null_abi j"
  proof
    assume "?null i"
    then obtain j' where "(i, j') \<in> set xs" "null_abi j'" by (auto simp: list_ex_iff)
    with u show "null_abi j" by simp
  next
    assume "null_abi j"
    with j show "?null i" unfolding list_ex_iff by blast
  qed
  show ?thesis
  proof (cases "null_abi j")
    case True
    then have "f = r\<lparr>pc_abi_id := None\<rparr>" using Some null f by simp
    with Some j True show ?thesis by blast
  next
    case False
    then have "f = r" using Some null f by simp
    moreover have "(i, j) \<in> {(i, j) \<in> set xs. \<not> null_abi j}" using j False by simp
    then have "i \<in> fst ` {(i, j) \<in> set xs. \<not> null_abi j}" by force
    ultimately show ?thesis using Some by simp
  qed
qed (simp add: f)

text \<open>
  C29. The migration that forbids missing ABIs succeeds on every database that has the column
  with every reference to an existing ABI intact: it removes exactly the ABIs that are SQL
  null or JSON null, the contracts that referred to one keep everything else and refer to
  none, all the other rows stay as they are, and every reference is intact afterwards.
\<close>

theorem null_abis_are_removed:
  assumes col: "map_of (pg_tables s) ''abi'' = Some x" "map_of (pt_columns x) ''abi_json'' = Some k"
    and ids: "distinct (map fst (pg_abis s))"
    and refs: "\<forall>r\<in>set (pg_contracts s). \<forall>i. pc_abi_id r = Some i \<longrightarrow> i \<in> fst ` set (pg_abis s)"
  shows "\<exists>t. exec_ops (mg_upgrade m_1737a3c2c89d) s = Inr t
    \<and> set (pg_abis t) = {(i, j) \<in> set (pg_abis s). \<not> null_abi j}
    \<and> list_all2 (\<lambda>r r'. r' = r \<and> (\<forall>i. pc_abi_id r = Some i \<longrightarrow> i \<in> fst ` set (pg_abis t))
         \<or> r' = r\<lparr>pc_abi_id := None\<rparr> \<and> (\<exists>i j. pc_abi_id r = Some i \<and> (i, j) \<in> set (pg_abis s) \<and> null_abi j))
       (pg_contracts s) (pg_contracts t)
    \<and> pg_sources t = pg_sources s \<and> pg_indexes t = pg_indexes s"
proof -
  let ?null = "\<lambda>i. list_ex (\<lambda>(a, j). a = i \<and> null_abi j) (pg_abis s)"
  let ?f = "\<lambda>r. case pc_abi_id r of None \<Rightarrow> r | Some i \<Rightarrow> if ?null i then r\<lparr>pc_abi_id := None\<rparr> else r"
  let ?s1 = "s\<lparr>pg_contracts := map ?f (pg_contracts s)\<rparr>"
  let ?s2 = "?s1\<lparr>pg_abis := filter (\<lambda>(i, j). \<not> null_abi j) (pg_abis s)\<rparr>"
  have free: "\<not> (case pc_abi_id (?f r) of None \<Rightarrow> False | Some i \<Rightarrow> ?null i)" for r
  proof (cases "pc_abi_id r")
    case (Some i)
    then show ?thesis by (cases "?null i") simp_all
  qed simp
  have "\<not> list_ex (\<lambda>r. case pc_abi_id r of None \<Rightarrow> False | Some i \<Rightarrow> ?null i) (map ?f (pg_contracts s))"
    unfolding list_ex_iff set_map using free unfolding list_ex_iff by blast
  then have two: "exec_op DeleteNullAbis ?s1 = Inr ?s2" by (simp cong: option.case_cong)
  have nn: "\<not> column_has_null ''abi'' ''abi_json'' ?s2"
    by (auto simp: column_has_null_def list_ex_iff null_abi_def)
  obtain t where t: "exec_op (AlterNullable ''abi'' ''abi_json'' False) ?s2 = Inr t"
    "pg_abis t = pg_abis ?s2" "pg_contracts t = pg_contracts ?s2" "pg_sources t = pg_sources s" "pg_indexes t = pg_indexes s"
    using col nn by (simp add: update_table_def update_column_def)
  have run: "exec_ops (mg_upgrade m_1737a3c2c89d) s = Inr t"
    using two t(1) by (simp add: m_1737a3c2c89d_def del: exec_op.simps(13))
  have abis: "set (pg_abis t) = {(i, j) \<in> set (pg_abis s). \<not> null_abi j}" using t(2) by auto
  have "?f r = r \<and> (\<forall>i. pc_abi_id r = Some i \<longrightarrow> i \<in> fst ` set (pg_abis t))
      \<or> ?f r = r\<lparr>pc_abi_id := None\<rparr> \<and> (\<exists>i j. pc_abi_id r = Some i \<and> (i, j) \<in> set (pg_abis s) \<and> null_abi j)"
    if "r \<in> set (pg_contracts s)" for r
    unfolding abis using refs that by (intro detached_row [OF ids _ refl]) blast
  then have "list_all2 (\<lambda>r r'. r' = r \<and> (\<forall>i. pc_abi_id r = Some i \<longrightarrow> i \<in> fst ` set (pg_abis t))
         \<or> r' = r\<lparr>pc_abi_id := None\<rparr> \<and> (\<exists>i j. pc_abi_id r = Some i \<and> (i, j) \<in> set (pg_abis s) \<and> null_abi j))
       (pg_contracts s) (pg_contracts t)"
    unfolding t(3) by (simp add: list.rel_map list_all2_same)
  with run abis t(4,5) show ?thesis by blast
qed

lemma null_abis_are_removed_witness:
  "\<exists>t. exec_ops (mg_upgrade m_1737a3c2c89d)
       \<lparr>pg_tables = pg_tables model_schema, pg_indexes = [], pg_sources = [], pg_abis = [(1, Some JNull), (2, Some (JList []))],
        pg_contracts = [\<lparr>pc_name = None, pc_chain_id = 1, pc_abi_id = Some 1\<rparr>]\<rparr> = Inr t
     \<and> set (pg_abis t) = {(2, Some (JList []))}"
proof -
  let ?s = "\<lparr>pg_tables = pg_tables model_schema, pg_indexes = [], pg_sources = [], pg_abis = [(1, Some JNull), (2, Some (JList []))],
        pg_contracts = [\<lparr>pc_name = None, pc_chain_id = 1, pc_abi_id = Some 1\<rparr>]\<rparr>"
  obtain x k where col: "map_of (pg_tables ?s) ''abi'' = Some x" "map_of (pt_columns x) ''abi_json'' = Some k"
  proof -
    have "case map_of (pg_tables ?s) ''abi'' of None \<Rightarrow> False
      | Some x \<Rightarrow> (case map_of (pt_columns x) ''abi_json'' of None \<Rightarrow> False | Some k \<Rightarrow> True)" by code_simp
    then show thesis using that by (auto split: option.splits)
  qed
  have ids: "distinct (map fst (pg_abis ?s))"
    and refs: "\<forall>r\<in>set (pg_contracts ?s). \<forall>i. pc_abi_id r = Some i \<longrightarrow> i \<in> fst ` set (pg_abis ?s)" by simp_all
  have "{(i, j) \<in> set (pg_abis ?s). \<not> null_abi j} = {(2, Some (JList []))}" by (auto simp: null_abi_def)
  with null_abis_are_removed [OF col ids refs] show ?thesis by auto
qed

end
