(* ===== verification/Migration_Run.thy ===== *)
theory Migration_Run
  imports Migrations
begin

text \<open>
  Running the migrations: \<open>migrations/env.py\<close>. The URL of the settings becomes an option of
  Alembic's configuration, a \<open>ConfigParser\<close>, which refuses a \<open>%\<close> that starts neither \<open>%%\<close> nor a
  reference. Online, the engine is made, a connection opened and the context configured on it;
  offline, the context is configured with the URL only, and the statements become a script.
  Alembic itself is the record \<open>alembic\<close>, with its documented behaviour as \<open>alembic_law\<close>.
\<close>

datatype alembic_context =
    Url_Context string bool "(string \<times> string) list"
  | Connection_Context

record migration_env =
  me_options :: "(string, string) dict"
  me_pg :: pg
  me_revision :: "string option"
  me_context :: "alembic_context option"
  me_connected :: bool
  me_engine :: "string option"
  me_script :: "migration list"

record alembic =
  al_offline :: bool
  al_connect :: "string \<Rightarrow> unit res"
  al_transaction :: "(migration_env, unit) act \<Rightarrow> (migration_env, unit) act"
  al_run_migrations :: "(migration_env, unit) act"

section \<open>The configuration\<close>

text \<open>
  \<open>set_main_option\<close> and \<open>get_main_option\<close>: \<open>ConfigParser.set\<close> drops every \<open>%%\<close>, then every
  reference \<open>%(name)s\<close>, and raises \<open>ValueError\<close> if a \<open>%\<close> is left; reading turns \<open>%%\<close> into \<open>%\<close>. A
  reference to another option raises here.
\<close>

fun drop_escapes :: "string \<Rightarrow> string" where
  "drop_escapes [] = []"
| "drop_escapes (c # cs) =
     (case cs of
        d # ds \<Rightarrow> if c = CHR ''%'' \<and> d = CHR ''%'' then drop_escapes ds else c # drop_escapes cs
      | [] \<Rightarrow> [c])"

definition starts_reference :: "string \<Rightarrow> bool" where
  "starts_reference cs =
     (case cs of
        CHR ''('' # ds \<Rightarrow> takeWhile (\<lambda>d. d \<noteq> CHR '')'') ds \<noteq> []
          \<and> take 2 (dropWhile (\<lambda>d. d \<noteq> CHR '')'') ds) = '')s''
      | _ \<Rightarrow> False)"

fun lone_percent :: "string \<Rightarrow> bool" where
  "lone_percent [] = False"
| "lone_percent (c # cs) = (c = CHR ''%'' \<and> \<not> starts_reference cs \<or> lone_percent cs)"

definition set_main_option :: "string \<Rightarrow> string \<Rightarrow> (migration_env, unit) act" where
  "set_main_option name value =
     (if lone_percent (drop_escapes value) then act_raise ValueError
      else act_modify (\<lambda>s. s\<lparr>me_options := AList.update name value (me_options s)\<rparr>))"

fun interpolate :: "string \<Rightarrow> string res" where
  "interpolate [] = Inr []"
| "interpolate (c # cs) =
     (if c \<noteq> CHR ''%'' then res_bind (interpolate cs) (\<lambda>r. Inr (c # r))
      else case cs of
          d # ds \<Rightarrow> if d = CHR ''%'' then res_bind (interpolate ds) (\<lambda>r. Inr (c # r)) else Inl OtherError
        | [] \<Rightarrow> Inl OtherError)"

definition get_main_option :: "string \<Rightarrow> string \<Rightarrow> (migration_env, string) act" where
  "get_main_option name fallback =
     act_bind act_get (\<lambda>s. case map_of (me_options s) name of
       Some v \<Rightarrow> act_lift (interpolate v) | None \<Rightarrow> act_return fallback)"

definition configure :: "alembic_context \<Rightarrow> (migration_env, unit) act" where
  "configure c = act_modify (\<lambda>s. s\<lparr>me_context := Some c\<rparr>)"

section \<open>The two modes\<close>

definition run_migrations_offline :: "alembic \<Rightarrow> string \<Rightarrow> (migration_env, unit) act" where
  "run_migrations_offline A database_url =
     act_bind (get_main_option ''sqlalchemy.url'' database_url) (\<lambda>url.
     act_bind (configure (Url_Context url True [(''paramstyle'', ''named'')])) (\<lambda>_.
       al_transaction A (al_run_migrations A)))"

definition do_run_migrations :: "alembic \<Rightarrow> (migration_env, unit) act" where
  "do_run_migrations A =
     act_bind (configure Connection_Context) (\<lambda>_. al_transaction A (al_run_migrations A))"

text \<open>
  The engine takes its URL from the section of the configuration. The connection is closed by
  its \<open>async with\<close> on every way out; the engine is disposed of only when the migrations returned.
\<close>

definition run_async_migrations :: "alembic \<Rightarrow> (migration_env, unit) act" where
  "run_async_migrations A =
     act_bind act_get (\<lambda>s.
     act_bind (act_lift (case map_of (me_options s) ''sqlalchemy.url'' of
         Some v \<Rightarrow> interpolate v | None \<Rightarrow> Inl KeyError)) (\<lambda>url.
     act_bind (act_modify (\<lambda>s. s\<lparr>me_engine := Some url\<rparr>)) (\<lambda>_.
     act_bind (act_lift (al_connect A url)) (\<lambda>_.
     act_bind (act_modify (\<lambda>s. s\<lparr>me_connected := True\<rparr>)) (\<lambda>_.
     act_bind (act_finally (do_run_migrations A) (act_modify (\<lambda>s. s\<lparr>me_connected := False\<rparr>))) (\<lambda>_.
       act_modify (\<lambda>s. s\<lparr>me_engine := None\<rparr>)))))))"

definition run_migrations_online :: "alembic \<Rightarrow> (migration_env, unit) act" where
  "run_migrations_online A = run_async_migrations A"

definition run_environment :: "alembic \<Rightarrow> string \<Rightarrow> (migration_env, unit) act" where
  "run_environment A database_url =
     act_bind (set_main_option ''sqlalchemy.url'' database_url) (\<lambda>_.
       if al_offline A then run_migrations_offline A database_url else run_migrations_online A)"

section \<open>Alembic\<close>

text \<open>
  The migrations above the stored revision, in order. A transaction on a connection restores
  the database with the stored revision when an exception leaves it; without a connection there is
  nothing to restore. Without a database the script starts from the empty one.
\<close>

definition pending :: "string option \<Rightarrow> migration list" where
  "pending revision = history (length migrations) revision"

fun run_steps :: "migration list \<Rightarrow> (migration_env, unit) act" where
  "run_steps [] = act_return ()"
| "run_steps (m # ms) =
     act_bind act_get (\<lambda>s. act_bind (act_lift (exec_ops (mg_upgrade m) (me_pg s))) (\<lambda>t.
     act_bind (act_modify (\<lambda>s. s\<lparr>me_pg := t, me_revision := Some (mg_revision m)\<rparr>)) (\<lambda>_. run_steps ms)))"

definition run_pending :: "(migration_env, unit) act" where
  "run_pending = act_bind act_get (\<lambda>s. case me_context s of
     None \<Rightarrow> act_raise OtherError
   | Some Connection_Context \<Rightarrow> run_steps (pending (me_revision s))
   | Some (Url_Context url binds opts) \<Rightarrow> act_modify (\<lambda>s. s\<lparr>me_script := me_script s @ pending None\<rparr>))"

definition rolled_back :: "(migration_env, unit) act \<Rightarrow> (migration_env, unit) act" where
  "rolled_back m s =
     (case m s of
        (Inl e, s') \<Rightarrow> (Inl e, if me_context s = Some Connection_Context
          then s'\<lparr>me_pg := me_pg s, me_revision := me_revision s\<rparr> else s')
      | (Inr u, s') \<Rightarrow> (Inr u, s'))"

definition alembic_law :: "alembic \<Rightarrow> bool" where
  "alembic_law A \<longleftrightarrow> (\<forall>m s. al_transaction A m s = rolled_back m s) \<and> (\<forall>s. al_run_migrations A s = run_pending s)"

section \<open>All or nothing\<close>

lemma no_percent: "CHR ''%'' \<notin> set url \<Longrightarrow> drop_escapes url = url \<and> \<not> lone_percent url \<and> interpolate url = Inr url"
proof (induction url)
  case (Cons c cs)
  then have "c \<noteq> CHR ''%''" and "drop_escapes cs = cs \<and> \<not> lone_percent cs \<and> interpolate cs = Inr cs" by auto
  then show ?case
    by (cases cs) (simp_all del: drop_escapes.simps lone_percent.simps interpolate.simps
      add: drop_escapes.simps(1) drop_escapes.simps(2) [of c] lone_percent.simps(2) [of c] interpolate.simps(2) [of c])
qed simp

lemma run_steps_upgrade:
  "case upgrade_all ms (me_pg s) of
     Inl e \<Rightarrow> \<exists>s'. run_steps ms s = (Inl e, s') \<and> me_connected s' = me_connected s \<and> me_engine s' = me_engine s
   | Inr t \<Rightarrow> run_steps ms s =
       (Inr (), s\<lparr>me_pg := t, me_revision := (if ms = [] then me_revision s else Some (mg_revision (last ms)))\<rparr>)"
proof (induction ms arbitrary: s)
  case (Cons m ms)
  show ?case
  proof (cases "exec_ops (mg_upgrade m) (me_pg s)")
    case (Inl e)
    then show ?thesis by (simp add: act_bind_def)
  next
    case (Inr t)
    let ?s = "s\<lparr>me_pg := t, me_revision := Some (mg_revision m)\<rparr>"
    from Inr have "run_steps (m # ms) s = run_steps ms ?s" by (simp add: act_bind_def)
    with Cons [of ?s] Inr show ?thesis by (cases "upgrade_all ms t") (auto split: if_splits)
  qed
qed simp

text \<open>The revision that running what is pending leads to.\<close>

definition reached :: "string option \<Rightarrow> string option" where
  "reached revision = (if pending revision = [] then revision else Some (mg_revision (last (pending revision))))"

lemma do_run_migrations_result:
  assumes "alembic_law A"
  shows "case upgrade_all (pending (me_revision s)) (me_pg s) of
     Inl e \<Rightarrow> \<exists>s'. do_run_migrations A s = (Inl e, s') \<and> me_pg s' = me_pg s \<and> me_revision s' = me_revision s
       \<and> me_engine s' = me_engine s
   | Inr t \<Rightarrow> do_run_migrations A s = (Inr (), s\<lparr>me_context := Some Connection_Context, me_pg := t,
       me_revision := reached (me_revision s)\<rparr>)"
  using assms run_steps_upgrade [of "pending (me_revision s)" "s\<lparr>me_context := Some Connection_Context\<rparr>"]
  by (auto simp: do_run_migrations_def configure_def alembic_law_def rolled_back_def run_pending_def reached_def split: sum.splits)

definition newest_revision :: string where
  "newest_revision = mg_revision (last all_migrations)"

text \<open>A database that stands at a revision of the history: \<open>k\<close> migrations have been run.\<close>

definition at_revision :: "nat \<Rightarrow> migration_env \<Rightarrow> bool" where
  "at_revision k s \<longleftrightarrow> k \<le> length all_migrations
     \<and> me_revision s = (if k = 0 then None else Some (mg_revision (all_migrations ! (k - 1))))"

lemma all_migrations_nonempty: "all_migrations \<noteq> []"
  by code_simp

lemma pending_at:
  assumes "at_revision k s"
  shows "pending (me_revision s) = drop k all_migrations" and "reached (me_revision s) = Some newest_revision"
proof -
  have len: "length all_migrations = 12" by code_simp
  have "list_all (\<lambda>k. pending (if k = 0 then None else Some (mg_revision (all_migrations ! (k - 1)))) = drop k all_migrations)
      [0..<13]" by code_simp
  then show p: "pending (me_revision s) = drop k all_migrations"
    using assms len unfolding list_all_iff at_revision_def by simp
  show "reached (me_revision s) = Some newest_revision"
  proof (cases "k < length all_migrations")
    case True
    then show ?thesis by (simp add: reached_def p newest_revision_def)
  next
    case False
    then have "k = length all_migrations" using assms by (simp add: at_revision_def)
    then have "pending (me_revision s) = []" and "me_revision s = Some newest_revision"
      using assms p all_migrations_nonempty by (simp_all add: newest_revision_def at_revision_def last_conv_nth)
    then show ?thesis by (simp add: reached_def)
  qed
qed

lemma run_online:
  assumes "CHR ''%'' \<notin> set url" and "\<not> al_offline A" and "al_connect A url = Inr ()"
  shows "run_environment A url s =
    (case do_run_migrations A (s\<lparr>me_options := AList.update ''sqlalchemy.url'' url (me_options s), me_engine := Some url, me_connected := True\<rparr>) of
      (Inl e, s') \<Rightarrow> (Inl e, s'\<lparr>me_connected := False\<rparr>)
    | (Inr u, s') \<Rightarrow> (Inr (), s'\<lparr>me_connected := False, me_engine := None\<rparr>))"
  using assms no_percent [OF assms(1)]
  by (simp add: run_environment_def set_main_option_def run_migrations_online_def run_async_migrations_def
      act_bind_def act_finally_def split: prod.splits sum.splits)

text \<open>
  C21. Running the migrations online is all or nothing. From any revision of the history the
  pending migrations are run in order: if all succeed, the database is what they give
  together, the stored revision is the newest one, connection and engine are gone, and running again
  changes neither; if one fails, the exception is passed on and the database keeps its
  schema, its rows and its revision, with the connection closed and the engine left
  undisposed; if the connection fails, nothing happens to the database either. Offline, the script
  gets every migration and no database changes.
\<close>

theorem migrations_are_all_or_nothing:
  assumes law: "alembic_law A" and url: "CHR ''%'' \<notin> set url"
    and online: "\<not> al_offline A" "al_connect A url = Inr ()" and at: "at_revision k s"
  shows "(case upgrade_all (drop k all_migrations) (me_pg s) of
      Inl e \<Rightarrow> \<exists>s'. run_environment A url s = (Inl e, s') \<and> me_pg s' = me_pg s \<and> me_revision s' = me_revision s
        \<and> \<not> me_connected s' \<and> me_engine s' = Some url
    | Inr t \<Rightarrow> \<exists>s'. run_environment A url s = (Inr (), s') \<and> me_pg s' = t \<and> me_revision s' = Some newest_revision
        \<and> \<not> me_connected s' \<and> me_engine s' = None \<and> run_environment A url s' = (Inr (), s'))
    \<and> (\<exists>s'. run_environment (A\<lparr>al_connect := \<lambda>_. Inl e\<rparr>) url s = (Inl e, s') \<and> me_pg s' = me_pg s
        \<and> me_revision s' = me_revision s \<and> me_connected s' = me_connected s)
    \<and> (\<exists>s'. run_environment (A\<lparr>al_offline := True\<rparr>) url s = (Inr (), s') \<and> me_pg s' = me_pg s
        \<and> me_revision s' = me_revision s \<and> me_script s' = me_script s @ all_migrations \<and> me_engine s' = me_engine s)"
proof (intro conjI)
  let ?s = "s\<lparr>me_options := AList.update ''sqlalchemy.url'' url (me_options s), me_engine := Some url, me_connected := True\<rparr>"
  show "case upgrade_all (drop k all_migrations) (me_pg s) of
      Inl e \<Rightarrow> \<exists>s'. run_environment A url s = (Inl e, s') \<and> me_pg s' = me_pg s \<and> me_revision s' = me_revision s
        \<and> \<not> me_connected s' \<and> me_engine s' = Some url
    | Inr t \<Rightarrow> \<exists>s'. run_environment A url s = (Inr (), s') \<and> me_pg s' = t \<and> me_revision s' = Some newest_revision
        \<and> \<not> me_connected s' \<and> me_engine s' = None \<and> run_environment A url s' = (Inr (), s')"
  proof (cases "upgrade_all (drop k all_migrations) (me_pg s)")
    case (Inl e)
    with do_run_migrations_result [OF law, of ?s] pending_at [OF at] show ?thesis
      by (auto simp: run_online [OF url online])
  next
    case (Inr t)
    let ?t = "?s\<lparr>me_context := Some Connection_Context, me_pg := t, me_revision := Some newest_revision,
      me_connected := False, me_engine := None\<rparr>"
    have run: "run_environment A url s = (Inr (), ?t)"
      using Inr do_run_migrations_result [OF law, of ?s] pending_at [OF at] by (simp add: run_online [OF url online])
    have "at_revision (length all_migrations) ?t"
      by (simp add: at_revision_def newest_revision_def all_migrations_nonempty last_conv_nth)
    from pending_at [OF this] have none: "pending (Some newest_revision) = []" "reached (Some newest_revision) = Some newest_revision"
      by simp_all
    have same: "?t\<lparr>me_options := AList.update ''sqlalchemy.url'' url (me_options ?t), me_engine := Some url, me_connected := True\<rparr>
        = ?t\<lparr>me_engine := Some url, me_connected := True\<rparr>" (is "_ = ?u") by simp
    have "do_run_migrations A ?u = (Inr (), ?u)"
      using do_run_migrations_result [OF law, of ?u] none by simp
    then have "run_environment A url ?t = (Inr (), ?t)" unfolding run_online [OF url online] same by simp
    with run show ?thesis by (simp add: Inr)
  qed
  show "\<exists>s'. run_environment (A\<lparr>al_connect := \<lambda>_. Inl e\<rparr>) url s = (Inl e, s') \<and> me_pg s' = me_pg s
        \<and> me_revision s' = me_revision s \<and> me_connected s' = me_connected s"
    using online no_percent [OF url]
    by (simp add: run_environment_def set_main_option_def run_migrations_online_def run_async_migrations_def act_bind_def)
  show "\<exists>s'. run_environment (A\<lparr>al_offline := True\<rparr>) url s = (Inr (), s') \<and> me_pg s' = me_pg s
        \<and> me_revision s' = me_revision s \<and> me_script s' = me_script s @ all_migrations \<and> me_engine s' = me_engine s"
    using law no_percent [OF url]
    by (simp add: run_environment_def set_main_option_def run_migrations_offline_def get_main_option_def act_bind_def
        configure_def alembic_law_def rolled_back_def run_pending_def pending_def all_migrations_def)
qed

definition demo_alembic :: alembic where
  "demo_alembic = \<lparr>al_offline = False, al_connect = \<lambda>_. Inr (), al_transaction = rolled_back, al_run_migrations = run_pending\<rparr>"

definition demo_migration_env :: migration_env where
  "demo_migration_env = \<lparr>me_options = [], me_pg = empty_pg, me_revision = None, me_context = None, me_connected = False,
     me_engine = None, me_script = []\<rparr>"

lemma migrations_are_all_or_nothing_witness:
  "\<exists>t s'. upgrade_all all_migrations empty_pg = Inr t
     \<and> run_environment demo_alembic ''psql://postgres:'' demo_migration_env = (Inr (), s')
     \<and> me_pg s' = t \<and> me_revision s' = Some ''1737a3c2c89d''"
proof -
  have "case upgrade_all all_migrations empty_pg of Inl e \<Rightarrow> False | Inr s \<Rightarrow> True" by code_simp
  then obtain t where t: "upgrade_all all_migrations empty_pg = Inr t" by (cases "upgrade_all all_migrations empty_pg") auto
  have rev: "newest_revision = ''1737a3c2c89d''" by code_simp
  have law: "alembic_law demo_alembic" by (simp add: alembic_law_def demo_alembic_def)
  have at: "at_revision 0 demo_migration_env" by (simp add: at_revision_def demo_migration_env_def)
  have "\<not> al_offline demo_alembic" "al_connect demo_alembic ''psql://postgres:'' = Inr ()" by (simp_all add: demo_alembic_def)
  from migrations_are_all_or_nothing [OF law _ this at, of undefined] show ?thesis
    using t rev by (auto simp: demo_migration_env_def)
qed

text \<open>
  A URL with a percent-encoded password, which the engine of the service accepts, is refused
  by the configuration: no migration runs.
\<close>

lemma percent_encoded_url_is_refused:
  "run_environment A ''postgresql+asyncpg://u:p%40ss@db/d'' s = (Inl ValueError, s)"
proof -
  have "lone_percent (drop_escapes ''postgresql+asyncpg://u:p%40ss@db/d'')" by code_simp
  then show ?thesis by (simp add: run_environment_def set_main_option_def act_bind_def)
qed

end
