(* ===== verification/Settings.thy ===== *)
theory Settings
  imports Admin Metadata Queue_Provider
begin

text \<open>
  Settings: \<open>app/config.py\<close>. A field is read from the environment, else from the file that
  \<open>ENV_FILE\<close> names, else it has its default; names are case-sensitive and a text that its
  type refuses is a \<open>ValidationError\<close>, a \<open>ValueError\<close>. The conversions of Pydantic are the
  record \<open>setting_parsers\<close>, the file system maps a name to the variables in the file, and the random
  default of the secret key is an argument.
\<close>

section \<open>Fields\<close>

record settings =
  st_TEST :: bool
  st_LOG_LEVEL :: string
  st_LOG_LEVEL_EVENTS_SERVICE :: string
  st_REDIS_URL :: string
  st_DATABASE_URL :: string
  st_DATABASE_POOL_CLASS :: string
  st_DATABASE_POOL_SIZE :: int
  st_DATABASE_POOL_MAX_OVERFLOW :: int
  st_DATABASE_IDLE_IN_TRANSACTION_SESSION_TIMEOUT_MS :: int
  st_RABBITMQ_AMQP_URL :: string
  st_RABBITMQ_AMQP_EXCHANGE :: string
  st_RABBITMQ_DECODER_EVENTS_QUEUE_NAME :: string
  st_SECRET_KEY :: string
  st_ADMIN_USERNAME :: string
  st_ADMIN_PASSWORD :: string
  st_ADMIN_TOKEN_EXPIRATION_SECONDS :: int
  st_ETHERSCAN_API_KEY :: string
  st_ETHERSCAN_MAX_REQUESTS :: int
  st_BLOCKSCOUT_MAX_REQUESTS :: int
  st_SOURCIFY_MAX_REQUESTS :: int
  st_CONTRACT_MAX_DOWNLOAD_RETRIES :: int
  st_CONTRACT_LOGO_BASE_URL :: string
  st_CONTRACTS_TRUSTED_FOR_DELEGATE_CALL :: "string list"

definition default_settings :: "string \<Rightarrow> settings" where
  "default_settings token = \<lparr>
     st_TEST = False,
     st_LOG_LEVEL = ''INFO'',
     st_LOG_LEVEL_EVENTS_SERVICE = ''INFO'',
     st_REDIS_URL = ''redis://'',
     st_DATABASE_URL = ''psql://postgres:'',
     st_DATABASE_POOL_CLASS = ''AsyncAdaptedQueuePool'',
     st_DATABASE_POOL_SIZE = 10,
     st_DATABASE_POOL_MAX_OVERFLOW = 10,
     st_DATABASE_IDLE_IN_TRANSACTION_SESSION_TIMEOUT_MS = 30000,
     st_RABBITMQ_AMQP_URL = ''amqp://guest:guest@'',
     st_RABBITMQ_AMQP_EXCHANGE = ''safe-transaction-service-events'',
     st_RABBITMQ_DECODER_EVENTS_QUEUE_NAME = ''safe-decoder-service'',
     st_SECRET_KEY = token,
     st_ADMIN_USERNAME = ''admin'',
     st_ADMIN_PASSWORD = ''admin'',
     st_ADMIN_TOKEN_EXPIRATION_SECONDS = 7 * 24 * 60 * 60,
     st_ETHERSCAN_API_KEY = '''',
     st_ETHERSCAN_MAX_REQUESTS = 1,
     st_BLOCKSCOUT_MAX_REQUESTS = 1,
     st_SOURCIFY_MAX_REQUESTS = 100,
     st_CONTRACT_MAX_DOWNLOAD_RETRIES = 90,
     st_CONTRACT_LOGO_BASE_URL = ''https://safe-transaction-assets.safe.global/contracts/logos'',
     st_CONTRACTS_TRUSTED_FOR_DELEGATE_CALL = [''MultiSendCallOnly'', ''SignMessageLib'', ''SafeMigration'']\<rparr>"

section \<open>Reading them\<close>

record setting_parsers =
  sp_bool :: "string \<Rightarrow> bool option"
  sp_int :: "string \<Rightarrow> int option"
  sp_list :: "string \<Rightarrow> string list option"

definition read_setting ::
    "(string, string) dict \<Rightarrow> (string, string) dict \<Rightarrow> (string \<Rightarrow> 'a option) \<Rightarrow> string \<Rightarrow> 'a \<Rightarrow> 'a res" where
  "read_setting environ dotenv parse name d =
     (case (case map_of environ name of None \<Rightarrow> map_of dotenv name | Some v \<Rightarrow> Some v) of
        None \<Rightarrow> Inr d
      | Some v \<Rightarrow> (case parse v of None \<Rightarrow> Inl ValueError | Some x \<Rightarrow> Inr x))"

definition env_file :: "(string, string) dict \<Rightarrow> string" where
  "env_file environ = (case map_of environ ''ENV_FILE'' of None \<Rightarrow> ''.env'' | Some f \<Rightarrow> f)"

definition load_settings ::
    "setting_parsers \<Rightarrow> (string \<Rightarrow> (string, string) dict) \<Rightarrow> string \<Rightarrow> (string, string) dict \<Rightarrow> settings res" where
  "load_settings P files token environ =
     (let d = default_settings token; dotenv = files (env_file environ);
          b = read_setting environ dotenv (sp_bool P);
          n = read_setting environ dotenv (sp_int P);
          t = read_setting environ dotenv Some
      in res_bind (b ''TEST'' (st_TEST d)) (\<lambda>v1.
         res_bind (t ''LOG_LEVEL'' (st_LOG_LEVEL d)) (\<lambda>v2.
         res_bind (t ''LOG_LEVEL_EVENTS_SERVICE'' (st_LOG_LEVEL_EVENTS_SERVICE d)) (\<lambda>v3.
         res_bind (t ''REDIS_URL'' (st_REDIS_URL d)) (\<lambda>v4.
         res_bind (t ''DATABASE_URL'' (st_DATABASE_URL d)) (\<lambda>v5.
         res_bind (t ''DATABASE_POOL_CLASS'' (st_DATABASE_POOL_CLASS d)) (\<lambda>v6.
         res_bind (n ''DATABASE_POOL_SIZE'' (st_DATABASE_POOL_SIZE d)) (\<lambda>v7.
         res_bind (n ''DATABASE_POOL_MAX_OVERFLOW'' (st_DATABASE_POOL_MAX_OVERFLOW d)) (\<lambda>v8.
         res_bind (n ''DATABASE_IDLE_IN_TRANSACTION_SESSION_TIMEOUT_MS''
           (st_DATABASE_IDLE_IN_TRANSACTION_SESSION_TIMEOUT_MS d)) (\<lambda>v9.
         res_bind (t ''RABBITMQ_AMQP_URL'' (st_RABBITMQ_AMQP_URL d)) (\<lambda>v10.
         res_bind (t ''RABBITMQ_AMQP_EXCHANGE'' (st_RABBITMQ_AMQP_EXCHANGE d)) (\<lambda>v11.
         res_bind (t ''RABBITMQ_DECODER_EVENTS_QUEUE_NAME'' (st_RABBITMQ_DECODER_EVENTS_QUEUE_NAME d)) (\<lambda>v12.
         res_bind (t ''SECRET_KEY'' (st_SECRET_KEY d)) (\<lambda>v13.
         res_bind (t ''ADMIN_USERNAME'' (st_ADMIN_USERNAME d)) (\<lambda>v14.
         res_bind (t ''ADMIN_PASSWORD'' (st_ADMIN_PASSWORD d)) (\<lambda>v15.
         res_bind (n ''ADMIN_TOKEN_EXPIRATION_SECONDS'' (st_ADMIN_TOKEN_EXPIRATION_SECONDS d)) (\<lambda>v16.
         res_bind (t ''ETHERSCAN_API_KEY'' (st_ETHERSCAN_API_KEY d)) (\<lambda>v17.
         res_bind (n ''ETHERSCAN_MAX_REQUESTS'' (st_ETHERSCAN_MAX_REQUESTS d)) (\<lambda>v18.
         res_bind (n ''BLOCKSCOUT_MAX_REQUESTS'' (st_BLOCKSCOUT_MAX_REQUESTS d)) (\<lambda>v19.
         res_bind (n ''SOURCIFY_MAX_REQUESTS'' (st_SOURCIFY_MAX_REQUESTS d)) (\<lambda>v20.
         res_bind (n ''CONTRACT_MAX_DOWNLOAD_RETRIES'' (st_CONTRACT_MAX_DOWNLOAD_RETRIES d)) (\<lambda>v21.
         res_bind (t ''CONTRACT_LOGO_BASE_URL'' (st_CONTRACT_LOGO_BASE_URL d)) (\<lambda>v22.
         res_bind (read_setting environ dotenv (sp_list P) ''CONTRACTS_TRUSTED_FOR_DELEGATE_CALL''
           (st_CONTRACTS_TRUSTED_FOR_DELEGATE_CALL d)) (\<lambda>v23.
         Inr \<lparr>st_TEST = v1, st_LOG_LEVEL = v2, st_LOG_LEVEL_EVENTS_SERVICE = v3, st_REDIS_URL = v4, st_DATABASE_URL = v5,
           st_DATABASE_POOL_CLASS = v6, st_DATABASE_POOL_SIZE = v7, st_DATABASE_POOL_MAX_OVERFLOW = v8,
           st_DATABASE_IDLE_IN_TRANSACTION_SESSION_TIMEOUT_MS = v9, st_RABBITMQ_AMQP_URL = v10,
           st_RABBITMQ_AMQP_EXCHANGE = v11, st_RABBITMQ_DECODER_EVENTS_QUEUE_NAME = v12, st_SECRET_KEY = v13,
           st_ADMIN_USERNAME = v14, st_ADMIN_PASSWORD = v15, st_ADMIN_TOKEN_EXPIRATION_SECONDS = v16,
           st_ETHERSCAN_API_KEY = v17, st_ETHERSCAN_MAX_REQUESTS = v18, st_BLOCKSCOUT_MAX_REQUESTS = v19,
           st_SOURCIFY_MAX_REQUESTS = v20, st_CONTRACT_MAX_DOWNLOAD_RETRIES = v21, st_CONTRACT_LOGO_BASE_URL = v22,
           st_CONTRACTS_TRUSTED_FOR_DELEGATE_CALL = v23\<rparr>))))))))))))))))))))))))"

section \<open>The logging configuration\<close>

record log_handler =
  lh_level :: string
  lh_class :: string
  lh_formatter :: string

record logger_config =
  lc_level :: string
  lc_handlers :: "string list"
  lc_propagate :: bool

record logging_config =
  lg_version :: int
  lg_disable_existing_loggers :: bool
  lg_formatters :: "(string, string) dict"
  lg_handlers :: "(string, log_handler) dict"
  lg_loggers :: "(string, logger_config) dict"

definition LOGGING_CONFIG :: "settings \<Rightarrow> logging_config" where
  "LOGGING_CONFIG s = \<lparr>
     lg_version = 1,
     lg_disable_existing_loggers = False,
     lg_formatters = [(''json'', ''SafeJsonFormatter'')],
     lg_handlers = [(''console'', \<lparr>lh_level = ''DEBUG'', lh_class = ''logging.StreamHandler'', lh_formatter = ''json''\<rparr>)],
     lg_loggers = [
       ('''', \<lparr>lc_level = st_LOG_LEVEL s, lc_handlers = [''console''], lc_propagate = False\<rparr>),
       (''app.services.events'',
         \<lparr>lc_level = st_LOG_LEVEL_EVENTS_SERVICE s, lc_handlers = [''console''], lc_propagate = False\<rparr>)]\<rparr>"

section \<open>The groups that the components read\<close>

definition client_settings_of :: "settings \<Rightarrow> client_settings" where
  "client_settings_of s = \<lparr>ETHERSCAN_MAX_REQUESTS = st_ETHERSCAN_MAX_REQUESTS s,
     SOURCIFY_MAX_REQUESTS = st_SOURCIFY_MAX_REQUESTS s, BLOCKSCOUT_MAX_REQUESTS = st_BLOCKSCOUT_MAX_REQUESTS s\<rparr>"

definition amqp_settings_of :: "settings \<Rightarrow> amqp_settings" where
  "amqp_settings_of s = \<lparr>RABBITMQ_AMQP_URL = st_RABBITMQ_AMQP_URL s, RABBITMQ_AMQP_EXCHANGE = st_RABBITMQ_AMQP_EXCHANGE s,
     RABBITMQ_DECODER_EVENTS_QUEUE_NAME = st_RABBITMQ_DECODER_EVENTS_QUEUE_NAME s\<rparr>"

definition admin_settings_of :: "settings \<Rightarrow> admin_settings" where
  "admin_settings_of s = \<lparr>ADMIN_USERNAME = st_ADMIN_USERNAME s, ADMIN_PASSWORD = st_ADMIN_PASSWORD s,
     ADMIN_TOKEN_EXPIRATION_SECONDS = st_ADMIN_TOKEN_EXPIRATION_SECONDS s\<rparr>"

section \<open>What is read\<close>

text \<open>
  Every field except \<open>ENV_FILE\<close> itself comes from the first of the environment, the file and
  the default; the fields below are those that the guards of other components ask about.
\<close>

lemma read_setting_cases:
  "read_setting environ dotenv parse name d =
     (case map_of (environ @ dotenv) name of None \<Rightarrow> Inr d
      | Some v \<Rightarrow> (case parse v of None \<Rightarrow> Inl ValueError | Some x \<Rightarrow> Inr x))"
  by (simp add: read_setting_def map_add_def split: option.splits)

lemma read_setting_unset [simp]: "read_setting [] [] parse name d = Inr d"
  by (simp add: read_setting_def)

lemma settings_default: "files ''.env'' = [] \<Longrightarrow> load_settings P files token [] = Inr (default_settings token)"
  by (simp add: load_settings_def env_file_def Let_def default_settings_def)

lemma read_setting_Inr_parsed:
  "read_setting environ dotenv parse name d = Inr x \<Longrightarrow> map_of (environ @ dotenv) name = Some v \<Longrightarrow> parse v = Some x"
  by (auto simp: read_setting_cases split: option.splits)

lemma res_bind_value_error:
  "\<forall>e. r = Inl e \<longrightarrow> e = ValueError \<Longrightarrow> (\<And>a. \<forall>e. f a = Inl e \<longrightarrow> e = ValueError)
    \<Longrightarrow> \<forall>e. res_bind r f = Inl e \<longrightarrow> e = ValueError"
  by (cases r) auto

lemma read_setting_value_error: "\<forall>e. read_setting environ dotenv parse name d = Inl e \<longrightarrow> e = ValueError"
  by (simp add: read_setting_cases split: option.splits)

lemma load_settings_fails_as_value_error:
  "\<forall>e. load_settings P files token environ = Inl e \<longrightarrow> e = ValueError"
  unfolding load_settings_def Let_def by (intro res_bind_value_error read_setting_value_error) simp

text \<open>Under the defaults a login token lives, and every guard on a number of requests passes.\<close>

lemma default_guards:
  "0 < ADMIN_TOKEN_EXPIRATION_SECONDS (admin_settings_of (default_settings t))"
  "0 < ETHERSCAN_MAX_REQUESTS (client_settings_of (default_settings t))"
  "0 < SOURCIFY_MAX_REQUESTS (client_settings_of (default_settings t))"
  "0 < BLOCKSCOUT_MAX_REQUESTS (client_settings_of (default_settings t))"
  by (simp_all add: admin_settings_of_def client_settings_of_def default_settings_def)

end
