(* ===== verification/Resources.thy ===== *)
theory Resources
  imports Settings Memo
begin

text \<open>
  The resources that the process shares: the engine (\<open>get_engine\<close> and \<open>pool_classes\<close> in
  \<open>app/datasources/db/database.py\<close>, under \<open>functools.cache\<close>) and one Redis client per event loop
  (\<open>get_redis\<close> in \<open>app/datasources/cache/redis.py\<close>). The registry of clients holds its loops
  weakly: when a loop is collected, its entry is gone. A loop is a number that no other loop gets,
  an engine or a client is the number of its creation. \<open>create_async_engine\<close> and
  \<open>Redis.from_url\<close> are arguments; they may raise.
\<close>

section \<open>The engine\<close>

datatype pool_class = NullPool | AsyncAdaptedQueuePool

record engine_args =
  ea_url :: string
  ea_future :: bool
  ea_poolclass :: "pool_class option"
  ea_pool_size :: "int option"
  ea_max_overflow :: "int option"
  ea_pool_pre_ping :: "bool option"
  ea_server_settings :: "(string, string) dict"

definition pool_classes :: "(string, pool_class) dict" where
  "pool_classes = [(''NullPool'', NullPool), (''AsyncAdaptedQueuePool'', AsyncAdaptedQueuePool)]"

definition engine_arguments :: "settings \<Rightarrow> engine_args" where
  "engine_arguments s =
     (if st_TEST s
      then \<lparr>ea_url = st_DATABASE_URL s, ea_future = True, ea_poolclass = Some NullPool, ea_pool_size = None,
        ea_max_overflow = None, ea_pool_pre_ping = None, ea_server_settings = []\<rparr>
      else \<lparr>ea_url = st_DATABASE_URL s, ea_future = True, ea_poolclass = map_of pool_classes (st_DATABASE_POOL_CLASS s),
        ea_pool_size = Some (st_DATABASE_POOL_SIZE s), ea_max_overflow = Some (st_DATABASE_POOL_MAX_OVERFLOW s),
        ea_pool_pre_ping = Some True, ea_server_settings = [(''idle_in_transaction_session_timeout'',
          str_int (st_DATABASE_IDLE_IN_TRANSACTION_SESSION_TIMEOUT_MS s))]\<rparr>)"

record resources =
  rs_engine :: "nat option"
  rs_engines_made :: "(nat \<times> engine_args) list"
  rs_clients :: "(nat, nat) dict"
  rs_clients_made :: "(nat \<times> string) list"
  rs_loops :: "nat list"
  rs_loops_started :: nat

text \<open>The cache keeps what was returned; an exception is not kept.\<close>

definition get_engine :: "(engine_args \<Rightarrow> unit res) \<Rightarrow> settings \<Rightarrow> (resources, nat) act" where
  "get_engine create cfg =
     act_bind act_get (\<lambda>s. case rs_engine s of
       Some e \<Rightarrow> act_return e
     | None \<Rightarrow> let n = length (rs_engines_made s) in
         act_bind (act_lift (create (engine_arguments cfg))) (\<lambda>_.
         act_bind (act_modify (\<lambda>s. s\<lparr>rs_engine := Some n, rs_engines_made := rs_engines_made s @ [(n, engine_arguments cfg)]\<rparr>)) (\<lambda>_.
           act_return n)))"

section \<open>The Redis clients\<close>

definition get_redis :: "(string \<Rightarrow> unit res) \<Rightarrow> settings \<Rightarrow> nat option \<Rightarrow> (resources, nat) act" where
  "get_redis from_url cfg running =
     (case running of
        None \<Rightarrow> act_raise OtherError
      | Some loop \<Rightarrow>
          act_bind act_get (\<lambda>s. case map_of (rs_clients s) loop of
            Some redis \<Rightarrow> act_return redis
          | None \<Rightarrow> let n = length (rs_clients_made s) in
              act_bind (act_lift (from_url (st_REDIS_URL cfg))) (\<lambda>_.
              act_bind (act_modify (\<lambda>s. s\<lparr>rs_clients := AList.update loop n (rs_clients s),
                  rs_clients_made := rs_clients_made s @ [(n, st_REDIS_URL cfg)]\<rparr>)) (\<lambda>_.
                act_return n))))"

text \<open>Both remember what they made; a client is remembered under its loop.\<close>

interpretation the_engine: memo "\<lambda>_. rs_engine" "\<lambda>_ :: unit. get_engine create cfg"
  by unfold_locales (auto simp: get_engine_def act_bind_def Let_def split: option.splits sum.splits)

interpretation loop_clients: memo "\<lambda>loop s. map_of (rs_clients s) loop" "\<lambda>loop. get_redis from_url cfg (Some loop)"
  by unfold_locales (auto simp: get_redis_def act_bind_def Let_def split: option.splits sum.splits)

section \<open>The process\<close>

text \<open>A loop starts, asks for its client or for the engine, and is collected at some time.\<close>

inductive resource_step ::
    "(engine_args \<Rightarrow> unit res) \<Rightarrow> (string \<Rightarrow> unit res) \<Rightarrow> settings \<Rightarrow> resources \<Rightarrow> resources \<Rightarrow> bool"
  for create from_url cfg where
  loop_started: "resource_step create from_url cfg s
     (s\<lparr>rs_loops := rs_loops_started s # rs_loops s, rs_loops_started := rs_loops_started s + 1\<rparr>)"
| engine_asked: "get_engine create cfg s = (r, s') \<Longrightarrow> resource_step create from_url cfg s s'"
| redis_asked: "loop \<in> set (rs_loops s) \<Longrightarrow> get_redis from_url cfg (Some loop) s = (r, s')
     \<Longrightarrow> resource_step create from_url cfg s s'"
| loop_collected: "loop \<in> set (rs_loops s) \<Longrightarrow> resource_step create from_url cfg s
     (s\<lparr>rs_loops := filter (\<lambda>l. l \<noteq> loop) (rs_loops s), rs_clients := filter (\<lambda>p. fst p \<noteq> loop) (rs_clients s)\<rparr>)"

inductive_cases resource_stepE: "resource_step create from_url cfg s s'"

definition start_resources :: resources where
  "start_resources = \<lparr>rs_engine = None, rs_engines_made = [], rs_clients = [], rs_clients_made = [], rs_loops = [], rs_loops_started = 0\<rparr>"

section \<open>Invariant\<close>

text \<open>
  Only living loops have a client, no two loops share one, every client was made with the URL
  of the settings, and at most one engine was ever made: the one that is kept.
\<close>

definition resources_ok :: "settings \<Rightarrow> resources \<Rightarrow> bool" where
  "resources_ok cfg s \<longleftrightarrow>
     dict_keys (rs_clients s) \<subseteq> set (rs_loops s)
   \<and> (\<forall>l\<in>set (rs_loops s). l < rs_loops_started s)
   \<and> inj_on (map_of (rs_clients s)) (dict_keys (rs_clients s))
   \<and> (\<forall>l c. map_of (rs_clients s) l = Some c \<longrightarrow> c < length (rs_clients_made s))
   \<and> rs_clients_made s = map (\<lambda>n. (n, st_REDIS_URL cfg)) [0..<length (rs_clients_made s)]
   \<and> rs_engines_made s = (case rs_engine s of None \<Rightarrow> [] | Some e \<Rightarrow> [(e, engine_arguments cfg)])"

lemma resources_ok_start: "resources_ok cfg start_resources"
  by (simp add: resources_ok_def start_resources_def)

lemma get_engine_cases:
  "get_engine create cfg s = (r, s') \<Longrightarrow>
     (case rs_engine s of
        Some e \<Rightarrow> r = Inr e \<and> s' = s
      | None \<Rightarrow> (case create (engine_arguments cfg) of
            Inl x \<Rightarrow> r = Inl x \<and> s' = s
          | Inr _ \<Rightarrow> r = Inr (length (rs_engines_made s)) \<and> s' = s\<lparr>rs_engine := Some (length (rs_engines_made s)),
              rs_engines_made := rs_engines_made s @ [(length (rs_engines_made s), engine_arguments cfg)]\<rparr>))"
  by (auto simp: get_engine_def act_bind_def Let_def split: option.splits sum.splits)

lemma get_redis_cases:
  "get_redis from_url cfg (Some loop) s = (r, s') \<Longrightarrow>
     (case map_of (rs_clients s) loop of
        Some c \<Rightarrow> r = Inr c \<and> s' = s
      | None \<Rightarrow> (case from_url (st_REDIS_URL cfg) of
            Inl x \<Rightarrow> r = Inl x \<and> s' = s
          | Inr _ \<Rightarrow> r = Inr (length (rs_clients_made s)) \<and> s' = s\<lparr>
              rs_clients := AList.update loop (length (rs_clients_made s)) (rs_clients s),
              rs_clients_made := rs_clients_made s @ [(length (rs_clients_made s), st_REDIS_URL cfg)]\<rparr>))"
  by (auto simp: get_redis_def act_bind_def Let_def split: option.splits sum.splits)

lemma map_of_drop_key: "map_of (filter (\<lambda>p. fst p \<noteq> k) d) = (map_of d)(k := None)"
  by (induction d) (auto simp: fun_eq_iff)

lemma dict_keys_drop_key: "dict_keys (filter (\<lambda>p. fst p \<noteq> k) d) = dict_keys d - {k}"
  by (auto simp: dict_keys_def)

lemma inj_on_upd:
  assumes "inj_on m A" and "\<And>a. a \<in> A \<Longrightarrow> m a \<noteq> Some c"
  shows "inj_on (m(k \<mapsto> c)) (insert k A)"
proof (rule inj_onI)
  fix x y assume "x \<in> insert k A" "y \<in> insert k A" "(m(k \<mapsto> c)) x = (m(k \<mapsto> c)) y"
  then show "x = y" using assms(1) assms(2) [of x] assms(2) [of y]
    by (auto simp: inj_on_def split: if_splits)
qed

lemma resource_step_ok:
  assumes "resource_step create from_url cfg s s'" and ok: "resources_ok cfg s"
  shows "resources_ok cfg s'"
  using assms(1)
proof (cases rule: resource_step.cases)
  case loop_started
  with ok show ?thesis by (auto simp: resources_ok_def)
next
  case (engine_asked r)
  from get_engine_cases [OF this] ok show ?thesis by (auto simp: resources_ok_def split: option.splits sum.splits)
next
  case (redis_asked loop r)
  let ?n = "length (rs_clients_made s)"
  have new: "inj_on ((map_of (rs_clients s))(loop \<mapsto> ?n)) (insert loop (dict_keys (rs_clients s)))"
    using ok by (intro inj_on_upd) (auto simp: resources_ok_def)
  have made: "rs_clients_made s @ [(?n, st_REDIS_URL cfg)] = map (\<lambda>n. (n, st_REDIS_URL cfg)) [0..<Suc ?n]"
    using ok by (simp add: resources_ok_def)
  show ?thesis
  proof (cases "s' = s")
    case False
    with get_redis_cases [OF redis_asked(2)] have s': "s' = s\<lparr>rs_clients := AList.update loop ?n (rs_clients s),
        rs_clients_made := rs_clients_made s @ [(?n, st_REDIS_URL cfg)]\<rparr>"
      by (auto split: option.splits sum.splits)
    show ?thesis unfolding s' resources_ok_def
      using ok redis_asked(1) new made by (auto simp: resources_ok_def less_Suc_eq)
  qed (use ok in simp)
next
  case (loop_collected loop)
  have "inj_on ((map_of (rs_clients s))(loop := None)) (dict_keys (rs_clients s) - {loop})"
    using ok by (auto simp: resources_ok_def inj_on_def)
  with ok loop_collected show ?thesis
    by (auto simp: resources_ok_def map_of_drop_key dict_keys_drop_key)
qed

lemma resource_steps_ok:
  "(resource_step create from_url cfg)\<^sup>*\<^sup>* s s' \<Longrightarrow> resources_ok cfg s \<Longrightarrow> resources_ok cfg s'"
  by (induction rule: rtranclp_induct) (auto intro: resource_step_ok)

section \<open>Sharing\<close>

text \<open>A loop that was collected does not come back, so this holds from the first answer on.\<close>

definition client_kept :: "nat \<Rightarrow> nat \<Rightarrow> resources \<Rightarrow> bool" where
  "client_kept l c s \<longleftrightarrow> l < rs_loops_started s \<and> (l \<in> set (rs_loops s) \<longrightarrow> map_of (rs_clients s) l = Some c)"

lemma client_kept_step:
  assumes "resource_step create from_url cfg s s'" and "client_kept l c s"
  shows "client_kept l c s'"
  using assms(1)
proof (cases rule: resource_step.cases)
  case (engine_asked r)
  from get_engine_cases [OF this] assms(2) show ?thesis by (auto simp: client_kept_def split: option.splits sum.splits)
next
  case (redis_asked loop r)
  from get_redis_cases [OF this(2)] have "rs_loops s' = rs_loops s" "rs_loops_started s' = rs_loops_started s"
    by (auto split: option.splits sum.splits)
  with loop_clients.kept [OF _ redis_asked(2), of l c] assms(2) show ?thesis by (simp add: client_kept_def)
qed (use assms(2) in \<open>auto simp: client_kept_def map_of_drop_key\<close>)

lemma client_kept_steps:
  "(resource_step create from_url cfg)\<^sup>*\<^sup>* s s' \<Longrightarrow> client_kept l c s \<Longrightarrow> client_kept l c s'"
  by (induction rule: rtranclp_induct) (auto intro: client_kept_step)

lemma engine_kept_step:
  assumes "resource_step create from_url cfg s s'" and "rs_engine s = Some e"
  shows "rs_engine s' = Some e"
  using assms(1)
proof (cases rule: resource_step.cases)
  case (engine_asked r)
  from the_engine.kept [OF assms(2) this] show ?thesis .
next
  case (redis_asked loop r)
  from get_redis_cases [OF this(2)] assms(2) show ?thesis by (auto split: option.splits sum.splits)
qed (use assms(2) in auto)

lemma engine_kept_steps:
  "(resource_step create from_url cfg)\<^sup>*\<^sup>* s s' \<Longrightarrow> rs_engine s = Some e \<Longrightarrow> rs_engine s' = Some e"
  by (induction rule: rtranclp_induct) (auto intro: engine_kept_step)

lemma get_redis_made:
  "get_redis from_url cfg (Some l) s = (Inr c, s') \<Longrightarrow> map_of (rs_clients s') l = Some c
     \<and> rs_loops s' = rs_loops s \<and> rs_loops_started s' = rs_loops_started s"
  using get_redis_cases [of from_url cfg l s "Inr c" s'] by (auto split: option.splits sum.splits)

text \<open>
  C23. A process has one engine and one Redis client per event loop, whatever its loops do in
  between. If a loop got a client, then as long as it lives it gets the same one again and
  nothing changes; no other loop ever gets that client while it lives; every client was made with the URL
  of the settings; at most one engine was ever made, with the arguments of the settings, and
  whoever got it gets it again at any later time; without a running loop \<open>get_redis\<close> raises.
\<close>

theorem clients_are_shared:
  assumes reach: "(resource_step create from_url cfg)\<^sup>*\<^sup>* start_resources s"
    and asked: "l \<in> set (rs_loops s)" "get_redis from_url cfg (Some l) s = (Inr c, s1)"
    and later: "(resource_step create from_url cfg)\<^sup>*\<^sup>* s1 s2" "l \<in> set (rs_loops s2)"
  shows "get_redis from_url cfg (Some l) s2 = (Inr c, s2)
    \<and> (\<forall>l' c' s'. l' \<noteq> l \<longrightarrow> get_redis from_url cfg (Some l') s2 = (Inr c', s') \<longrightarrow> c' \<noteq> c)
    \<and> snd ` set (rs_clients_made s2) \<subseteq> {st_REDIS_URL cfg}
    \<and> length (rs_engines_made s2) \<le> 1 \<and> snd ` set (rs_engines_made s2) \<subseteq> {engine_arguments cfg}
    \<and> (\<forall>e s3 s4. get_engine create cfg s2 = (Inr e, s3) \<longrightarrow> (resource_step create from_url cfg)\<^sup>*\<^sup>* s3 s4
        \<longrightarrow> get_engine create cfg s4 = (Inr e, s4))
    \<and> get_redis from_url cfg None s2 = (Inl OtherError, s2)"
proof (intro conjI allI impI)
  have "resources_ok cfg s" using resource_steps_ok [OF reach resources_ok_start] .
  moreover have "resource_step create from_url cfg s s1" using asked by (rule redis_asked)
  ultimately have ok: "resources_ok cfg s2" using resource_step_ok resource_steps_ok [OF later(1)] by blast
  have "client_kept l c s1"
    using get_redis_made [OF asked(2)] \<open>resources_ok cfg s\<close> asked(1) by (auto simp: client_kept_def resources_ok_def)
  from client_kept_steps [OF later(1) this] later(2) have c: "map_of (rs_clients s2) l = Some c"
    by (simp add: client_kept_def)
  then show "get_redis from_url cfg (Some l) s2 = (Inr c, s2)" by (rule loop_clients.hit)
  show "c' \<noteq> c" if "l' \<noteq> l" and g: "get_redis from_url cfg (Some l') s2 = (Inr c', s')" for l' c' s'
  proof (cases "map_of (rs_clients s2) l'")
    case None
    with get_redis_cases [OF g] have "c' = length (rs_clients_made s2)" by (auto split: sum.splits)
    with ok c show ?thesis by (auto simp: resources_ok_def)
  next
    case (Some d)
    with get_redis_cases [OF g] have "c' = d" by simp
    with ok c Some that(1) show ?thesis by (auto simp: resources_ok_def inj_on_def dict_keys_iff)
  qed
  show "snd ` set (rs_clients_made s2) \<subseteq> {st_REDIS_URL cfg}"
  proof -
    have "rs_clients_made s2 = map (\<lambda>n. (n, st_REDIS_URL cfg)) [0..<length (rs_clients_made s2)]"
      using ok by (simp add: resources_ok_def)
    then have "set (rs_clients_made s2) = (\<lambda>n. (n, st_REDIS_URL cfg)) ` {0..<length (rs_clients_made s2)}"
      by (metis set_map set_upt)
    then show ?thesis by auto
  qed
  show "length (rs_engines_made s2) \<le> 1" "snd ` set (rs_engines_made s2) \<subseteq> {engine_arguments cfg}"
    using ok by (auto simp: resources_ok_def split: option.splits)
  show "get_engine create cfg s4 = (Inr e, s4)"
    if "get_engine create cfg s2 = (Inr e, s3)" and "(resource_step create from_url cfg)\<^sup>*\<^sup>* s3 s4" for e s3 s4
    using the_engine.hit [OF engine_kept_steps [OF that(2) the_engine.answered [OF that(1)]]] .
  show "get_redis from_url cfg None s2 = (Inl OtherError, s2)" by (simp add: get_redis_def)
qed

text \<open>A loop asks, a second loop starts and asks, and the first asks again.\<close>

lemma clients_are_shared_witness:
  "\<exists>s s1 s2. get_redis (\<lambda>_. Inr ()) (default_settings []) (Some 0) s = (Inr 0, s1)
     \<and> length (rs_clients_made s2) = 2 \<and> get_redis (\<lambda>_. Inr ()) (default_settings []) (Some 0) s2 = (Inr 0, s2)"
proof -
  let ?cfg = "default_settings []" and ?ok = "\<lambda>_. Inr ()"
  let ?step = "resource_step (\<lambda>_. Inr ()) (\<lambda>_. Inr ()) ?cfg"
  let ?s = "start_resources\<lparr>rs_loops := [0], rs_loops_started := 1\<rparr>"
  let ?s1 = "?s\<lparr>rs_clients := [(0, 0)], rs_clients_made := [(0, st_REDIS_URL ?cfg)]\<rparr>"
  let ?t = "?s1\<lparr>rs_loops := [1, 0], rs_loops_started := Suc 1\<rparr>"
  let ?s2 = "?t\<lparr>rs_clients := [(0, 0), (1, 1)], rs_clients_made := [(0, st_REDIS_URL ?cfg), (1, st_REDIS_URL ?cfg)]\<rparr>"
  have "?step start_resources ?s" using loop_started [of "\<lambda>_. Inr ()" "\<lambda>_. Inr ()" ?cfg start_resources]
    by (simp add: start_resources_def)
  then have reach: "?step\<^sup>*\<^sup>* start_resources ?s" by simp
  have first: "get_redis (\<lambda>_. Inr ()) ?cfg (Some 0) ?s = (Inr 0, ?s1)" by (simp add: get_redis_def start_resources_def)
  have "?step ?s1 ?t" using loop_started [of "\<lambda>_. Inr ()" "\<lambda>_. Inr ()" ?cfg ?s1] by simp
  moreover have "?step ?t ?s2"
  proof (rule redis_asked [where loop = 1])
    show "get_redis (\<lambda>_. Inr ()) ?cfg (Some 1) ?t = (Inr 1, ?s2)" by (simp add: get_redis_def)
  qed simp
  ultimately have "?step\<^sup>*\<^sup>* ?s1 ?s2" by simp
  from clients_are_shared [OF reach _ first this] first show ?thesis by (intro exI conjI) auto
qed

text \<open>
  SQLAlchemy refuses a pool size for \<open>NullPool\<close>. So the pool class that \<open>pool_classes\<close> offers
  beside the default cannot be chosen unless the service runs as a test.
\<close>

lemma null_pool_needs_test:
  assumes law: "\<And>a. ea_poolclass a = Some NullPool \<Longrightarrow> ea_pool_size a \<noteq> None \<Longrightarrow> create a = Inl TypeError"
    and cfg: "st_DATABASE_POOL_CLASS cfg = ''NullPool''" "\<not> st_TEST cfg" and s: "rs_engine s = None"
  shows "get_engine create cfg s = (Inl TypeError, s)"
proof -
  have "create (engine_arguments cfg) = Inl TypeError"
    by (rule law) (simp_all add: engine_arguments_def cfg pool_classes_def)
  then show ?thesis by (simp add: get_engine_def s Let_def)
qed

end
