(* ===== verification/Application.thy ===== *)
theory Application
  imports Queue_Provider Abi_Catalog Decoder_Api
begin

text \<open>
  The lifespan of the application in \<open>app/main.py\<close>: what happens between the start of the
  process and its end. The state is that of the session scopes with the provider of the
  events queue, the task that consumes it, the database and the cached decoder service. What
  the application does while it serves is an argument of \<open>lifespan\<close>.
\<close>

datatype consume_task = Consuming | Cancelled

record ('b, 'c, 'd) app_state = session_env +
  app_queue :: "'b queue_provider"
  app_consume_task :: "consume_task option"
  app_db :: db
  app_decoder :: "('c, 'd) decoder option"

record ('b, 'c, 'd) app_world =
  aw_uuid :: "nat \<Rightarrow> string"
  aw_amqp :: "'b amqp"
  aw_settings :: amqp_settings
  aw_hash :: "json \<Rightarrow> bytes"
  aw_package :: package_abis
  aw_tables :: abi_tables
  aw_lib :: "('c, 'd) lib"

definition on_queue :: "('b queue_provider, 'a) act \<Rightarrow> (('b, 'c, 'd) app_state, 'a) act" where
  "on_queue = act_zoom app_queue (\<lambda>q s. s\<lparr>app_queue := q\<rparr>)"

text \<open>A database operation opens the session of its scope.\<close>

definition on_app_db :: "(db, 'a) act \<Rightarrow> (('b, 'c, 'd) app_state, 'a) act" where
  "on_app_db m = act_bind db_session_use (\<lambda>_. act_zoom app_db (\<lambda>d s. s\<lparr>app_db := d\<rparr>) m)"

text \<open>The instance that exists is returned as it is; a new one reads the ABIs of the database.\<close>

definition initialise_decoder :: "('b, 'c, 'd) app_world \<Rightarrow> (('b, 'c, 'd) app_state, unit) act" where
  "initialise_decoder W =
     act_bind act_get (\<lambda>s. case app_decoder s of
         Some _ \<Rightarrow> act_return ()
       | None \<Rightarrow> act_bind (on_app_db act_get) (\<lambda>d.
           act_zoom app_decoder (\<lambda>x s. s\<lparr>app_decoder := x\<rparr>) (get_data_decoder_service (aw_lib W) d)))"

definition connect_to_queue :: "('b, 'c, 'd) app_world \<Rightarrow> (('b, 'c, 'd) app_state, unit) act" where
  "connect_to_queue W =
     act_bind (act_catch (on_queue (queue_connect (aw_amqp W) (aw_settings W)))
         (\<lambda>e. e = QueueProviderUnableToConnect) (\<lambda>_. act_return ())) (\<lambda>_.
     act_bind act_get (\<lambda>s.
       if is_connected (app_queue s) then act_modify (\<lambda>s. s\<lparr>app_consume_task := Some Consuming\<rparr>) else act_return ()))"

definition startup :: "('b, 'c, 'd) app_world \<Rightarrow> (('b, 'c, 'd) app_state, unit) act" where
  "startup W =
     act_bind (connect_to_queue W) (\<lambda>_.
       with_db_session_context (aw_uuid W) (Some ''InitializeDataDecoderServiceOnStartup'')
         (act_bind (on_app_db (load_local_abis_in_database (aw_hash W) (aw_package W) (aw_tables W))) (\<lambda>_.
            initialise_decoder W)))"

definition shutdown :: "('b, 'c, 'd) app_world \<Rightarrow> (('b, 'c, 'd) app_state, unit) act" where
  "shutdown W =
     act_bind (act_modify (\<lambda>s. s\<lparr>app_consume_task := map_option (\<lambda>_. Cancelled) (app_consume_task s)\<rparr>)) (\<lambda>_.
       on_queue (queue_disconnect (aw_amqp W)))"

definition lifespan ::
    "('b, 'c, 'd) app_world \<Rightarrow> (('b, 'c, 'd) app_state, unit) act \<Rightarrow> (('b, 'c, 'd) app_state, unit) act" where
  "lifespan W serving =
     act_bind (act_modify (\<lambda>s. s\<lparr>app_queue := new_queue_provider (qp_broker (app_queue s)), app_consume_task := None\<rparr>)) (\<lambda>_.
       act_finally (act_bind (startup W) (\<lambda>_. serving)) (shutdown W))"

section \<open>What starting and stopping leave\<close>

lemma tidy_connect: "tidy (connect_to_queue W)"
  unfolding connect_to_queue_def on_queue_def
  by (intro tidy_bind tidy_catch tidy_zoom tidy_basic) (auto simp: tidy_def)

lemma tidy_on_app_db: "tidy (on_app_db m)"
  unfolding on_app_db_def by (intro tidy_bind tidy_use tidy_zoom) simp_all

lemma tidy_initialise: "tidy (initialise_decoder W)"
  unfolding initialise_decoder_def option.case_eq_if
  by (intro tidy_bind tidy_basic tidy_on_app_db) (auto intro!: tidy_bind tidy_basic tidy_on_app_db tidy_zoom)

lemma tidy_startup: "tidy (startup W)"
  unfolding startup_def by (intro tidy_bind tidy_connect tidy_context tidy_on_app_db tidy_initialise)

lemma tidy_shutdown: "tidy (shutdown W)"
  unfolding shutdown_def on_queue_def by (intro tidy_bind tidy_modify tidy_zoom) simp_all

lemma keeps_on_queue: "keeps (\<lambda>s. (app_db s, app_decoder s)) (on_queue m)"
  by (simp add: keeps_def on_queue_def act_zoom_def split: prod.splits)

lemma connect_frame:
  assumes "connect_to_queue W s = (r, s1)"
  shows "app_db s1 = app_db s" "app_decoder s1 = app_decoder s"
proof -
  have "keeps (\<lambda>s. (app_db s, app_decoder s)) (connect_to_queue W)"
    unfolding connect_to_queue_def by (intro keeps_rules keeps_on_queue) simp
  from keepsD' [OF this assms] show "app_db s1 = app_db s" "app_decoder s1 = app_decoder s" by simp_all
qed

lemma shutdown_run:
  assumes closes: "\<forall>c b. \<exists>b'. close_connection (aw_amqp W) c b = (Inr (), b')"
  shows "\<exists>s'. shutdown W s = (Inr (), s') \<and> \<not> is_connected (app_queue s') \<and> app_consume_task s' \<noteq> Some Consuming"
proof (cases "qp_connection (app_queue s)")
  case None
  then show ?thesis
    by (simp add: shutdown_def on_queue_def act_bind_def act_zoom_def queue_disconnect_def is_connected_def option.case_eq_if)
next
  case (Some c)
  obtain b' where "close_connection (aw_amqp W) c (qp_broker (app_queue s)) = (Inr (), b')" using closes by blast
  with Some show ?thesis
    by (simp add: shutdown_def on_queue_def act_bind_def act_zoom_def queue_disconnect_def is_connected_def
        on_broker_def)
qed

lemma lifespan_stops:
  assumes closes: "\<forall>c b. \<exists>b'. close_connection (aw_amqp W) c b = (Inr (), b')" and m: "tidy m"
    and run: "act_finally m (shutdown W) s = (r, s')"
  shows "r = fst (m s)" "\<not> is_connected (app_queue s')" "app_consume_task s' \<noteq> Some Consuming"
    "db_session_ctx s' = db_session_ctx s"
    "set (open_sessions s') \<subseteq> set (open_sessions s) \<union> set_option (db_session_ctx s)"
proof -
  obtain q s1 where q: "m s = (q, s1)" by fastforce
  obtain s2 where s2: "shutdown W s1 = (Inr (), s2)" "\<not> is_connected (app_queue s2)" "app_consume_task s2 \<noteq> Some Consuming"
    using shutdown_run [OF closes] by blast
  have "r = q \<and> s' = s2" using run q s2(1) by (simp add: act_finally_def)
  then show "r = fst (m s)" "\<not> is_connected (app_queue s')" "app_consume_task s' \<noteq> Some Consuming"
    using q s2 by simp_all
  from tidyD [OF m q] tidyD [OF tidy_shutdown s2(1)] \<open>r = q \<and> s' = s2\<close>
  show "db_session_ctx s' = db_session_ctx s"
    "set (open_sessions s') \<subseteq> set (open_sessions s) \<union> set_option (db_session_ctx s)" by auto
qed

lemma startup_loads:
  assumes run: "startup W s = (Inr (), s')" and fresh: "app_decoder s = None"
    and ok: "db_ok (aw_hash W) (app_db s)" and nn: "JNull \<notin> set (catalogue (aw_package W) (aw_tables W))"
  shows "\<forall>j\<in>set (catalogue (aw_package W) (aw_tables W)). get_abi (aw_hash W) j (app_db s') \<noteq> None"
    and "\<exists>x. app_decoder s' = Some x \<and> most_relevant (aw_lib W) (app_db s') (fn_selectors_with_abis x)"
proof -
  let ?load = "load_local_abis_in_database (aw_hash W) (aw_package W) (aw_tables W)"
  let ?body = "act_bind (on_app_db ?load) (\<lambda>_. initialise_decoder W)"
  obtain s1 where c: "connect_to_queue W s = (Inr (), s1)"
    and w: "with_db_session_context (aw_uuid W) (Some ''InitializeDataDecoderServiceOnStartup'') ?body s1 = (Inr (), s')"
    using run by (auto simp: startup_def act_bind_def split: prod.splits sum.splits)
  note frame = connect_frame [OF c]
  obtain d' where load: "?load (app_db s) = (Inr (), d')"
    and all: "\<forall>j\<in>set (catalogue (aw_package W) (aw_tables W)). get_abi (aw_hash W) j d' \<noteq> None"
    using load_local_run [OF ok nn] by blast
  let ?s2 = "s1\<lparr>db_session_ctx := Some ''InitializeDataDecoderServiceOnStartup''\<rparr>"
  obtain r s3 where b: "?body ?s2 = (r, s3)" by fastforce
  have ch: "chosen_session_id (aw_uuid W) (Some ''InitializeDataDecoderServiceOnStartup'') s1
      = (Inr ''InitializeDataDecoderServiceOnStartup'', s1)" by (simp add: chosen_session_id_def)
  have "keeps db_session_ctx ?body"
    by (intro tidy_keeps tidy_bind tidy_on_app_db tidy_initialise)
  from with_db_session_context_run [OF ch this b] w
  have r: "r = Inr ()" and s': "app_db s' = app_db s3" "app_decoder s' = app_decoder s3" by auto
  obtain y where y: "init (aw_lib W) d' (new_decoder (aw_lib W)) = (Inr (), y)" "app_db s3 = d'" "app_decoder s3 = Some y"
    using b load frame fresh r
    by (auto simp: on_app_db_def initialise_decoder_def act_bind_def act_zoom_def db_session_use_def
        get_database_session_context_def get_data_decoder_service_def split: prod.splits sum.splits)
  show "\<forall>j\<in>set (catalogue (aw_package W) (aw_tables W)). get_abi (aw_hash W) j (app_db s') \<noteq> None"
    using all s' y by simp
  show "\<exists>x. app_decoder s' = Some x \<and> most_relevant (aw_lib W) (app_db s') (fn_selectors_with_abis x)"
    using s' y most_relevantI [OF init_Inr(1) [OF y(1)]] by simp
qed

lemma keeps_startup_scope:
  "keeps app_consume_task (with_db_session_context U (Some ''InitializeDataDecoderServiceOnStartup'')
     (act_bind (on_app_db load) (\<lambda>_. initialise_decoder W)))"
proof (unfold keeps_def, intro allI)
  fix s
  let ?i = "''InitializeDataDecoderServiceOnStartup''" and ?body = "act_bind (on_app_db load) (\<lambda>_. initialise_decoder W)"
  have db: "keeps app_consume_task (on_app_db m)" for m
    by (auto simp: keeps_def on_app_db_def act_bind_def act_zoom_def db_session_use_def get_database_session_context_def
        split: prod.splits sum.splits option.splits)
  have "keeps app_consume_task (initialise_decoder W)"
    unfolding initialise_decoder_def by (intro keeps_rules db) (simp add: keeps_def act_zoom_def split: prod.splits)+
  then have k: "keeps app_consume_task ?body" by (intro keeps_rules db)
  obtain r s2 where b: "?body (s\<lparr>db_session_ctx := Some ?i\<rparr>) = (r, s2)" by fastforce
  have "keeps db_session_ctx ?body" by (intro tidy_keeps tidy_bind tidy_on_app_db tidy_initialise)
  from with_db_session_context_run [OF _ this b, where U = U] keepsD' [OF k b]
  show "app_consume_task (snd (with_db_session_context U (Some ?i) ?body s)) = app_consume_task s"
    by (simp add: chosen_session_id_def)
qed

lemma refused_connection:
  assumes "connect_robust (aw_amqp W) (RABBITMQ_AMQP_URL (aw_settings W)) b = (Inl AMQPConnectionError, b')"
    and "app_queue s = new_queue_provider b" and "app_consume_task s = None"
  shows "fst (connect_to_queue W s) = Inr ()" "app_consume_task (snd (startup W s)) = None"
proof -
  have c: "connect_to_queue W s = (Inr (), s\<lparr>app_queue := new_queue_provider b'\<rparr>)"
    using assms by (simp add: connect_to_queue_def on_queue_def act_zoom_def queue_connect_def connect_raw_def
        on_broker_def act_bind_def act_catch_def new_queue_provider_def is_connected_def)
  then show "fst (connect_to_queue W s) = Inr ()" by auto
  have "app_consume_task (snd (startup W s)) = app_consume_task (s\<lparr>app_queue := new_queue_provider b'\<rparr>)"
    unfolding startup_def act_bind_def [of "connect_to_queue W"] c
    by (simp add: keepsD [OF keeps_startup_scope])
  with assms(3) show "app_consume_task (snd (startup W s)) = None" by simp
qed

text \<open>
  C13. However the application ends, by the end of serving, by an exception while serving or
  by one at startup, it leaves no connection, no running consumer, no session and no scope
  behind. Serving starts only on a complete catalogue of local ABIs with an initialised
  decoder that binds every selector to the most relevant ABI; an exception at startup is the
  result instead. A broker that cannot be reached does not prevent the start: the application
  then has no consumer.
\<close>

theorem lifespan_starts_ready_ends_clean:
  assumes closes: "\<forall>c b. \<exists>b'. close_connection (aw_amqp W) c b = (Inr (), b')"
    and serving: "tidy serving" and fresh: "app_decoder s = None" "db_session_ctx s = None"
    and ok: "db_ok (aw_hash W) (app_db s)" and nn: "JNull \<notin> set (catalogue (aw_package W) (aw_tables W))"
    and s0: "s0 = s\<lparr>app_queue := new_queue_provider (qp_broker (app_queue s)), app_consume_task := None\<rparr>"
    and run: "lifespan W serving s = (r, s')"
  shows "\<not> is_connected (app_queue s') \<and> app_consume_task s' \<noteq> Some Consuming
      \<and> db_session_ctx s' = None \<and> set (open_sessions s') \<subseteq> set (open_sessions s)
    \<and> (case startup W s0 of
         (Inl e, _) \<Rightarrow> r = Inl e
       | (Inr _, s1) \<Rightarrow> r = fst (serving s1)
           \<and> (\<forall>j\<in>set (catalogue (aw_package W) (aw_tables W)). get_abi (aw_hash W) j (app_db s1) \<noteq> None)
           \<and> (\<exists>x. app_decoder s1 = Some x \<and> most_relevant (aw_lib W) (app_db s1) (fn_selectors_with_abis x)))
    \<and> (fst (connect_robust (aw_amqp W) (RABBITMQ_AMQP_URL (aw_settings W)) (qp_broker (app_queue s))) = Inl AMQPConnectionError
       \<longrightarrow> fst (connect_to_queue W s0) = Inr () \<and> app_consume_task (snd (startup W s0)) = None)"
proof (intro conjI)
  let ?m = "act_bind (startup W) (\<lambda>_. serving)"
  have run0: "act_finally ?m (shutdown W) s0 = (r, s')" using run by (simp add: lifespan_def act_bind_def s0)
  note stops = lifespan_stops [OF closes tidy_bind [OF tidy_startup serving] run0]
  show "\<not> is_connected (app_queue s')" "app_consume_task s' \<noteq> Some Consuming" by (fact stops)+
  show "db_session_ctx s' = None" "set (open_sessions s') \<subseteq> set (open_sessions s)"
    using stops(4,5) fresh by (simp_all add: s0)
  have d: "app_decoder s0 = None" "db_ok (aw_hash W) (app_db s0)" using fresh ok by (simp_all add: s0)
  show "case startup W s0 of (Inl e, _) \<Rightarrow> r = Inl e
       | (Inr _, s1) \<Rightarrow> r = fst (serving s1)
           \<and> (\<forall>j\<in>set (catalogue (aw_package W) (aw_tables W)). get_abi (aw_hash W) j (app_db s1) \<noteq> None)
           \<and> (\<exists>x. app_decoder s1 = Some x \<and> most_relevant (aw_lib W) (app_db s1) (fn_selectors_with_abis x))"
  proof (cases "startup W s0")
    case (Pair q s1)
    then show ?thesis
    proof (cases q)
      case (Inr u)
      with Pair have "startup W s0 = (Inr (), s1)" by simp
      from startup_loads [OF this d nn] stops(1) Pair Inr show ?thesis by (simp add: act_bind_def)
    qed (use stops(1) Pair in \<open>simp add: act_bind_def\<close>)
  qed
  show "fst (connect_robust (aw_amqp W) (RABBITMQ_AMQP_URL (aw_settings W)) (qp_broker (app_queue s))) = Inl AMQPConnectionError
       \<longrightarrow> fst (connect_to_queue W s0) = Inr () \<and> app_consume_task (snd (startup W s0)) = None"
  proof
    assume "fst (connect_robust (aw_amqp W) (RABBITMQ_AMQP_URL (aw_settings W)) (qp_broker (app_queue s))) = Inl AMQPConnectionError"
    then obtain b' where "connect_robust (aw_amqp W) (RABBITMQ_AMQP_URL (aw_settings W)) (qp_broker (app_queue s))
        = (Inl AMQPConnectionError, b')" by (metis prod.collapse)
    from refused_connection [OF this, of s0]
    show "fst (connect_to_queue W s0) = Inr () \<and> app_consume_task (snd (startup W s0)) = None" by (simp add: s0)
  qed
qed

text \<open>A broker that is down, and a catalogue whose tables are all the same ABI without entries.\<close>

definition demo_app_world :: "(nat, (cache_key \<times> json option) list, (cache_key \<times> selectors option) list) app_world" where
  "demo_app_world = \<lparr>aw_uuid = (\<lambda>n. str_int (int n)),
     aw_amqp = demo_amqp\<lparr>connect_robust := \<lambda>u. act_raise AMQPConnectionError\<rparr>, aw_settings = demo_amqp_settings,
     aw_hash = (\<lambda>_. []),
     aw_package = \<lparr>safe_V0_0_1 = JList [], safe_V1_0_0 = JList [], safe_V1_1_1 = JList [], safe_V1_3_0 = JList [],
       safe_V1_4_1 = JList [], multi_send = JList [], safe_to_l2_migration = JList [], erc721 = JList [],
       erc20 = JList [], uniswap_exchange = JList [], kyber_network_proxy = JList []\<rparr>,
     aw_tables = demo_tables (JList []), aw_lib = demo_lib\<rparr>"

definition demo_app_state :: "(nat, (cache_key \<times> json option) list, (cache_key \<times> selectors option) list) app_state" where
  "demo_app_state = \<lparr>db_session_ctx = None, open_sessions = [], uuid_count = 0,
     app_queue = new_queue_provider 0, app_consume_task = None, app_db = empty_db, app_decoder = None\<rparr>"

lemma lifespan_starts_ready_ends_clean_witness:
  "\<exists>s'. lifespan demo_app_world (act_raise ValueError) demo_app_state = (Inl ValueError, s')
     \<and> \<not> is_connected (app_queue s') \<and> open_sessions s' = []
     \<and> app_consume_task (snd (startup demo_app_world demo_app_state)) = None"
proof -
  let ?W = demo_app_world and ?s = demo_app_state
  obtain r s' where run: "lifespan ?W (act_raise ValueError) ?s = (r, s')" by fastforce
  have closes: "\<forall>c b. \<exists>b'. close_connection (aw_amqp ?W) c b = (Inr (), b')"
    by (simp add: demo_app_world_def demo_amqp_def)
  have s0: "?s = ?s\<lparr>app_queue := new_queue_provider (qp_broker (app_queue ?s)), app_consume_task := None\<rparr>"
    by (simp add: demo_app_state_def new_queue_provider_def)
  have nn: "JNull \<notin> set (catalogue (aw_package ?W) (aw_tables ?W))"
    by (simp add: demo_app_world_def catalogue_def get_third_parties_abis_def get_safe_contracts_abis_def get_erc_abis_def
        get_safe_abis_def demo_tables_def)
  have ok: "db_ok (aw_hash ?W) (app_db ?s)" by (simp add: demo_app_state_def db_ok_empty)
  have starts: "fst (startup ?W ?s) = Inr ()" by code_simp
  have down: "fst (connect_robust (aw_amqp ?W) (RABBITMQ_AMQP_URL (aw_settings ?W)) (qp_broker (app_queue ?s))) = Inl AMQPConnectionError"
    by (simp add: demo_app_world_def)
  have fresh: "app_decoder ?s = None" "db_session_ctx ?s = None" by (simp_all add: demo_app_state_def)
  from lifespan_starts_ready_ends_clean [OF closes tidy_basic(2) fresh ok nn s0 run] starts down
  have "r = Inl ValueError \<and> \<not> is_connected (app_queue s') \<and> set (open_sessions s') \<subseteq> set (open_sessions ?s)
     \<and> app_consume_task (snd (startup ?W ?s)) = None" by (auto split: prod.splits sum.splits)
  with run show ?thesis by (simp add: demo_app_state_def)
qed

end
