(* ===== verification/Commands.thy ===== *)
theory Commands
  imports Tasks
begin

text \<open>
  The command line of \<open>app/commands\<close>: the wrapper that opens a session scope, the two
  commands, and the styles of what they print. The state is that of the worker with the lines
  printed so far.
\<close>

section \<open>Printing\<close>

datatype colour = Cyan | Red | Green

datatype terminal_line = Secho colour bool string | Print string

record ('r, 'cl) cli = "('r, 'cl) sys" +
  cli_lines :: "terminal_line list"

definition on_sys :: "(('r, 'cl) sys, 'a) act \<Rightarrow> (('r, 'cl) cli, 'a) act" where
  "on_sys = act_zoom sys.truncate (\<lambda>x s. sys.extend x (sys.more s))"

definition print_line :: "terminal_line \<Rightarrow> (('r, 'cl) cli, unit) act" where
  "print_line l = act_modify (\<lambda>s. s\<lparr>cli_lines := cli_lines s @ [l]\<rparr>)"

definition style_error :: "string \<Rightarrow> (('r, 'cl) cli, unit) act" where
  "style_error message = print_line (Secho Red False message)"

definition style_success :: "string \<Rightarrow> (('r, 'cl) cli, unit) act" where
  "style_success message = print_line (Secho Green False message)"

definition print_command_title :: "string \<Rightarrow> (('r, 'cl) cli, unit) act" where
  "print_command_title title =
     act_bind (print_line (Secho Cyan False (replicate 50 (CHR ''='')))) (\<lambda>_.
     act_bind (print_line (Secho Cyan True title)) (\<lambda>_.
       print_line (Secho Cyan False (replicate 50 (CHR ''='')))))"

section \<open>The commands\<close>

definition stored_line :: "string \<Rightarrow> contract option \<Rightarrow> string" where
  "stored_line address c =
     (case c of
        None \<Rightarrow> ''Contract '' @ address @ '' was never retrieved''
      | Some c \<Rightarrow> ''Contract: '' @ address @ '', retries: '' @ str_int (c_fetch_retries c) @ '', contains ABI: ''
          @ (if (case c_abi_id c of None \<Rightarrow> False | Some i \<Rightarrow> i \<noteq> 0) then ''True'' else ''False''))"

definition report_proxy :: "string \<Rightarrow> int \<Rightarrow> (('r, 'cl) cli, unit) act" where
  "report_proxy implementation chain_id =
     act_bind (print_line (Print ''The contract is a proxy.'')) (\<lambda>_.
     act_bind (print_line (Print (''Adding task to download proxy implementation metadata with address '' @ implementation))) (\<lambda>_.
       on_sys (send (GetContractMetadata implementation chain_id False))))"

definition download_contract_command :: "('r, 'cl) world \<Rightarrow> string \<Rightarrow> int \<Rightarrow> (('r, 'cl) cli, unit) act" where
  "download_contract_command W address chain_id =
     act_bind (print_command_title (''Downloading contract '' @ address)) (\<lambda>_.
     act_bind (act_lift (hex_bytes (w_eth W) address)) (\<lambda>a.
     act_bind (on_sys (on_db (act_bind act_get (\<lambda>d. act_return (get_contract a chain_id d))))) (\<lambda>c.
     act_bind (print_line (Print (stored_line address c))) (\<lambda>_.
     act_bind (on_sys (on_metadata (get_contract_metadata (w_explorers W) (w_clients W) address chain_id))) (\<lambda>metadata.
     act_bind (on_sys (on_db (process_contract_metadata (w_eth W) (w_hash W) metadata))) (\<lambda>result.
       if result then
         act_bind (style_success ''Success download contract metadata'') (\<lambda>_.
         act_bind (act_lift (get_proxy_implementation_address (w_eth W) metadata)) (\<lambda>proxy.
           case proxy of None \<Rightarrow> act_return () | Some implementation \<Rightarrow> report_proxy implementation chain_id))
       else style_error ''Failed to download contract metadata''))))))"

definition setup_safe_contracts :: "('r, 'cl) world \<Rightarrow> (('r, 'cl) cli, unit) act" where
  "setup_safe_contracts W =
     act_bind (print_command_title ''Configuring Safe contracts metadata'') (\<lambda>_.
       on_sys (on_db (update_safe_contracts_info (w_eth W) (w_deployments W) (w_trusted W))))"

text \<open>\<open>async_command\<close>: each command runs in a scope of its own.\<close>

definition async_command :: "(nat \<Rightarrow> string) \<Rightarrow> (('r, 'cl) cli, 'a) act \<Rightarrow> (('r, 'cl) cli, 'a) act" where
  "async_command U func = with_db_session_context U None func"

definition load_safe_contracts :: "('r, 'cl) world \<Rightarrow> (('r, 'cl) cli, unit) act" where
  "load_safe_contracts W = async_command (w_uuid W) (setup_safe_contracts W)"

definition download_contract :: "('r, 'cl) world \<Rightarrow> string \<Rightarrow> int \<Rightarrow> (('r, 'cl) cli, unit) act" where
  "download_contract W address chain_id = async_command (w_uuid W) (download_contract_command W address chain_id)"

section \<open>What the commands leave alone\<close>

lemma keeps_on_sys:
  fixes g :: "('r, 'cl) cli \<Rightarrow> 'x" and m :: "(('r, 'cl) sys, 'a) act"
  assumes "keeps f m" and "\<And>x (s :: ('r, 'cl) cli). g (sys.extend x (sys.more s)) = f x" and "\<And>s. g s = f (sys.truncate s)"
  shows "keeps g (on_sys m)"
  unfolding keeps_def
proof
  fix s :: "('r, 'cl) cli"
  obtain r x where m: "m (sys.truncate s) = (r, x)" by fastforce
  then have "on_sys m s = (r, sys.extend x (sys.more s))" by (simp add: on_sys_def act_zoom_def)
  then have "g (snd (on_sys m s)) = f x" by (simp only: snd_conv assms(2))
  also have "f x = f (sys.truncate s)" by (rule keepsD' [OF assms(1) m])
  also have "f (sys.truncate s) = g s" by (rule assms(3) [symmetric])
  finally show "g (snd (on_sys m s)) = g s" .
qed

definition cached :: "('r, 'cl, 'z) sys_scheme \<Rightarrow> 'r \<times> int set" where
  "cached s = (sys_redis s, sys_safe_cache s)"

lemma keeps_cached:
  "keeps cached (on_db d)" "keeps cached (on_metadata k)" "keeps cached (send t)"
  by (auto simp: keeps_def cached_def on_db_def on_metadata_def send_def act_bind_def act_zoom_def db_session_use_def
      get_database_session_context_def split: prod.splits sum.splits option.splits)

lemma keeps_cached_sys: "keeps cached m \<Longrightarrow> keeps cached (on_sys m)"
  by (rule keeps_on_sys [where f = cached]) (simp_all add: cached_def sys.defs)

lemma keeps_cached_print: "keeps cached (print_line l)"
  unfolding print_line_def by (intro keeps_rules) (simp add: cached_def)

lemmas keeps_command = keeps_cached_sys keeps_cached keeps_cached_print

lemma download_command_keeps_cache: "keeps cached (download_contract_command W address chain_id)"
  unfolding download_contract_command_def print_command_title_def style_success_def style_error_def report_proxy_def
  by (intro keeps_rules keeps_command)

text \<open>
  The command of the operator who forces a download leaves Redis as it is: unlike the task it
  does not invalidate the cached answers about the contract. The periodic refresh of the Safe
  contracts does not either. Both leave the sessions and the scope as they found them.
\<close>

lemma keeps_cached_scope:
  fixes body :: "(('r, 'cl) cli, 'a) act"
  assumes t: "tidy body" and k: "keeps cached body"
  shows "keeps cached (async_command U body)"
  unfolding keeps_def
proof
  fix s :: "('r, 'cl) cli"
  let ?s1 = "s\<lparr>uuid_count := uuid_count s + 1\<rparr>"
  have ch: "chosen_session_id U None s = (Inr (U (uuid_count s)), ?s1)"
    by (simp add: chosen_session_id_def uuid4_def)
  obtain r s2 where b: "body (?s1\<lparr>db_session_ctx := Some (U (uuid_count s))\<rparr>) = (r, s2)" by fastforce
  from with_db_session_context_run [OF ch tidy_keeps [OF t] b] keepsD' [OF k b]
  show "cached (snd (async_command U body s)) = cached s" by (simp add: async_command_def cached_def)
qed

lemma tidy_on_sys:
  fixes m :: "(('r, 'cl) sys, 'a) act"
  assumes "tidy m"
  shows "tidy (on_sys m)"
  unfolding tidy_def
proof
  fix s :: "('r, 'cl) cli"
  obtain r x where m: "m (sys.truncate s) = (r, x)" by fastforce
  then have "on_sys m s = (r, sys.extend x (sys.more s))" by (simp add: on_sys_def act_zoom_def)
  with tidyD [OF assms m]
  show "db_session_ctx (snd (on_sys m s)) = db_session_ctx s
    \<and> set (open_sessions (snd (on_sys m s))) \<subseteq> set (open_sessions s) \<union> set_option (db_session_ctx s)"
    by (simp add: sys.defs)
qed

lemma tidy_print: "tidy (print_line l)"
  unfolding print_line_def by (rule tidy_modify) simp

theorem commands_keep_cache:
  "keeps cached (download_contract W address chain_id)" "keeps cached (load_safe_contracts W)"
  "tidy (download_contract W address chain_id)" "tidy (load_safe_contracts W)"
proof -
  have t: "tidy (download_contract_command W address chain_id)" "tidy (setup_safe_contracts W)"
    unfolding download_contract_command_def setup_safe_contracts_def print_command_title_def style_success_def
      style_error_def report_proxy_def
    by (intro tidy_rules tidy_on_sys tidy_print)+
  have k: "keeps cached (setup_safe_contracts W)"
    unfolding setup_safe_contracts_def print_command_title_def by (intro keeps_rules keeps_command)
  show "keeps cached (download_contract W address chain_id)" "keeps cached (load_safe_contracts W)"
    unfolding download_contract_def load_safe_contracts_def
    by (intro keeps_cached_scope t k download_command_keeps_cache)+
  show "tidy (download_contract W address chain_id)" "tidy (load_safe_contracts W)"
    unfolding download_contract_def load_safe_contracts_def async_command_def by (intro tidy_context t)+
qed

end
