(* ===== verification/Worker.thy ===== *)
theory Worker
  imports Tasks
begin

text \<open>
  The worker and its queue of messages: the tasks of \<open>app/workers/tasks.py\<close> as the broker runs
  them. A message is taken from anywhere in the queue (retries come back with a delay), its
  task runs after some time has passed in Redis, the messages it sends join the queue, and a
  task that raised is queued again while it has retries left, as dramatiq documents. The
  periodic tasks only feed the queue and are not steps here.
\<close>

section \<open>Steps\<close>

definition run_task :: "('r, 'cl) world \<Rightarrow> task_message option \<Rightarrow> task_call \<Rightarrow> (('r, 'cl) sys, unit) act" where
  "run_task W message call =
     (case call of
        GetContractMetadata address chain_id skip \<Rightarrow> get_contract_metadata_task W message address chain_id skip
      | CreateSafeContracts chain_id \<Rightarrow> create_safe_contracts_task_for_new_chains W message chain_id)"

type_synonym queued = "task_call \<times> nat"

fun retried :: "unit res \<Rightarrow> queued \<Rightarrow> queued list" where
  "retried (Inl e) (call, Suc n) = [(call, n)]"
| "retried r q = []"

inductive worker_step ::
    "('r, 'cl) world \<Rightarrow> nat \<Rightarrow> ('r, 'cl) sys \<times> queued list \<Rightarrow> ('r, 'cl) sys \<times> queued list \<Rightarrow> bool"
  for W max_retries where
  task_ran: "q \<in> set Q \<Longrightarrow>
     run_task W (Some m) (fst q) (s\<lparr>sys_redis := redis_pass (w_redis W) t (sys_redis s), sys_sent := []\<rparr>) = (r, s') \<Longrightarrow>
     worker_step W max_retries (s, Q)
       (s', remove1 q Q @ retried r q @ map (\<lambda>call. (call, max_retries)) (sys_sent s'))"

section \<open>What no task undoes\<close>

definition settled_in :: "db \<Rightarrow> bytes \<Rightarrow> int \<Rightarrow> bool" where
  "settled_in d a i \<longleftrightarrow> download_settled (get_contract a i d) 0"

definition retries_ok :: "db \<Rightarrow> bool" where
  "retries_ok d \<longleftrightarrow> (\<forall>a i c. get_contract a i d = Some c \<longrightarrow> 0 \<le> c_fetch_retries c)"

text \<open>A change of the database that keeps its integrity and every settled contract settled.\<close>

definition sound_change :: "(json \<Rightarrow> bytes) \<Rightarrow> db \<Rightarrow> db \<Rightarrow> bool" where
  "sound_change h d d' \<longleftrightarrow> (db_ok h d \<and> retries_ok d \<longrightarrow>
     db_ok h d' \<and> retries_ok d' \<and> (\<forall>a i. settled_in d a i \<longrightarrow> settled_in d' a i))"

lemma sound_change_refl [simp]: "sound_change h d d"
  by (simp add: sound_change_def)

lemma sound_change_trans: "sound_change h d d1 \<Longrightarrow> sound_change h d1 d2 \<Longrightarrow> sound_change h d d2"
  by (auto simp: sound_change_def)

lemma sound_changeI:
  assumes "db_ok h d \<Longrightarrow> db_ok h d'"
    and row: "\<And>a i c. db_ok h d \<Longrightarrow> retries_ok d \<Longrightarrow> get_contract a i d' = Some c \<Longrightarrow>
      (case get_contract a i d of None \<Rightarrow> 0 \<le> c_fetch_retries c
       | Some c0 \<Rightarrow> c_fetch_retries c0 \<le> c_fetch_retries c \<and> (c_abi_id c = c_abi_id c0 \<or> (\<exists>n>0. c_abi_id c = Some n)))"
    and gone: "\<And>a i. db_ok h d \<Longrightarrow> retries_ok d \<Longrightarrow> get_contract a i d \<noteq> None \<Longrightarrow> get_contract a i d' \<noteq> None"
  shows "sound_change h d d'"
  unfolding sound_change_def
proof (intro impI conjI allI)
  assume ok: "db_ok h d \<and> retries_ok d"
  then show "db_ok h d'" using assms(1) by simp
  show "retries_ok d'" unfolding retries_ok_def
  proof (intro allI impI)
    fix a i c assume "get_contract a i d' = Some c"
    with row [of a i c] ok show "0 \<le> c_fetch_retries c" by (fastforce simp: retries_ok_def split: option.splits)
  qed
  fix a i assume s: "settled_in d a i"
  then obtain c0 where c0: "get_contract a i d = Some c0" by (auto simp: settled_in_def download_settled_def split: option.splits)
  with gone [of a i] ok obtain c where "get_contract a i d' = Some c" by auto
  with row [of a i c] ok c0 s show "settled_in d' a i"
    by (fastforce simp: settled_in_def download_settled_def split: option.splits)
qed

lemma sound_change_same_rows:
  assumes "db_ok h d \<Longrightarrow> db_ok h d'" and "\<And>a i. get_contract a i d' = get_contract a i d"
  shows "sound_change h d d'"
  using assms by (intro sound_changeI) (auto split: option.splits)

lemma set_kwargs_retries: "c_fetch_retries (fold set_kwarg kws c) = c_fetch_retries c"
proof (induction kws arbitrary: c)
  case (Cons kw kws)
  then show ?case by (cases kw) simp_all
qed simp

lemma goc_sound:
  assumes run: "contract_get_or_create a i kws d = (r, d')"
  shows "sound_change h d d'"
proof (cases "db_ok h d")
  case True
  obtain c b d1 where goc: "contract_get_or_create a i kws d = (Inr (c, b), d1)"
    "get_contract a i d1 = Some c" "db_ok h d1" "db_abis d1 = db_abis d" "db_sources d1 = db_sources d"
    "\<forall>a' j. (a', j) \<noteq> (a, i) \<longrightarrow> get_contract a' j d1 = get_contract a' j d"
    "b \<longleftrightarrow> get_contract a i d = None" "\<not> b \<longrightarrow> get_contract a i d = Some c"
    "b \<longrightarrow> (\<exists>n t. c = (fold set_kwarg kws (new_contract a i))\<lparr>c_id := n, c_created := t, c_modified := t\<rparr>)"
    by (rule contract_goc_found [OF True])
  then have d': "d' = d1" using run by simp
  show ?thesis unfolding d'
  proof (rule sound_changeI)
    fix a' j c' assume c': "get_contract a' j d1 = Some c'"
    show "case get_contract a' j d of None \<Rightarrow> 0 \<le> c_fetch_retries c'
       | Some c0 \<Rightarrow> c_fetch_retries c0 \<le> c_fetch_retries c' \<and> (c_abi_id c' = c_abi_id c0 \<or> (\<exists>n>0. c_abi_id c' = Some n))"
    proof (cases "(a', j) = (a, i)")
      case True
      then show ?thesis using c' goc by (cases b) (auto simp: set_kwargs_retries new_contract_def)
    next
      case False
      then have "get_contract a' j d = Some c'" using c' goc(6) by simp
      then show ?thesis by simp
    qed
  next
    fix a' j assume "get_contract a' j d \<noteq> None"
    then show "get_contract a' j d1 \<noteq> None" using goc(2,6) by (cases "(a', j) = (a, i)") auto
  qed (rule goc(3))
qed (simp add: sound_change_def)

lemma create_deployments_sound:
  "create_deployments E trusted i ds n d = (r, d') \<Longrightarrow> sound_change h d d'"
proof (induction ds arbitrary: n d)
  case (Cons x ds)
  obtain version name address where x: "x = (version, name, address)" by (cases x)
  show ?case
  proof (cases "hex_bytes E address")
    case (Inr a)
    obtain q d1 where goc: "contract_get_or_create a i (deployment_kwargs trusted version name) d = (q, d1)" by fastforce
    show ?thesis
    proof (cases q)
      case (Inr cb)
      with Cons.prems goc \<open>hex_bytes E address = Inr a\<close> have
        "create_deployments E trusted i ds (if snd cb then n + 1 else n) d1 = (r, d')"
        by (auto simp: x act_bind_def split: prod.splits if_splits)
      from Cons.IH [OF this] goc_sound [OF goc] show ?thesis by (blast intro: sound_change_trans)
    qed (use Cons.prems goc Inr in \<open>auto simp: x act_bind_def intro: goc_sound\<close>)
  qed (use Cons.prems in \<open>simp add: x\<close>)
qed simp

lemma update_row_sound:
  assumes ok: "db_ok h d1" and g: "get_contract a i d = Some c"
    and here: "get_contract a i d1 = Some c1" "c_fetch_retries c \<le> c_fetch_retries c1"
      "c_abi_id c1 = c_abi_id c \<or> (\<exists>n>0. c_abi_id c1 = Some n)"
    and other: "\<forall>b j. (b, j) \<noteq> (a, i) \<longrightarrow> get_contract b j d1 = get_contract b j d"
  shows "sound_change h d d1"
proof (rule sound_changeI)
  fix b j c' assume c': "get_contract b j d1 = Some c'"
  show "case get_contract b j d of None \<Rightarrow> 0 \<le> c_fetch_retries c'
       | Some c0 \<Rightarrow> c_fetch_retries c0 \<le> c_fetch_retries c' \<and> (c_abi_id c' = c_abi_id c0 \<or> (\<exists>n>0. c_abi_id c' = Some n))"
    using c' g here other by (cases "(b, j) = (a, i)") (auto split: option.splits)
next
  fix b j assume "get_contract b j d \<noteq> None"
  then show "get_contract b j d1 \<noteq> None" using here(1) other by (cases "(b, j) = (a, i)") auto
qed (rule ok)

lemma store_metadata_sound:
  assumes ok: "db_ok h d" and g: "get_contract a i d = Some c" and row: "get_abi_source n d = Some row"
    and abi: "json_truthy (cm_abi md)" and run: "store_metadata E h c row md d = (r, d')"
  shows "sound_change h d d'"
proof (cases "\<forall>s. real_implementation E md = Some s \<longrightarrow> (\<exists>b. hex_bytes E s = Inr b)")
  case True
  then have impl: "\<And>s. real_implementation E md = Some s \<Longrightarrow> \<exists>b. hex_bytes E s = Inr b" by blast
  obtain d1 c1 j where st: "store_metadata E h c row md d = (Inr True, d1)" "db_ok h d1"
    "h j = h (cm_abi md)" "get_abi_by_contract_address a (Some i) d1 = (if json_truthy j then Some j else None)"
    "get_contract a i d1 = Some c1" "c_name c1 = cm_name md" "c_fetch_retries c1 = c_fetch_retries c"
    "\<forall>s. real_implementation E md = Some s \<longrightarrow> hex_bytes E s = Inr (the (c_implementation c1))"
    "\<forall>b k. (b, k) \<noteq> (a, i) \<longrightarrow> get_contract b k d1 = get_contract b k d"
    "\<exists>n>0. c_abi_id c1 = Some n"
    by (rule store_metadata_run [OF ok g row abi impl])
  then have "d' = d1" using run by simp
  with update_row_sound [OF st(2) g st(5) _ _ st(9)] st(7,10) show ?thesis by simp
next
  case False
  then obtain s e where s: "real_implementation E md = Some s" "hex_bytes E s = Inl e" by (metis sum.exhaust)
  have nn: "cm_abi md \<noteq> JNull" using abi by auto
  obtain ab m d2 where goc: "get_or_create_abi h (cm_abi md) (Some (s_id row)) (Some 0) d = (Inr (ab, m), d2)"
    "ab \<in> set (db_abis d2)" "h (a_json ab) = h (cm_abi md)" "db_ok h d2" "db_contracts d2 = db_contracts d"
    "db_projects d2 = db_projects d" "db_sources d2 = db_sources d" "set (db_abis d) \<subseteq> set (db_abis d2)"
    by (rule abi_goc_found [OF ok nn get_abi_source_in [OF row]])
  then have "d' = d2" using run s by (simp add: store_metadata_def act_bind_def Let_def)
  then show ?thesis using goc(4,5) by (intro sound_change_same_rows) (simp_all add: get_contract_def)
qed

lemma process_sound:
  assumes run: "process_contract_metadata E h em d = (r, d')"
  shows "sound_change h d d'"
proof (cases "db_ok h d \<and> (\<exists>a. hex_bytes E (em_address em) = Inr a)")
  case True
  then obtain a where ok: "db_ok h d" and a: "hex_bytes E (em_address em) = Inr a" by blast
  obtain c b d1 where goc: "contract_get_or_create a (em_chain_id em) [] d = (Inr (c, b), d1)"
    and g: "get_contract a (em_chain_id em) d1 = Some c" and ok1: "db_ok h d1"
    by (rule contract_goc_found [OF ok, of a "em_chain_id em" "[]"])
  consider "count_retry c d1 = (r, d')"
    | md row n where "store_metadata E h c row md d1 = (r, d')" "json_truthy (cm_abi md)" "get_abi_source n d1 = Some row"
    using run goc by (auto simp: process_contract_metadata_def a act_bind_Inr split: option.splits if_splits)
  then have "sound_change h d1 d'"
  proof cases
    case 1
    obtain m d2 where r: "count_retry c d1 = (Inr False, d2)" "db_ok h d2" "db_abis d2 = db_abis d1"
      "get_contract a (em_chain_id em) d2 = Some (c\<lparr>c_fetch_retries := c_fetch_retries c + 1, c_modified := m\<rparr>)"
      "\<forall>b j. (b, j) \<noteq> (a, em_chain_id em) \<longrightarrow> get_contract b j d2 = get_contract b j d1"
      by (rule count_retry_run [OF ok1 g])
    with 1 update_row_sound [OF r(2) g r(4) _ _ r(5)] show ?thesis by simp
  next
    case 2
    from store_metadata_sound [OF ok1 g 2(3,2,1)] show ?thesis .
  qed
  with goc_sound [OF goc] show ?thesis by (blast intro: sound_change_trans)
next
  case False
  then show ?thesis
  proof (cases "hex_bytes E (em_address em)")
    case (Inl e)
    with run have "d' = d" by (simp add: process_contract_metadata_def)
    then show ?thesis by simp
  qed (auto simp: sound_change_def)
qed

section \<open>What every task keeps\<close>

text \<open>The addresses that the download takes are those of an account: twenty bytes.\<close>

definition checksum_law :: "eth_lib \<Rightarrow> bool" where
  "checksum_law E \<longleftrightarrow> (\<forall>x y. to_checksum_address E x = Inr y \<longrightarrow>
     (\<exists>a. hex_bytes E x = Inr a \<and> hex_bytes E y = Inr a \<and> length a = 20))"

definition caches_ok :: "('r, 'cl) world \<Rightarrow> ('r, 'cl) sys \<Rightarrow> bool" where
  "caches_ok W s \<longleftrightarrow> (\<forall>address i. attempt_cache_ok W address i s)"

definition worker_ok :: "('r, 'cl) world \<Rightarrow> ('r, 'cl) sys \<Rightarrow> bool" where
  "worker_ok W s \<longleftrightarrow> db_ok (w_hash W) (sys_db s) \<and> retries_ok (sys_db s) \<and> caches_ok W s"

text \<open>From a sound state \<open>s0\<close>: still sound, nothing unsettled, and these messages sent.\<close>

definition quiet :: "('r, 'cl) world \<Rightarrow> ('r, 'cl) sys \<Rightarrow> task_call list \<Rightarrow> ('r, 'cl) sys \<Rightarrow> bool" where
  "quiet W s0 out s \<longleftrightarrow> sound_change (w_hash W) (sys_db s0) (sys_db s) \<and> (caches_ok W s0 \<longrightarrow> caches_ok W s)
     \<and> sys_sent s = sys_sent s0 @ out"

lemma quiet_start: "quiet W s [] s"
  by (simp add: quiet_def)

lemma quiet_effects: "effects s = effects t \<Longrightarrow> quiet W s0 out s = quiet W s0 out t"
  by (simp add: quiet_def caches_ok_def attempt_cache_ok_def)

lemma quiet_from: "effects s0 = effects t0 \<Longrightarrow> quiet W s0 out s = quiet W t0 out s"
  by (simp add: quiet_def caches_ok_def attempt_cache_ok_def)

lemma quiet_db:
  assumes "quiet W s0 out s" and "sound_change (w_hash W) (sys_db s) d"
  shows "quiet W s0 out (s\<lparr>sys_db := d\<rparr>)"
  using assms sound_change_trans by (auto simp: quiet_def caches_ok_def attempt_cache_ok_def)

lemma quiet_redis:
  assumes "quiet W s0 out s" and "caches_ok W s \<Longrightarrow> caches_ok W (s\<lparr>sys_redis := r\<rparr>)"
  shows "quiet W s0 out (s\<lparr>sys_redis := r\<rparr>)"
  using assms by (auto simp: quiet_def)

lemma triple_zoom:
  assumes "\<And>s r x. P s \<Longrightarrow> m (part s) = (r, x) \<Longrightarrow> P (put x s)"
  shows "triple P (act_zoom part put m) (\<lambda>_. P) (\<lambda>_. P)"
  using assms by (auto simp: triple_def act_zoom_def split: prod.splits sum.splits)

lemma triple_on_db:
  assumes "\<And>d r d'. m d = (r, d') \<Longrightarrow> sound_change (w_hash W) d d'"
  shows "triple (quiet W s0 out) (on_db m) (\<lambda>_. quiet W s0 out) (\<lambda>_. quiet W s0 out)"
  unfolding on_db_def
proof (rule triple_bind)
  show "triple (quiet W s0 out) db_session_use (\<lambda>_. quiet W s0 out) (\<lambda>_. quiet W s0 out)"
    by (auto simp: triple_def db_session_use_def get_database_session_context_def act_bind_def quiet_def caches_ok_def
        attempt_cache_ok_def split: option.splits)
  show "triple (quiet W s0 out) (act_zoom sys_db (\<lambda>d s. s\<lparr>sys_db := d\<rparr>) m) (\<lambda>_. quiet W s0 out) (\<lambda>_. quiet W s0 out)"
    for a by (rule triple_zoom) (blast intro: quiet_db assms)
qed

lemma triple_on_metadata: "triple (quiet W s0 out) (on_metadata m) (\<lambda>_. quiet W s0 out) (\<lambda>_. quiet W s0 out)"
  unfolding on_metadata_def by (rule triple_zoom) (simp add: quiet_def caches_ok_def attempt_cache_ok_def)

lemma triple_on_redis:
  assumes "\<And>s q r. caches_ok W s \<Longrightarrow> m (sys_redis s) = (q, r) \<Longrightarrow> caches_ok W (s\<lparr>sys_redis := r\<rparr>)"
  shows "triple (quiet W s0 out) (on_redis m) (\<lambda>_. quiet W s0 out) (\<lambda>_. quiet W s0 out)"
  unfolding on_redis_def by (rule triple_zoom) (blast intro: quiet_redis assms)

text \<open>Deleting the cached answers of a contract, storing a refusal, taking and releasing the lock.\<close>

lemma should_attempt_not_lock: "should_attempt_key address i n \<noteq> create_lock_key j"
  by (simp add: should_attempt_key_def create_lock_key_def)

lemma caches_ok_delete:
  "values_ok (w_redis W) \<Longrightarrow> caches_ok W s \<Longrightarrow> caches_ok W (s\<lparr>sys_redis := redis_delete (w_redis W) (sys_redis s) k\<rparr>)"
  by (auto simp: caches_ok_def attempt_cache_ok_def values_okD(4))

lemma caches_ok_refuse:
  "values_ok (w_redis W) \<Longrightarrow> 0 < ex \<Longrightarrow> caches_ok W s
    \<Longrightarrow> caches_ok W (s\<lparr>sys_redis := redis_set (w_redis W) (sys_redis s) k ''0'' ex\<rparr>)"
  by (auto simp: caches_ok_def attempt_cache_ok_def values_okD(1))

lemma caches_ok_lock:
  assumes R: "values_ok (w_redis W)" and c: "caches_ok W s"
    and lock: "acquire_create_lock (w_redis W) i (sys_redis s) = (q, r)"
  shows "caches_ok W (s\<lparr>sys_redis := r\<rparr>)"
proof -
  have "redis_get (w_redis W) r (should_attempt_key address j 0) = redis_get (w_redis W) (sys_redis s) (should_attempt_key address j 0)"
    for address j
    using lock by (auto simp: acquire_run [OF R] values_okD(1) [OF R] should_attempt_not_lock split: if_splits)
  with c show ?thesis by (simp add: caches_ok_def attempt_cache_ok_def)
qed

lemma caches_ok_pass:
  "values_ok (w_redis W) \<Longrightarrow> caches_ok W s \<Longrightarrow> caches_ok W (s\<lparr>sys_redis := redis_pass (w_redis W) t (sys_redis s)\<rparr>)"
  by (auto simp: caches_ok_def attempt_cache_ok_def values_ok_def)

text \<open>A scope and a label change nothing that counts here.\<close>

lemma triple_in_context:
  fixes body :: "(('r, 'cl) sys, 'a) act"
  assumes t: "tidy body" and b: "triple (quiet W s0 out) body Q E"
    and Q: "\<And>a s s'. effects s = effects s' \<Longrightarrow> Q a s \<Longrightarrow> Q a s'" and E: "\<And>e s s'. effects s = effects s' \<Longrightarrow> E e s \<Longrightarrow> E e s'"
  shows "triple (quiet W s0 out) (with_db_session_context U sid body) Q E"
  unfolding triple_def
proof (intro allI impI)
  fix s :: "('r, 'cl) sys" assume q: "quiet W s0 out s"
  obtain i s1 where i: "chosen_session_id U sid s = (Inr i, s1)" "effects s1 = effects s"
  proof -
    obtain p s1 where p: "chosen_session_id U sid s = (p, s1)" by fastforce
    then have "\<exists>i. p = Inr i \<and> effects s1 = effects s"
      by (auto simp: chosen_session_id_def uuid4_def split: option.splits list.splits)
    with p that show thesis by blast
  qed
  obtain r s2 where r: "body (s1\<lparr>db_session_ctx := Some i\<rparr>) = (r, s2)" by fastforce
  have "quiet W s0 out (s1\<lparr>db_session_ctx := Some i\<rparr>)" using q i(2) by (subst quiet_effects [of _ s]) simp_all
  then have "case r of Inl e \<Rightarrow> E e s2 | Inr a \<Rightarrow> Q a s2" using b r by (auto simp: triple_def)
  with with_db_session_context_run [OF i(1) tidy_keeps [OF t] r] Q E
  show "case with_db_session_context U sid body s of (Inl e, s') \<Rightarrow> E e s' | (Inr a, s') \<Rightarrow> Q a s'"
    by (cases r) fastforce+
qed

section \<open>The two tasks\<close>

lemma triple_get_bind:
  "(\<And>s. P s \<Longrightarrow> triple P (f s) Q E) \<Longrightarrow> triple P (act_bind act_get f) Q E"
  by (simp add: triple_def)

lemma triple_invariant: "triple P m (\<lambda>_. P) (\<lambda>_. P) \<longleftrightarrow> (\<forall>s. P s \<longrightarrow> P (snd (m s)))"
proof -
  have "(case m s of (Inl e, s') \<Rightarrow> P s' | (Inr a, s') \<Rightarrow> P s') = P (snd (m s))" for s
    by (simp split: prod.splits sum.splits)
  then show ?thesis by (simp add: triple_def)
qed

lemma triple_finally:
  "triple P m (\<lambda>_. P) (\<lambda>_. P) \<Longrightarrow> triple P f (\<lambda>_. P) (\<lambda>_. P) \<Longrightarrow> triple P (act_finally m f) (\<lambda>_. P) (\<lambda>_. P)"
  by (simp add: triple_invariant act_finally_state)

lemma triple_cases:
  "(x = None \<Longrightarrow> triple P m Q E) \<Longrightarrow> (\<And>a. x = Some a \<Longrightarrow> triple P (k a) Q E)
    \<Longrightarrow> triple P (case x of None \<Rightarrow> m | Some a \<Rightarrow> k a) Q E"
  by (cases x) auto

lemma should_attempt_quiet:
  assumes R: "values_ok (w_redis W)"
  shows "triple (quiet W s0 out) (should_attempt_download W x i 0) (\<lambda>_. quiet W s0 out) (\<lambda>_. quiet W s0 out)"
proof -
  have ttl: "0 < SHOULD_ATTEMPT_DOWNLOAD_CACHE_TTL" by (simp add: SHOULD_ATTEMPT_DOWNLOAD_CACHE_TTL_def)
  have db: "triple (quiet W s0 out) (on_db (act_bind act_get (\<lambda>d. act_return (get_contract a i d))))
      (\<lambda>_. quiet W s0 out) (\<lambda>_. quiet W s0 out)" for a
    by (rule triple_on_db) simp
  have refuse: "triple (quiet W s0 out) (on_redis (act_modify (\<lambda>r.
        redis_set (w_redis W) r (should_attempt_key x i 0) ''0'' SHOULD_ATTEMPT_DOWNLOAD_CACHE_TTL)))
      (\<lambda>_. quiet W s0 out) (\<lambda>_. quiet W s0 out)"
    by (rule triple_on_redis) (use caches_ok_refuse [OF R ttl] in auto)
  show ?thesis unfolding should_attempt_download_def Let_def
    by (assumption | rule triple_get_bind triple_cases triple_bind [OF db] triple_bind [OF refuse] triple_bind
        triple_lift triple_return triple_if)+
qed

definition sends_implementation :: "('r, 'cl) world \<Rightarrow> ('r, 'cl) sys \<Rightarrow> int \<Rightarrow> ('r, 'cl) sys \<Rightarrow> bool" where
  "sends_implementation W s0 i s \<longleftrightarrow> quiet W s0 [] s \<or> (\<exists>y. quiet W s0 [GetContractMetadata y i False] s)"

lemma download_quiet:
  assumes R: "values_ok (w_redis W)"
  shows "triple (quiet W s0 []) (download_metadata W x i) (\<lambda>_. sends_implementation W s0 i) (\<lambda>_. quiet W s0 [])"
proof -
  have db: "triple (quiet W s0 []) (on_db (process_contract_metadata (w_eth W) (w_hash W) em)) (\<lambda>_. quiet W s0 []) (\<lambda>_. quiet W s0 [])" for em
    by (rule triple_on_db) (rule process_sound)
  have del: "triple (quiet W s0 []) (on_redis (del_contract_cache (w_redis W) x)) (\<lambda>_. quiet W s0 []) (\<lambda>_. quiet W s0 [])"
    by (rule triple_on_redis) (simp add: del_contract_cache_def caches_ok_delete [OF R])
  have send: "triple (quiet W s0 []) (send (GetContractMetadata y i False)) (\<lambda>_. sends_implementation W s0 i) (\<lambda>_. quiet W s0 [])" for y
    unfolding send_def by (rule triple_modify)
      (auto simp: quiet_def sends_implementation_def caches_ok_def attempt_cache_ok_def)
  have last: "triple (quiet W s0 []) (case p of None \<Rightarrow> act_return () | Some y \<Rightarrow> send (GetContractMetadata y i False))
      (\<lambda>_. sends_implementation W s0 i) (\<lambda>_. quiet W s0 [])" for p
    by (cases p) (auto intro: send triple_return simp: sends_implementation_def)
  show ?thesis unfolding download_metadata_def
    by (assumption | rule last triple_bind triple_lift triple_return triple_if db del triple_on_metadata)+
qed

abbreviation attempt_step :: "('r, 'cl) world \<Rightarrow> string \<Rightarrow> int \<Rightarrow> bool \<Rightarrow> (('r, 'cl) sys, bool) act" where
  "attempt_step W x i skip \<equiv> with_db_session_context (w_uuid W) None
     (if skip then act_return True else should_attempt_download W x i 0)"

abbreviation download_body :: "('r, 'cl) world \<Rightarrow> string \<Rightarrow> int \<Rightarrow> bool \<Rightarrow> (('r, 'cl) sys, unit) act" where
  "download_body W x i skip \<equiv> act_bind (attempt_step W x i skip) (\<lambda>should_download.
     if should_download then download_metadata W x i else act_return ())"

lemma attempt_quiet:
  assumes R: "values_ok (w_redis W)"
  shows "triple (quiet W s0 []) (attempt_step W x i skip) (\<lambda>_. quiet W s0 []) (\<lambda>_. quiet W s0 [])"
proof (rule triple_in_context)
  show "tidy (if skip then act_return True else should_attempt_download W x i 0)"
    unfolding should_attempt_download_def Let_def by (intro tidy_rules)
  show "triple (quiet W s0 []) (if skip then act_return True else should_attempt_download W x i 0)
      (\<lambda>_. quiet W s0 []) (\<lambda>_. quiet W s0 [])"
    by (auto intro: triple_return should_attempt_quiet [OF R])
qed (metis quiet_effects)+

lemma download_body_quiet:
  assumes R: "values_ok (w_redis W)"
  shows "triple (quiet W s0 []) (download_body W x i skip) (\<lambda>_. sends_implementation W s0 i) (\<lambda>_. quiet W s0 [])"
  by (rule triple_bind [OF attempt_quiet [OF R]]) (auto intro: download_quiet [OF R] triple_return simp: sends_implementation_def)

lemma create_body_quiet:
  assumes R: "values_ok (w_redis W)"
  shows "triple (quiet W s0 []) (act_bind (on_redis (acquire_create_lock (w_redis W) i)) (\<lambda>lock_acquired.
         if \<not> lock_acquired then act_return ()
         else act_finally
           (act_bind (on_db (create_safe_contracts (w_eth W) (w_deployments W) (w_trusted W) i)) (\<lambda>_. act_return ()))
           (on_redis (release_create_lock (w_redis W) i)))) (\<lambda>_. quiet W s0 []) (\<lambda>_. quiet W s0 [])"
proof -
  let ?q = "\<lambda>_. quiet W s0 []"
  have lock: "triple (quiet W s0 []) (on_redis (acquire_create_lock (w_redis W) i)) ?q ?q"
    by (rule triple_on_redis) (rule caches_ok_lock [OF R])
  have db: "triple (quiet W s0 []) (on_db (create_safe_contracts (w_eth W) (w_deployments W) (w_trusted W) i)) ?q ?q"
    by (rule triple_on_db) (auto simp: create_safe_contracts_def intro: create_deployments_sound)
  have unlock: "triple (quiet W s0 []) (on_redis (release_create_lock (w_redis W) i)) ?q ?q"
    by (rule triple_on_redis) (use caches_ok_delete [OF R] in \<open>auto simp: release_create_lock_def\<close>)
  have ret: "triple (quiet W s0 []) (act_return ()) ?q ?q" by (rule triple_return)
  show ?thesis by (intro triple_bind [OF lock] triple_if triple_finally triple_bind [OF db] unlock ret)
qed

text \<open>
  A task that ran: the state is sound, nothing became unsettled, a failed task sent nothing,
  and one that sent the implementation of a proxy has settled the proxy, which without the
  skip flag was not settled before.
\<close>

definition settles_before_sending :: "('r, 'cl) world \<Rightarrow> task_call \<Rightarrow> ('r, 'cl) sys \<Rightarrow> ('r, 'cl) sys \<Rightarrow> bool" where
  "settles_before_sending W call s s' \<longleftrightarrow>
     (\<exists>x i skip y a. call = GetContractMetadata x i skip \<and> sys_sent s' = sys_sent s @ [GetContractMetadata y i False]
        \<and> length a = 20 \<and> settled_in (sys_db s') a i \<and> (skip \<or> \<not> settled_in (sys_db s) a i))"

lemma download_body_sends:
  assumes R: "values_ok (w_redis W)" and law: "checksum_law (w_eth W)" and ok: "worker_ok W s"
    and ctx: "db_session_ctx s = Some j" and run: "download_body W x i skip s = (Inr (), s')"
  shows "sys_sent s' = sys_sent s \<or> settles_before_sending W (GetContractMetadata x i skip) s s'"
proof -
  from run obtain v t where att: "attempt_step W x i skip s = (Inr v, t)"
    and dl: "(if v then download_metadata W x i else act_return ()) t = (Inr (), s')"
    by (auto simp: act_bind_Inr_iff)
  have q: "quiet W s [] t" by (rule tripleD_Inr [OF attempt_quiet [OF R] quiet_start att])
  show ?thesis
  proof (cases v)
    case True
    then have down: "download_metadata W x i t = (Inr (), s')" using dl by simp
    then obtain y where "to_checksum_address (w_eth W) x = Inr y"
      unfolding download_metadata_def by (auto simp: act_bind_Inr_iff)
    with law obtain a where a: "hex_bytes (w_eth W) x = Inr a" "length a = 20"
      and law': "\<And>y. to_checksum_address (w_eth W) x = Inr y \<Longrightarrow> hex_bytes (w_eth W) y = Inr a"
      by (fastforce simp: checksum_law_def)
    have t: "tidy (attempt_step W x i skip)" unfolding should_attempt_download_def Let_def by (intro tidy_rules)
    have ok': "db_ok (w_hash W) (sys_db t)" "retries_ok (sys_db t)" "caches_ok W t"
      using q ok by (auto simp: quiet_def sound_change_def worker_ok_def)
    have "db_session_ctx t = Some j" using tidyD [OF t att] ctx by simp
    from download_settles [OF R ok'(1) this law' _ _ down] ok'(2,3)
    have "settled_in (sys_db s') a i" by (auto simp: settled_in_def retries_ok_def caches_ok_def)
    moreover have "skip \<or> \<not> settled_in (sys_db s) a i"
    proof (cases skip)
      case False
      have "attempt_cache_ok W x i s" using ok by (simp add: worker_ok_def caches_ok_def)
      then obtain t' where "with_db_session_context (w_uuid W) None (should_attempt_download W x i 0) s
          = (Inr (first_attempt W a x i s), t')"
        by (rule attempt_in_scope [OF R a(1)])
      then have "first_attempt W a x i s" using att True False by simp
      then show ?thesis by (simp add: first_attempt_def settled_in_def)
    qed simp
    moreover have "sends_implementation W t i s'"
      using tripleD_Inr [OF download_quiet [OF R] quiet_start down] .
    then have "sys_sent s' = sys_sent s \<or> (\<exists>y. sys_sent s' = sys_sent s @ [GetContractMetadata y i False])"
      using q by (auto simp: sends_implementation_def quiet_def)
    ultimately show ?thesis using a(2) by (auto simp: settles_before_sending_def)
  next
    case False
    then show ?thesis using dl q by (simp add: quiet_def)
  qed
qed

text \<open>What holds of a state reached quietly from the start of the task.\<close>

definition sound_since :: "('r, 'cl) world \<Rightarrow> ('r, 'cl) sys \<Rightarrow> ('r, 'cl) sys \<Rightarrow> bool" where
  "sound_since W s s' \<longleftrightarrow> worker_ok W s' \<and> (\<forall>a i. settled_in (sys_db s) a i \<longrightarrow> settled_in (sys_db s') a i)"

lemma worker_ok_task_state: "worker_ok W (task_state W m s) = worker_ok W s"
  by (simp add: worker_ok_def caches_ok_def)

lemma quiet_sound: "worker_ok W s \<Longrightarrow> quiet W (task_state W m s) out s' \<Longrightarrow> sound_since W s s'"
  by (auto simp: sound_since_def quiet_def sound_change_def worker_ok_def caches_ok_def)

lemma download_task_effect:
  assumes R: "values_ok (w_redis W)" and law: "checksum_law (w_eth W)" and ok: "worker_ok W s"
    and run: "get_contract_metadata_task W (Some m) x i skip s = (r, s')"
  shows "sound_since W s s'
    \<and> (sys_sent s' = sys_sent s \<or> r = Inr () \<and> settles_before_sending W (GetContractMetadata x i skip) s s')"
proof -
  let ?s = "task_state W m s"
  obtain q b where b: "download_body W x i skip ?s = (q, b)" by fastforce
  have t: "tidy (download_body W x i skip)"
    unfolding should_attempt_download_def download_metadata_def Let_def by (intro tidy_rules)
  obtain s2 where "db_session_context (w_uuid W) (logging_task_context (Some m) (download_body W x i skip)) s = (q, s2)"
    "effects s2 = effects b" by (rule task_run [OF t b])
  then have e: "q = r" "effects s' = effects b" using run by (simp_all add: get_contract_metadata_task_def)
  show ?thesis
  proof (cases q)
    case (Inl x)
    then have "quiet W ?s [] b" using tripleD_Inl [OF download_body_quiet [OF R] quiet_start] b by blast
    then have q: "quiet W ?s [] s'" using quiet_effects [OF e(2)] by blast
    then show ?thesis using quiet_sound [OF ok q] by (simp add: quiet_def)
  next
    case (Inr u)
    with b have "sends_implementation W ?s i b" using tripleD_Inr [OF download_body_quiet [OF R] quiet_start] by blast
    then obtain out where "quiet W ?s out s'" using quiet_effects [OF e(2)] by (auto simp: sends_implementation_def)
    moreover have "sys_sent b = sys_sent ?s \<or> settles_before_sending W (GetContractMetadata x i skip) ?s b"
      using b Inr ok by (intro download_body_sends [OF R law _ task_state_ctx]) (simp_all add: worker_ok_task_state)
    ultimately show ?thesis using quiet_sound [OF ok] e Inr by (simp add: settles_before_sending_def)
  qed
qed

lemma create_task_effect:
  assumes R: "values_ok (w_redis W)" and ok: "worker_ok W s"
    and run: "create_safe_contracts_task_for_new_chains W (Some m) i s = (r, s')"
  shows "sound_since W s s' \<and> sys_sent s' = sys_sent s"
proof -
  let ?s = "task_state W m s"
  let ?body = "act_bind (on_redis (acquire_create_lock (w_redis W) i)) (\<lambda>lock_acquired.
         if \<not> lock_acquired then act_return ()
         else act_finally
           (act_bind (on_db (create_safe_contracts (w_eth W) (w_deployments W) (w_trusted W) i)) (\<lambda>_. act_return ()))
           (on_redis (release_create_lock (w_redis W) i)))"
  obtain q b where b: "?body ?s = (q, b)" by fastforce
  have t: "tidy ?body" by (intro tidy_rules)
  obtain s2 where "db_session_context (w_uuid W) (logging_task_context (Some m) ?body) s = (q, s2)"
    "effects s2 = effects b" by (rule task_run [OF t b])
  then have e: "effects s' = effects b" using run by (simp add: create_safe_contracts_task_for_new_chains_def)
  have "quiet W ?s [] b"
    using b tripleD_Inl [OF create_body_quiet [OF R] quiet_start] tripleD_Inr [OF create_body_quiet [OF R] quiet_start]
    by (cases q) blast+
  then have q: "quiet W ?s [] s'" using quiet_effects [OF e] by blast
  then show ?thesis using quiet_sound [OF ok q] by (simp add: quiet_def)
qed

lemma run_task_effect:
  assumes "values_ok (w_redis W)" and "checksum_law (w_eth W)" and "worker_ok W s"
    and "run_task W (Some m) call s = (r, s')"
  shows "sound_since W s s' \<and> (sys_sent s' = sys_sent s \<or> r = Inr () \<and> settles_before_sending W call s s')"
  using assms download_task_effect [OF assms(1-3)] create_task_effect [OF assms(1,3)]
  by (cases call) (auto simp: run_task_def)

section \<open>The queue drains\<close>

definition call_chain :: "task_call \<Rightarrow> int" where
  "call_chain call = (case call of GetContractMetadata x i skip \<Rightarrow> i | CreateSafeContracts i \<Rightarrow> i)"

definition unsettled :: "int set \<Rightarrow> db \<Rightarrow> (bytes \<times> int) set" where
  "unsettled nets d = {(a, i). length a = 20 \<and> i \<in> nets \<and> \<not> settled_in d a i}"

text \<open>A message counts its runs; one with the skip flag also those of the message it may send.\<close>

definition skips :: "task_call \<Rightarrow> bool" where
  "skips call = (case call of GetContractMetadata x i skip \<Rightarrow> skip | CreateSafeContracts i \<Rightarrow> False)"

definition weight :: "nat \<Rightarrow> queued \<Rightarrow> nat" where
  "weight max_retries q = Suc (snd q) + (if skips (fst q) then Suc max_retries else 0)"

definition potential :: "nat \<Rightarrow> int set \<Rightarrow> ('r, 'cl) sys \<times> queued list \<Rightarrow> nat" where
  "potential max_retries nets x =
     sum_list (map (weight max_retries) (snd x)) + Suc max_retries * card (unsettled nets (sys_db (fst x)))"

definition queue_ok :: "('r, 'cl) world \<Rightarrow> int set \<Rightarrow> ('r, 'cl) sys \<times> queued list \<Rightarrow> bool" where
  "queue_ok W nets x \<longleftrightarrow> worker_ok W (fst x) \<and> (\<forall>q\<in>set (snd x). call_chain (fst q) \<in> nets)"

lemma finite_unsettled: "finite nets \<Longrightarrow> finite (unsettled nets d)"
proof -
  assume "finite nets"
  moreover have "finite {a :: bytes. length a = 20}"
    using finite_lists_length_eq [of "UNIV :: byte set" 20] by simp
  moreover have "unsettled nets d \<subseteq> {a. length a = 20} \<times> nets" by (auto simp: unsettled_def)
  ultimately show ?thesis by (meson finite_SigmaI finite_subset)
qed

lemma weight_retried: "sum_list (map (weight R) (retried r q)) < weight R q"
  by (induction r q rule: retried.induct) (simp_all add: weight_def)

lemma sum_list_remove1:
  "q \<in> set Q \<Longrightarrow> sum_list (map f Q) = f q + sum_list (map f (remove1 q Q))" for f :: "'a \<Rightarrow> nat"
  by (induction Q) auto

lemma sound_unsettled:
  assumes "\<forall>a i. settled_in d a i \<longrightarrow> settled_in d' a i"
  shows "unsettled nets d' \<subseteq> unsettled nets d"
  using assms by (auto simp: unsettled_def)

text \<open>The queue after a task that sent nothing, and after one that sent an implementation.\<close>

lemma in_remove1: "p \<in> set (remove1 q Q) \<Longrightarrow> p \<in> set Q"
  using set_remove1_subset [of q Q] by blast

lemma retried_call: "p \<in> set (retried r q) \<Longrightarrow> fst p = fst q"
  by (induction r q rule: retried.induct) auto

lemma silent_progress:
  assumes ok: "queue_ok W nets (s, Q)" and q: "q \<in> set Q" and s': "sound_since W s s'" and fin: "finite nets"
  shows "queue_ok W nets (s', remove1 q Q @ retried r q)
    \<and> potential n nets (s', remove1 q Q @ retried r q) < potential n nets (s, Q)"
proof
  show "queue_ok W nets (s', remove1 q Q @ retried r q)"
    using ok q s' by (auto simp: queue_ok_def sound_since_def dest: in_remove1 retried_call)
  have "card (unsettled nets (sys_db s')) \<le> card (unsettled nets (sys_db s))"
    using s' by (intro card_mono finite_unsettled fin sound_unsettled) (simp add: sound_since_def)
  from mult_le_mono2 [OF this, of "Suc n"] weight_retried [of n r q] sum_list_remove1 [OF q, of "weight n"]
  show "potential n nets (s', remove1 q Q @ retried r q) < potential n nets (s, Q)" by (simp add: potential_def)
qed

lemma sending_progress:
  assumes ok: "queue_ok W nets (s, Q)" and q: "q \<in> set Q" and s': "sound_since W s s'" and fin: "finite nets"
    and call: "fst q = GetContractMetadata x i skip" and a: "length a = 20" "settled_in (sys_db s') a i"
    and new: "skip \<or> \<not> settled_in (sys_db s) a i"
  shows "queue_ok W nets (s', remove1 q Q @ [(GetContractMetadata y i False, n)])
    \<and> potential n nets (s', remove1 q Q @ [(GetContractMetadata y i False, n)]) < potential n nets (s, Q)"
proof
  have i: "i \<in> nets" using ok q call by (auto simp: queue_ok_def call_chain_def dest: bspec)
  show "queue_ok W nets (s', remove1 q Q @ [(GetContractMetadata y i False, n)])"
    using ok s' i by (auto simp: queue_ok_def sound_since_def call_chain_def dest: in_remove1)
  have sub: "unsettled nets (sys_db s') \<subseteq> unsettled nets (sys_db s)"
    using s' by (intro sound_unsettled) (simp add: sound_since_def)
  have "card (unsettled nets (sys_db s')) + (if skip then 0 else 1) \<le> card (unsettled nets (sys_db s))"
  proof (cases skip)
    case False
    then have "(a, i) \<in> unsettled nets (sys_db s)" "(a, i) \<notin> unsettled nets (sys_db s')"
      using new a i by (auto simp: unsettled_def)
    with sub have "unsettled nets (sys_db s') \<subset> unsettled nets (sys_db s)" by blast
    with False psubset_card_mono [OF finite_unsettled [OF fin] this] show ?thesis by simp
  qed (use card_mono [OF finite_unsettled [OF fin] sub] in simp)
  from mult_le_mono2 [OF this, of "Suc n"] sum_list_remove1 [OF q, of "weight n"]
  show "potential n nets (s', remove1 q Q @ [(GetContractMetadata y i False, n)]) < potential n nets (s, Q)"
    by (cases skip) (simp_all add: potential_def weight_def skips_def call)
qed

lemma worker_step_progress:
  assumes R: "values_ok (w_redis W)" and law: "checksum_law (w_eth W)" and fin: "finite nets"
    and ok: "queue_ok W nets x" and step: "worker_step W max_retries x y"
  shows "queue_ok W nets y \<and> potential max_retries nets y < potential max_retries nets x"
  using step
proof (cases rule: worker_step.cases)
  case (task_ran q Q m t s r s')
  let ?s = "s\<lparr>sys_redis := redis_pass (w_redis W) t (sys_redis s), sys_sent := []\<rparr>"
  have "caches_ok W (s\<lparr>sys_redis := redis_pass (w_redis W) t (sys_redis s)\<rparr>)"
    using ok task_ran(1) by (intro caches_ok_pass [OF R]) (simp add: queue_ok_def worker_ok_def)
  then have "worker_ok W ?s"
    using ok task_ran(1) by (simp add: queue_ok_def worker_ok_def caches_ok_def attempt_cache_ok_def)
  from run_task_effect [OF R law this task_ran(4)] have since: "sound_since W s s'"
    and sent: "sys_sent s' = [] \<or> r = Inr () \<and> settles_before_sending W (fst q) ?s s'"
    by (simp_all add: sound_since_def)
  note ok' = ok [unfolded task_ran(1)]
  show ?thesis
  proof (cases "sys_sent s' = []")
    case True
    with silent_progress [OF ok' task_ran(3) since fin] show ?thesis by (simp add: task_ran(1,2))
  next
    case False
    then obtain x' i skip z a where call: "r = Inr ()" "fst q = GetContractMetadata x' i skip"
      "sys_sent s' = [GetContractMetadata z i False]" "length a = 20" "settled_in (sys_db s') a i"
      "skip \<or> \<not> settled_in (sys_db s) a i"
      using sent by (auto simp: settles_before_sending_def)
    have none: "retried r q = []" by (cases q) (simp add: call(1))
    from sending_progress [OF ok' task_ran(3) since fin call(2,4-6)] none call(3)
    show ?thesis by (simp add: task_ran(1,2))
  qed
qed

lemma worker_steps_progress:
  assumes R: "values_ok (w_redis W)" and law: "checksum_law (w_eth W)" and fin: "finite nets" and ok: "queue_ok W nets x"
  shows "(worker_step W max_retries ^^ k) x y \<Longrightarrow> queue_ok W nets y \<and> k + potential max_retries nets y \<le> potential max_retries nets x"
proof (induction k arbitrary: y)
  case (Suc k)
  then obtain z where "(worker_step W max_retries ^^ k) x z" "worker_step W max_retries z y" by auto
  with Suc.IH worker_step_progress [OF R law fin] show ?case by fastforce
qed (simp add: ok)

lemma worker_can_run: "Q \<noteq> [] \<Longrightarrow> \<exists>y. worker_step W max_retries (s, Q) y"
proof -
  assume "Q \<noteq> []"
  then have "hd Q \<in> set Q" by simp
  obtain r s' where "run_task W (Some undefined) (fst (hd Q)) (s\<lparr>sys_redis := redis_pass (w_redis W) 0 (sys_redis s), sys_sent := []\<rparr>)
      = (r, s')" by fastforce
  from task_ran [OF \<open>hd Q \<in> set Q\<close> this] show ?thesis by blast
qed

text \<open>
  C8. The worker drains its queue. Whatever messages wait, whichever is taken next, however
  much time passes in between, and whatever the explorers answer (proxies whose
  implementations lead back to themselves included), the number of task runs is bounded: by
  the runs the messages have left, plus one message's runs for every contract of their
  chains that no download has settled. As long as a message waits, a task can run; so every
  schedule ends with the empty queue, in a state that is sound again.
\<close>

theorem worker_drains_queue:
  assumes R: "values_ok (w_redis W)" and law: "checksum_law (w_eth W)" and ok: "worker_ok W s"
    and n: "n = potential max_retries ((\<lambda>q. call_chain (fst q)) ` set Q) (s, Q)"
  shows "(\<forall>k s' Q'. (worker_step W max_retries ^^ k) (s, Q) (s', Q') \<longrightarrow> k \<le> n \<and> worker_ok W s'
      \<and> (Q' \<noteq> [] \<longrightarrow> k < n \<and> (\<exists>y. worker_step W max_retries (s', Q') y)))
    \<and> (\<exists>k s'. (worker_step W max_retries ^^ k) (s, Q) (s', []))"
proof -
  let ?nets = "(\<lambda>q. call_chain (fst q)) ` set Q"
  have q: "queue_ok W ?nets (s, Q)" using ok by (simp add: queue_ok_def)
  note steps = worker_steps_progress [OF R law _ q, where max_retries = max_retries, simplified]
  have bound: "k + potential max_retries ?nets (s', Q') \<le> n \<and> worker_ok W s'"
    if "(worker_step W max_retries ^^ k) (s, Q) (s', Q')" for k s' Q'
    using steps [OF that] n by (simp add: queue_ok_def)
  have more: "k < n" if "(worker_step W max_retries ^^ k) (s, Q) (s', Q')" "Q' \<noteq> []" for k s' Q'
  proof -
    have "0 < potential max_retries ?nets (s', Q')" using that(2) by (cases Q') (simp_all add: potential_def weight_def)
    with bound [OF that(1)] show ?thesis by linarith
  qed
  have "\<exists>j z. (worker_step W max_retries ^^ j) (s, Q) (z, [])"
    if "(worker_step W max_retries ^^ k) (s, Q) (s', Q')" for k s' Q'
    using that
  proof (induction "n - k" arbitrary: k s' Q' rule: less_induct)
    case less
    show ?case
    proof (cases "Q' = []")
      case False
      then obtain t P where y: "worker_step W max_retries (s', Q') (t, P)" using worker_can_run by (metis prod.exhaust)
      with less.prems have "(worker_step W max_retries ^^ Suc k) (s, Q) (t, P)" by auto
      moreover have "n - Suc k < n - k" using more [OF less.prems False] by simp
      ultimately show ?thesis using less.hyps by blast
    qed (use less.prems in blast)
  qed
  from this [of 0 s Q] have "\<exists>k s'. (worker_step W max_retries ^^ k) (s, Q) (s', [])" by simp
  moreover have "k \<le> n \<and> worker_ok W s' \<and> (Q' \<noteq> [] \<longrightarrow> k < n \<and> (\<exists>y. worker_step W max_retries (s', Q') y))"
    if "(worker_step W max_retries ^^ k) (s, Q) (s', Q')" for k s' Q'
    using bound [OF that] more [OF that] worker_can_run by auto
  ultimately show ?thesis by blast
qed

text \<open>
  Two accounts that name each other as their implementation, both known to the explorer: the
  worker ends all the same.
\<close>

definition account_eth :: eth_lib where
  "account_eth = \<lparr>
     hex_bytes = (\<lambda>s. Inr (map (\<lambda>c. of_nat (of_char c)) s)),
     hex_str = (\<lambda>b. map (\<lambda>x. char_of (unat x)) b),
     to_checksum_address = (\<lambda>s. if length s = 20 then Inr s else Inl ValueError),
     is_checksum_address = (\<lambda>s. length s = 20),
     NULL_ADDRESS = replicate 20 CHR ''0''\<rparr>"

definition account_a :: string where "account_a = replicate 20 CHR ''a''"
definition account_b :: string where "account_b = replicate 20 CHR ''b''"

definition mutual_world :: "(string \<rightharpoonup> demo_entry, string) world" where
  "mutual_world = demo_world\<lparr>w_eth := account_eth,
     w_explorers := demo_explorers\<lparr>async_get_contract_metadata := (\<lambda>cl a. if cl = ''sourcify'' then Inl TimeoutError
       else Inr (Some (demo_metadata\<lparr>cm_implementation := Some (if a = account_a then account_b else account_a)\<rparr>)))\<rparr>\<rparr>"

lemma worker_drains_queue_witness:
  "\<exists>k s'. (worker_step mutual_world 2 ^^ k) (demo_sys demo_source_db, [(GetContractMetadata account_a 1 False, 2)]) (s', [])
     \<and> worker_ok mutual_world s'"
proof -
  have R: "values_ok (w_redis mutual_world)" by (simp add: mutual_world_def demo_world_def demo_values_ok)
  have law: "checksum_law (w_eth mutual_world)" by (simp add: mutual_world_def account_eth_def checksum_law_def)
  have ok: "worker_ok mutual_world (demo_sys demo_source_db)"
    by (simp add: worker_ok_def mutual_world_def demo_world_def demo_sys_def demo_source_db_def db_ok_defs empty_db_def
        retries_ok_def get_contract_def caches_ok_def attempt_cache_ok_def demo_redis_def)
  from worker_drains_queue [OF R law ok refl, of 2 "[(GetContractMetadata account_a 1 False, 2)]"] show ?thesis by blast
qed

end
