(* ===== verification/Pipeline.thy ===== *)
theory Pipeline
  imports Worker Decoder_Service Decoder_Cache
begin

text \<open>
  The path of a contract through the service: the task downloads its ABI
  (\<open>app/workers/tasks.py\<close>, \<open>app/services/contract_metadata_service.py\<close>), the next reload
  brings its functions into the decoder, and the decoder uses them for the contract's data
  (\<open>app/services/data_decoder.py\<close>).
\<close>

section \<open>What a download does to the table of ABIs\<close>

definition abi_tables :: "db \<Rightarrow> abi_row list \<times> int" where
  "abi_tables d = (db_abis d, db_abi_seq d)"

lemma keeps_contract_create: "keeps abi_tables (contract_create c)"
  by (simp add: keeps_def contract_create_def Let_def abi_tables_def)

lemma keeps_contract_update: "keeps abi_tables (contract_update c)"
  by (simp add: keeps_def contract_update_def Let_def abi_tables_def split: option.splits)

lemma keeps_contract_goc: "keeps abi_tables (contract_get_or_create a i kws)"
  unfolding contract_get_or_create_def Let_def
  by (intro keeps_rules keeps_contract_create)

lemma keeps_count_retry: "keeps abi_tables (count_retry c)"
  unfolding count_retry_def by (intro keeps_rules keeps_contract_update)

text \<open>At most one row is added, with the ABI \<open>j\<close> and an id that was not drawn before.\<close>

definition abi_added :: "json \<Rightarrow> db \<Rightarrow> db \<Rightarrow> bool" where
  "abi_added j d d' \<longleftrightarrow> db_abi_seq d \<le> db_abi_seq d' \<and>
     (\<forall>r\<in>set (db_abis d'). r \<in> set (db_abis d) \<or> a_json r = j \<and> db_abi_seq d \<le> a_id r)"

lemma abi_added_same: "abi_tables d' = abi_tables d \<Longrightarrow> abi_added j d d'"
  by (simp add: abi_tables_def abi_added_def)

lemma abi_added_cong: "abi_added j d d1 \<Longrightarrow> abi_tables d = abi_tables d0 \<Longrightarrow> abi_tables d2 = abi_tables d1 \<Longrightarrow> abi_added j d0 d2"
  by (simp add: abi_tables_def abi_added_def)

lemma abi_goc_added: "get_or_create_abi h j src rel d = (r, d') \<Longrightarrow> abi_added j d d'"
  by (cases rule: abi_create_cases [of h j src rel d])
    (auto simp: get_or_create_abi_def act_catch_def act_bind_def abi_added_def split: option.splits)

lemma store_added:
  assumes "store_metadata E h c row md d = (r, d')"
  shows "abi_added (cm_abi md) d d'"
proof -
  obtain q d1 where goc: "get_or_create_abi h (cm_abi md) (Some (s_id row)) (Some 0) d = (q, d1)" by fastforce
  note added = abi_goc_added [OF this]
  show ?thesis
  proof (cases q)
    case (Inl e)
    then show ?thesis using assms goc added by (simp add: store_metadata_def act_bind_def)
  next
    case (Inr p)
    obtain ab b where p: "p = (ab, b)" by fastforce
    let ?c = "c\<lparr>c_abi_id := Some (a_id ab), c_name := cm_name md\<rparr>"
    have "keeps abi_tables (act_bind (case real_implementation E md of
          None \<Rightarrow> act_return ?c
        | Some a \<Rightarrow> act_bind (act_lift (hex_bytes E a)) (\<lambda>b. act_return (?c\<lparr>c_implementation := Some b\<rparr>)))
        (\<lambda>c. act_bind (contract_update c) (\<lambda>_. act_return True)))" (is "keeps _ ?rest")
      by (intro keeps_rules keeps_contract_update)
    moreover have "?rest d1 = (r, d')" using assms goc Inr by (simp add: store_metadata_def act_bind_Inr p Let_def)
    ultimately have "abi_tables d' = abi_tables d1" by (rule keepsD')
    with added show ?thesis by (rule abi_added_cong [OF _ refl])
  qed
qed

lemma process_added:
  assumes run: "process_contract_metadata E h em d = (r, d')" and md: "em_metadata em = Some md"
  shows "abi_added (cm_abi md) d d'"
proof (cases "hex_bytes E (em_address em)")
  case (Inl e)
  then show ?thesis using run by (simp add: process_contract_metadata_def abi_added_same)
next
  case (Inr a)
  obtain q d1 where goc: "contract_get_or_create a (em_chain_id em) [] d = (q, d1)" by fastforce
  have same: "abi_tables d1 = abi_tables d" by (rule keepsD' [OF keeps_contract_goc goc])
  show ?thesis
  proof (cases q)
    case (Inl e)
    then show ?thesis using run goc Inr same by (simp add: process_contract_metadata_def act_bind_def abi_added_same)
  next
    case (Inr cb)
    obtain c b where cb: "cb = (c, b)" by fastforce
    have "count_retry c d1 = (r, d') \<or> (\<exists>row. store_metadata E h c row md d1 = (r, d'))"
      using run goc Inr \<open>hex_bytes E (em_address em) = Inr a\<close>
      by (auto simp: process_contract_metadata_def act_bind_Inr cb md split: option.splits if_splits)
    then show ?thesis
    proof (elim disjE exE)
      assume "count_retry c d1 = (r, d')"
      from keepsD' [OF keeps_count_retry this] same show ?thesis by (simp add: abi_added_same)
    next
      fix row assume "store_metadata E h c row md d1 = (r, d')"
      from store_added [OF this] same show ?thesis by (auto intro: abi_added_cong)
    qed
  qed
qed

lemma service_ok_added:
  assumes ok: "service_ok h L (d, s)" and ok': "db_ok h d'" and loads: "abi_loads L j" and added: "abi_added j d d'"
  shows "service_ok h L (d', s)"
proof -
  have "covered L d' s"
    unfolding covered_def
  proof (intro allI impI ballI)
    fix n r assume n: "last_abi_id s = Some n" and r: "r \<in> set (db_abis d')" "a_id r \<le> n"
    have "n < db_abi_seq d" using ok n by (simp add: service_ok_def)
    with r added have "r \<in> set (db_abis d)" by (auto simp: abi_added_def)
    with ok n r(2) show "abi_selectors L (a_json r) \<subseteq> dict_keys (fn_selectors_with_abis s)"
      by (auto simp: service_ok_def covered_def)
  qed
  then show ?thesis using ok ok' loads added by (fastforce simp: service_ok_def db_ok_def abi_added_def)
qed

section \<open>The decoder on a contract it has not been asked about\<close>

text \<open>No remembered answer for the contract; \<open>alru_cache\<close> remembers only what it was asked.\<close>

definition unasked :: "('c, 'd) lib \<Rightarrow> pyval \<Rightarrow> int option \<Rightarrow> ('c, 'd) decoder \<Rightarrow> bool" where
  "unasked L a ch s \<longleftrightarrow> fst (abi_cache_get L (abi_cache s) (a, ch)) = None
     \<and> fst (sel_cache_get L (sel_cache s) (a, ch)) = None"

lemma unasked_get_contract_abi:
  assumes "unasked L a ch s" and "hashable a" and "HexBytes L a = Inr b"
  shows "fst (get_contract_abi L d a ch s) = Inr (get_abi_by_contract_address b ch d)"
  using assms by (auto simp: unasked_def get_contract_abi_def Let_def split: prod.splits option.splits)

lemma unasked_own_function:
  assumes un: "unasked L a ch s" and a: "hashable a" "pyval_truthy a" "HexBytes L a = Inr b"
    and j: "get_abi_by_contract_address b ch d = Some j" and def: "abi_defines L j (take 4 data) f"
    and known: "take 4 data \<in> dict_keys (fn_selectors_with_abis s)"
  shows "fst (get_abi_function L d data (Some a) ch s) = Inr (Some f)"
proof -
  obtain c where c: "sel_cache_get L (sel_cache s) (a, ch) = (None, c)"
    using un by (metis fst_conv prod.exhaust unasked_def)
  have un': "unasked L a ch (s\<lparr>sel_cache := sel_cache s\<rparr>)" using un by simp
  obtain s1 where g: "get_contract_abi L d a ch (s\<lparr>sel_cache := c\<rparr>) = (Inr (Some j), s1)"
  proof -
    have "fst (get_contract_abi L d a ch (s\<lparr>sel_cache := c\<rparr>)) = Inr (Some j)"
      using un a j by (auto simp: unasked_def get_contract_abi_def Let_def split: prod.splits option.splits)
    then show thesis using that by (metis prod.collapse)
  qed
  obtain items where items: "generate_selectors_with_abis_from_abi L j = Inr items" "map_of items (take 4 data) = Some f"
    using def by (auto simp: abi_defines_def)
  have t: "json_truthy j"
    using j by (auto simp: get_abi_by_contract_address_def Let_def split: list.splits if_splits)
  obtain s2 where own: "get_contract_abi_selectors_with_functions L d a ch s = (Inr (Some items), s2)"
    using c a g items t
    by (simp add: get_contract_abi_selectors_with_functions_def contract_selectors_uncached_def act_bind_def)
  obtain general where "map_of (fn_selectors_with_abis s) (take 4 data) = Some general"
    using known by (auto simp: dict_keys_iff)
  then show ?thesis using a own items(2) by (simp add: get_abi_function_def Let_def act_bind_def)
qed

lemma unasked_full_match:
  assumes un: "unasked L a (Some i) s" and a: "hashable a" "HexBytes L a = Inr b"
    and j: "get_abi_by_contract_address b (Some i) d = Some j" and x: "HexBytes L x = Inr data"
    and known: "take 4 data \<in> dict_keys (fn_selectors_with_abis s)"
  shows "fst (get_decoding_accuracy L d x (Some a) (Some i) s) = Inr FULL_MATCH"
proof -
  have t: "json_truthy j"
    using j by (auto simp: get_abi_by_contract_address_def Let_def split: list.splits if_splits)
  obtain s1 where "get_contract_abi L d a (Some i) s = (Inr (Some j), s1)"
    using unasked_get_contract_abi [OF un a, of d] j by (metis prod.collapse)
  then show ?thesis using x known t by (simp add: get_decoding_accuracy_def Let_def act_bind_def)
qed

lemma load_new_abis_caches:
  assumes "\<not> lock_load_new_abis s"
  shows "abi_cache (snd (load_new_abis L d s)) = abi_cache s \<and> sel_cache (snd (load_new_abis L d s)) = sel_cache s"
proof -
  let ?s = "s\<lparr>lock_load_new_abis := True, last_abi_id := get_last_inserted_id d\<rparr>"
  obtain r s1 where l: "load_abis L (reload_abis d (last_abi_id s)) 0 ?s = (r, s1)" by fastforce
  have "s1 = ?s\<lparr>fn_selectors_with_abis := fn_selectors_with_abis s1\<rparr>"
    using load_abis_frame [of L "reload_abis d (last_abi_id s)" 0 ?s] l by simp
  then have "abi_cache s1 = abi_cache s \<and> sel_cache s1 = sel_cache s" by (cases s1) simp
  then show ?thesis
    using l assms by (cases r; simp add: load_new_abis_def load_new_abis_locked_eq act_finally_def act_catch_def)
qed

lemma process_implementation:
  assumes ok: "db_ok h d" and run: "process_contract_metadata E h em d = (Inr b, d')"
    and a: "hex_bytes E (em_address em) = Inr a" and md: "em_metadata em = Some md" "em_source em = Some source"
    and row: "get_abi_source (source_value source) d = Some row" and abi: "json_truthy (cm_abi md)"
    and t: "real_implementation E md = Some t"
  shows "\<exists>b. hex_bytes E t = Inr b"
proof -
  obtain c n d1 where goc: "contract_get_or_create a (em_chain_id em) [] d = (Inr (c, n), d1)"
    "db_sources d1 = db_sources d"
    by (rule contract_goc_found [OF ok, of a "em_chain_id em" "[]"])
  then have "get_abi_source (source_value source) d1 = Some row" using row by (simp add: get_abi_source_def)
  then have "store_metadata E h c row md d1 = (Inr b, d')"
    using run goc(1) abi by (simp add: process_contract_metadata_def a md act_bind_Inr)
  then show ?thesis using t by (cases "hex_bytes E t") (auto simp: store_metadata_def Let_def act_bind_Inr_iff)
qed

lemma abi_defines_truthy: "abi_defines L j sel f \<Longrightarrow> json_truthy j"
proof (rule ccontr)
  assume def: "abi_defines L j sel f" and "\<not> json_truthy j"
  then have "json_iter j = Inr [] \<or> (\<exists>e. json_iter j = Inl e)" by (cases j) auto
  with def show False by (auto simp: abi_defines_def generate_selectors_with_abis_from_abi_def)
qed

lemma contract_abi_in_table:
  assumes "get_abi_by_contract_address a (Some i) d = Some j"
  obtains r where "r \<in> set (db_abis d)" "a_json r = j"
proof -
  let ?joined = "concat (map (\<lambda>a'. map (\<lambda>c. (c, a'))
      (filter (\<lambda>c. c_abi_id c = Some (a_id a') \<and> c_address c = a) (db_contracts d))) (db_abis d))"
  obtain c r rest where rows: "filter (\<lambda>(c, a). c_chain_id c = i) ?joined = (c, r) # rest" "a_json r = j"
    using assms by (auto simp: get_abi_by_contract_address_def Let_def split: list.splits if_splits)
  then have "(c, r) \<in> set (filter (\<lambda>(c, a). c_chain_id c = i) ?joined)" by simp
  then have "r \<in> set (db_abis d)" by auto
  with rows(2) that show thesis by blast
qed

section \<open>From the message to the decoder\<close>

lemma attempt_step_True:
  fixes s :: "('r, 'cl) sys"
  assumes R: "values_ok (w_redis W)" and a: "hex_bytes (w_eth W) x = Inr a" and c: "attempt_cache_ok W x i s"
    and asked: "skip \<or> first_attempt W a x i s"
  obtains t where "attempt_step W x i skip s = (Inr True, t)" "db_session_ctx t = db_session_ctx s"
    "sys_db t = sys_db s" "sys_metadata t = sys_metadata s"
proof (cases skip)
  case True
  let ?i = "w_uuid W (uuid_count s)" and ?s1 = "s\<lparr>uuid_count := uuid_count s + 1\<rparr>"
  have ch: "chosen_session_id (w_uuid W) None s = (Inr ?i, ?s1)" by (simp add: chosen_session_id_def uuid4_def)
  have k: "keeps db_session_ctx (act_return True :: (('r, 'cl) sys, bool) act)" by (simp add: keeps_def)
  let ?t = "s\<lparr>uuid_count := uuid_count s + 1,
    open_sessions := filter (\<lambda>j. j \<noteq> w_uuid W (uuid_count s)) (open_sessions s)\<rparr>"
  have "attempt_step W x i skip s = (Inr True, ?t)"
    using with_db_session_context_run [OF ch k, of "Inr True" "?s1\<lparr>db_session_ctx := Some ?i\<rparr>"] True by simp
  then show thesis by (rule that) simp_all
next
  case False
  obtain t where "with_db_session_context (w_uuid W) None (should_attempt_download W x i 0) s = (Inr (first_attempt W a x i s), t)"
    "db_session_ctx t = db_session_ctx s" "sys_db t = sys_db s" "sys_metadata t = sys_metadata s"
    by (rule attempt_in_scope [OF R a c])
  then show thesis using False asked by (intro that [of t]) auto
qed

lemma download_task_run:
  assumes R: "values_ok (w_redis W)" and a: "hex_bytes (w_eth W) x = Inr a" and c: "attempt_cache_ok W x i s"
    and asked: "skip \<or> first_attempt W a x i s"
    and run: "get_contract_metadata_task W (Some m) x i skip s = (Inr (), s')"
  obtains y em z b where "to_checksum_address (w_eth W) x = Inr y"
    "get_contract_metadata (w_explorers W) (w_clients W) y i (sys_metadata s) = (Inr em, z)"
    "em_address em = y" "em_chain_id em = i"
    "process_contract_metadata (w_eth W) (w_hash W) em (sys_db s) = (Inr b, sys_db s')"
proof -
  let ?s = "task_state W m s"
  obtain q b where b: "download_body W x i skip ?s = (q, b)" by fastforce
  have t: "tidy (download_body W x i skip)"
    unfolding should_attempt_download_def download_metadata_def Let_def by (intro tidy_rules)
  obtain s2 where "db_session_context (w_uuid W) (logging_task_context (Some m) (download_body W x i skip)) s = (q, s2)"
    "effects s2 = effects b" by (rule task_run [OF t b])
  then have e: "q = Inr ()" "effects s' = effects b"
    using run by (simp_all add: get_contract_metadata_task_def)
  have c': "attempt_cache_ok W x i ?s" "skip \<or> first_attempt W a x i ?s"
    using c asked by (simp_all add: attempt_cache_ok_def first_attempt_def)
  obtain t where t: "attempt_step W x i skip ?s = (Inr True, t)" "db_session_ctx t = db_session_ctx ?s"
    "sys_db t = sys_db ?s" "sys_metadata t = sys_metadata ?s"
    by (rule attempt_step_True [OF R a c'])
  have down: "download_metadata W x i t = (Inr (), b)" using b t(1) e(1) by (simp add: act_bind_def)
  have "db_session_ctx t = Some (w_uuid W (uuid_count s))" using t(2) by simp
  then obtain y em z b' where "to_checksum_address (w_eth W) x = Inr y"
    "get_contract_metadata (w_explorers W) (w_clients W) y i (sys_metadata t) = (Inr em, z)"
    "em_address em = y" "em_chain_id em = i"
    "process_contract_metadata (w_eth W) (w_hash W) em (sys_db t) = (Inr b', sys_db b)"
    by (rule download_run [OF _ down])
  then show thesis using t(3,4) e(2) by (intro that) simp_all
qed

lemma abi_service_total:
  assumes "service_ok h L (d, s)"
  obtains n s' where "load_new_abis L d s = (Inr n, s')" "fully_covered L d s'"
  using assms load_new_abis_total [of d L s] by (auto simp: service_ok_def)


text \<open>An explorer that knows a contract with one function, a worker, and a decoder that knows nothing.\<close>

definition mint_abi :: json where
  "mint_abi = JList [demo_fn ''mint'' []]"

definition mint_world :: "(string \<rightharpoonup> demo_entry, string) world" where
  "mint_world = demo_world\<lparr>w_hash := demo_hash,
     w_explorers := demo_explorers\<lparr>async_get_contract_metadata := (\<lambda>cl a. if cl = ''sourcify'' then Inl TimeoutError
       else Inr (Some (demo_metadata\<lparr>cm_abi := mint_abi\<rparr>)))\<rparr>\<rparr>"

definition empty_decoder :: "((cache_key \<times> json option) list, (cache_key \<times> selectors option) list) decoder" where
  "empty_decoder = snd (init demo_lib demo_source_db (new_decoder demo_lib))"

lemma mint_download: "fst (get_contract_metadata_task mint_world (Some demo_message) ''0xa'' 1 False (demo_sys demo_source_db)) = Inr ()"
  by code_simp

lemma mint_world_simps:
  "w_redis mint_world = demo_redis" "w_hash mint_world = demo_hash" "w_eth mint_world = demo_eth"
  "w_clients mint_world = demo_client_settings"
  by (simp_all add: mint_world_def demo_world_def)

lemma demo_source_db_ok: "db_ok h demo_source_db"
  by (simp add: demo_source_db_def db_ok_defs empty_db_def)

lemma mint_known: "case get_contract_metadata (w_explorers mint_world) (w_clients mint_world) ''0xa'' 1 (new_metadata_service ''key'') of
    (Inl e, z) \<Rightarrow> False
  | (Inr em, z) \<Rightarrow> em_metadata em = Some (demo_metadata\<lparr>cm_abi := mint_abi\<rparr>) \<and> em_source em = Some BLOCKSCOUT"
  by code_simp

lemma mint_known_metadata: "\<exists>em z md source.
   get_contract_metadata (w_explorers mint_world) (w_clients mint_world) ''0xa'' 1 (new_metadata_service ''key'') = (Inr em, z)
   \<and> em_metadata em = Some md \<and> em_source em = Some source \<and> cm_abi md = mint_abi
   \<and> get_abi_source (source_value source) demo_source_db \<noteq> None"
  using mint_known by (auto simp: get_abi_source_def demo_source_db_def split: prod.splits sum.splits)

lemma mint_abi_loads: "abi_loads demo_lib mint_abi"
proof -
  have "\<not> isl (generate_selectors_with_abis_from_abi demo_lib mint_abi)" by code_simp
  then show ?thesis by (auto simp: abi_loads_def isl_def) (metis sumE)
qed


text \<open>And indeed: the function that mints is the one that decodes.\<close>

lemma minted_function_decodes:
  "case get_contract_metadata_task mint_world (Some demo_message) ''0xa'' 1 False (demo_sys demo_source_db) of (r, s') \<Rightarrow>
     fst (get_abi_function demo_lib (sys_db s') [109, 105, 110, 116] (Some (VStr ''0x61'')) (Some 1)
       (snd (load_new_abis demo_lib (sys_db s') empty_decoder))) = Inr (Some (demo_fn ''mint'' []))"
  by code_simp

end
