(* ===== verification/Spec2Isabelle.thy ===== *)
theory Spec2Isabelle
  imports Decoder_Service Decoder_Cache Decoder_Results Decoder_Api Session Metadata Redis_Cache
    Safe_Contracts Abi_Catalog Abi_Served Safe_Logger Tasks Events Queue_Provider Pagination
    Contracts_Api Web Admin Migrations Migration_Run Settings Resources Application Commands Worker Pipeline
begin

text \<open>
  Verification library of the Safe decoder service.

  The service decodes the data of Ethereum transactions: it looks the 4-byte selector up among
  the functions of the ABIs it has stored, decodes the arguments, and goes on into the data
  that a MultiSend batch or an \<open>execTransaction\<close> carries. ABIs come from the tables it ships,
  and from block explorers, which it asks in background tasks for the contracts that appear in
  the transaction events of a message queue. A web application publishes the decoder and the
  contracts it knows.

  Parts, in the order in which they build on each other (sources under \<open>src/app\<close>):

  \<^item> \<open>Prelude\<close>, \<open>Json\<close>: exceptions as values (\<open>exc\<close>, \<open>res\<close>), the state-and-exception monad
    \<open>act\<close> (a failing operation keeps the state changes made before it, as Python does),
    dictionaries, string functions, Hoare triples and frames (\<open>triple\<close>, \<open>keeps\<close>), JSON values.
    \<open>Memo\<close>: the locale \<open>memo\<close> of values made at first use and remembered, interpreted for the
    engine, the Redis clients, the explorers of a chain and the decoder of the process.
  \<^item> \<open>Models\<close>, \<open>Models_Inv\<close>, \<open>Upsert\<close>, \<open>Contract_Rows\<close>: \<open>datasources/db/models.py\<close>. A table is
    a list of rows; every operation keeps the integrity \<open>db_ok\<close>. The three \<open>get_or_create\<close>
    methods satisfy the locale \<open>find_or_create\<close>, two of them through \<open>unique_insert\<close>.
  \<^item> \<open>Settings\<close>: \<open>config.py\<close>. \<open>Resources\<close>: the engine and the Redis clients of the event loops
    (\<open>datasources/db/database.py\<close>, \<open>datasources/cache/redis.py\<close>), shared for the process.
    \<open>Session\<close>: the rest of \<open>datasources/db/database.py\<close>; scopes that leak nothing (\<open>tidy\<close>).
  \<^item> \<open>Decoder\<close> and the theories named after it: \<open>services/data_decoder.py\<close>. \<open>Decoder_Selectors\<close>
    says which function a selector gets, \<open>Decoder_Reload\<close> and \<open>Decoder_Service\<close> follow the
    running service as a transition system, \<open>Decoder_Cache\<close> refines the choice of the function
    and the accuracy (the accuracies are a \<open>linorder\<close>) to specifications over the database, \<open>Decoder_Nested\<close> and
    \<open>Decoder_Results\<close> treat nested data, \<open>Decoder_Api\<close> the endpoint
    (\<open>routers/data_decoder.py\<close>, and its request in \<open>routers/models.py\<close>), \<open>Response\<close> the
    published models of a decoding and their JSON.
  \<^item> \<open>Abi_Catalog\<close>: \<open>services/abis.py\<close>. \<open>Abi_Shape\<close>, \<open>Abi_Tables\<close> and the theories named after
    it: the tables of \<open>datasources/abis\<close>. \<open>Abi_Served\<close> puts them together.
  \<^item> \<open>Ethereum\<close>, \<open>Metadata\<close>: \<open>services/contract_metadata_service.py\<close>.
    \<open>Safe_Contracts\<close>: \<open>services/safe_contracts_service.py\<close>.
  \<^item> \<open>Redis_Cache\<close>: \<open>datasources/cache/redis.py\<close>. \<open>Safe_Logger\<close>: \<open>loggers/safe_logger.py\<close>.
  \<^item> \<open>Tasks\<close>: \<open>workers/tasks.py\<close>, over all the state above (\<open>sys\<close>). \<open>Worker\<close>: the tasks
    as the broker runs them from its queue, with retries. \<open>Pipeline\<close>: a task, a reload and
    the decoder, one after the other. \<open>Events\<close>:
    \<open>services/events.py\<close>. \<open>Queue_Provider\<close>: \<open>datasources/queue\<close>. \<open>Commands\<close>: \<open>commands\<close>.
  \<^item> \<open>Pagination\<close>: \<open>services/pagination.py\<close> and \<open>services/contract.py\<close>. \<open>Contracts_Api\<close>:
    \<open>routers/contracts.py\<close> and the published models. \<open>Web\<close>: \<open>utils.py\<close>, the middlewares of
    \<open>main.py\<close>, the plain routes. \<open>Admin\<close>: \<open>routers/admin.py\<close>. \<open>Application\<close>: the lifespan in
    \<open>main.py\<close>, which joins the queue, the catalogue, the session scopes and the decoder.
  \<^item> \<open>Migration_Run\<close>: \<open>migrations/env.py\<close>. \<open>Migrations\<close>: \<open>migrations/versions\<close>, with the schema the models declare.

  What the lemmas show, by group: integrity of the database and of the service's own state
  under every operation; the result of each operation on every branch, errors included; the
  caches are transparent as long as the database stays, or how stale they may be; the reload
  misses nothing that was stored in order, and what it can miss otherwise; nested decoding
  ends; every delivery and every request is settled or logged once; the worker drains its
  queue; a contract that was downloaded is decoded with its own ABI; pages cover a query; the
  response reads back as the decoding; the migrations lead to the declared schema and back,
  and run all or not at all.

  Bounds and fuel. The recursion into nested data takes a depth, which stands for the
  recursion that Python allows: \<open>Decoder_Nested\<close> shows that a depth above the length of the
  data is enough and that every larger one gives the same result; a Python process has a
  limit of about a thousand frames, and data nested deeper raises \<open>RecursionError\<close> there. Following
  the next links in \<open>Pagination\<close> takes as many steps as the query has rows at most. The worker's
  queue needs no fuel: its steps are a relation, with a measure that every step decreases. Integers
  of Python and of the database are unbounded; the columns' widths matter to one migration and
  are checked there. A chain or an offset beyond 64 bits in a request, which the database
  driver refuses, simply finds no row here; \<open>oversized_chain_is_validated\<close> shows that such a
  chain gets there. \<open>str\<close> of an integer beyond 4300 digits, which raises in Python, is not
  reached by decoded values of 256 bits.

  Third-party code and services are arguments: records of functions whose documented laws are
  hypotheses where a property needs them (the ABI codec and \<open>HexBytes\<close> in \<open>lib\<close> and
  \<open>eth_lib\<close>, explorers, Redis, the AMQP broker, URL and request classes, conversions of
  Pydantic, JSON parsing and rendering, digests, random identifiers). The witnesses instantiate
  them with small concrete functions. SQL statements and the statements of the migrations are
  written out with the meaning PostgreSQL documents for them.

  Not modelled: logging output other than the structured records; the pool of SQLAlchemy;
  the wiring of routers, administration views, Typer, Alembic and dramatiq; interleaving of
  coroutines inside one request (the transition systems interleave whole operations, and the
  properties on concurrent starts, locks and reloads say where that matters); the expiry of ORM
  objects after a rollback. \<open>get_all\<close> of the models and \<open>task_to_test\<close> are not called or do
  nothing but log.
\<close>

section \<open>A chain that no column holds\<close>

text \<open>
  A request may name a chain beyond 64 bits: it validates, and no value of the column
  \<open>contract.chain_id\<close> is like it.
\<close>

lemma oversized_chain_is_validated:
  "\<exists>i. data_decoder_input demo_pydantic (\<lambda>a. True)
       (JObj [(''data'', JStr ''0xa9''), (''to'', JStr (''0x'' @ replicate 40 CHR ''a'')), (''chainId'', JInt (2 ^ 63))]) = Inr i
     \<and> di_chain_id i = Some (2 ^ 63)
     \<and> \<not> type_admits (cn_type (the (map_of (pt_columns contract_table) ''chain_id''))) (2 ^ 63)"
proof -
  have "case data_decoder_input demo_pydantic (\<lambda>a. True)
       (JObj [(''data'', JStr ''0xa9''), (''to'', JStr (''0x'' @ replicate 40 CHR ''a'')), (''chainId'', JInt (2 ^ 63))]) of
      Inl e \<Rightarrow> False | Inr i \<Rightarrow> di_chain_id i = Some (2 ^ 63)" by code_simp
  moreover have "\<not> type_admits (cn_type (the (map_of (pt_columns contract_table) ''chain_id''))) (2 ^ 63)" by code_simp
  ultimately show ?thesis by (auto split: sum.splits)
qed

end
